(* ===== verification/Prelude.thy ===== *)
theory Prelude
  imports Main "HOL-Library.Word" "HOL-Library.AList" "HOL-Library.Char_ord"
    "HOL-Library.List_Lexorder" "HOL-Library.Multiset"
begin

text \<open>
  Shared vocabulary of the development: the result type of fallible code, hash maps and ordered
  maps as association lists, the insertion-order queue that the account pool and the reasoning
  shadow keep beside their tables, and the eviction loop both run over it.

  Rust \<open>String\<close>/\<open>&str\<close> values are their UTF-8 bytes: a HOL \<open>string\<close> is a list of 8-bit
  characters, so \<open>length\<close> is Rust's \<open>len()\<close> and \<open><\<close> (lexicographic on bytes) is Rust's \<open>Ord\<close>.
  \<open>u64\<close> values whose arithmetic matters are \<open>64 word\<close>; instants and durations are nanosecond
  counts in \<open>nat\<close>, whose subtraction stops at 0 as \<open>saturating_duration_since\<close> does.
\<close>

named_theorems model_defs "definitions of small operations, unfolded together"
named_theorems table_simps "laws of the table and queue operations"

type_synonym u64 = "64 word"
type_synonym instant = nat
type_synonym duration = nat

definition from_secs :: "nat \<Rightarrow> duration" where
  "from_secs s = s * 1000000000"

definition as_secs :: "duration \<Rightarrow> nat" where
  "as_secs d = d div 1000000000"

section \<open>Results\<close>

text \<open>\<open>Result<'a, 'e>\<close> is the sum \<open>'e + 'a\<close>; \<open>rbind\<close> is the \<open>?\<close> operator.\<close>

definition rbind :: "'e + 'a \<Rightarrow> ('a \<Rightarrow> 'e + 'b) \<Rightarrow> 'e + 'b" where
  "rbind r f = (case r of Inl e \<Rightarrow> Inl e | Inr x \<Rightarrow> f x)"

lemma rbind_simps [simp]:
  "rbind (Inl e) f = Inl e"
  "rbind (Inr x) f = f x"
  by (simp_all add: rbind_def)

lemma rbind_eq_Inr [simp]: "rbind r f = Inr y \<longleftrightarrow> (\<exists>x. r = Inr x \<and> f x = Inr y)"
  by (cases r) auto

lemma rbind_cong [fundef_cong]:
  "r = r' \<Longrightarrow> (\<And>x. r' = Inr x \<Longrightarrow> f x = g x) \<Longrightarrow> rbind r f = rbind r' g"
  by (cases r') auto

text \<open>\<open>ok_or\<close> turns a missing value into an error.\<close>

definition ok_or :: "'e \<Rightarrow> 'a option \<Rightarrow> 'e + 'a" where
  "ok_or e x = (case x of None \<Rightarrow> Inl e | Some y \<Rightarrow> Inr y)"

lemma ok_or_simps [simp]:
  "ok_or e None = Inl e"
  "ok_or e (Some y) = Inr y"
  by (simp_all add: ok_or_def)

lemma ok_or_eq_Inr [simp]: "ok_or e x = Inr y \<longleftrightarrow> x = Some y"
  by (cases x) auto

definition filter_opt :: "('a \<Rightarrow> bool) \<Rightarrow> 'a option \<Rightarrow> 'a option" where
  "filter_opt P x = (case x of None \<Rightarrow> None | Some y \<Rightarrow> if P y then Some y else None)"

lemma filter_opt_simps [simp]:
  "filter_opt P None = None"
  "filter_opt P (Some y) = (if P y then Some y else None)"
  by (simp_all add: filter_opt_def)

lemma filter_opt_eq_Some [simp]: "filter_opt P x = Some y \<longleftrightarrow> x = Some y \<and> P y"
  by (cases x) auto

definition unwrap_or :: "'a \<Rightarrow> 'a option \<Rightarrow> 'a" where
  "unwrap_or d x = (case x of None \<Rightarrow> d | Some y \<Rightarrow> y)"

lemma unwrap_or_simps [simp]:
  "unwrap_or d None = d"
  "unwrap_or d (Some y) = y"
  by (simp_all add: unwrap_or_def)

lemma option_eqI: "(\<And>k. x = Some k \<longleftrightarrow> y = Some k) \<Longrightarrow> x = y"
  by (cases x; cases y) auto

lemma find_Some_mem: "List.find P xs = Some x \<Longrightarrow> x \<in> set xs \<and> P x"
  by (induction xs) (auto split: if_splits)

text \<open>Option's \<open>or_else\<close> and the enumerated \<open>for\<close> loop that stops at the first error.\<close>

definition or_else :: "'a option \<Rightarrow> 'a option \<Rightarrow> 'a option" where
  "or_else x y = (case x of None \<Rightarrow> y | Some _ \<Rightarrow> x)"

lemma or_else_simps [simp]:
  "or_else None y = y"
  "or_else (Some x) y = Some x"
  by (simp_all add: or_else_def)

fun traverse_idx :: "(nat \<Rightarrow> 'a \<Rightarrow> 'e + 'b) \<Rightarrow> nat \<Rightarrow> 'a list \<Rightarrow> 'e + 'b list" where
  "traverse_idx f i [] = Inr []"
| "traverse_idx f i (x # xs) =
     rbind (f i x) (\<lambda>y. rbind (traverse_idx f (Suc i) xs) (\<lambda>ys. Inr (y # ys)))"

lemma traverse_idx_Inr:
  "traverse_idx f i xs = Inr ys \<Longrightarrow>
     length ys = length xs \<and> (\<forall>j < length xs. f (i + j) (xs ! j) = Inr (ys ! j))"
proof (induction xs arbitrary: i ys)
  case Nil
  then show ?case by simp
next
  case (Cons x xs)
  from Cons.prems obtain y zs
    where y: "f i x = Inr y" and zs: "traverse_idx f (Suc i) xs = Inr zs" and ys: "ys = y # zs"
    by auto
  from Cons.IH [OF zs] have len: "length zs = length xs"
    and nth: "\<forall>j < length xs. f (Suc i + j) (xs ! j) = Inr (zs ! j)" by auto
  show ?case
    using y ys len nth by (auto simp: nth_Cons split: nat.split)
qed

fun rfold :: "('s \<Rightarrow> 'a \<Rightarrow> 'e + 's) \<Rightarrow> 's \<Rightarrow> 'a list \<Rightarrow> 'e + 's" where
  "rfold f s [] = Inr s"
| "rfold f s (x # xs) = rbind (f s x) (\<lambda>s'. rfold f s' xs)"

lemma rfold_append [simp]: "rfold f s (xs @ ys) = rbind (rfold f s xs) (\<lambda>s'. rfold f s' ys)"
  by (induction xs arbitrary: s) (auto simp: rbind_def split: sum.split)

text \<open>An invariant of the loop body is an invariant of the loop.\<close>

lemma rfold_invariant:
  assumes "rfold f s xs = Inr t" and "P s"
    and "\<And>s x s'. P s \<Longrightarrow> x \<in> set xs \<Longrightarrow> f s x = Inr s' \<Longrightarrow> P s'"
  shows "P t"
  using assms
proof (induction xs arbitrary: s)
  case Nil
  then show ?case by simp
next
  case (Cons x xs)
  from Cons.prems(1) obtain s' where s': "f s x = Inr s'" and t: "rfold f s' xs = Inr t"
    by auto
  have "P s'" using Cons.prems(3) [OF Cons.prems(2) _ s'] by simp
  then show ?case
  proof (rule Cons.IH [OF t])
    fix u y u'
    assume "P u" and "y \<in> set xs" and "f u y = Inr u'"
    then show "P u'" by (intro Cons.prems(3) [of u y u']) simp_all
  qed
qed

section \<open>Association lists with distinct keys\<close>

lemma map_of_add_fresh:
  assumes "distinct (map fst L)" and "n \<notin> fst ` set L" and "mset L' = add_mset (n, x) (mset L)"
  shows "distinct (map fst L')" and "map_of L' = (map_of L)(n \<mapsto> x)"
    and "set L' = insert (n, x) (set L)"
proof -
  show set': "set L' = insert (n, x) (set L)"
    using arg_cong [OF assms(3), of set_mset] by simp
  have "mset (map fst L') = mset (n # map fst L)"
    using assms(3) by (metis fst_conv list.map(2) mset.simps(2) mset_map)
  then show dist: "distinct (map fst L')"
    using assms(1,2) by (metis distinct.simps(2) list.set_map mset_eq_imp_distinct_iff)
  have "map_of L' i = ((map_of L)(n \<mapsto> x)) i" for i
  proof (rule option_eqI)
    fix k
    show "map_of L' i = Some k \<longleftrightarrow> ((map_of L)(n \<mapsto> x)) i = Some k"
      using assms(1,2) dist by (auto simp: map_of_eq_Some_iff set' image_iff)
  qed
  then show "map_of L' = (map_of L)(n \<mapsto> x)" by (rule ext)
qed

lemma map_of_remove_key:
  assumes "distinct (map fst (xs @ p # ys))"
  shows "(map_of (xs @ p # ys))(fst p := None) = map_of (xs @ ys)"
proof (rule ext)
  fix j
  have "map_of xs (fst p) = None" and "map_of ys (fst p) = None"
    using assms by (auto simp: map_of_eq_None_iff)
  then show "((map_of (xs @ p # ys))(fst p := None)) j = map_of (xs @ ys) j"
    by (simp add: map_add_def split: option.split)
qed

section \<open>Emission\<close>

text \<open>
  A stream converter's operation returns its new state with the frames it appends to the caller's
  buffer; the frames of the second operation follow those of the first.
\<close>

definition then_emit :: "'s \<times> 'e list \<Rightarrow> ('s \<Rightarrow> 's \<times> 'e list) \<Rightarrow> 's \<times> 'e list" where
  "then_emit r f = (case r of (s, es) \<Rightarrow> case f s of (s', es') \<Rightarrow> (s', es @ es'))"

fun emit_all :: "('a \<Rightarrow> 's \<Rightarrow> 's \<times> 'e list) \<Rightarrow> 'a list \<Rightarrow> 's \<Rightarrow> 's \<times> 'e list" where
  "emit_all f [] s = (s, [])"
| "emit_all f (x # xs) s = then_emit (f x s) (emit_all f xs)"

definition emit_some :: "('a \<Rightarrow> 's \<Rightarrow> 's \<times> 'e list) \<Rightarrow> 'a option \<Rightarrow> 's \<Rightarrow> 's \<times> 'e list" where
  "emit_some f x s = (case x of None \<Rightarrow> (s, []) | Some y \<Rightarrow> f y s)"

lemma then_emit_Pair: "f s = (s', es') \<Longrightarrow> then_emit (s, es) f = (s', es @ es')"
  by (simp add: then_emit_def)

text \<open>
  A contract for operations that emit: a relation between the states around an operation and the
  frames it emits, that holds of doing nothing and is closed under sequencing. It then holds of
  optional steps and of loops.
\<close>

locale emission =
  fixes ok :: "'s \<Rightarrow> 's \<times> 'e list \<Rightarrow> bool"
  assumes ok_nil: "ok s (s, [])"
    and ok_then: "ok s r \<Longrightarrow> ok (fst r) (f (fst r)) \<Longrightarrow> ok s (then_emit r f)"
begin

lemma ok_some: "(\<And>y. ok s (f y s)) \<Longrightarrow> ok s (emit_some f x s)"
  by (simp add: emit_some_def ok_nil split: option.split)

lemma ok_all: "(\<And>x s. ok s (f x s)) \<Longrightarrow> ok s (emit_all f xs s)"
  by (induction xs arbitrary: s) (auto intro!: ok_nil ok_then)

end

section \<open>Keyed tables\<close>

text \<open>
  A \<open>HashMap\<close> is an association list with distinct keys (no order of it is ever observed by the
  model), a \<open>BTreeMap\<close> one with strictly ascending keys, whose \<open>values()\<close> run in key order.
\<close>

type_synonym ('k, 'v) table = "('k \<times> 'v) list"

abbreviation tkeys :: "('k, 'v) table \<Rightarrow> 'k list" where
  "tkeys m \<equiv> map fst m"

definition wf_table :: "('k, 'v) table \<Rightarrow> bool" where
  "wf_table m \<longleftrightarrow> distinct (tkeys m)"

fun bt_put :: "'k::linorder \<Rightarrow> 'v \<Rightarrow> ('k, 'v) table \<Rightarrow> ('k, 'v) table" where
  "bt_put k v [] = [(k, v)]"
| "bt_put k v ((j, w) # m) =
     (if k < j then (k, v) # (j, w) # m
      else if k = j then (k, v) # m
      else (j, w) # bt_put k v m)"

definition wf_btree :: "('k::linorder, 'v) table \<Rightarrow> bool" where
  "wf_btree m \<longleftrightarrow> sorted_wrt (<) (tkeys m)"

lemma set_tkeys_bt_put [simp]: "set (tkeys (bt_put k v m)) = insert k (set (tkeys m))"
  by (induction k v m rule: bt_put.induct) auto

lemma fst_set_bt_put [simp]: "fst ` set (bt_put k v m) = insert k (fst ` set m)"
  using set_tkeys_bt_put [of k v m] by simp

lemma wf_btree_bt_put: "wf_btree m \<Longrightarrow> wf_btree (bt_put k v m)"
  unfolding wf_btree_def
proof (induction k v m rule: bt_put.induct)
  case (1 k v)
  then show ?case by simp
next
  case (2 k v j w m)
  have "set (tkeys (bt_put k v m)) = insert k (set (tkeys m))"
    by (rule set_tkeys_bt_put)
  with 2 show ?case by auto
qed

lemma map_of_bt_put: "wf_btree m \<Longrightarrow> map_of (bt_put k v m) i = (if i = k then Some v else map_of m i)"
  by (induction k v m rule: bt_put.induct) (auto simp: wf_btree_def)

lemma bt_put_put [simp]: "bt_put k v (bt_put k w m) = bt_put k v m"
  by (induction k w m rule: bt_put.induct) auto

lemma mset_bt_put_new: "k \<notin> fst ` set m \<Longrightarrow> mset (bt_put k v m) = add_mset (k, v) (mset m)"
  by (induction k v m rule: bt_put.induct) auto

lemma map_bt_put_same:
  "wf_btree m \<Longrightarrow> map_of m k = Some w \<Longrightarrow> f (k, v) = f (k, w) \<Longrightarrow> map f (bt_put k v m) = map f m"
proof (induction k v m rule: bt_put.induct)
  case (1 k v)
  then show ?case by simp
next
  case (2 k v j u m)
  have "k \<notin> fst ` set m" if "k < j" using "2.prems"(1) that by (auto simp: wf_btree_def)
  moreover have "k \<in> fst ` set m" if "k \<noteq> j"
    using "2.prems"(2) that by (auto dest!: map_of_SomeD intro: rev_image_eqI)
  ultimately show ?case using 2 by (auto simp: wf_btree_def)
qed

lemma set_bt_put_subset: "set (bt_put k v m) \<subseteq> insert (k, v) (set m)"
  by (induction k v m rule: bt_put.induct) auto

lemma wf_btree_distinct: "wf_btree m \<Longrightarrow> distinct (tkeys m)"
  by (simp add: wf_btree_def strict_sorted_iff)

lemma set_bt_put_cases:
  assumes "(i, x) \<in> set (bt_put k v m)" and "wf_btree m"
  shows "i = k \<and> x = v \<or> i \<noteq> k \<and> (i, x) \<in> set m"
proof -
  have "map_of (bt_put k v m) i = Some x"
    using assms by (simp add: map_of_eq_Some_iff wf_btree_distinct wf_btree_bt_put)
  then show ?thesis
    using assms(2) by (auto simp: map_of_bt_put map_of_SomeD split: if_splits)
qed

locale keyed_map =
  fixes lookup :: "'m \<Rightarrow> 'k \<Rightarrow> 'v option"
    and put :: "'k \<Rightarrow> 'v \<Rightarrow> 'm \<Rightarrow> 'm"
    and keys :: "'m \<Rightarrow> 'k set"
    and wf :: "'m \<Rightarrow> bool"
  assumes wf_put: "wf m \<Longrightarrow> wf (put k v m)"
    and lookup_put: "wf m \<Longrightarrow> lookup (put k v m) j = (if j = k then Some v else lookup m j)"
    and keys_iff: "wf m \<Longrightarrow> j \<in> keys m \<longleftrightarrow> lookup m j \<noteq> None"
begin

lemma lookup_put_same: "wf m \<Longrightarrow> lookup (put k v m) k = Some v"
  by (simp add: lookup_put)

lemma keys_put: "wf m \<Longrightarrow> keys (put k v m) = insert k (keys m)"
  by (auto simp: keys_iff wf_put lookup_put split: if_splits)

lemma put_put: "wf m \<Longrightarrow> lookup (put k v (put k w m)) = lookup (put k v m)"
  by (rule ext) (simp add: lookup_put wf_put)

lemma fold_put_keys: "wf m \<Longrightarrow> keys (fold (\<lambda>k. put k v) ks m) = keys m \<union> set ks"
  by (induction ks arbitrary: m) (auto simp: keys_put wf_put)

lemma fold_put_wf: "wf m \<Longrightarrow> wf (fold (\<lambda>k. put k v) ks m)"
  by (induction ks arbitrary: m) (auto simp: wf_put)

lemma fold_put_lookup:
  "wf m \<Longrightarrow> lookup (fold (\<lambda>k. put k v) ks m) j = (if j \<in> set ks then Some v else lookup m j)"
  by (induction ks arbitrary: m) (auto simp: wf_put lookup_put)

end

interpretation hash: keyed_map "map_of" "AList.update" "\<lambda>m. fst ` set m" "wf_table"
proof
  fix m :: "('k \<times> 'v) list" and k v j
  show "wf_table m \<Longrightarrow> wf_table (AList.update k v m)"
    by (simp add: wf_table_def distinct_update)
  show "map_of (AList.update k v m) j = (if j = k then Some v else map_of m j)"
    by (simp add: update_conv')
  show "j \<in> fst ` set m \<longleftrightarrow> map_of m j \<noteq> None"
    by (force simp: map_of_eq_None_iff)
qed

interpretation btree: keyed_map "map_of" "bt_put" "\<lambda>m. fst ` set m" "wf_btree"
proof
  fix m :: "('k::linorder \<times> 'v) list" and k v j
  show "wf_btree m \<Longrightarrow> wf_btree (bt_put k v m)"
    by (rule wf_btree_bt_put)
  show "wf_btree m \<Longrightarrow> map_of (bt_put k v m) j = (if j = k then Some v else map_of m j)"
    by (rule map_of_bt_put)
  show "j \<in> fst ` set m \<longleftrightarrow> map_of m j \<noteq> None"
    by (force simp: map_of_eq_None_iff)
qed

lemma wf_table_delete [table_simps]: "wf_table m \<Longrightarrow> wf_table (AList.delete k m)"
  by (simp add: wf_table_def distinct_delete)

lemma fst_set_delete [table_simps]: "fst ` set (AList.delete k m) = fst ` set m - {k}"
  using delete_keys [of k m] by (metis list.set_map set_removeAll)

lemma fst_set_update [table_simps]: "fst ` set (AList.update k v m) = insert k (fst ` set m)"
  by (simp add: dom_update)

lemmas wf_table_update [table_simps] = hash.wf_put

lemma length_delete_le: "length (AList.delete k m) \<le> length m"
  by (induction m) auto

lemma length_update_le: "length (AList.update k v m) \<le> Suc (length m)"
  by (induction m) auto

lemma length_update_present: "k \<in> fst ` set m \<Longrightarrow> length (AList.update k v m) = length m"
  by (induction m) auto

lemma set_update_subset: "set (AList.update k v m) \<subseteq> insert (k, v) (set m)"
  by (induction m) auto

lemma delete_absent: "k \<notin> fst ` set m \<Longrightarrow> AList.delete k m = m"
  by (induction m) auto

section \<open>Tables with an insertion-order queue\<close>

text \<open>
  Both the sticky-session table of the pool and the session table of the reasoning shadow come
  with a \<open>VecDeque\<close> of their keys. \<open>synced\<close> says that the queue lists each key once.
\<close>

definition synced :: "('k, 'v) table \<Rightarrow> 'k list \<Rightarrow> bool" where
  "synced m q \<longleftrightarrow> wf_table m \<and> distinct q \<and> set q = fst ` set m"

lemma synced_empty [simp]: "synced [] []"
  by (simp add: synced_def wf_table_def)

lemma synced_length: "synced m q \<Longrightarrow> length m = length q"
  unfolding synced_def wf_table_def
  by (metis distinct_card length_map list.set_map)

lemma synced_remove [table_simps]:
  "synced m q \<Longrightarrow> synced (AList.delete k m) (filter (\<lambda>x. x \<noteq> k) q)"
  by (auto simp: synced_def table_simps)

lemma synced_push:
  "synced m q \<Longrightarrow> k \<notin> fst ` set m \<Longrightarrow> synced (AList.update k v m) (q @ [k])"
  by (auto simp: synced_def table_simps)

lemma synced_touch:
  "synced m q \<Longrightarrow> k \<in> fst ` set m \<Longrightarrow>
     synced (AList.update k v m) (filter (\<lambda>x. x \<noteq> k) q @ [k])"
  by (auto simp: synced_def table_simps)

lemma synced_overwrite:
  "synced m q \<Longrightarrow> k \<in> fst ` set m \<Longrightarrow> synced (AList.update k v m) q"
  by (auto simp: synced_def table_simps)

lemma synced_map_snd: "synced (map (\<lambda>(k, v). (k, f k v)) m) q \<longleftrightarrow> synced m q"
proof -
  have "map fst (map (\<lambda>(k, v). (k, f k v)) m) = map fst m"
    by (induction m) auto
  then show ?thesis
    unfolding synced_def wf_table_def by (metis list.set_map)
qed

text \<open>
  The eviction loop: \<open>while let Some(k) = queue.front() { if cond { remove(k) } else { break } }\<close>.
  The fuel is the length of the queue, which each removal shortens.
\<close>

fun evict_loop ::
    "('s \<Rightarrow> 'k list) \<Rightarrow> ('s \<Rightarrow> 'k \<Rightarrow> bool) \<Rightarrow> ('k \<Rightarrow> 's \<Rightarrow> 's) \<Rightarrow> nat \<Rightarrow> 's \<Rightarrow> 's" where
  "evict_loop queue cond rm 0 s = s"
| "evict_loop queue cond rm (Suc n) s =
     (case queue s of
        [] \<Rightarrow> s
      | k # _ \<Rightarrow> if cond s k then evict_loop queue cond rm n (rm k s) else s)"

locale evicting_table =
  fixes queue :: "'s \<Rightarrow> 'k list"
    and rm :: "'k \<Rightarrow> 's \<Rightarrow> 's"
    and inv :: "'s \<Rightarrow> bool"
  assumes queue_rm: "inv s \<Longrightarrow> queue (rm k s) = filter (\<lambda>x. x \<noteq> k) (queue s)"
    and inv_rm: "inv s \<Longrightarrow> inv (rm k s)"
begin

lemma evict_inv: "inv s \<Longrightarrow> inv (evict_loop queue cond rm n s)"
  by (induction n arbitrary: s) (auto split: list.split intro: inv_rm)

text \<open>
  The loop is over for its own reason: with this much fuel either the queue is empty or the
  condition fails for its front.
\<close>

lemma evict_done:
  assumes "inv s" and "length (queue s) \<le> n"
    and "queue (evict_loop queue cond rm n s) = k # q"
  shows "\<not> cond (evict_loop queue cond rm n s) k"
  using assms
proof (induction n arbitrary: s)
  case 0
  then show ?case by simp
next
  case (Suc n)
  show ?case
  proof (cases "\<exists>j r. queue s = j # r \<and> cond s j")
    case True
    then obtain j r where jr: "queue s = j # r" "cond s j" by blast
    have eq: "evict_loop queue cond rm (Suc n) s = evict_loop queue cond rm n (rm j s)"
      using jr by simp
    have "length (queue (rm j s)) \<le> n"
      using Suc.prems(1,2) jr by (auto simp: queue_rm intro: le_trans [OF length_filter_le])
    with Suc.IH [OF inv_rm [OF Suc.prems(1)]] Suc.prems(3) show ?thesis
      unfolding eq by blast
  next
    case False
    then have eq: "evict_loop queue cond rm (Suc n) s = s"
      by (auto split: list.split)
    from False Suc.prems(3) show ?thesis
      unfolding eq by blast
  qed
qed

text \<open>What the loop keeps: a prefix of the old queue is gone, the rest is unchanged.\<close>

lemma evict_queue_subset: "inv s \<Longrightarrow> set (queue (evict_loop queue cond rm n s)) \<subseteq> set (queue s)"
proof (induction n arbitrary: s)
  case 0
  then show ?case by simp
next
  case (Suc n)
  have sub: "set (queue (evict_loop queue cond rm n (rm k s))) \<subseteq> set (queue s)" for k
    using Suc.IH [OF inv_rm [OF Suc.prems], of k] queue_rm [OF Suc.prems, of k] by auto
  show ?case
  proof (cases "\<exists>j r. queue s = j # r \<and> cond s j")
    case True
    then obtain j r where "queue s = j # r" "cond s j" by blast
    with sub [of j] show ?thesis by simp
  next
    case False
    then show ?thesis by (auto split: list.split)
  qed
qed

text \<open>An invariant that survives the removals the condition allows survives the loop.\<close>

lemma evict_preserves_cond:
  assumes "P s" and "\<And>s k. P s \<Longrightarrow> cond s k \<Longrightarrow> P (rm k s)"
  shows "P (evict_loop queue cond rm n s)"
  using assms(1) by (induction n arbitrary: s) (auto split: list.split intro: assms(2))

lemma evict_preserves:
  assumes "P s" and "\<And>s k. P s \<Longrightarrow> P (rm k s)"
  shows "P (evict_loop queue cond rm n s)"
  using assms(1) by (induction n arbitrary: s) (auto split: list.split intro: assms(2))

end

end
