(* ===== verification/Json.thy ===== *)
theory Json
  imports Prelude
begin

text \<open>
  JSON values as the proxy handles them (\<open>serde_json::Value\<close> built with \<open>preserve_order\<close>): an
  object is the list of its members in insertion order; inserting an existing name replaces the
  value in place, removing a member moves the last one into its place.

  The JSON text codec itself is a third-party library: its functions are the fields of the
  parameter \<open>codec\<close>, and every definition that uses them takes one.
\<close>

text \<open>Numbers: \<open>u64\<close>, negative \<open>i64\<close>, and \<open>f64\<close> kept as its 64 bits (never computed with).\<close>

datatype jnum = PosInt u64 | NegInt int | Flt u64

datatype json =
    JNull
  | JBool bool
  | JNum jnum
  | JStr string
  | JArr "json list"
  | JObj "(string \<times> json) list"

type_synonym members = "(string \<times> json) list"

record codec =
  to_text :: "json \<Rightarrow> string"        \<comment> \<open>\<open>serde_json::to_string\<close>\<close>
  from_text :: "string \<Rightarrow> json option" \<comment> \<open>\<open>serde_json::from_str(..).ok()\<close>\<close>
  num_f64 :: "jnum \<Rightarrow> u64"           \<comment> \<open>\<open>Number::as_f64\<close>, as bits\<close>

text \<open>A concrete codec, used only to show that hypotheses about a codec can hold.\<close>

definition sample_codec :: codec where
  "sample_codec =
     \<lparr>to_text = (\<lambda>v. case v of JStr s \<Rightarrow> [CHR 0x22] @ s @ [CHR 0x22] | _ \<Rightarrow> ''{}''),
      from_text = (\<lambda>s. if s = ''{}'' \<or> s = ''{ }'' then Some (JObj []) else None),
      num_f64 = (\<lambda>_. 0)\<rparr>"

section \<open>Members\<close>

abbreviation mget :: "members \<Rightarrow> string \<Rightarrow> json option" where
  "mget m k \<equiv> map_of m k"

abbreviation minsert :: "string \<Rightarrow> json \<Rightarrow> members \<Rightarrow> members" where
  "minsert k v m \<equiv> AList.update k v m"

fun mremove :: "string \<Rightarrow> members \<Rightarrow> members" where
  "mremove k [] = []"
| "mremove k (p # ps) =
     (if fst p = k then (case ps of [] \<Rightarrow> [] | _ # _ \<Rightarrow> last ps # butlast ps)
      else p # mremove k ps)"

lemma set_last_butlast: "ps \<noteq> [] \<Longrightarrow> insert (last ps) (set (butlast ps)) = set ps"
  by (cases ps rule: rev_cases) auto

lemma distinct_last_butlast:
  "ps \<noteq> [] \<Longrightarrow> distinct (map fst ps) \<Longrightarrow> distinct (map fst (last ps # butlast ps))"
  by (cases ps rule: rev_cases) auto

lemma set_mremove: "distinct (map fst m) \<Longrightarrow> set (mremove k m) = {p \<in> set m. fst p \<noteq> k}"
proof (induction k m rule: mremove.induct)
  case (1 k)
  then show ?case by simp
next
  case (2 k p ps)
  show ?case
  proof (cases "fst p = k")
    case True
    have eq: "set (mremove k (p # ps)) = set ps"
    proof (cases ps)
      case Nil
      with True show ?thesis by simp
    next
      case (Cons q qs)
      then have "mremove k (p # ps) = last ps # butlast ps" using True by simp
      then have "set (mremove k (p # ps)) = insert (last ps) (set (butlast ps))"
        by (simp only: list.set)
      also have "\<dots> = set ps" by (rule set_last_butlast) (simp add: Cons)
      finally show ?thesis .
    qed
    have "fst p \<notin> fst ` set ps" using "2.prems" by simp
    then have other: "fst q \<noteq> k" if "q \<in> set ps" for q
      using True imageI [OF that, of fst] by metis
    have "set ps = {q \<in> set (p # ps). fst q \<noteq> k}"
      using True other by (intro set_eqI) (simp, blast)
    with eq show ?thesis by (simp only:)
  next
    case False
    with 2 show ?thesis by auto
  qed
qed

lemma distinct_mremove: "distinct (map fst m) \<Longrightarrow> distinct (map fst (mremove k m))"
proof (induction k m rule: mremove.induct)
  case (1 k)
  then show ?case by simp
next
  case (2 k p ps)
  show ?case
  proof (cases "fst p = k")
    case True
    show ?thesis
    proof (cases ps)
      case Nil
      with True show ?thesis by simp
    next
      case (Cons q qs)
      then have "mremove k (p # ps) = last ps # butlast ps" using True by simp
      moreover have "distinct (map fst (last ps # butlast ps))"
        using Cons "2.prems" by (intro distinct_last_butlast) auto
      ultimately show ?thesis by (simp only:)
    qed
  next
    case False
    with 2 show ?thesis by (auto simp: set_mremove)
  qed
qed

lemma map_of_mremove:
  assumes "distinct (map fst m)"
  shows "map_of (mremove k m) j = (if j = k then None else map_of m j)"
proof (cases "map_of (mremove k m) j")
  case None
  then have "j \<notin> fst ` set (mremove k m)"
    by (simp add: map_of_eq_None_iff)
  then have "j = k \<or> j \<notin> fst ` set m"
    using assms by (force simp: set_mremove)
  then have "j = k \<or> map_of m j = None"
    by (simp add: map_of_eq_None_iff)
  with None show ?thesis by auto
next
  case (Some v)
  then have "(j, v) \<in> set (mremove k m)" by (rule map_of_SomeD)
  with assms have "(j, v) \<in> set m" and "j \<noteq> k" by (auto simp: set_mremove)
  with Some assms show ?thesis by simp
qed

lemma mremove_absent: "k \<notin> fst ` set m \<Longrightarrow> mremove k m = m"
  by (induction k m rule: mremove.induct) auto

section \<open>Accessors of a value\<close>

fun get :: "string \<Rightarrow> json \<Rightarrow> json option" where
  "get k (JObj m) = map_of m k"
| "get k _ = None"

fun as_str :: "json \<Rightarrow> string option" where
  "as_str (JStr s) = Some s"
| "as_str _ = None"

fun as_bool :: "json \<Rightarrow> bool option" where
  "as_bool (JBool b) = Some b"
| "as_bool _ = None"

fun as_array :: "json \<Rightarrow> json list option" where
  "as_array (JArr xs) = Some xs"
| "as_array _ = None"

fun as_object :: "json \<Rightarrow> members option" where
  "as_object (JObj m) = Some m"
| "as_object _ = None"

fun as_u64 :: "json \<Rightarrow> u64 option" where
  "as_u64 (JNum (PosInt n)) = Some n"
| "as_u64 _ = None"

fun as_i64 :: "json \<Rightarrow> int option" where
  "as_i64 (JNum (PosInt n)) = (if unat n < 2 ^ 63 then Some (uint n) else None)"
| "as_i64 (JNum (NegInt i)) = Some i"
| "as_i64 _ = None"

fun as_f64 :: "codec \<Rightarrow> json \<Rightarrow> u64 option" where
  "as_f64 c (JNum n) = Some (num_f64 c n)"
| "as_f64 c _ = None"

definition is_object :: "json \<Rightarrow> bool" where
  "is_object v \<longleftrightarrow> as_object v \<noteq> None"

definition get_str :: "string \<Rightarrow> json \<Rightarrow> string option" where
  "get_str k v = Option.bind (get k v) as_str"

definition get_arr :: "string \<Rightarrow> json \<Rightarrow> json list option" where
  "get_arr k v = Option.bind (get k v) as_array"

definition get_u64 :: "string \<Rightarrow> json \<Rightarrow> u64 option" where
  "get_u64 k v = Option.bind (get k v) as_u64"

definition get_i64 :: "string \<Rightarrow> json \<Rightarrow> int option" where
  "get_i64 k v = Option.bind (get k v) as_i64"

definition mstr :: "members \<Rightarrow> string \<Rightarrow> string option" where
  "mstr m k = Option.bind (mget m k) as_str"

text \<open>\<open>.filter(|s| !s.is_empty())\<close>\<close>

definition non_empty :: "string option \<Rightarrow> string option" where
  "non_empty s = filter_opt (\<lambda>x. x \<noteq> []) s"

lemma non_empty_Some [simp]: "non_empty s = Some x \<longleftrightarrow> s = Some x \<and> x \<noteq> []"
  by (simp add: non_empty_def)

text \<open>\<open>Value::pointer("/a/b")\<close> for names that are not array indices.\<close>

definition pointer2 :: "string \<Rightarrow> string \<Rightarrow> json \<Rightarrow> json option" where
  "pointer2 a b v = Option.bind (get a v) (get b)"

text \<open>\<open>value[k] = x\<close> on an object.\<close>

fun set_key :: "string \<Rightarrow> json \<Rightarrow> json \<Rightarrow> json" where
  "set_key k x (JObj m) = JObj (minsert k x m)"
| "set_key k x v = v"

lemmas accessor_defs = get_str_def get_arr_def get_u64_def get_i64_def pointer2_def is_object_def

lemma as_str_Some [simp]: "as_str v = Some s \<longleftrightarrow> v = JStr s"
  by (cases v) auto

lemma as_array_Some [simp]: "as_array v = Some xs \<longleftrightarrow> v = JArr xs"
  by (cases v) auto

lemma as_object_Some [simp]: "as_object v = Some m \<longleftrightarrow> v = JObj m"
  by (cases v) auto

lemma bind_as_str [simp]: "Option.bind x as_str = Some s \<longleftrightarrow> x = Some (JStr s)"
  by (cases x) auto

lemma bind_as_array [simp]: "Option.bind x as_array = Some s \<longleftrightarrow> x = Some (JArr s)"
  by (cases x) auto

lemma bind_as_object [simp]: "Option.bind x as_object = Some s \<longleftrightarrow> x = Some (JObj s)"
  by (cases x) auto

lemma as_u64_Some [simp]: "as_u64 v = Some n \<longleftrightarrow> v = JNum (PosInt n)"
  by (cases v rule: as_u64.cases) auto

lemma bind_as_u64 [simp]: "Option.bind x as_u64 = Some s \<longleftrightarrow> x = Some (JNum (PosInt s))"
  by (cases x) auto

lemma get_Some: "get k v = Some x \<longleftrightarrow> (\<exists>m. v = JObj m \<and> map_of m k = Some x)"
  by (cases v) auto

lemma get_str_Some: "get_str k v = Some s \<longleftrightarrow> get k v = Some (JStr s)"
  by (simp add: get_str_def)

lemma get_arr_Some: "get_arr k v = Some s \<longleftrightarrow> get k v = Some (JArr s)"
  by (simp add: get_arr_def)

lemma is_object_iff: "is_object v \<longleftrightarrow> (\<exists>m. v = JObj m)"
  by (cases v) (auto simp: is_object_def)

lemma get_set_key: "get j (set_key k x (JObj m)) = (if j = k then Some x else get j (JObj m))"
  by (simp add: update_conv')

lemma get_str_JObj [simp]: "get_str k (JObj m) = Option.bind (map_of m k) as_str"
  by (simp add: get_str_def)

lemma get_arr_JObj [simp]: "get_arr k (JObj m) = Option.bind (map_of m k) as_array"
  by (simp add: get_arr_def)

text \<open>Well-formed values: member names are distinct at every level, as the map type ensures.\<close>

fun wf_json :: "json \<Rightarrow> bool" where
  "wf_json (JArr xs) = (\<forall>x \<in> set xs. wf_json x)"
| "wf_json (JObj m) = (distinct (map fst m) \<and> (\<forall>p \<in> set m. wf_json (snd p)))"
| "wf_json _ = True"

section \<open>Error messages\<close>

text \<open>
  A \<open>ProtocolError\<close> carries the source's format string and its arguments; the formatting itself
  (\<open>format!\<close>) is not performed.
\<close>

datatype fmt_arg = ANat nat | AStr string | AOpt "string option"

datatype protocol_error = PE (pe_template: string) (pe_args: "fmt_arg list")

end
