(* ===== verification/Policy.thy ===== *)
theory Policy
  imports Json
begin

text \<open>
  The deepseek-flash request policy (\<open>src/deepseek/policy.rs\<close>, \<open>src/deepseek/reasoning.rs\<close>):
  the billing-header strip, canonical JSON and canonical historical tool arguments, the reasoning
  epoch and the strip of historical reasoning, the prefix hash and the token estimate.
\<close>

section \<open>Positions and prefixes\<close>

abbreviation LF :: char where "LF \<equiv> CHR 0x0A"
abbreviation CR :: char where "CR \<equiv> CHR 0x0D"

definition starts_with :: "string \<Rightarrow> string \<Rightarrow> bool" where
  "starts_with p s \<longleftrightarrow> take (length p) s = p"

lemma starts_withE: "starts_with p s \<Longrightarrow> (\<And>r. s = p @ r \<Longrightarrow> P) \<Longrightarrow> P"
  unfolding starts_with_def by (metis append_take_drop_id)

lemma starts_with_append [simp]: "starts_with p (p @ r)"
  by (simp add: starts_with_def)

fun find_pos :: "('a \<Rightarrow> bool) \<Rightarrow> 'a list \<Rightarrow> nat option" where
  "find_pos P [] = None"
| "find_pos P (x # xs) = (if P x then Some 0 else map_option Suc (find_pos P xs))"

lemma find_pos_Some:
  "find_pos P xs = Some i \<Longrightarrow> i < length xs \<and> P (xs ! i) \<and> (\<forall>j < i. \<not> P (xs ! j))"
proof (induction P xs arbitrary: i rule: find_pos.induct)
  case (1 P)
  then show ?case by simp
next
  case (2 P x xs)
  show ?case
  proof (cases "P x")
    case True
    with "2.prems" show ?thesis by simp
  next
    case False
    with "2.prems" obtain k where k: "find_pos P xs = Some k" and i: "i = Suc k" by auto
    from "2.IH" [OF False k] False show ?thesis
      unfolding i by (auto simp: nth_Cons split: nat.split)
  qed
qed

lemma find_pos_None: "find_pos P xs = None \<longleftrightarrow> (\<forall>x \<in> set xs. \<not> P x)"
  by (induction P xs rule: find_pos.induct) auto

text \<open>\<open>Iterator::rposition\<close>: the last index that satisfies the predicate.\<close>

definition rposition :: "('a \<Rightarrow> bool) \<Rightarrow> 'a list \<Rightarrow> nat option" where
  "rposition P xs = map_option (\<lambda>i. length xs - Suc i) (find_pos P (rev xs))"

lemma rposition_None: "rposition P xs = None \<longleftrightarrow> (\<forall>x \<in> set xs. \<not> P x)"
  by (simp add: rposition_def find_pos_None)

lemma rposition_Some:
  assumes "rposition P xs = Some i"
  shows "i < length xs" and "P (xs ! i)" and "\<And>j. i < j \<Longrightarrow> j < length xs \<Longrightarrow> \<not> P (xs ! j)"
proof -
  from assms obtain k where k: "find_pos P (rev xs) = Some k" and i: "i = length xs - Suc k"
    by (auto simp: rposition_def)
  from find_pos_Some [OF k] have kl: "k < length xs" and Pk: "P (rev xs ! k)"
    and before: "\<And>j. j < k \<Longrightarrow> \<not> P (rev xs ! j)" by auto
  show "i < length xs" using kl i by simp
  show "P (xs ! i)" using Pk kl i by (simp add: rev_nth)
  fix j assume j: "i < j" "j < length xs"
  have "length xs - Suc j < k" using j i kl by arith
  from before [OF this] show "\<not> P (xs ! j)" using j by (simp add: rev_nth)
qed

section \<open>Billing header\<close>

definition BILLING_HEADER_PREFIX :: string where
  "BILLING_HEADER_PREFIX = ''x-anthropic-billing-header:''"

definition strip_leading_billing_header :: "string \<Rightarrow> nat" where
  "strip_leading_billing_header text =
     (if \<not> starts_with BILLING_HEADER_PREFIX text then 0
      else
        let rest = drop (length BILLING_HEADER_PREFIX) text;
            cut = (case find_pos (\<lambda>c. c = LF \<or> c = CR) rest of
                     Some p \<Rightarrow> length BILLING_HEADER_PREFIX + p
                   | None \<Rightarrow> length text)
        in if starts_with [CR, LF] (drop cut text) then cut + 2
           else if starts_with [CR] (drop cut text) \<or> starts_with [LF] (drop cut text) then cut + 1
           else cut)"

definition strip_billing_text :: "string \<Rightarrow> string" where
  "strip_billing_text text =
     (let cut = strip_leading_billing_header text in if cut > 0 then drop cut text else text)"

definition strip_billing_block :: "json \<Rightarrow> json" where
  "strip_billing_block block =
     (if get_str ''type'' block = Some ''text''
      then (case get ''text'' block of
              Some (JStr text) \<Rightarrow> set_key ''text'' (JStr (strip_billing_text text)) block
            | _ \<Rightarrow> block)
      else block)"

definition strip_billing_in_anthropic_system :: "json \<Rightarrow> json" where
  "strip_billing_in_anthropic_system request =
     (case get ''system'' request of
        Some (JStr text) \<Rightarrow> set_key ''system'' (JStr (strip_billing_text text)) request
      | Some (JArr blocks) \<Rightarrow> set_key ''system'' (JArr (map strip_billing_block blocks)) request
      | _ \<Rightarrow> request)"

lemma strip_billing_other:
  "j \<noteq> ''system'' \<Longrightarrow> get j (strip_billing_in_anthropic_system (JObj m)) = get j (JObj m)"
  by (simp add: strip_billing_in_anthropic_system_def update_conv' split: option.split json.split)

lemma strip_billing_JObj:
  "\<exists>m'. strip_billing_in_anthropic_system (JObj m) = JObj m'"
  by (simp add: strip_billing_in_anthropic_system_def split: option.split json.split)

section \<open>Canonical JSON\<close>

definition join :: "string \<Rightarrow> string list \<Rightarrow> string" where
  "join sep parts = concat (case parts of [] \<Rightarrow> [] | p # ps \<Rightarrow> p # concat (map (\<lambda>q. [sep, q]) ps))"

lemma size_member:
  "(k, v) \<in> set m \<Longrightarrow> size v < Suc (size_list (size_prod (\<lambda>_. 0) size) m)"
  by (induction m) auto

function canonical_json_string :: "codec \<Rightarrow> json \<Rightarrow> string" where
  "canonical_json_string c (JObj m) =
     ''{'' @ join '','' (map (\<lambda>p. to_text c (JStr (fst p)) @ '':'' @ canonical_json_string c (snd p))
                        (sort_key fst m)) @ ''}''"
| "canonical_json_string c (JArr xs) =
     ''['' @ join '','' (map (canonical_json_string c) xs) @ '']''"
| "canonical_json_string c (JStr s) = to_text c (JStr s)"
| "canonical_json_string c (JNum n) = to_text c (JNum n)"
| "canonical_json_string c (JBool b) = to_text c (JBool b)"
| "canonical_json_string c JNull = to_text c JNull"
  by pat_completeness auto
termination
proof (relation "measure (\<lambda>(c, v). size v)", goal_cases)
  case 1
  show ?case by simp
next
  case (2 c m p)
  then have "(fst p, snd p) \<in> set m" by simp
  from size_member [OF this] show ?case by simp
next
  case (3 c xs x)
  then show ?case by (simp add: size_list_estimation' less_Suc_eq_le)
qed

text \<open>A value with the members of every object sorted by name.\<close>

function sort_json :: "json \<Rightarrow> json" where
  "sort_json (JObj m) = JObj (map (\<lambda>p. (fst p, sort_json (snd p))) (sort_key fst m))"
| "sort_json (JArr xs) = JArr (map sort_json xs)"
| "sort_json (JStr s) = JStr s"
| "sort_json (JNum n) = JNum n"
| "sort_json (JBool b) = JBool b"
| "sort_json JNull = JNull"
  by pat_completeness auto
termination
proof (relation "measure size", goal_cases)
  case 1
  show ?case by simp
next
  case (2 m p)
  then have "(fst p, snd p) \<in> set m" by simp
  from size_member [OF this] show ?case by simp
next
  case (3 xs x)
  then show ?case by (simp add: size_list_estimation' less_Suc_eq_le)
qed


lemma sort_key_map:
  "(\<And>p. g (f p) = g p) \<Longrightarrow> sort_key g (map f xs) = map f (sort_key g xs)"
proof (induction xs)
  case Nil
  then show ?case by simp
next
  case (Cons x xs)
  have "insort_key g (f x) (map f ys) = map f (insort_key g x ys)" for ys
    using Cons.prems by (induction ys) auto
  with Cons show ?case by simp
qed

lemma canonical_sort_json: "canonical_json_string c (sort_json v) = canonical_json_string c v"
proof (induction v rule: sort_json.induct)
  case (1 m)
  have idem: "sort_key fst (map (\<lambda>p. (fst p, sort_json (snd p))) (sort_key fst m)) =
      map (\<lambda>p. (fst p, sort_json (snd p))) (sort_key fst m)"
    by (subst sort_key_map) (simp_all add: sort_key_id_if_sorted)
  have maps: "map (\<lambda>p. to_text c (JStr (fst p)) @ '':'' @ canonical_json_string c (sort_json (snd p)))
        (sort_key fst m) =
      map (\<lambda>p. to_text c (JStr (fst p)) @ '':'' @ canonical_json_string c (snd p)) (sort_key fst m)"
    by (rule map_cong [OF refl]) (simp add: 1)
  show ?case
    unfolding sort_json.simps canonical_json_string.simps idem map_map comp_def fst_conv snd_conv maps ..
next
  case (2 xs)
  then have "map (canonical_json_string c) (map sort_json xs) = map (canonical_json_string c) xs"
    by simp
  then show ?case by (simp only: sort_json.simps canonical_json_string.simps)
qed simp_all

lemma sort_json_perm:
  assumes "mset m = mset m'" and "distinct (map fst m)"
  shows "sort_json (JObj m) = sort_json (JObj m')"
proof -
  have "distinct (map fst m')"
    using assms by (metis mset_eq_imp_distinct_iff mset_map)
  have "inj_on fst (set m)" using assms(2) by (simp add: distinct_map)
  then have "sort_key fst m = sort_key fst m'"
    using assms(1) by (intro sort_key_inj_key_eq) (auto dest: mset_eq_setD)
  then show ?thesis by simp
qed

section \<open>Canonical historical tool arguments\<close>

definition role_is :: "string \<Rightarrow> json \<Rightarrow> bool" where
  "role_is r message \<longleftrightarrow> get_str ''role'' message = Some r"

text \<open>Each step returns the rewritten value with the number of arguments it rewrote.\<close>

definition canonicalize_call :: "codec \<Rightarrow> json \<Rightarrow> json \<times> nat" where
  "canonicalize_call c call =
     (case Option.bind (get ''function'' call) as_object of
        None \<Rightarrow> (call, 0)
      | Some function \<Rightarrow>
          (case Option.bind (mget function ''arguments'') as_str of
             None \<Rightarrow> (call, 0)
           | Some arguments \<Rightarrow>
               (case from_text c arguments of
                  None \<Rightarrow> (call, 0)
                | Some parsed \<Rightarrow>
                    let canonical = canonical_json_string c parsed
                    in if canonical \<noteq> arguments
                       then (set_key ''function''
                               (JObj (minsert ''arguments'' (JStr canonical) function)) call, 1)
                       else (call, 0))))"

definition canonicalize_message :: "codec \<Rightarrow> nat \<Rightarrow> nat \<times> json \<Rightarrow> json \<times> nat" where
  "canonicalize_message c last_action im =
     (case im of (index, message) \<Rightarrow>
        if \<not> role_is ''assistant'' message \<or> index \<ge> last_action then (message, 0)
        else
          (case get_arr ''tool_calls'' message of
             None \<Rightarrow> (message, 0)
           | Some calls \<Rightarrow>
               let done = map (canonicalize_call c) calls
               in (set_key ''tool_calls'' (JArr (map fst done)) message,
                   sum_list (map snd done))))"

definition canonicalize_tool_arguments :: "codec \<Rightarrow> members \<Rightarrow> members \<times> nat" where
  "canonicalize_tool_arguments c body =
     (case Option.bind (mget body ''messages'') as_array of
        None \<Rightarrow> (body, 0)
      | Some messages \<Rightarrow>
          (case rposition (\<lambda>m. role_is ''user'' m \<or> role_is ''tool'' m) messages of
             None \<Rightarrow> (body, 0)
           | Some last_action \<Rightarrow>
               let done = map (canonicalize_message c last_action) (enumerate 0 messages)
               in (minsert ''messages'' (JArr (map fst done)) body, sum_list (map snd done))))"

section \<open>Reasoning epochs\<close>

definition reasoning_epoch_boundary :: "json list \<Rightarrow> nat" where
  "reasoning_epoch_boundary messages =
     unwrap_or (length messages) (rposition (role_is ''user'') messages)"

definition strip_reasoning_message :: "codec \<Rightarrow> nat \<Rightarrow> nat \<times> json \<Rightarrow> json \<times> nat" where
  "strip_reasoning_message c boundary im =
     (case im of (index, message) \<Rightarrow>
        if index \<ge> boundary then (message, 0)
        else if \<not> role_is ''assistant'' message then (message, 0)
        else
          (case as_object message of
             None \<Rightarrow> (message, 0)
           | Some object \<Rightarrow>
               (case mget object ''reasoning_content'' of
                  None \<Rightarrow> (message, 0)
                | Some removed \<Rightarrow>
                    (JObj (mremove ''reasoning_content'' object), length (to_text c removed)))))"

definition strip_historical_reasoning :: "codec \<Rightarrow> members \<Rightarrow> members \<times> nat" where
  "strip_historical_reasoning c body =
     (case Option.bind (mget body ''messages'') as_array of
        None \<Rightarrow> (body, 0)
      | Some messages \<Rightarrow>
          let done = map (strip_reasoning_message c (reasoning_epoch_boundary messages))
                       (enumerate 0 messages)
          in (minsert ''messages'' (JArr (map fst done)) body, sum_list (map snd done)))"

text \<open>The human turn of an Anthropic request, and the strip of its historical thinking blocks.\<close>

definition is_human_message :: "json \<Rightarrow> bool" where
  "is_human_message message \<longleftrightarrow>
     role_is ''user'' message \<and>
     (case get ''content'' message of
        Some (JStr text) \<Rightarrow> text \<noteq> []
      | Some (JArr blocks) \<Rightarrow> \<exists>b \<in> set blocks. get_str ''type'' b \<noteq> Some ''tool_result''
      | _ \<Rightarrow> False)"

definition strip_thinking_blocks :: "json \<Rightarrow> json \<times> nat" where
  "strip_thinking_blocks message =
     (if \<not> role_is ''assistant'' message then (message, 0)
      else
        (case get_arr ''content'' message of
           None \<Rightarrow> (message, 0)
         | Some blocks \<Rightarrow>
             let kept = filter (\<lambda>b. get_str ''type'' b \<noteq> Some ''thinking'') blocks
             in (set_key ''content'' (JArr kept) message, length blocks - length kept)))"

definition strip_anthropic_thinking :: "json \<Rightarrow> json \<times> nat" where
  "strip_anthropic_thinking request =
     (case get_arr ''messages'' request of
        None \<Rightarrow> (request, 0)
      | Some messages \<Rightarrow>
          let boundary = unwrap_or (length messages) (rposition is_human_message messages);
              done = map strip_thinking_blocks (take boundary messages)
          in (set_key ''messages'' (JArr (map fst done @ drop boundary messages)) request,
              sum_list (map snd done)))"

section \<open>Prefix hash\<close>

text \<open>
  The bytes fed to the hasher: for each section that is present its name, a zero byte, its length
  as eight little-endian bytes, and its text. SHA-256 itself is a parameter.
\<close>

fun le_bytes :: "nat \<Rightarrow> nat \<Rightarrow> string" where
  "le_bytes 0 n = []"
| "le_bytes (Suc k) n = char_of (n mod 256) # le_bytes k (n div 256)"

definition section_bytes :: "codec \<Rightarrow> members \<Rightarrow> string \<Rightarrow> string" where
  "section_bytes c body name =
     (case mget body name of
        None \<Rightarrow> []
      | Some value \<Rightarrow>
          let bytes = to_text c value
          in name @ [CHR 0x00] @ le_bytes 8 (length bytes) @ bytes)"

definition hex_digit :: "nat \<Rightarrow> char" where
  "hex_digit n = ''0123456789abcdef'' ! n"

definition hex_byte :: "char \<Rightarrow> string" where
  "hex_byte b = [hex_digit (of_char b div 16), hex_digit (of_char b mod 16)]"

definition to_hex :: "string \<Rightarrow> string" where
  "to_hex bytes = concat (map hex_byte bytes)"

definition stable_prefix_hash :: "codec \<Rightarrow> (string \<Rightarrow> string) \<Rightarrow> members \<Rightarrow> string \<times> nat" where
  "stable_prefix_hash c sha256 body =
     (let sections = [''system'', ''messages'', ''tools'']
      in (to_hex (sha256 (concat (map (section_bytes c body) sections))),
          sum_list (map (\<lambda>s. case mget body s of None \<Rightarrow> 0 | Some v \<Rightarrow> length (to_text c v))
                      sections)))"

section \<open>Token estimation\<close>

text \<open>
  Over the bytes of a UTF-8 string: an ASCII character is a byte below 128, any other character
  has exactly one byte that is not a continuation byte (128 to 191).
\<close>

definition is_ascii_byte :: "char \<Rightarrow> bool" where
  "is_ascii_byte b \<longleftrightarrow> (of_char b :: nat) < 128"

definition is_lead_byte :: "char \<Rightarrow> bool" where
  "is_lead_byte b \<longleftrightarrow> (of_char b :: nat) \<ge> 192"

definition div_ceil :: "nat \<Rightarrow> nat \<Rightarrow> nat" where
  "div_ceil n k = (n + k - 1) div k"

definition estimate_string_tokens :: "string \<Rightarrow> nat" where
  "estimate_string_tokens text =
     div_ceil (length (filter is_ascii_byte text)) 4 + length (filter is_lead_byte text) * 2"

definition est_opt :: "string option \<Rightarrow> nat" where
  "est_opt s = (case s of None \<Rightarrow> 0 | Some t \<Rightarrow> estimate_string_tokens t)"

definition estimate_texts :: "json list \<Rightarrow> nat" where
  "estimate_texts parts = sum_list (map (\<lambda>p. est_opt (get_str ''text'' p)) parts)"

definition estimate_block_tokens :: "codec \<Rightarrow> json \<Rightarrow> nat" where
  "estimate_block_tokens c block =
     (let kind = unwrap_or [] (get_str ''type'' block)
      in if kind = ''text'' then est_opt (get_str ''text'' block)
         else if kind = ''thinking'' \<or> kind = ''redacted_thinking''
           then est_opt (get_str ''thinking'' block) + 8
         else if kind = ''tool_use''
           then 8 + est_opt (get_str ''name'' block)
                + est_opt (map_option (canonical_json_string c) (get ''input'' block))
         else if kind = ''tool_result''
           then 8 + (case get ''content'' block of
                       Some (JStr text) \<Rightarrow> estimate_string_tokens text
                     | Some (JArr parts) \<Rightarrow> estimate_texts parts
                     | _ \<Rightarrow> 0)
         else if kind = ''image'' \<or> kind = ''document'' then 1024
         else 16)"

definition estimate_message_tokens :: "codec \<Rightarrow> json \<Rightarrow> nat" where
  "estimate_message_tokens c message =
     (case get ''content'' message of
        Some (JStr text) \<Rightarrow> estimate_string_tokens text
      | Some (JArr blocks) \<Rightarrow> sum_list (map (estimate_block_tokens c) blocks)
      | _ \<Rightarrow> 0)"

definition estimate_tool_tokens :: "codec \<Rightarrow> json \<Rightarrow> nat" where
  "estimate_tool_tokens c tool =
     8 + est_opt (get_str ''name'' tool) + est_opt (get_str ''description'' tool)
       + est_opt (map_option (canonical_json_string c) (get ''input_schema'' tool)) div 2"

definition estimate_anthropic_tokens :: "codec \<Rightarrow> json \<Rightarrow> nat" where
  "estimate_anthropic_tokens c request =
     16
     + (case get ''system'' request of
          Some (JStr text) \<Rightarrow> estimate_string_tokens text
        | Some (JArr blocks) \<Rightarrow> estimate_texts blocks
        | _ \<Rightarrow> 0)
     + (case get_arr ''messages'' request of
          None \<Rightarrow> 0
        | Some messages \<Rightarrow> sum_list (map (\<lambda>m. 8 + estimate_message_tokens c m) messages))
     + (case get_arr ''tools'' request of
          None \<Rightarrow> 0
        | Some tools \<Rightarrow> sum_list (map (estimate_tool_tokens c) tools))
     + (case Option.bind (pointer2 ''thinking'' ''budget_tokens'' request) as_u64 of
          None \<Rightarrow> 0
        | Some budget \<Rightarrow> unat budget div 4)"

section \<open>Thinking exposure\<close>

datatype thinking_exposure = Requested | NotRequested

definition resolve_exposure :: "json option \<Rightarrow> thinking_exposure" where
  "resolve_exposure thinking =
     (case thinking of
        Some value \<Rightarrow>
          if get_str ''type'' value = Some ''enabled'' then Requested else NotRequested
      | None \<Rightarrow> NotRequested)"

section \<open>Parts of a chat body\<close>

text \<open>The object literals both request converters build.\<close>

definition opt_member :: "string \<Rightarrow> json option \<Rightarrow> members" where
  "opt_member k v = (case v of None \<Rightarrow> [] | Some x \<Rightarrow> [(k, x)])"

definition float_member :: "codec \<Rightarrow> members \<Rightarrow> string \<Rightarrow> members" where
  "float_member c object k =
     opt_member k (map_option (\<lambda>b. JNum (Flt b)) (Option.bind (mget object k) (as_f64 c)))"

definition text_part :: "string \<Rightarrow> json" where
  "text_part s = JObj [(''type'', JStr ''text''), (''text'', JStr s)]"

definition image_url_part :: "string \<Rightarrow> json" where
  "image_url_part url =
     JObj [(''type'', JStr ''image_url''), (''image_url'', JObj [(''url'', JStr url)])]"

definition function_call :: "string \<Rightarrow> string \<Rightarrow> string \<Rightarrow> json" where
  "function_call call_id name arguments =
     JObj [(''id'', JStr call_id), (''type'', JStr ''function''),
           (''function'', JObj [(''name'', JStr name), (''arguments'', JStr arguments)])]"

definition multimodal_content :: "string list \<Rightarrow> json list \<Rightarrow> json" where
  "multimodal_content texts images =
     (if images = [] then JStr (join [LF] texts)
      else JArr ((if texts = [] then [] else [text_part (join [LF] texts)]) @ images))"

definition user_message :: "json \<Rightarrow> json" where
  "user_message content = JObj [(''role'', JStr ''user''), (''content'', content)]"

lemma opt_member_keys: "fst ` set (opt_member k v) \<subseteq> {k}"
  by (auto simp: opt_member_def split: option.splits)

lemma opt_member_get: "mget (opt_member k v) j = (if j = k then v else None)"
  by (auto simp: opt_member_def split: option.splits)

end
