(* ===== verification/Policy_Props.thy ===== *)
theory Policy_Props
  imports Policy
begin

text \<open>
  Correctness of the request policy: what each pass may change, that the passes are idempotent,
  that canonical JSON does not depend on member order, and that the token estimate is never below
  a quarter of the bytes.
\<close>

section \<open>Enumerated message passes\<close>

text \<open>
  Both body passes rewrite the message list position by position; this is the law they share.
\<close>

lemma nth_enumerated [simp]: "i < length xs \<Longrightarrow> enumerate 0 xs ! i = (i, xs ! i)"
  by (simp add: nth_enumerate_eq)

lemma rposition_cong:
  assumes "length ys = length xs" and "\<And>i. i < length xs \<Longrightarrow> P (ys ! i) = P (xs ! i)"
  shows "rposition P ys = rposition P xs"
proof -
  have "map P ys = map P xs"
    using assms by (auto simp: list_eq_iff_nth_eq)
  moreover have "find_pos P (rev zs) = find_pos id (rev (map P zs))" for zs
  proof -
    have "find_pos P us = find_pos id (map P us)" for us
      by (induction us) auto
    then show ?thesis by (simp add: rev_map)
  qed
  ultimately show ?thesis
    using assms(1) by (simp add: rposition_def)
qed

lemma map_fst_zero:
  "(\<And>x. x \<in> set xs \<Longrightarrow> f x = (g x, 0)) \<Longrightarrow> sum_list (map snd (map f xs)) = (0::nat)"
  by (induction xs) auto

section \<open>Reasoning strip\<close>

lemma strip_message_get:
  assumes "wf_json message" and "k \<noteq> ''reasoning_content''"
  shows "get k (fst (strip_reasoning_message c b (i, message))) = get k message"
  using assms
  by (cases message)
     (auto simp: strip_reasoning_message_def map_of_mremove split: option.splits)

lemma strip_message_role:
  assumes "wf_json message"
  shows "role_is r (fst (strip_reasoning_message c b (i, message))) = role_is r message"
  using strip_message_get [OF assms, of "''role''" c b i]
  by (simp add: role_is_def get_str_def)

lemma strip_message_removed:
  assumes "wf_json message" and "i < b" and "role_is ''assistant'' message"
  shows "get ''reasoning_content'' (fst (strip_reasoning_message c b (i, message))) = None"
  using assms
  by (cases message)
     (auto simp: strip_reasoning_message_def map_of_mremove split: option.splits)

lemma strip_message_again:
  assumes "get ''reasoning_content'' message = None \<or> \<not> (i < b \<and> role_is ''assistant'' message)"
  shows "strip_reasoning_message c b (i, message) = (message, 0)"
  using assms
  by (cases message) (auto simp: strip_reasoning_message_def split: option.splits)

lemma strip_body:
  assumes "mget body ''messages'' = Some (JArr ms)"
  shows "strip_historical_reasoning c body =
    (let done = map (strip_reasoning_message c (reasoning_epoch_boundary ms)) (enumerate 0 ms)
     in (minsert ''messages'' (JArr (map fst done)) body, sum_list (map snd done)))"
  using assms by (simp add: strip_historical_reasoning_def)

lemma epoch_strip_same:
  assumes "\<forall>m \<in> set ms. wf_json m"
  shows "reasoning_epoch_boundary
      (map fst (map (strip_reasoning_message c b) (enumerate 0 ms))) = reasoning_epoch_boundary ms"
proof -
  have "rposition (role_is ''user'') (map fst (map (strip_reasoning_message c b) (enumerate 0 ms)))
      = rposition (role_is ''user'') ms"
    by (rule rposition_cong) (use assms in \<open>auto simp: strip_message_role\<close>)
  then show ?thesis by (simp add: reasoning_epoch_boundary_def)
qed


lemma strip_twice:
  assumes "mget body ''messages'' = Some (JArr ms)" and "\<forall>m \<in> set ms. wf_json m"
  shows "strip_historical_reasoning c (fst (strip_historical_reasoning c body)) =
    (fst (strip_historical_reasoning c body), 0)"
proof -
  let ?b = "reasoning_epoch_boundary ms"
  let ?ms' = "map fst (map (strip_reasoning_message c ?b) (enumerate 0 ms))"
  let ?body' = "minsert ''messages'' (JArr ?ms') body"
  have body': "fst (strip_historical_reasoning c body) = ?body'"
    by (simp add: strip_body [OF assms(1)])
  have got: "mget ?body' ''messages'' = Some (JArr ?ms')"
    by (simp add: update_conv')
  have step: "strip_reasoning_message c ?b (i, ?ms' ! i) = (?ms' ! i, 0)" if "i < length ms" for i
    using assms(2) that
    by (intro strip_message_again) (auto simp: strip_message_role strip_message_removed)
  have again: "map (strip_reasoning_message c ?b) (enumerate 0 ?ms') = map (\<lambda>m. (m, 0)) ?ms'"
    using step by (auto simp: list_eq_iff_nth_eq)
  have "strip_historical_reasoning c ?body' = (minsert ''messages'' (JArr ?ms') ?body', 0)"
    unfolding strip_body [OF got] epoch_strip_same [OF assms(2)] again
    by (simp add: comp_def sum_list_0)
  then show ?thesis
    unfolding body' by (simp add: update_last)
qed

text \<open>stripping historical reasoning twice is the same as once, and the second pass removes 0 bytes.\<close>

theorem strip_historical_reasoning_idempotent:
  assumes "mget body ''messages'' = Some (JArr ms)" and "\<forall>m \<in> set ms. wf_json m"
  shows "strip_historical_reasoning c (fst (strip_historical_reasoning c body)) =
    (fst (strip_historical_reasoning c body), 0)"
  using assms by (rule strip_twice)

definition sample_history :: members where
  "sample_history =
     [(''messages'', JArr
        [JObj [(''role'', JStr ''assistant''), (''reasoning_content'', JStr ''old''), (''content'', JStr ''a'')],
         JObj [(''role'', JStr ''user''), (''content'', JStr ''q'')],
         JObj [(''role'', JStr ''assistant''), (''reasoning_content'', JStr ''new'')]])]"

lemma sample_history_messages:
  "\<exists>ms. mget sample_history ''messages'' = Some (JArr ms) \<and> (\<forall>m \<in> set ms. wf_json m)"
  by (simp add: sample_history_def)


theorem strip_historical_reasoning_idempotent_witness:
  "snd (strip_historical_reasoning sample_codec
     (fst (strip_historical_reasoning sample_codec sample_history))) = 0"
proof -
  obtain ms where ms: "mget sample_history ''messages'' = Some (JArr ms)" "\<forall>m \<in> set ms. wf_json m"
    using sample_history_messages by blast
  show ?thesis
    using strip_historical_reasoning_idempotent [OF ms, of sample_codec] by simp
qed

section \<open>Canonical JSON\<close>

text \<open>
  canonical JSON depends only on which members an object has, not on their order, and sorting
  the members of a value at every level first changes nothing: equal contents give equal text.
\<close>

theorem canonical_member_order:
  assumes "mset m = mset m'" and "distinct (map fst m)"
  shows "canonical_json_string c (JObj m) = canonical_json_string c (JObj m')
     \<and> canonical_json_string c (sort_json v) = canonical_json_string c v"
  using sort_json_perm [OF assms] canonical_sort_json by metis

theorem canonical_member_order_witness:
  "canonical_json_string sample_codec (JObj [(''b'', JNull), (''a'', JStr ''1'')]) =
   canonical_json_string sample_codec (JObj [(''a'', JStr ''1''), (''b'', JNull)])"
proof -
  have "mset [(''b'', JNull), (''a'', JStr ''1'')] = mset [(''a'', JStr ''1''), (''b'', JNull)]"
    and "distinct (map fst [(''b'', JNull), (''a'', JStr ''1'')])"
    by simp_all
  from canonical_member_order [OF this, of sample_codec JNull] show ?thesis by (rule conjunct1)
qed

section \<open>Canonical tool arguments\<close>

lemma canonicalize_call_get:
  "k \<noteq> ''function'' \<Longrightarrow> get k (fst (canonicalize_call c call)) = get k call"
  by (cases call)
     (auto simp: canonicalize_call_def Let_def update_conv' split: option.splits)

lemma canonicalize_call_function:
  "k \<noteq> ''arguments'' \<Longrightarrow> pointer2 ''function'' k (fst (canonicalize_call c call)) = pointer2 ''function'' k call"
  by (cases call)
     (auto simp: canonicalize_call_def pointer2_def Let_def update_conv'
       split: option.splits)

lemma canonicalize_call_again:
  assumes "\<And>a v. from_text c a = Some v \<Longrightarrow>
      from_text c (canonical_json_string c v) = Some (sort_json v)"
  shows "canonicalize_call c (fst (canonicalize_call c call)) = (fst (canonicalize_call c call), 0)"
proof (cases "\<exists>m f a v. call = JObj m \<and> mget m ''function'' = Some (JObj f) \<and>
    mget f ''arguments'' = Some (JStr a) \<and> from_text c a = Some v \<and> canonical_json_string c v \<noteq> a")
  case True
  then obtain m f a v where call: "call = JObj m" "mget m ''function'' = Some (JObj f)"
    "mget f ''arguments'' = Some (JStr a)" "from_text c a = Some v" "canonical_json_string c v \<noteq> a"
    by blast
  have "canonical_json_string c (sort_json v) = canonical_json_string c v"
    by (rule canonical_sort_json)
  with call assms [OF call(4)] show ?thesis
    by (simp add: canonicalize_call_def Let_def update_conv')
next
  case False
  then have "canonicalize_call c call = (call, 0)"
    by (cases call)
       (auto simp: canonicalize_call_def Let_def split: option.splits)
  then show ?thesis by simp
qed

lemma canonicalize_message_get:
  "k \<noteq> ''tool_calls'' \<Longrightarrow> get k (fst (canonicalize_message c l (i, message))) = get k message"
  by (cases message)
     (auto simp: canonicalize_message_def Let_def update_conv' split: option.splits)

lemma canonicalize_message_role:
  "role_is r (fst (canonicalize_message c l (i, message))) = role_is r message"
  using canonicalize_message_get [of "''role''" c l i message] by (simp add: role_is_def get_str_def)

lemma canonicalize_message_current:
  "l \<le> i \<or> \<not> role_is ''assistant'' message \<Longrightarrow> canonicalize_message c l (i, message) = (message, 0)"
  by (auto simp: canonicalize_message_def)

lemma canonicalize_message_calls:
  assumes "i < l" and "role_is ''assistant'' message" and "get_arr ''tool_calls'' message = Some calls"
  shows "get_arr ''tool_calls'' (fst (canonicalize_message c l (i, message))) =
    Some (map (fst \<circ> canonicalize_call c) calls)"
  using assms
  by (cases message)
     (auto simp: canonicalize_message_def Let_def update_conv' get_arr_Some)

lemma canonicalize_message_again:
  assumes law: "\<And>a v. from_text c a = Some v \<Longrightarrow>
      from_text c (canonical_json_string c v) = Some (sort_json v)"
  shows "canonicalize_message c l (i, fst (canonicalize_message c l (i, message))) =
    (fst (canonicalize_message c l (i, message)), 0)"
proof (cases "i < l \<and> role_is ''assistant'' message \<and> get_arr ''tool_calls'' message \<noteq> None")
  case True
  then obtain calls m where calls: "get_arr ''tool_calls'' message = Some calls" and m: "message = JObj m"
    by (cases message) (auto simp: get_arr_def)
  let ?done = "map (canonicalize_call c) calls"
  let ?message' = "set_key ''tool_calls'' (JArr (map fst ?done)) message"
  have one: "fst (canonicalize_message c l (i, message)) = ?message'"
    using True calls by (simp add: canonicalize_message_def Let_def)
  have role: "role_is ''assistant'' ?message'"
    using canonicalize_message_role [of "''assistant''" c l i message] True by (simp add: one)
  have got: "get_arr ''tool_calls'' ?message' = Some (map fst ?done)"
    by (simp add: m update_conv')
  have again: "map (canonicalize_call c) (map fst ?done) = map (\<lambda>x. (x, 0)) (map fst ?done)"
    by (simp add: canonicalize_call_again [OF law])
  have "canonicalize_message c l (i, ?message') =
      (set_key ''tool_calls'' (JArr (map fst ?done)) ?message', 0)"
    using True role got unfolding canonicalize_message_def
    by (simp add: again Let_def comp_def del: map_map) (simp add: comp_def sum_list_0)
  then show ?thesis unfolding one by (simp add: m)
next
  case False
  then have "canonicalize_message c l (i, message) = (message, 0)"
    by (auto simp: canonicalize_message_def split: option.splits)
  then show ?thesis by simp
qed

lemma canonicalize_body:
  assumes "mget body ''messages'' = Some (JArr ms)"
    and "rposition (\<lambda>m. role_is ''user'' m \<or> role_is ''tool'' m) ms = Some l"
  shows "canonicalize_tool_arguments c body =
    (let done = map (canonicalize_message c l) (enumerate 0 ms)
     in (minsert ''messages'' (JArr (map fst done)) body, sum_list (map snd done)))"
  using assms by (simp add: canonicalize_tool_arguments_def)

lemma last_action_same:
  assumes "length ms' = length ms"
    and "\<And>i. i < length ms \<Longrightarrow> \<forall>r. role_is r (ms' ! i) = role_is r (ms ! i)"
  shows "rposition (\<lambda>m. role_is ''user'' m \<or> role_is ''tool'' m) ms' =
    rposition (\<lambda>m. role_is ''user'' m \<or> role_is ''tool'' m) ms"
  by (rule rposition_cong) (use assms in auto)

text \<open>
  canonicalising historical tool arguments is idempotent, for a codec that reads back canonical
  text as the same value (members sorted): a second pass rewrites 0 arguments and leaves the body as
  it is, so the wire prefix is stable from turn to turn.
\<close>

theorem canonicalize_tool_arguments_idempotent:
  assumes law: "\<And>a v. from_text c a = Some v \<Longrightarrow>
      from_text c (canonical_json_string c v) = Some (sort_json v)"
    and ms: "mget body ''messages'' = Some (JArr ms)"
    and l: "rposition (\<lambda>m. role_is ''user'' m \<or> role_is ''tool'' m) ms = Some l"
  shows "canonicalize_tool_arguments c (fst (canonicalize_tool_arguments c body)) =
    (fst (canonicalize_tool_arguments c body), 0)"
proof -
  let ?ms' = "map fst (map (canonicalize_message c l) (enumerate 0 ms))"
  let ?body' = "minsert ''messages'' (JArr ?ms') body"
  have body': "fst (canonicalize_tool_arguments c body) = ?body'"
    by (simp add: canonicalize_body [OF ms l])
  have got: "mget ?body' ''messages'' = Some (JArr ?ms')"
    by (simp add: update_conv')
  have l': "rposition (\<lambda>m. role_is ''user'' m \<or> role_is ''tool'' m) ?ms' = Some l"
    by (subst last_action_same [of _ ms]) (simp_all add: canonicalize_message_role l)
  have again: "map (canonicalize_message c l) (enumerate 0 ?ms') = map (\<lambda>m. (m, 0)) ?ms'"
    by (auto simp: list_eq_iff_nth_eq canonicalize_message_again [OF law])
  have "canonicalize_tool_arguments c ?body' = (minsert ''messages'' (JArr ?ms') ?body', 0)"
    unfolding canonicalize_body [OF got l'] again by (simp add: comp_def sum_list_0)
  then show ?thesis
    unfolding body' by (simp add: update_last)
qed

definition sample_tool_history :: members where
  "sample_tool_history =
     [(''messages'', JArr
        [JObj [(''role'', JStr ''assistant''),
               (''tool_calls'', JArr [JObj [(''id'', JStr ''c1''),
                  (''function'', JObj [(''name'', JStr ''f''), (''arguments'', JStr ''{ }'')])]])],
         JObj [(''role'', JStr ''tool''), (''tool_call_id'', JStr ''c1'')]])]"

lemma sample_tool_history_messages:
  "\<exists>ms l. mget sample_tool_history ''messages'' = Some (JArr ms) \<and>
     rposition (\<lambda>m. role_is ''user'' m \<or> role_is ''tool'' m) ms = Some l"
  by (simp add: sample_tool_history_def role_is_def rposition_def)

lemma sample_codec_law:
  "from_text sample_codec a = Some v \<Longrightarrow>
     from_text sample_codec (canonical_json_string sample_codec v) = Some (sort_json v)"
  by (auto simp: sample_codec_def join_def split: if_splits)

theorem canonicalize_tool_arguments_idempotent_witness:
  "snd (canonicalize_tool_arguments sample_codec
     (fst (canonicalize_tool_arguments sample_codec sample_tool_history))) = 0"
proof -
  obtain ms l where "mget sample_tool_history ''messages'' = Some (JArr ms)"
    and "rposition (\<lambda>m. role_is ''user'' m \<or> role_is ''tool'' m) ms = Some l"
    using sample_tool_history_messages by blast
  from canonicalize_tool_arguments_idempotent [OF sample_codec_law this] show ?thesis by simp
qed

text \<open>
  canonicalisation touches nothing but \<open>function.arguments\<close> of the tool calls of assistant
  messages before the newest user or tool message: the messages keep their number and order, the
  current epoch is identical, and ids, names and every other member of each call survive.
\<close>

theorem canonicalize_tool_arguments_frame:
  assumes ms: "mget body ''messages'' = Some (JArr ms)"
    and l: "rposition (\<lambda>m. role_is ''user'' m \<or> role_is ''tool'' m) ms = Some l"
  shows "\<exists>ms'. mget (fst (canonicalize_tool_arguments c body)) ''messages'' = Some (JArr ms')
     \<and> length ms' = length ms
     \<and> (\<forall>i < length ms.
          (l \<le> i \<or> \<not> role_is ''assistant'' (ms ! i) \<longrightarrow> ms' ! i = ms ! i)
        \<and> (\<forall>k. k \<noteq> ''tool_calls'' \<longrightarrow> get k (ms' ! i) = get k (ms ! i))
        \<and> (\<forall>calls. i < l \<and> role_is ''assistant'' (ms ! i) \<and> get_arr ''tool_calls'' (ms ! i) = Some calls \<longrightarrow>
             (\<exists>calls'. get_arr ''tool_calls'' (ms' ! i) = Some calls' \<and> length calls' = length calls \<and>
               (\<forall>j < length calls.
                  (\<forall>k. k \<noteq> ''function'' \<longrightarrow> get k (calls' ! j) = get k (calls ! j)) \<and>
                  (\<forall>k. k \<noteq> ''arguments'' \<longrightarrow>
                     pointer2 ''function'' k (calls' ! j) = pointer2 ''function'' k (calls ! j))))))"
proof -
  let ?ms' = "map fst (map (canonicalize_message c l) (enumerate 0 ms))"
  have nth: "?ms' ! i = fst (canonicalize_message c l (i, ms ! i))" if "i < length ms" for i
    using that by simp
  have "mget (fst (canonicalize_tool_arguments c body)) ''messages'' = Some (JArr ?ms')"
    by (simp add: canonicalize_body [OF ms l] update_conv')
  moreover have "l \<le> i \<or> \<not> role_is ''assistant'' (ms ! i) \<longrightarrow> ?ms' ! i = ms ! i"
    if "i < length ms" for i
    unfolding nth [OF that] using canonicalize_message_current [of l i "ms ! i" c] by auto
  moreover have "get k (?ms' ! i) = get k (ms ! i)" if "i < length ms" "k \<noteq> ''tool_calls''" for i k
    unfolding nth [OF that(1)] by (rule canonicalize_message_get [OF that(2)])
  moreover have "\<exists>calls'. get_arr ''tool_calls'' (?ms' ! i) = Some calls' \<and> length calls' = length calls \<and>
      (\<forall>j < length calls. (\<forall>k. k \<noteq> ''function'' \<longrightarrow> get k (calls' ! j) = get k (calls ! j)) \<and>
        (\<forall>k. k \<noteq> ''arguments'' \<longrightarrow>
           pointer2 ''function'' k (calls' ! j) = pointer2 ''function'' k (calls ! j)))"
    if "i < length ms" "i < l" "role_is ''assistant'' (ms ! i)" "get_arr ''tool_calls'' (ms ! i) = Some calls"
    for i calls
    unfolding nth [OF that(1)]
    by (intro exI [of _ "map (fst \<circ> canonicalize_call c) calls"])
       (simp add: canonicalize_message_calls [OF that(2-4)] canonicalize_call_get canonicalize_call_function)
  ultimately show ?thesis by (intro exI [of _ ?ms']) simp
qed

theorem canonicalize_tool_arguments_frame_witness:
  "\<exists>ms'. mget (fst (canonicalize_tool_arguments sample_codec sample_tool_history)) ''messages'' = Some (JArr ms')"
proof -
  obtain ms l where "mget sample_tool_history ''messages'' = Some (JArr ms)"
    and "rposition (\<lambda>m. role_is ''user'' m \<or> role_is ''tool'' m) ms = Some l"
    using sample_tool_history_messages by blast
  from canonicalize_tool_arguments_frame [OF this, of sample_codec] show ?thesis
    by (elim exE conjE) (rule exI)
qed

section \<open>Billing header\<close>

lemma find_pos_split:
  assumes "find_pos P xs = Some n"
  obtains a x b where "xs = a @ x # b" and "length a = n" and "P x" and "\<forall>y \<in> set a. \<not> P y"
proof
  from find_pos_Some [OF assms] have n: "n < length xs" "P (xs ! n)" "\<forall>j < n. \<not> P (xs ! j)" by auto
  show "xs = take n xs @ xs ! n # drop (Suc n) xs" using n(1) by (rule id_take_nth_drop)
  show "length (take n xs) = n" using n(1) by simp
  show "P (xs ! n)" by (rule n(2))
  show "\<forall>y \<in> set (take n xs). \<not> P y" using n(1,3) by (auto simp: in_set_conv_nth)
qed

lemma cut_at_end:
  assumes "find_pos (\<lambda>c. c = LF \<or> c = CR) rest = None"
  shows "\<forall>x \<in> set rest. x \<noteq> LF \<and> x \<noteq> CR"
  using assms by (auto simp: find_pos_None)

lemma billing_cut:
  assumes "find_pos (\<lambda>c. c = LF \<or> c = CR) (a @ x # b) = Some (length a)" and "x = LF \<or> x = CR"
  shows "strip_billing_text (BILLING_HEADER_PREFIX @ a @ x # b)
    = (if starts_with [CR, LF] (x # b) then drop 1 b else b)"
proof -
  have pos: "0 < length BILLING_HEADER_PREFIX" by (simp add: BILLING_HEADER_PREFIX_def)
  have find: "find_pos (\<lambda>c. c = LF \<or> c = CR) (drop (length BILLING_HEADER_PREFIX)
      (BILLING_HEADER_PREFIX @ a @ x # b)) = Some (length a)"
    using assms(1) by simp
  have "strip_leading_billing_header (BILLING_HEADER_PREFIX @ a @ x # b) = length BILLING_HEADER_PREFIX
      + length a + (if starts_with [CR, LF] (x # b) then 2 else 1)"
    unfolding strip_leading_billing_header_def Let_def find
    using assms(2) by (auto simp: starts_with_def)
  then show ?thesis by (simp add: strip_billing_text_def pos)
qed

lemma strip_billing_line:
  assumes "starts_with BILLING_HEADER_PREFIX s"
  shows "\<exists>line eol. s = BILLING_HEADER_PREFIX @ line @ eol @ strip_billing_text s
    \<and> (\<forall>x \<in> set line. x \<noteq> LF \<and> x \<noteq> CR) \<and> eol \<in> {[], [LF], [CR], [CR, LF]}
    \<and> (eol = [] \<longrightarrow> strip_billing_text s = [])"
proof -
  from assms obtain rest where s: "s = BILLING_HEADER_PREFIX @ rest" by (rule starts_withE)
  have pos: "0 < length BILLING_HEADER_PREFIX" by (simp add: BILLING_HEADER_PREFIX_def)
  show ?thesis
  proof (cases "find_pos (\<lambda>c. c = LF \<or> c = CR) rest")
    case None
    then have "strip_billing_text s = []"
      using pos unfolding s
      by (simp add: strip_billing_text_def strip_leading_billing_header_def starts_with_def)
    with cut_at_end [OF None] s show ?thesis by (intro exI [of _ rest] exI [of _ "[]"]) simp
  next
    case (Some n)
    then obtain a x b where ab: "rest = a @ x # b" "length a = n" and x: "x = LF \<or> x = CR"
      and line: "\<forall>y \<in> set a. \<not> (y = LF \<or> y = CR)"
      by (rule find_pos_split)
    have cut: "strip_billing_text s = (if starts_with [CR, LF] (x # b) then drop 1 b else b)"
      using billing_cut [of a x b] Some x by (simp add: s ab)
    show ?thesis
    proof (cases "starts_with [CR, LF] (x # b)")
      case True
      then obtain r where "x # b = [CR, LF] @ r" by (rule starts_withE)
      then have "s = BILLING_HEADER_PREFIX @ a @ [CR, LF] @ strip_billing_text s"
        using cut True by (simp add: s ab)
      with line show ?thesis by blast
    next
      case False
      then have "s = BILLING_HEADER_PREFIX @ a @ [x] @ strip_billing_text s"
        using cut by (simp add: s ab)
      with line x show ?thesis by blast
    qed
  qed
qed

text \<open>
  the billing strip removes at most one leading line. Text that does not start with the billing
  prefix is unchanged; otherwise the text is the prefix, the rest of that line, one line terminator
  (or none at the end), and what is left: nothing after the first line is searched or removed.
\<close>

theorem strip_billing_one_line:
  "(\<not> starts_with BILLING_HEADER_PREFIX s \<longrightarrow> strip_billing_text s = s)
   \<and> (starts_with BILLING_HEADER_PREFIX s \<longrightarrow>
       (\<exists>line eol. s = BILLING_HEADER_PREFIX @ line @ eol @ strip_billing_text s
          \<and> (\<forall>x \<in> set line. x \<noteq> LF \<and> x \<noteq> CR) \<and> eol \<in> {[], [LF], [CR], [CR, LF]}
          \<and> (eol = [] \<longrightarrow> strip_billing_text s = [])))"
proof -
  have "strip_billing_text s = s" if "\<not> starts_with BILLING_HEADER_PREFIX s"
    using that by (simp add: strip_billing_text_def strip_leading_billing_header_def)
  with strip_billing_line [of s] show ?thesis by blast
qed

theorem strip_billing_one_line_witness:
  "strip_billing_text (BILLING_HEADER_PREFIX @ '' x'' @ [LF] @ ''System'') = ''System''
   \<and> strip_billing_text ''System'' = ''System''"
proof -
  have "\<not> starts_with BILLING_HEADER_PREFIX ''System''"
    by (simp add: starts_with_def BILLING_HEADER_PREFIX_def)
  with strip_billing_one_line [of "''System''"]
  have "strip_billing_text ''System'' = ''System''" by blast
  moreover have "strip_billing_text (BILLING_HEADER_PREFIX @ '' x'' @ [LF] @ ''System'') = ''System''"
    by (simp add: strip_billing_text_def strip_leading_billing_header_def starts_with_def
        BILLING_HEADER_PREFIX_def)
  ultimately show ?thesis by blast
qed

section \<open>Token estimate\<close>

text \<open>
  Well-formed UTF-8 as far as the estimate needs it: a character is an ASCII byte or a lead byte
  with at most three continuation bytes.
\<close>

function utf8_shaped :: "string \<Rightarrow> bool" where
  "utf8_shaped [] = True"
| "utf8_shaped (b # bs) =
     (let k = length (takeWhile (\<lambda>x. \<not> is_ascii_byte x \<and> \<not> is_lead_byte x) bs)
      in (if is_ascii_byte b then k = 0 else is_lead_byte b \<and> k \<le> 3) \<and> utf8_shaped (drop k bs))"
  by pat_completeness auto
termination
  by (relation "measure length") auto

lemma estimate_app:
  "4 * estimate_string_tokens s \<ge>
     length (filter is_ascii_byte s) + 8 * length (filter is_lead_byte s)"
  by (simp add: estimate_string_tokens_def div_ceil_def)

lemma filter_continuation:
  assumes "\<forall>x \<in> set xs. \<not> is_ascii_byte x \<and> \<not> is_lead_byte x"
  shows "filter is_ascii_byte xs = []" and "filter is_lead_byte xs = []"
  using assms by (auto simp: filter_empty_conv)

lemma utf8_bytes:
  "utf8_shaped s \<Longrightarrow>
     length s \<le> length (filter is_ascii_byte s) + 4 * length (filter is_lead_byte s)"
proof (induction s rule: utf8_shaped.induct)
  case 1
  show ?case by simp
next
  case (2 b bs)
  let ?P = "\<lambda>x. \<not> is_ascii_byte x \<and> \<not> is_lead_byte x"
  define k where "k = length (takeWhile ?P bs)"
  have split: "bs = takeWhile ?P bs @ drop k bs"
    by (simp add: k_def flip: dropWhile_eq_drop)
  have cont: "\<forall>x \<in> set (takeWhile ?P bs). ?P x" by (auto dest: set_takeWhileD)
  have filters: "filter is_ascii_byte bs = filter is_ascii_byte (drop k bs)"
    "filter is_lead_byte bs = filter is_lead_byte (drop k bs)"
    using filter_continuation [OF cont] by (subst split, simp)+
  have len: "length bs = k + length (drop k bs)"
    by (subst split) (simp add: k_def)
  from "2.prems" have shaped: "utf8_shaped (drop k bs)"
    and b: "if is_ascii_byte b then k = 0 else is_lead_byte b \<and> k \<le> 3"
    by (simp_all add: k_def Let_def)
  from "2.IH" [OF refl] shaped
  have IH: "length (drop k bs) \<le> length (filter is_ascii_byte (drop k bs))
      + 4 * length (filter is_lead_byte (drop k bs))"
    by (simp add: k_def)
  have excl: "is_ascii_byte b \<Longrightarrow> \<not> is_lead_byte b"
    by (simp add: is_ascii_byte_def is_lead_byte_def)
  have ascii: "length (filter is_ascii_byte (b # bs)) =
      (if is_ascii_byte b then 1 else 0) + length (filter is_ascii_byte (drop k bs))"
    by (simp add: filters(1))
  have lead: "length (filter is_lead_byte (b # bs)) =
      (if is_lead_byte b then 1 else 0) + length (filter is_lead_byte (drop k bs))"
    by (simp add: filters(2))
  have "length (b # bs) = Suc (k + length (drop k bs))"
    using len by (simp only: list.size)
  then show ?case
    unfolding ascii lead using IH b excl by (auto split: if_splits)
qed

text \<open>
  the token estimate is biased high, never low: four times the estimate of a UTF-8 string is at
  least its number of bytes (so at most four bytes are ever counted per token).
\<close>

theorem estimate_at_least_quarter_of_bytes:
  assumes "utf8_shaped s"
  shows "length s \<le> 4 * estimate_string_tokens s"
  using utf8_bytes [OF assms] estimate_app [of s] by linarith

theorem estimate_at_least_quarter_of_bytes_witness:
  "length ''hello'' \<le> 4 * estimate_string_tokens ''hello''"
proof -
  have "utf8_shaped ''hello''"
    by (simp add: is_ascii_byte_def Let_def)
  then show ?thesis by (rule estimate_at_least_quarter_of_bytes)
qed

end
