(* ===== verification/Anthropic_Request.thy ===== *)
theory Anthropic_Request
  imports Policy
begin

text \<open>
  The Anthropic Messages request conversion (\<open>src/anthropic/request.rs\<close>): content blocks, user and
  assistant messages, the pending-tool-use check over the whole history, tools, tool choice, and the
  request itself.
\<close>

section \<open>Blocks\<close>

definition anth_clean_block :: "json \<Rightarrow> json" where
  "anth_clean_block block =
     (case as_object block of
        Some object \<Rightarrow> JObj (mremove ''citations'' (mremove ''cache_control'' object))
      | None \<Rightarrow> block)"

definition anth_convert_image_block :: "json \<Rightarrow> nat \<Rightarrow> protocol_error + json" where
  "anth_convert_image_block block index =
     (case Option.bind (get ''source'' block) as_object of
        None \<Rightarrow> Inl (PE ''messages[{index}]: image source must be an object'' [ANat index])
      | Some source \<Rightarrow>
          let kind = mstr source ''type''
          in if kind = Some ''base64'' then
               (let media_type = unwrap_or ''image/png'' (mstr source ''media_type'');
                    data = unwrap_or [] (mstr source ''data'')
                in Inr (image_url_part (''data:'' @ media_type @ '';base64,'' @ data)))
             else if kind = Some ''url'' then
               Inr (image_url_part (unwrap_or [] (mstr source ''url'')))
             else
               Inl (PE ''messages[{index}]: unsupported image source {other:?}''
                      [ANat index, AOpt kind]))"

text \<open>\<open>trim_matches\<close> of the double quote: all of them, at both ends.\<close>

definition trim_quotes :: "string \<Rightarrow> string" where
  "trim_quotes s =
     (let q = (\<lambda>x. x = CHR 0x22) in rev (dropWhile q (rev (dropWhile q s))))"

definition file_part :: "string \<Rightarrow> string \<Rightarrow> json" where
  "file_part filename file_data =
     JObj [(''type'', JStr ''file''),
           (''file'', JObj [(''filename'', JStr filename), (''file_data'', JStr file_data)])]"

definition anth_convert_document_block :: "codec \<Rightarrow> json \<Rightarrow> nat \<Rightarrow> protocol_error + json" where
  "anth_convert_document_block c block index =
     (case Option.bind (get ''source'' block) as_object of
        None \<Rightarrow> Inl (PE ''messages[{index}]: document source must be an object'' [ANat index])
      | Some source \<Rightarrow>
          let filename = unwrap_or ''document'' (get_str ''title'' block);
              kind = mstr source ''type''
          in if kind = Some ''base64'' then
               (let media_type = unwrap_or ''application/pdf'' (mstr source ''media_type'');
                    data = unwrap_or [] (mstr source ''data'')
                in Inr (file_part filename (''data:'' @ media_type @ '';base64,'' @ data)))
             else if kind = Some ''text'' then
               (let encoded = canonical_json_string c (JStr (unwrap_or [] (mstr source ''data'')))
                in Inr (file_part filename (''data:text/plain;base64,'' @ trim_quotes encoded)))
             else
               Inl (PE ''messages[{index}]: unsupported document source {other:?}''
                      [ANat index, AOpt kind]))"

text \<open>One content part of a tool result, added to the collected texts and media parts.\<close>

definition anth_tool_result_part ::
    "codec \<Rightarrow> nat \<Rightarrow> string list \<times> json list \<Rightarrow> json \<Rightarrow> protocol_error + string list \<times> json list" where
  "anth_tool_result_part c index acc part0 =
     (case acc of (texts, images) \<Rightarrow>
        let part = anth_clean_block part0
        in case get_str ''type'' part of
             None \<Rightarrow> Inr (texts, images)
           | Some kind \<Rightarrow>
               if kind = ''text'' then
                 Inr (texts @ [unwrap_or [] (get_str ''text'' part)], images)
               else if kind = ''image'' then
                 rbind (anth_convert_image_block part index) (\<lambda>p. Inr (texts, images @ [p]))
               else if kind = ''document'' then
                 rbind (anth_convert_document_block c part index) (\<lambda>p. Inr (texts, images @ [p]))
               else if kind = ''tool_reference'' then
                 Inr (texts @ [''[tool reference: '' @ unwrap_or ''?'' (get_str ''tool_name'' part) @ '']''],
                      images)
               else if kind = ''search_result'' then
                 (let title = unwrap_or [] (get_str ''title'' part);
                      url = unwrap_or [] (get_str ''url'' part)
                  in Inr (texts @ [title @ [LF] @ url]
                            @ (case get_str ''content'' part of None \<Rightarrow> [] | Some quoted \<Rightarrow> [quoted]),
                          images))
               else
                 Inl (PE ''messages[{index}]: unsupported tool_result content block {other:?}''
                        [ANat index, AStr kind]))"

definition anth_convert_tool_result :: "codec \<Rightarrow> json \<Rightarrow> nat \<Rightarrow> protocol_error + json" where
  "anth_convert_tool_result c block index =
     rbind (ok_or (PE ''messages[{index}]: tool_result requires tool_use_id'' [ANat index])
              (non_empty (get_str ''tool_use_id'' block)))
       (\<lambda>tool_use_id.
          rbind
            (case get ''content'' block of
               None \<Rightarrow> Inr (JStr [])
             | Some JNull \<Rightarrow> Inr (JStr [])
             | Some (JStr s) \<Rightarrow> Inr (JStr s)
             | Some (JArr parts) \<Rightarrow>
                 rbind (rfold (anth_tool_result_part c index) ([], []) parts)
                   (\<lambda>(texts, images). Inr (multimodal_content texts images))
             | Some _ \<Rightarrow> Inl (PE ''messages[{index}]: invalid tool_result content'' [ANat index]))
            (\<lambda>content. Inr (JObj [(''role'', JStr ''tool''), (''tool_call_id'', JStr tool_use_id),
                                   (''content'', content)])))"

section \<open>User messages\<close>

definition anth_user_block ::
    "codec \<Rightarrow> nat \<Rightarrow> json list \<times> json list \<Rightarrow> json \<Rightarrow> protocol_error + json list \<times> json list" where
  "anth_user_block c index acc block0 =
     (case acc of (tool_messages, ordinary) \<Rightarrow>
        let block = anth_clean_block block0;
            kind = unwrap_or [] (get_str ''type'' block)
        in if kind = ''text'' then
             (let s = unwrap_or [] (get_str ''text'' block)
              in Inr (tool_messages, if s = [] then ordinary else ordinary @ [text_part s]))
           else if kind = ''image'' then
             rbind (anth_convert_image_block block index) (\<lambda>p. Inr (tool_messages, ordinary @ [p]))
           else if kind = ''document'' then
             rbind (anth_convert_document_block c block index)
               (\<lambda>p. Inr (tool_messages, ordinary @ [p]))
           else if kind = ''tool_result'' then
             rbind (anth_convert_tool_result c block index)
               (\<lambda>p. Inr (tool_messages @ [p], ordinary))
           else if kind = ''thinking'' \<or> kind = ''redacted_thinking'' then
             Inl (PE ''messages[{index}]: thinking blocks are not valid in user messages'' [ANat index])
           else
             Inl (PE ''messages[{index}]: unsupported content block type {other:?}''
                    [ANat index, AStr kind]))"

text \<open>The remaining human content after the tool messages: nothing, a plain string, or parts.\<close>

definition ordinary_messages :: "json list \<Rightarrow> json list" where
  "ordinary_messages ordinary =
     (case ordinary of
        [] \<Rightarrow> []
      | [p] \<Rightarrow> if get_str ''type'' p = Some ''text''
               then [user_message (JStr (unwrap_or [] (get_str ''text'' p)))]
               else [user_message (JArr [p])]
      | _ \<Rightarrow> [user_message (JArr ordinary)])"

definition anth_convert_user_message ::
    "codec \<Rightarrow> members \<Rightarrow> nat \<Rightarrow> protocol_error + json list" where
  "anth_convert_user_message c message index =
     (case unwrap_or JNull (mget message ''content'') of
        JStr s \<Rightarrow> Inr [user_message (JStr s)]
      | JArr blocks \<Rightarrow>
          rbind (rfold (anth_user_block c index) ([], []) blocks)
            (\<lambda>(tool_messages, ordinary). Inr (tool_messages @ ordinary_messages ordinary))
      | _ \<Rightarrow> Inl (PE ''messages[{index}].content must be a string or block array'' [ANat index]))"

section \<open>Assistant messages\<close>

record segment =
  text_parts :: "string list"
  reasoning_parts :: "string list"
  tool_calls :: "json list"

definition empty_segment :: segment where
  "empty_segment = \<lparr>text_parts = [], reasoning_parts = [], tool_calls = []\<rparr>"

definition segment_is_empty :: "segment \<Rightarrow> bool" where
  "segment_is_empty g \<longleftrightarrow> text_parts g = [] \<and> reasoning_parts g = [] \<and> tool_calls g = []"

definition segment_into_message :: "segment \<Rightarrow> json" where
  "segment_into_message g =
     (let s = join [LF, LF] (text_parts g)
      in JObj ([(''role'', JStr ''assistant''), (''content'', if s = [] then JNull else JStr s)]
         @ (if reasoning_parts g = [] then []
            else [(''reasoning_content'', JStr (join [LF, LF] (reasoning_parts g)))])
         @ (if tool_calls g = [] then [] else [(''tool_calls'', JArr (tool_calls g))])))"

definition anth_tool_use :: "codec \<Rightarrow> nat \<Rightarrow> json \<Rightarrow> protocol_error + json" where
  "anth_tool_use c index block =
     rbind (ok_or (PE ''messages[{index}]: tool_use requires id'' [ANat index])
              (non_empty (get_str ''id'' block)))
       (\<lambda>call_id. rbind (ok_or (PE ''messages[{index}]: tool_use requires name'' [ANat index])
                      (non_empty (get_str ''name'' block)))
          (\<lambda>name. let input = unwrap_or (JObj []) (get ''input'' block)
             in if \<not> is_object input
                then Inl (PE ''messages[{index}]: tool_use input must be an object'' [ANat index])
                else Inr (function_call call_id name (to_text c input))))"

definition anth_assistant_block ::
    "codec \<Rightarrow> nat \<Rightarrow> segment \<Rightarrow> json \<Rightarrow> protocol_error + segment" where
  "anth_assistant_block c index g block0 =
     (let block = anth_clean_block block0;
          kind = unwrap_or [] (get_str ''type'' block)
      in if kind = ''text'' then
           Inr (g\<lparr>text_parts := text_parts g @ [unwrap_or [] (get_str ''text'' block)]\<rparr>)
         else if kind = ''thinking'' then
           Inr (case get_str ''thinking'' block of
                  None \<Rightarrow> g
                | Some s \<Rightarrow> g\<lparr>reasoning_parts := reasoning_parts g @ [s]\<rparr>)
         else if kind = ''redacted_thinking'' then Inr g
         else if kind = ''tool_use'' then
           rbind (anth_tool_use c index block)
             (\<lambda>call. Inr (g\<lparr>tool_calls := tool_calls g @ [call]\<rparr>))
         else
           Inl (PE ''messages[{index}]: unsupported assistant content block {other:?}''
                  [ANat index, AStr kind]))"

definition anth_convert_assistant_message ::
    "codec \<Rightarrow> members \<Rightarrow> nat \<Rightarrow> protocol_error + json list" where
  "anth_convert_assistant_message c message index =
     (case unwrap_or JNull (mget message ''content'') of
        JStr s \<Rightarrow> Inr [JObj [(''role'', JStr ''assistant''), (''content'', JStr s)]]
      | JArr blocks \<Rightarrow>
          rbind (rfold (anth_assistant_block c index) empty_segment blocks)
            (\<lambda>g. Inr (if segment_is_empty g
                       then [JObj [(''role'', JStr ''assistant''), (''content'', JNull)]]
                       else [segment_into_message g]))
      | _ \<Rightarrow> Inl (PE ''messages[{index}].content must be a string or block array'' [ANat index]))"

section \<open>The message list\<close>

text \<open>
  \<open>pending\<close> is the ordered map of tool-use ids that have no result yet, each with the index of the
  message that made the call.
\<close>

type_synonym pending_calls = "(string, nat) table"

definition is_tool_message :: "json \<Rightarrow> bool" where
  "is_tool_message m \<longleftrightarrow> get_str ''role'' m = Some ''tool''"

definition settle_tool_result :: "nat \<Rightarrow> pending_calls \<Rightarrow> json \<Rightarrow> protocol_error + pending_calls" where
  "settle_tool_result index pending m =
     (if is_tool_message m then
        let call_id = unwrap_or [] (get_str ''tool_call_id'' m)
        in if map_of pending call_id = None
           then Inl (PE ''messages[{index}]: tool_result references unknown tool_use_id {tool_call_id:?}; each tool_result must follow the assistant message containing its tool_use''
                       [ANat index, AStr call_id])
           else Inr (AList.delete call_id pending)
      else Inr pending)"

definition register_call :: "nat \<Rightarrow> pending_calls \<Rightarrow> json \<Rightarrow> protocol_error + pending_calls" where
  "register_call index pending tool_call =
     (let call_id = unwrap_or [] (get_str ''id'' tool_call)
      in if map_of pending call_id \<noteq> None
         then Inl (PE ''messages[{index}]: duplicate tool_use id {id:?}'' [ANat index, AStr call_id])
         else Inr (bt_put call_id index pending))"

definition register_assistant ::
    "nat \<Rightarrow> pending_calls \<Rightarrow> json \<Rightarrow> protocol_error + pending_calls" where
  "register_assistant index pending m =
     rbind (case get ''tool_calls'' m of
              Some (JArr calls) \<Rightarrow> rfold (register_call index) pending calls
            | _ \<Rightarrow> Inr pending)
       (\<lambda>p. Inr (if is_tool_message m
                  then AList.delete (unwrap_or [] (get_str ''tool_call_id'' m)) p else p))"

definition system_reminder_text :: "members \<Rightarrow> string" where
  "system_reminder_text object =
     (case mget object ''content'' of
        Some (JStr s) \<Rightarrow> s
      | Some (JArr blocks) \<Rightarrow> join [LF] (List.map_filter (get_str ''text'') blocks)
      | _ \<Rightarrow> [])"

definition system_reminder :: "members \<Rightarrow> json" where
  "system_reminder object =
     user_message (JStr (''<system-reminder>'' @ [LF] @ system_reminder_text object
                         @ [LF] @ ''</system-reminder>''))"

definition convert_messages_step ::
    "codec \<Rightarrow> pending_calls \<times> json list \<Rightarrow> nat \<times> json
      \<Rightarrow> protocol_error + pending_calls \<times> json list" where
  "convert_messages_step c st im =
     (case st of (pending, out) \<Rightarrow> case im of (index, message) \<Rightarrow>
        case as_object message of
          None \<Rightarrow> Inl (PE ''messages[{index}] must be an object'' [ANat index])
        | Some object \<Rightarrow>
            let role = unwrap_or [] (mstr object ''role'')
            in if role = ''user'' then
                 rbind (anth_convert_user_message c object index)
                   (\<lambda>converted. rbind (rfold (settle_tool_result index) pending converted)
                      (\<lambda>pending'. Inr (pending', out @ converted)))
               else if role = ''assistant'' then
                 rbind (anth_convert_assistant_message c object index)
                   (\<lambda>converted. rbind (rfold (register_assistant index) pending converted)
                      (\<lambda>pending'. Inr (pending', out @ converted)))
               else if role = ''system'' \<or> role = ''developer'' then
                 Inr (pending, out @ [system_reminder object])
               else
                 Inl (PE ''messages[{index}].role {other:?} is not supported (expected user or assistant)''
                        [ANat index, AStr role]))"

definition anth_convert_messages :: "codec \<Rightarrow> json list \<Rightarrow> protocol_error + json list" where
  "anth_convert_messages c messages =
     rbind (rfold (convert_messages_step c) ([], []) (enumerate 0 messages))
       (\<lambda>(pending, out).
          case pending of
            (call_id, index) # _ \<Rightarrow>
              Inl (PE ''messages[{index}]: tool_use id {id:?} has no tool_result in the following message''
                     [ANat index, AStr call_id])
          | [] \<Rightarrow> Inr out)"

section \<open>Tools and tool choice\<close>

definition anth_convert_tool :: "nat \<Rightarrow> json \<Rightarrow> protocol_error + json" where
  "anth_convert_tool index tool =
     rbind (ok_or (PE ''tools[{index}] must be an object'' [ANat index]) (as_object tool))
       (\<lambda>object.
          if mget object ''function'' \<noteq> None then Inr tool
          else
            let kind = unwrap_or ''custom'' (mstr object ''type'')
            in if kind \<noteq> ''custom''
               then Inl (PE ''tools[{index}]: tool type {kind:?} is not supported''
                           [ANat index, AStr kind])
               else
                 rbind (ok_or (PE ''tools[{index}].name is required'' [ANat index])
                          (non_empty (mstr object ''name'')))
                   (\<lambda>name.
                      if (case mget object ''input_schema'' of
                            None \<Rightarrow> False | Some schema \<Rightarrow> \<not> is_object schema)
                      then Inl (PE ''tools[{index}].input_schema must be an object'' [ANat index])
                      else Inr (JObj [(''type'', JStr ''function''),
                                      (''function'',
                                       JObj ([(''name'', JStr name)]
                                         @ opt_member ''description''
                                             (map_option JStr (mstr object ''description''))
                                         @ opt_member ''parameters'' (mget object ''input_schema'')))])))"

definition anth_convert_tools :: "json list \<Rightarrow> protocol_error + json list" where
  "anth_convert_tools tools = traverse_idx anth_convert_tool 0 tools"

definition anth_convert_tool_choice :: "json \<Rightarrow> bool \<Rightarrow> protocol_error + json" where
  "anth_convert_tool_choice choice thinking_requested =
     rbind (ok_or (PE ''tool_choice must be an object'' []) (as_object choice))
       (\<lambda>object.
          let kind = unwrap_or [] (mstr object ''type'')
          in if thinking_requested \<and> kind \<noteq> ''auto''
             then Inl (PE ''thinking mode only supports tool_choice type \"auto\"'' [])
             else if kind = ''auto'' then Inr (JStr ''auto'')
             else if kind = ''any'' then Inr (JStr ''required'')
             else if kind = ''none'' then Inr (JStr ''none'')
             else if kind = ''tool'' then
               rbind (ok_or (PE ''tool_choice.type=tool requires name'' [])
                        (non_empty (mstr object ''name'')))
                 (\<lambda>name. Inr (JStr ''auto''))
             else Inl (PE ''unsupported tool_choice type {other:?}'' [AStr kind]))"

section \<open>The request\<close>

record converted =
  chat_body :: members
  thinking_requested :: bool
  client_model :: "string option"

definition stop_sequences_member :: "members \<Rightarrow> protocol_error + members" where
  "stop_sequences_member object =
     (case mget object ''stop_sequences'' of
        None \<Rightarrow> Inr []
      | Some stop \<Rightarrow>
          rbind (ok_or (PE ''stop_sequences must be an array'' []) (as_array stop))
            (\<lambda>sequences.
               if \<exists>s \<in> set sequences. as_str s = None
               then Inl (PE ''stop_sequences entries must be strings'' [])
               else Inr (if sequences = [] then [] else [(''stop'', JArr sequences)])))"

definition anth_tools_member :: "members \<Rightarrow> protocol_error + members" where
  "anth_tools_member object =
     (case Option.bind (mget object ''tools'') as_array of
        None \<Rightarrow> Inr []
      | Some tools \<Rightarrow>
          if tools = [] then Inr []
          else rbind (anth_convert_tools tools) (\<lambda>ts. Inr [(''tools'', JArr ts)]))"

definition tool_choice_member :: "members \<Rightarrow> bool \<Rightarrow> protocol_error + members" where
  "tool_choice_member object thinking =
     (case mget object ''tool_choice'' of
        None \<Rightarrow> Inr []
      | Some choice \<Rightarrow>
          rbind (anth_convert_tool_choice choice thinking) (\<lambda>v. Inr [(''tool_choice'', v)]))"

definition required_max_tokens :: "members \<Rightarrow> protocol_error + u64" where
  "required_max_tokens object =
     ok_or (PE ''max_tokens is required and must be a positive integer'' [])
       (filter_opt (\<lambda>v. 0 < v) (Option.bind (mget object ''max_tokens'') as_u64))"

definition required_messages :: "members \<Rightarrow> protocol_error + json list" where
  "required_messages object =
     rbind (ok_or (PE ''messages must be an array'' [])
              (Option.bind (mget object ''messages'') as_array))
       (\<lambda>messages. if messages = [] then Inl (PE ''messages must not be empty'' [])
                    else Inr messages)"

text \<open>The conversion of the object \<open>strip_billing_in_anthropic_system\<close> leaves.\<close>

definition convert_object :: "codec \<Rightarrow> members \<Rightarrow> string \<Rightarrow> protocol_error + converted" where
  "convert_object c object default_model =
     rbind (required_max_tokens object) (\<lambda>max_tokens.
     rbind (stop_sequences_member object) (\<lambda>stop.
     rbind (required_messages object) (\<lambda>messages.
     rbind (anth_convert_messages c messages) (\<lambda>out.
     rbind (anth_tools_member object) (\<lambda>tools.
     let thinking = (resolve_exposure (mget object ''thinking'') = Requested) in
     rbind (tool_choice_member object thinking) (\<lambda>choice.
       Inr \<lparr>chat_body =
              [(''model'', JStr default_model), (''max_tokens'', JNum (PosInt max_tokens))]
              @ float_member c object ''temperature''
              @ float_member c object ''top_p''
              @ opt_member ''top_k''
                  (map_option (\<lambda>n. JNum (PosInt n)) (Option.bind (mget object ''top_k'') as_u64))
              @ stop @ [(''messages'', JArr out)] @ tools @ choice,
            thinking_requested = thinking,
            client_model = mstr object ''model''\<rparr>))))))"

text \<open>The result is the converted request together with the mutated request.\<close>

definition anth_convert_request ::
    "codec \<Rightarrow> json \<Rightarrow> string \<Rightarrow> (protocol_error + converted) \<times> json" where
  "anth_convert_request c request default_model =
     (case as_object request of
        None \<Rightarrow> (Inl (PE ''request body must be a JSON object'' []), request)
      | Some _ \<Rightarrow>
          let request' = strip_billing_in_anthropic_system request
          in (rbind (ok_or (PE ''still an object'' []) (as_object request'))
                (\<lambda>object. convert_object c object default_model), request'))"

end
