(* ===== verification/Anthropic_Request_Props.thy ===== *)
theory Anthropic_Request_Props
  imports Anthropic_Request
begin

text \<open>
  Properties of the Anthropic request conversion: the converted history pairs every tool call with
  its result, keeps the ids in order, never mixes the roles up, and the tools and the sampling
  members go through as the client sent them.
\<close>

section \<open>The tool-call protocol of a chat history\<close>

text \<open>
  What the upstream requires of a history, as a state machine over its messages: the state is the
  set of open call ids; an assistant message opens fresh ids, a tool message closes an open one.
\<close>

definition call_ids :: "json \<Rightarrow> string list" where
  "call_ids m = (case get ''tool_calls'' m of
                   Some (JArr calls) \<Rightarrow> map (\<lambda>t. unwrap_or [] (get_str ''id'' t)) calls
                 | _ \<Rightarrow> [])"

definition result_id :: "json \<Rightarrow> string" where
  "result_id m = unwrap_or [] (get_str ''tool_call_id'' m)"

inductive tool_step :: "string set \<Rightarrow> json \<Rightarrow> string set \<Rightarrow> bool" where
  opens: "role_is ''assistant'' m \<Longrightarrow> distinct (call_ids m) \<Longrightarrow> set (call_ids m) \<inter> open = {} \<Longrightarrow>
            tool_step open m (open \<union> set (call_ids m))"
| closes: "role_is ''tool'' m \<Longrightarrow> result_id m \<in> open \<Longrightarrow> tool_step open m (open - {result_id m})"
| human: "role_is ''user'' m \<Longrightarrow> tool_step open m open"

inductive tool_run :: "string set \<Rightarrow> json list \<Rightarrow> string set \<Rightarrow> bool" where
  nil: "tool_run open [] open"
| cons: "tool_step open m mid \<Longrightarrow> tool_run mid ms end \<Longrightarrow> tool_run open (m # ms) end"

inductive_cases tool_runE [elim!]: "tool_run open (m # ms) end"

lemma tool_run_append: "tool_run a xs b \<Longrightarrow> tool_run b ys c \<Longrightarrow> tool_run a (xs @ ys) c"
  by (induction a xs b rule: tool_run.induct) (auto intro: tool_run.intros)

lemma tool_run_humans: "(\<And>m. m \<in> set ms \<Longrightarrow> role_is ''user'' m) \<Longrightarrow> tool_run a ms a"
  by (induction ms) (auto intro!: tool_run.intros tool_step.human)

section \<open>Shape of the converted messages\<close>

lemma user_message_role [simp]: "role_is ''user'' (user_message v)"
  by (simp add: role_is_def user_message_def get_str_def)

lemma role_distinct: "role_is a m \<Longrightarrow> role_is b m \<longleftrightarrow> a = b"
  by (auto simp: role_is_def)

lemma is_tool_message_role: "is_tool_message m \<longleftrightarrow> role_is ''tool'' m"
  by (simp add: is_tool_message_def role_is_def)

lemma tool_result_role:
  "anth_convert_tool_result c b i = Inr m \<Longrightarrow> role_is ''tool'' m"
  by (auto simp: anth_convert_tool_result_def role_is_def get_str_def split: option.splits json.splits)

lemma user_blocks_shape:
  assumes "rfold (anth_user_block c i) ([], []) blocks = Inr (tools, ordinary)"
  shows "\<forall>m \<in> set tools. role_is ''tool'' m"
proof -
  have "\<forall>m \<in> set (fst (tools, ordinary)). role_is ''tool'' m"
    using assms
  proof (rule rfold_invariant [where P = "\<lambda>a. \<forall>m \<in> set (fst a). role_is ''tool'' m"])
    show "\<forall>m \<in> set (fst ([], [])). role_is ''tool'' m" by simp
    fix a b a'
    assume "\<forall>m \<in> set (fst a). role_is ''tool'' m" and "anth_user_block c i a b = Inr a'"
    then show "\<forall>m \<in> set (fst a'). role_is ''tool'' m"
      by (cases a) (auto simp: anth_user_block_def Let_def tool_result_role split: if_splits)
  qed
  then show ?thesis by simp
qed

lemma ordinary_roles: "m \<in> set (ordinary_messages os) \<Longrightarrow> role_is ''user'' m"
  by (cases os rule: list.exhaust; cases "tl os")
     (auto simp: ordinary_messages_def split: if_splits)

lemma user_shape:
  assumes "anth_convert_user_message c m i = Inr out"
  obtains tools humans where "out = tools @ humans"
    and "\<forall>m \<in> set tools. role_is ''tool'' m" and "\<forall>m \<in> set humans. role_is ''user'' m"
proof -
  consider s where "out = [user_message (JStr s)]"
    | blocks tools ordinary where "rfold (anth_user_block c i) ([], []) blocks = Inr (tools, ordinary)"
        and "out = tools @ ordinary_messages ordinary"
    using assms by (auto simp: anth_convert_user_message_def split: json.splits)
  then show thesis
  proof cases
    case (1 s)
    then show thesis by (intro that [of "[]" out]) auto
  next
    case (2 blocks tools ordinary)
    with user_blocks_shape ordinary_roles show thesis by (intro that) auto
  qed
qed

lemma assistant_shape:
  assumes "anth_convert_assistant_message c m i = Inr out"
  obtains a where "out = [a]" and "role_is ''assistant'' a"
  using assms
  by (auto simp: anth_convert_assistant_message_def segment_into_message_def role_is_def Let_def
      split: json.splits if_splits)

section \<open>The pending map against the open ids\<close>

abbreviation open_ids :: "pending_calls \<Rightarrow> string set" where
  "open_ids p \<equiv> fst ` set p"

lemma wf_btree_delete: "wf_btree m \<Longrightarrow> wf_btree (AList.delete k m)"
proof (induction m)
  case Nil
  then show ?case by simp
next
  case (Cons p m)
  moreover have "set (AList.delete k m) \<subseteq> set m"
    by (induction m) auto
  ultimately show ?case by (cases p) (auto simp: wf_btree_def)
qed

lemma settle_run:
  assumes "rfold (settle_tool_result i) p ms = Inr q" and "wf_btree p"
    and "\<forall>m \<in> set ms. role_is ''tool'' m \<or> role_is ''user'' m"
  shows "tool_run (open_ids p) ms (open_ids q) \<and> wf_btree q"
  using assms
proof (induction ms arbitrary: p)
  case Nil
  then show ?case by (auto intro: tool_run.nil)
next
  case (Cons m ms)
  from Cons.prems obtain r where r: "settle_tool_result i p m = Inr r"
    and q: "rfold (settle_tool_result i) r ms = Inr q" by auto
  have step: "tool_step (open_ids p) m (open_ids r) \<and> wf_btree r"
  proof (cases "role_is ''tool'' m")
    case True
    with r have "result_id m \<in> open_ids p" and "r = AList.delete (result_id m) p"
      by (auto simp: settle_tool_result_def is_tool_message_role result_id_def Let_def
          map_of_eq_None_iff split: if_splits)
    with True Cons.prems(2) show ?thesis
      using tool_step.closes [OF True] by (simp add: wf_btree_delete fst_set_delete)
  next
    case False
    with Cons.prems(3) have "role_is ''user'' m" by simp
    with False r Cons.prems(2) show ?thesis
      by (auto simp: settle_tool_result_def is_tool_message_role intro: tool_step.human)
  qed
  with Cons.IH [OF q] Cons.prems(3) show ?case by (auto intro: tool_run.cons)
qed

lemma register_calls:
  assumes "rfold (register_call i) p calls = Inr q" and "wf_btree p"
  defines "cids \<equiv> map (\<lambda>t. unwrap_or [] (get_str ''id'' t)) calls"
  shows "distinct cids \<and> set cids \<inter> open_ids p = {} \<and> open_ids q = open_ids p \<union> set cids \<and> wf_btree q"
  using assms(1,2) unfolding cids_def
proof (induction calls arbitrary: p)
  case Nil
  then show ?case by simp
next
  case (Cons t calls)
  let ?k = "unwrap_or [] (get_str ''id'' t)"
  from Cons.prems(1) obtain r where r: "register_call i p t = Inr r"
    and q': "rfold (register_call i) r calls = Inr q" by auto
  from r have k: "?k \<notin> open_ids p" and "r = bt_put ?k i p"
    by (auto simp: register_call_def Let_def map_of_eq_None_iff split: if_splits)
  with q' have q: "rfold (register_call i) (bt_put ?k i p) calls = Inr q" by simp
  from Cons.IH [OF q wf_btree_bt_put [OF Cons.prems(2)]] k show ?case
    by auto
qed

lemma register_run:
  assumes "register_assistant i p a = Inr q" and "wf_btree p" and "role_is ''assistant'' a"
  shows "tool_step (open_ids p) a (open_ids q) \<and> wf_btree q"
proof -
  have nt: "\<not> is_tool_message a"
    using role_distinct [OF assms(3), of "''tool''"] by (simp add: is_tool_message_role)
  show ?thesis
  proof (cases "\<exists>calls. get ''tool_calls'' a = Some (JArr calls)")
    case True
    then obtain calls where calls: "get ''tool_calls'' a = Some (JArr calls)" by blast
    with assms(1) nt have "rfold (register_call i) p calls = Inr q"
      by (simp add: register_assistant_def)
    from register_calls [OF this assms(2)] have
      "distinct (call_ids a)" "set (call_ids a) \<inter> open_ids p = {}"
      "open_ids q = open_ids p \<union> set (call_ids a)" "wf_btree q"
      by (simp_all add: call_ids_def calls)
    with tool_step.opens [OF assms(3)] show ?thesis by metis
  next
    case False
    then have "q = p" and "call_ids a = []"
      using assms(1) nt by (auto simp: register_assistant_def call_ids_def split: option.splits json.splits)
    with tool_step.opens [OF assms(3), of "open_ids p"] assms(2) show ?thesis by simp
  qed
qed

section \<open>Pairing of calls and results\<close>

lemma convert_step_run:
  assumes "convert_messages_step c (p, out) (i, m) = Inr (q, out')" and "wf_btree p"
  shows "\<exists>new. out' = out @ new \<and> tool_run (open_ids p) new (open_ids q) \<and> wf_btree q"
proof -
  from assms(1) obtain obj where obj: "m = JObj obj"
    by (auto simp: convert_messages_step_def split: option.splits)
  let ?role = "unwrap_or [] (mstr obj ''role'')"
  consider (user) new where "anth_convert_user_message c obj i = Inr new"
        "rfold (settle_tool_result i) p new = Inr q" "out' = out @ new"
    | (assistant) new where "anth_convert_assistant_message c obj i = Inr new"
        "rfold (register_assistant i) p new = Inr q" "out' = out @ new"
    | (reminder) "q = p" "out' = out @ [system_reminder obj]"
    using assms(1) unfolding convert_messages_step_def obj
    by (auto simp: Let_def split: if_splits)
  then show ?thesis
  proof cases
    case user
    obtain tools humans where "new = tools @ humans"
      and "\<forall>m \<in> set tools. role_is ''tool'' m" and "\<forall>m \<in> set humans. role_is ''user'' m"
      using user_shape [OF user(1)] .
    then have "\<forall>m \<in> set new. role_is ''tool'' m \<or> role_is ''user'' m" by auto
    from settle_run [OF user(2) assms(2) this] user(3) show ?thesis by blast
  next
    case assistant
    obtain a where a: "new = [a]" "role_is ''assistant'' a"
      using assistant_shape [OF assistant(1)] .
    with assistant(2) have "register_assistant i p a = Inr q" by auto
    from register_run [OF this assms(2) a(2)] a assistant(3) show ?thesis
      by (auto intro!: tool_run.intros)
  next
    case reminder
    then show ?thesis
      using assms(2) by (auto intro!: tool_run_humans simp: system_reminder_def)
  qed
qed

lemma convert_fold_run:
  assumes "rfold (convert_messages_step c) (p, out) ims = Inr (q, out')" and "wf_btree p"
    and "tool_run {} out (open_ids p)"
  shows "tool_run {} out' (open_ids q)"
  using assms
proof (induction ims arbitrary: p out)
  case Nil
  then show ?case by simp
next
  case (Cons im ims)
  from Cons.prems(1) obtain r mid where r: "convert_messages_step c (p, out) im = Inr (r, mid)"
    and rest: "rfold (convert_messages_step c) (r, mid) ims = Inr (q, out')" by auto
  obtain i m where im: "im = (i, m)" by (cases im)
  from convert_step_run [OF r [unfolded im] Cons.prems(2)]
  obtain new where "mid = out @ new" "tool_run (open_ids p) new (open_ids r)" "wf_btree r"
    by blast
  with Cons.IH [OF rest] tool_run_append [OF Cons.prems(3)] show ?case by blast
qed

lemma convert_messages_fold:
  assumes "anth_convert_messages c ms = Inr out"
  shows "rfold (convert_messages_step c) ([], []) (enumerate 0 ms) = Inr ([], out)"
proof -
  from assms obtain p o' where
    fold: "rfold (convert_messages_step c) ([], []) (enumerate 0 ms) = Inr (p, o')"
    and "(case p of (k, i) # _ \<Rightarrow> Inl (PE ''messages[{index}]: tool_use id {id:?} has no tool_result in the following message'' [ANat i, AStr k])
          | [] \<Rightarrow> Inr o') = Inr out"
    by (auto simp: anth_convert_messages_def simp del: rfold.simps)
  then show ?thesis by (cases p) auto
qed

text \<open>
  every converted history obeys the chat-completions tool protocol, from no open call to no open
  call: an assistant message opens fresh, distinct call ids, each tool message answers exactly one
  open call, and no call is left without its result.
\<close>

theorem converted_history_pairs_tools:
  assumes "anth_convert_messages c messages = Inr out"
  shows "tool_run {} out {}"
  using convert_fold_run [OF convert_messages_fold [OF assms]]
  by (simp add: wf_btree_def tool_run.nil)

definition sample_conversation :: "json list" where
  "sample_conversation =
     [JObj [(''role'', JStr ''user''), (''content'', JStr ''go'')],
      JObj [(''role'', JStr ''assistant''),
            (''content'', JArr [JObj [(''type'', JStr ''tool_use''), (''id'', JStr ''a''),
                                       (''name'', JStr ''f''), (''input'', JObj [])]])],
      JObj [(''role'', JStr ''user''),
            (''content'', JArr [JObj [(''type'', JStr ''text''), (''text'', JStr ''ok'')],
                                 JObj [(''type'', JStr ''tool_result''), (''tool_use_id'', JStr ''a''),
                                       (''content'', JStr ''42'')]])]]"

definition sample_converted :: "json list" where
  "sample_converted =
     [user_message (JStr ''go''),
      JObj [(''role'', JStr ''assistant''), (''content'', JNull),
            (''tool_calls'', JArr [function_call ''a'' ''f'' ''{}''])],
      JObj [(''role'', JStr ''tool''), (''tool_call_id'', JStr ''a''), (''content'', JStr ''42'')],
      user_message (JStr ''ok'')]"

lemma sample_conversion: "anth_convert_messages sample_codec sample_conversation = Inr sample_converted"
  by code_simp

theorem converted_history_pairs_tools_witness:
  "anth_convert_messages sample_codec sample_conversation = Inr sample_converted
   \<and> tool_run {} sample_converted {}"
  using converted_history_pairs_tools [OF sample_conversion] sample_conversion by blast

section \<open>The calls and the results themselves\<close>




definition message_calls :: "json \<Rightarrow> json list" where
  "message_calls m = unwrap_or [] (get_arr ''tool_calls'' m)"







lemma message_calls_simps [simp]:
  "message_calls (user_message v) = []"
  "anth_convert_tool_result c b i = Inr m \<Longrightarrow> message_calls m = []"
  by (auto simp: message_calls_def user_message_def anth_convert_tool_result_def)










section \<open>Tools, tool choice and the request\<close>

text \<open>
  a converted tool keeps the client's name, description and schema value unchanged; a tool that
  is already in chat form goes through as it is; any other tool type is refused.
\<close>

theorem converted_tool_keeps_schema:
  assumes "anth_convert_tools tools = Inr out"
  shows "length out = length tools \<and>
    (\<forall>i < length tools.
       (get ''function'' (tools ! i) \<noteq> None \<longrightarrow> out ! i = tools ! i) \<and>
       (get ''function'' (tools ! i) = None \<longrightarrow>
          get ''type'' (out ! i) = Some (JStr ''function'') \<and>
          pointer2 ''function'' ''name'' (out ! i) = get ''name'' (tools ! i) \<and>
          pointer2 ''function'' ''description'' (out ! i)
            = map_option JStr (get_str ''description'' (tools ! i)) \<and>
          pointer2 ''function'' ''parameters'' (out ! i) = get ''input_schema'' (tools ! i)))"
proof -
  from traverse_idx_Inr [OF assms [unfolded anth_convert_tools_def]]
  have len: "length out = length tools"
    and each: "\<forall>i < length tools. anth_convert_tool i (tools ! i) = Inr (out ! i)" by auto
  show ?thesis
  proof (intro conjI allI impI, rule len)
    fix i assume i: "i < length tools"
    with each have conv: "anth_convert_tool i (tools ! i) = Inr (out ! i)" by simp
    then obtain obj where obj: "tools ! i = JObj obj" by (auto simp: anth_convert_tool_def)
    show "out ! i = tools ! i" if "get ''function'' (tools ! i) \<noteq> None"
      using that conv obj by (auto simp: anth_convert_tool_def)
    assume none: "get ''function'' (tools ! i) = None"
    with conv obj obtain name where name: "mstr obj ''name'' = Some name"
      and out: "out ! i = JObj [(''type'', JStr ''function''),
         (''function'', JObj ([(''name'', JStr name)]
            @ opt_member ''description'' (map_option JStr (mstr obj ''description''))
            @ opt_member ''parameters'' (mget obj ''input_schema'')))]"
      by (auto simp: anth_convert_tool_def Let_def split: if_splits)
    show "get ''type'' (out ! i) = Some (JStr ''function'')" by (simp add: out)
    show "pointer2 ''function'' ''name'' (out ! i) = get ''name'' (tools ! i)"
      using name by (simp add: out pointer2_def obj mstr_def)
    show "pointer2 ''function'' ''description'' (out ! i)
            = map_option JStr (get_str ''description'' (tools ! i))"
      by (simp add: out pointer2_def obj mstr_def opt_member_def split: option.split)
    show "pointer2 ''function'' ''parameters'' (out ! i) = get ''input_schema'' (tools ! i)"
      by (simp add: out pointer2_def obj opt_member_def split: option.split)
  qed
qed

theorem converted_tool_keeps_schema_witness:
  "let schema = JObj [(''type'', JStr ''object'')];
       tools = [JObj [(''name'', JStr ''f''), (''input_schema'', schema)]];
       out = [JObj [(''type'', JStr ''function''),
                    (''function'', JObj [(''name'', JStr ''f''), (''parameters'', schema)])]]
   in anth_convert_tools tools = Inr out
      \<and> pointer2 ''function'' ''parameters'' (out ! 0) = get ''input_schema'' (tools ! 0)"
proof -
  let ?schema = "JObj [(''type'', JStr ''object'')]"
  let ?tools = "[JObj [(''name'', JStr ''f''), (''input_schema'', ?schema)]]"
  let ?out = "[JObj [(''type'', JStr ''function''),
                     (''function'', JObj [(''name'', JStr ''f''), (''parameters'', ?schema)])]]"
  have conv: "anth_convert_tools ?tools = Inr ?out" by code_simp
  have "get ''function'' (?tools ! 0) = None" by simp
  with converted_tool_keeps_schema [OF conv] conv show ?thesis
    unfolding Let_def by (metis length_greater_0_conv list.distinct(1))
qed

lemma convert_request_object:
  "fst (anth_convert_request c (JObj m) d)
     = (case strip_billing_in_anthropic_system (JObj m) of
          JObj object \<Rightarrow> convert_object c object d | _ \<Rightarrow> Inl (PE ''still an object'' []))"
  using strip_billing_JObj [of m] by (auto simp: anth_convert_request_def Let_def)

lemma convert_object_cong:
  assumes "\<And>k. k \<noteq> ''system'' \<Longrightarrow> mget m k = mget m' k"
  shows "convert_object c m d = convert_object c m' d"
  using assms
  by (simp add: convert_object_def required_max_tokens_def stop_sequences_member_def
      required_messages_def anth_tools_member_def tool_choice_member_def float_member_def mstr_def)

text \<open>
  the top-level \<open>system\<close> prompt never reaches the upstream: the outcome of the conversion is the
  same whatever value it has, because no member of the chat body is built from it.
\<close>

theorem system_prompt_is_not_forwarded:
  "fst (anth_convert_request c (set_key ''system'' v (JObj m)) d)
     = fst (anth_convert_request c (JObj m) d)"
proof -
  obtain m1 m2 where m1: "strip_billing_in_anthropic_system (JObj (minsert ''system'' v m)) = JObj m1"
    and m2: "strip_billing_in_anthropic_system (JObj m) = JObj m2"
    using strip_billing_JObj by metis
  have "mget m1 k = mget m2 k" if "k \<noteq> ''system''" for k
    using strip_billing_other [OF that, of "minsert ''system'' v m"] strip_billing_other [OF that, of m]
      that m1 m2 by (simp add: update_conv')
  then have "convert_object c m1 d = convert_object c m2 d" by (rule convert_object_cong)
  then show ?thesis by (simp add: convert_request_object m1 m2)
qed

lemma convert_request_cases:
  assumes "fst (anth_convert_request c (JObj m) d) = Inr r"
  obtains max_tokens stop messages out tools choice where
    "Option.bind (mget m ''max_tokens'') as_u64 = Some max_tokens" and "0 < max_tokens"
    and "stop_sequences_member m = Inr stop"
    and "mget m ''messages'' = Some (JArr messages)" and "messages \<noteq> []"
    and "anth_convert_messages c messages = Inr out"
    and "anth_tools_member m = Inr tools"
    and "tool_choice_member m (thinking_requested r) = Inr choice"
    and "thinking_requested r = (resolve_exposure (mget m ''thinking'') = Requested)"
    and "chat_body r =
       [(''model'', JStr d), (''max_tokens'', JNum (PosInt max_tokens))]
       @ float_member c m ''temperature'' @ float_member c m ''top_p''
       @ opt_member ''top_k''
           (map_option (\<lambda>n. JNum (PosInt n)) (Option.bind (mget m ''top_k'') as_u64))
       @ stop @ [(''messages'', JArr out)] @ tools @ choice"
proof -
  obtain m' where m': "strip_billing_in_anthropic_system (JObj m) = JObj m'"
    using strip_billing_JObj by metis
  have "mget m' k = mget m k" if "k \<noteq> ''system''" for k
    using strip_billing_other [OF that, of m] m' by simp
  then have "convert_object c m' d = convert_object c m d" by (rule convert_object_cong)
  with assms have "convert_object c m d = Inr r" by (simp add: convert_request_object m')
  then show thesis
    by (clarsimp simp: convert_object_def required_max_tokens_def required_messages_def Let_def
        split: if_splits)
      (rule that; (assumption | simp))
qed

text \<open>The members a converted chat body can have.\<close>

definition chat_keys :: "string list" where
  "chat_keys = [''model'', ''max_tokens'', ''temperature'', ''top_p'', ''top_k'', ''stop'',
                ''messages'', ''tools'', ''tool_choice'']"

lemma member_part_get:
  "mget (float_member c m k) j
     = (if j = k then map_option (\<lambda>b. JNum (Flt b)) (Option.bind (mget m k) (as_f64 c)) else None)"
  "stop_sequences_member m = Inr stop \<Longrightarrow> j \<noteq> ''stop'' \<Longrightarrow> mget stop j = None"
  "anth_tools_member m = Inr tools \<Longrightarrow> j \<noteq> ''tools'' \<Longrightarrow> mget tools j = None"
  "tool_choice_member m t = Inr choice \<Longrightarrow> j \<noteq> ''tool_choice'' \<Longrightarrow> mget choice j = None"
  by (auto simp: float_member_def opt_member_get stop_sequences_member_def anth_tools_member_def
      tool_choice_member_def split: option.splits if_splits)

lemma tool_choice_value:
  assumes "tool_choice_member m t = Inr choice"
  shows "mget choice ''tool_choice'' \<in>
    {None, Some (JStr ''auto''), Some (JStr ''required''), Some (JStr ''none'')}"
    and "t \<Longrightarrow> mget choice ''tool_choice'' \<in> {None, Some (JStr ''auto'')}"
  using assms
  by (auto simp: tool_choice_member_def anth_convert_tool_choice_def Let_def
      split: option.splits if_splits)

text \<open>
  what an accepted request is turned into. The model is the configured one, \<open>max_tokens\<close> is the
  client's and positive, the messages are the converted history; the tool choice is absent or one of
  the three strings the upstream accepts, and only \<open>auto\<close> when the client asked for visible thinking;
  no other member than the nine of \<open>chat_keys\<close> is sent.
\<close>

theorem converted_request_members:
  assumes "fst (anth_convert_request c (JObj m) d) = Inr r"
  shows "mget (chat_body r) ''model'' = Some (JStr d)
    \<and> (\<exists>n > 0. mget m ''max_tokens'' = Some (JNum (PosInt n))
             \<and> mget (chat_body r) ''max_tokens'' = Some (JNum (PosInt n)))
    \<and> (\<exists>messages out. mget m ''messages'' = Some (JArr messages)
             \<and> anth_convert_messages c messages = Inr out
             \<and> mget (chat_body r) ''messages'' = Some (JArr out))
    \<and> mget (chat_body r) ''tool_choice''
        \<in> {None, Some (JStr ''auto''), Some (JStr ''required''), Some (JStr ''none'')}
    \<and> (thinking_requested r \<longrightarrow> mget (chat_body r) ''tool_choice'' \<in> {None, Some (JStr ''auto'')})
    \<and> (\<forall>k. k \<notin> set chat_keys \<longrightarrow> mget (chat_body r) k = None)"
proof -
  obtain mx stop messages out tools choice where
    mx: "Option.bind (mget m ''max_tokens'') as_u64 = Some mx" "0 < mx"
    and parts: "stop_sequences_member m = Inr stop" "anth_tools_member m = Inr tools"
      "tool_choice_member m (thinking_requested r) = Inr choice"
    and ms: "mget m ''messages'' = Some (JArr messages)" "anth_convert_messages c messages = Inr out"
    and body: "chat_body r =
       [(''model'', JStr d), (''max_tokens'', JNum (PosInt mx))]
       @ float_member c m ''temperature'' @ float_member c m ''top_p''
       @ opt_member ''top_k''
           (map_option (\<lambda>n. JNum (PosInt n)) (Option.bind (mget m ''top_k'') as_u64))
       @ stop @ [(''messages'', JArr out)] @ tools @ choice"
    by (rule convert_request_cases [OF assms]) (rule that)
  note absent = member_part_get(2) [OF parts(1)] member_part_get(3) [OF parts(2)]
    member_part_get(4) [OF parts(3)]
  have "mget m ''max_tokens'' = Some (JNum (PosInt mx))"
    using mx(1) by simp
  moreover have "mget (chat_body r) ''tool_choice'' = mget choice ''tool_choice''"
    by (simp add: body map_add_def member_part_get(1) opt_member_get absent split: option.split)
  moreover have "mget (chat_body r) ''messages'' = Some (JArr out)"
    by (simp add: body map_add_def member_part_get(1) opt_member_get absent)
  moreover have "mget (chat_body r) k = None" if "k \<notin> set chat_keys" for k
    using that
    by (simp add: body map_add_def member_part_get(1) opt_member_get absent chat_keys_def)
  ultimately show ?thesis
    using tool_choice_value [OF parts(3)] ms mx(2)
    by (simp add: body map_add_def member_part_get(1) opt_member_get absent split: option.split)
qed

theorem converted_request_members_witness:
  "let m = [(''max_tokens'', JNum (PosInt 5)), (''messages'', JArr sample_conversation),
            (''system'', JStr ''be nice''), (''tool_choice'', JObj [(''type'', JStr ''any'')])];
       body = [(''model'', JStr ''flash''), (''max_tokens'', JNum (PosInt 5)),
               (''messages'', JArr sample_converted), (''tool_choice'', JStr ''required'')]
   in fst (anth_convert_request sample_codec (JObj m) ''flash'')
        = Inr \<lparr>chat_body = body, thinking_requested = False, client_model = None\<rparr>
      \<and> mget body ''model'' = Some (JStr ''flash'')"
proof -
  let ?m = "[(''max_tokens'', JNum (PosInt 5)), (''messages'', JArr sample_conversation),
            (''system'', JStr ''be nice''), (''tool_choice'', JObj [(''type'', JStr ''any'')])]"
  let ?body = "[(''model'', JStr ''flash''), (''max_tokens'', JNum (PosInt 5)),
               (''messages'', JArr sample_converted), (''tool_choice'', JStr ''required'')]"
  have conv: "fst (anth_convert_request sample_codec (JObj ?m) ''flash'')
        = Inr \<lparr>chat_body = ?body, thinking_requested = False, client_model = None\<rparr>"
    by code_simp
  show ?thesis
    unfolding Let_def using conv converted_request_members [OF conv] by simp
qed

end
