(* ===== verification/Anthropic_Stream.thy ===== *)
theory Anthropic_Stream
  imports Json
begin

text \<open>
  The chat-completions to Anthropic Messages stream converter (\<open>src/anthropic/stream.rs\<close>,
  \<open>types.rs\<close>, \<open>response.rs\<close>). An emitted frame is a value of \<open>event\<close>; \<open>event_json\<close> and \<open>sse_event\<close>
  give its bytes. Every operation returns the new converter with the frames it appends to the
  caller's buffer.
\<close>

section \<open>Wire types\<close>

definition stop_reason_from_finish :: "string option \<Rightarrow> string" where
  "stop_reason_from_finish finish =
     (if finish = Some ''tool_calls'' \<or> finish = Some ''function_call'' then ''tool_use''
      else if finish = Some ''length'' then ''max_tokens''
      else if finish = Some ''stop_sequence'' then ''stop_sequence''
      else ''end_turn'')"

definition saturating_sub :: "u64 \<Rightarrow> u64 \<Rightarrow> u64" where
  "saturating_sub a b = (if b \<le> a then a - b else 0)"

definition map_usage :: "json \<Rightarrow> u64 \<times> u64 \<times> u64" where
  "map_usage usage =
     (let prompt = unwrap_or 0 (get_u64 ''prompt_tokens'' usage);
          completion = unwrap_or 0 (get_u64 ''completion_tokens'' usage);
          cached = unwrap_or 0
            (Option.bind (pointer2 ''prompt_tokens_details'' ''cached_tokens'' usage) as_u64)
      in (saturating_sub prompt cached, completion, cached))"

definition sse_event :: "codec \<Rightarrow> string \<Rightarrow> json \<Rightarrow> string" where
  "sse_event c event data =
     ''event: '' @ event @ [CHR 0x0A] @ ''data: '' @ to_text c data @ [CHR 0x0A, CHR 0x0A]"

definition sse_ping :: "codec \<Rightarrow> string" where
  "sse_ping c = sse_event c ''ping'' (JObj [(''type'', JStr ''ping'')])"

definition sse_error :: "codec \<Rightarrow> string \<Rightarrow> string \<Rightarrow> string" where
  "sse_error c kind message =
     sse_event c ''error''
       (JObj [(''type'', JStr ''error''),
              (''error'', JObj [(''type'', JStr kind), (''message'', JStr message)])])"

section \<open>Frames\<close>

datatype block = ThinkingBlock | TextBlock | ToolBlock string string

datatype delta = ThinkingDelta string | TextDelta string | InputJsonDelta string

datatype event =
    MessageStart string string
  | BlockStart nat block
  | BlockDelta nat delta
  | BlockStop nat
  | MessageDelta string u64
  | MessageStop

abbreviation JNat :: "nat \<Rightarrow> json" where
  "JNat n \<equiv> JNum (PosInt (of_nat n))"

abbreviation JU64 :: "u64 \<Rightarrow> json" where
  "JU64 n \<equiv> JNum (PosInt n)"

fun block_json :: "block \<Rightarrow> json" where
  "block_json ThinkingBlock = JObj [(''type'', JStr ''thinking''), (''thinking'', JStr [])]"
| "block_json TextBlock = JObj [(''type'', JStr ''text''), (''text'', JStr [])]"
| "block_json (ToolBlock call_id name) =
     JObj [(''type'', JStr ''tool_use''), (''id'', JStr call_id), (''name'', JStr name),
           (''input'', JObj [])]"

fun delta_json :: "delta \<Rightarrow> json" where
  "delta_json (ThinkingDelta s) = JObj [(''type'', JStr ''thinking_delta''), (''thinking'', JStr s)]"
| "delta_json (TextDelta s) = JObj [(''type'', JStr ''text_delta''), (''text'', JStr s)]"
| "delta_json (InputJsonDelta s) =
     JObj [(''type'', JStr ''input_json_delta''), (''partial_json'', JStr s)]"

fun event_json :: "event \<Rightarrow> string \<times> json" where
  "event_json (MessageStart msg_id model) =
     (''message_start'',
      JObj [(''type'', JStr ''message_start''),
            (''message'',
             JObj [(''id'', JStr msg_id), (''type'', JStr ''message''), (''role'', JStr ''assistant''),
                   (''content'', JArr []), (''model'', JStr model), (''stop_reason'', JNull),
                   (''stop_sequence'', JNull),
                   (''usage'', JObj [(''input_tokens'', JNat 0), (''output_tokens'', JNat 0)])])])"
| "event_json (BlockStart i b) =
     (''content_block_start'',
      JObj [(''type'', JStr ''content_block_start''), (''index'', JNat i),
            (''content_block'', block_json b)])"
| "event_json (BlockDelta i d) =
     (''content_block_delta'',
      JObj [(''type'', JStr ''content_block_delta''), (''index'', JNat i), (''delta'', delta_json d)])"
| "event_json (BlockStop i) =
     (''content_block_stop'',
      JObj [(''type'', JStr ''content_block_stop''), (''index'', JNat i)])"
| "event_json (MessageDelta stop_reason output) =
     (''message_delta'',
      JObj [(''type'', JStr ''message_delta''),
            (''delta'', JObj [(''stop_reason'', JStr stop_reason), (''stop_sequence'', JNull)]),
            (''usage'', JObj [(''output_tokens'', JU64 output)])])"
| "event_json MessageStop = (''message_stop'', JObj [(''type'', JStr ''message_stop'')])"

definition render :: "codec \<Rightarrow> event list \<Rightarrow> string" where
  "render c events = concat (map (\<lambda>e. case event_json e of (name, data) \<Rightarrow> sse_event c name data) events)"

section \<open>The converter\<close>

record tool_slot =
  slot_id :: string
  slot_name :: string
  slot_arguments :: string
  block_idx :: nat
  slot_started :: bool

record converter =
  msg_id :: string
  expose_thinking :: bool
  started :: bool
  next_block_idx :: nat
  thinking_open :: bool
  thinking_idx :: nat
  thinking_accum :: string
  text_open :: bool
  text_idx :: nat
  text_accum :: string
  tools :: "(int, tool_slot) table"
  finish_reason :: "string option"
  usage :: "(u64 \<times> u64 \<times> u64) option"
  model :: "string option"
  finished :: bool

text \<open>The random part of the message id is a parameter.\<close>

definition new_converter :: "string \<Rightarrow> bool \<Rightarrow> converter" where
  "new_converter random expose =
     \<lparr>msg_id = ''msg_'' @ random, expose_thinking = expose, started = False, next_block_idx = 0,
      thinking_open = False, thinking_idx = 0, thinking_accum = [],
      text_open = False, text_idx = 0, text_accum = [],
      tools = [], finish_reason = None, usage = None, model = None, finished = False\<rparr>"

record tool_call_accum =
  accum_id :: string
  accum_name :: string
  accum_arguments :: string

record accumulated =
  acc_reasoning :: string
  acc_text :: string
  acc_tool_calls :: "tool_call_accum list"
  acc_finish_reason :: "string option"
  acc_usage :: "(u64 \<times> u64 \<times> u64) option"
  acc_model :: "string option"

definition has_reasoning :: "converter \<Rightarrow> bool" where
  "has_reasoning s \<longleftrightarrow> thinking_accum s \<noteq> []"

definition has_text :: "converter \<Rightarrow> bool" where
  "has_text s \<longleftrightarrow> text_accum s \<noteq> []"

definition has_tools :: "converter \<Rightarrow> bool" where
  "has_tools s \<longleftrightarrow> tools s \<noteq> []"

definition accumulated_of :: "converter \<Rightarrow> accumulated" where
  "accumulated_of s =
     \<lparr>acc_reasoning = thinking_accum s, acc_text = text_accum s,
      acc_tool_calls = map (\<lambda>(_, t). \<lparr>accum_id = slot_id t, accum_name = slot_name t,
                                       accum_arguments = slot_arguments t\<rparr>) (tools s),
      acc_finish_reason = finish_reason s, acc_usage = usage s, acc_model = model s\<rparr>"

section \<open>Feeding a chunk\<close>

type_synonym emitted = "converter \<times> event list"

definition close_thinking :: "converter \<Rightarrow> emitted" where
  "close_thinking s = (s\<lparr>thinking_open := False\<rparr>, [BlockStop (thinking_idx s)])"

text \<open>\<open>if self.thinking_open { self.close_thinking(out); }\<close>\<close>

definition close_open_thinking :: "converter \<Rightarrow> emitted" where
  "close_open_thinking s = (if thinking_open s then close_thinking s else (s, []))"

definition open_thinking :: "converter \<Rightarrow> emitted" where
  "open_thinking s =
     (if thinking_open s then (s, [])
      else (s\<lparr>thinking_idx := next_block_idx s, next_block_idx := Suc (next_block_idx s),
              thinking_open := True\<rparr>,
            [BlockStart (next_block_idx s) ThinkingBlock]))"

definition feed_reasoning :: "string \<Rightarrow> converter \<Rightarrow> emitted" where
  "feed_reasoning reasoning s =
     (let s1 = s\<lparr>thinking_accum := thinking_accum s @ reasoning\<rparr>
      in if expose_thinking s
         then (case open_thinking s1 of (s2, es) \<Rightarrow>
                 (s2, es @ [BlockDelta (thinking_idx s2) (ThinkingDelta reasoning)]))
         else (s1, []))"

definition open_text :: "converter \<Rightarrow> emitted" where
  "open_text s =
     (if text_open s then (s, [])
      else (s\<lparr>text_idx := next_block_idx s, next_block_idx := Suc (next_block_idx s),
              text_open := True\<rparr>,
            [BlockStart (next_block_idx s) TextBlock]))"

definition feed_content :: "string \<Rightarrow> converter \<Rightarrow> emitted" where
  "feed_content content s =
     (case close_open_thinking s of (s1, es1) \<Rightarrow>
      case open_text (s1\<lparr>text_accum := text_accum s1 @ content\<rparr>) of (s2, es2) \<Rightarrow>
        (s2, es1 @ es2 @ [BlockDelta (text_idx s2) (TextDelta content)]))"

text \<open>The slot of a tool-call delta: a new one when the index is seen for the first time.\<close>

definition ensure_slot :: "int \<Rightarrow> json \<Rightarrow> converter \<Rightarrow> converter \<times> tool_slot" where
  "ensure_slot index tool_call s =
     (case map_of (tools s) index of
        Some slot \<Rightarrow> (s, slot)
      | None \<Rightarrow>
          let slot = \<lparr>slot_id = unwrap_or [] (get_str ''id'' tool_call),
                      slot_name = unwrap_or []
                        (Option.bind (pointer2 ''function'' ''name'' tool_call) as_str),
                      slot_arguments = [], block_idx = next_block_idx s, slot_started = False\<rparr>
          in (s\<lparr>next_block_idx := Suc (next_block_idx s), tools := bt_put index slot (tools s)\<rparr>, slot))"

definition update_slot :: "json \<Rightarrow> tool_slot \<Rightarrow> tool_slot" where
  "update_slot tool_call slot =
     (let slot1 = (case non_empty (get_str ''id'' tool_call) of
                     None \<Rightarrow> slot | Some i \<Rightarrow> slot\<lparr>slot_id := i\<rparr>);
          slot2 = (case non_empty (Option.bind (pointer2 ''function'' ''name'' tool_call) as_str) of
                     None \<Rightarrow> slot1 | Some n \<Rightarrow> slot1\<lparr>slot_name := n\<rparr>)
      in (case Option.bind (pointer2 ''function'' ''arguments'' tool_call) as_str of
            None \<Rightarrow> slot2 | Some a \<Rightarrow> slot2\<lparr>slot_arguments := slot_arguments slot2 @ a\<rparr>))"

definition start_slot :: "tool_slot \<Rightarrow> tool_slot \<times> event list" where
  "start_slot slot =
     (if slot_started slot then (slot, [])
      else (slot\<lparr>slot_started := True\<rparr>,
            [BlockStart (block_idx slot) (ToolBlock (slot_id slot) (slot_name slot))]))"

definition argument_delta :: "json \<Rightarrow> tool_slot \<Rightarrow> event list" where
  "argument_delta tool_call slot =
     (case non_empty (Option.bind (pointer2 ''function'' ''arguments'' tool_call) as_str) of
        None \<Rightarrow> [] | Some a \<Rightarrow> [BlockDelta (block_idx slot) (InputJsonDelta a)])"

definition feed_tool_call :: "json \<Rightarrow> converter \<Rightarrow> emitted" where
  "feed_tool_call tool_call s =
     (case close_open_thinking s of (s1, es1) \<Rightarrow>
      let index = unwrap_or 0 (get_i64 ''index'' tool_call) in
      case ensure_slot index tool_call s1 of (s2, slot0) \<Rightarrow>
      case start_slot (update_slot tool_call slot0) of (slot, es2) \<Rightarrow>
        (s2\<lparr>tools := bt_put index slot (tools s2)\<rparr>, es1 @ es2 @ argument_delta tool_call slot))"

definition feed_delta :: "json \<Rightarrow> converter \<Rightarrow> emitted" where
  "feed_delta delta s =
     then_emit (then_emit
       (emit_some feed_reasoning (non_empty (get_str ''reasoning_content'' delta)) s)
       (emit_some feed_content (non_empty (get_str ''content'' delta))))
       (emit_some (emit_all feed_tool_call) (get_arr ''tool_calls'' delta))"

definition note_finish_reason :: "json \<Rightarrow> converter \<Rightarrow> converter" where
  "note_finish_reason choice s =
     (case get_str ''finish_reason'' choice of None \<Rightarrow> s | Some f \<Rightarrow> s\<lparr>finish_reason := Some f\<rparr>)"

definition feed_choice :: "json \<Rightarrow> converter \<Rightarrow> emitted" where
  "feed_choice choice s =
     emit_some feed_delta (get ''delta'' choice) (note_finish_reason choice s)"

text \<open>The \<open>semantic\<close> result: whether the chunk carried progress.\<close>

definition choice_semantic :: "json \<Rightarrow> bool" where
  "choice_semantic choice \<longleftrightarrow>
     get_str ''finish_reason'' choice \<noteq> None \<or>
     (case get ''delta'' choice of
        None \<Rightarrow> False
      | Some delta \<Rightarrow>
          non_empty (get_str ''reasoning_content'' delta) \<noteq> None
          \<or> non_empty (get_str ''content'' delta) \<noteq> None
          \<or> unwrap_or [] (get_arr ''tool_calls'' delta) \<noteq> [])"

definition note_chunk :: "json \<Rightarrow> converter \<Rightarrow> converter" where
  "note_chunk chunk s =
     (let s1 = (case get_str ''model'' chunk of None \<Rightarrow> s | Some m \<Rightarrow> s\<lparr>model := Some m\<rparr>)
      in (case filter_opt is_object (get ''usage'' chunk) of
            None \<Rightarrow> s1 | Some u \<Rightarrow> s1\<lparr>usage := Some (map_usage u)\<rparr>))"

definition start_message :: "converter \<Rightarrow> emitted" where
  "start_message s =
     (if started s then (s, [])
      else (s\<lparr>started := True\<rparr>, [MessageStart (msg_id s) (unwrap_or [] (model s))]))"

definition feed_chunk :: "json \<Rightarrow> converter \<Rightarrow> emitted \<times> bool" where
  "feed_chunk chunk s =
     (if finished s then ((s, []), False)
      else
        (then_emit (start_message (note_chunk chunk s))
           (emit_some (emit_all feed_choice) (get_arr ''choices'' chunk)),
         \<exists>choice \<in> set (unwrap_or [] (get_arr ''choices'' chunk)). choice_semantic choice))"

section \<open>Finishing\<close>

definition finish_with_stop :: "string \<Rightarrow> converter \<Rightarrow> emitted" where
  "finish_with_stop stop_reason s =
     (if finished s then (s, [])
      else
        case close_open_thinking (s\<lparr>finished := True\<rparr>) of (s1, es1) \<Rightarrow>
        let es2 = (if text_open s1 then [BlockStop (text_idx s1)] else []);
            es3 = map (\<lambda>(_, slot). BlockStop (block_idx slot)) (filter (slot_started \<circ> snd) (tools s1));
            output = (case usage s1 of Some (_, out, _) \<Rightarrow> out | None \<Rightarrow> 0)
        in (s1\<lparr>text_open := False,
               tools := map (\<lambda>(i, slot). (i, slot\<lparr>slot_started := False\<rparr>)) (tools s1)\<rparr>,
            es1 @ es2 @ es3 @ [MessageDelta stop_reason output, MessageStop]))"

definition finish :: "converter \<Rightarrow> emitted" where
  "finish s = finish_with_stop (stop_reason_from_finish (finish_reason s)) s"

definition tool_input :: "codec \<Rightarrow> string \<Rightarrow> json" where
  "tool_input c arguments = unwrap_or (JObj []) (filter_opt is_object (from_text c arguments))"

definition nonstream_content :: "codec \<Rightarrow> converter \<Rightarrow> json list" where
  "nonstream_content c s =
     (let a = accumulated_of s
      in (if expose_thinking s \<and> acc_reasoning a \<noteq> []
          then [JObj [(''type'', JStr ''thinking''), (''thinking'', JStr (acc_reasoning a)),
                      (''signature'', JStr [])]] else [])
         @ (if acc_text a \<noteq> [] then [JObj [(''type'', JStr ''text''), (''text'', JStr (acc_text a))]]
            else [])
         @ map (\<lambda>t. JObj [(''type'', JStr ''tool_use''), (''id'', JStr (accum_id t)),
                          (''name'', JStr (accum_name t)),
                          (''input'', tool_input c (accum_arguments t))]) (acc_tool_calls a))"

definition nonstream_usage :: "(u64 \<times> u64 \<times> u64) option \<Rightarrow> json" where
  "nonstream_usage u =
     (case u of
        Some (input, output, cached) \<Rightarrow>
          JObj [(''input_tokens'', JU64 input), (''cache_creation_input_tokens'', JNat 0),
                (''cache_read_input_tokens'', JU64 cached), (''output_tokens'', JU64 output)]
      | None \<Rightarrow>
          JObj [(''input_tokens'', JNat 0), (''cache_creation_input_tokens'', JNat 0),
                (''cache_read_input_tokens'', JNat 0), (''output_tokens'', JNat 0)])"

definition nonstream_response :: "codec \<Rightarrow> converter \<Rightarrow> json" where
  "nonstream_response c s =
     JObj [(''id'', JStr (msg_id s)), (''type'', JStr ''message''), (''role'', JStr ''assistant''),
           (''content'', JArr (nonstream_content c s)),
           (''model'', JStr (unwrap_or [] (model s))),
           (''stop_reason'', JStr (stop_reason_from_finish (finish_reason s))),
           (''stop_sequence'', JNull), (''usage'', nonstream_usage (usage s))]"

definition build_nonstream_message :: "codec \<Rightarrow> converter \<Rightarrow> json" where
  "build_nonstream_message c s = nonstream_response c s"

end
