(* ===== verification/Anthropic_Stream_Props.thy ===== *)
theory Anthropic_Stream_Props
  imports Anthropic_Stream
begin

text \<open>
  What a Messages client sees of the stream converter: a step relation for the event protocol, the
  invariant that ties the converter's fields to it, the complete trace of a finished stream, and
  the accumulators against the deltas sent.
\<close>

section \<open>The event protocol\<close>

datatype block_kind = KThinking | KText | KTool

fun kind_of_block :: "block \<Rightarrow> block_kind" where
  "kind_of_block ThinkingBlock = KThinking"
| "kind_of_block TextBlock = KText"
| "kind_of_block (ToolBlock _ _) = KTool"

fun kind_of_delta :: "delta \<Rightarrow> block_kind" where
  "kind_of_delta (ThinkingDelta _) = KThinking"
| "kind_of_delta (TextDelta _) = KText"
| "kind_of_delta (InputJsonDelta _) = KTool"

text \<open>
  \<open>Streaming n live\<close>: the message has begun, the next block has index \<open>n\<close>, and \<open>live\<close> gives the kind
  of every block that is open.
\<close>

datatype phase = Fresh | Streaming nat "nat \<Rightarrow> block_kind option" | Closing | Complete

inductive protocol_step :: "phase \<Rightarrow> event \<Rightarrow> phase \<Rightarrow> bool" where
  begin_message: "protocol_step Fresh (MessageStart i m) (Streaming 0 Map.empty)"
| begin_block: "protocol_step (Streaming n live) (BlockStart n b)
                  (Streaming (Suc n) (live(n \<mapsto> kind_of_block b)))"
| block_delta: "live i = Some (kind_of_delta d) \<Longrightarrow>
                  protocol_step (Streaming n live) (BlockDelta i d) (Streaming n live)"
| end_block: "live i \<noteq> None \<Longrightarrow>
                  protocol_step (Streaming n live) (BlockStop i) (Streaming n (live(i := None)))"
| closing: "protocol_step (Streaming n Map.empty) (MessageDelta r u) Closing"
| complete: "protocol_step Closing MessageStop Complete"

inductive protocol_run :: "phase \<Rightarrow> event list \<Rightarrow> phase \<Rightarrow> bool" where
  run_nil: "protocol_run p [] p"
| run_cons: "protocol_step p e q \<Longrightarrow> protocol_run q es r \<Longrightarrow> protocol_run p (e # es) r"

inductive_cases protocol_run_ConsE: "protocol_run p (e # es) r"
inductive_simps protocol_step_MessageDelta: "protocol_step p (MessageDelta r u) q"

lemma run_one: "protocol_step p e q \<Longrightarrow> protocol_run p [e] q"
  by (auto intro: protocol_run.intros)

lemma run_append: "protocol_run p es q \<Longrightarrow> protocol_run q fs r \<Longrightarrow> protocol_run p (es @ fs) r"
  by (induction p es q rule: protocol_run.induct) (auto intro: protocol_run.intros)

section \<open>The converter's invariant\<close>

definition open_blocks :: "converter \<Rightarrow> (nat \<times> block_kind) list" where
  "open_blocks s =
     (if thinking_open s then [(thinking_idx s, KThinking)] else [])
     @ (if text_open s then [(text_idx s, KText)] else [])
     @ map (\<lambda>(_, slot). (block_idx slot, KTool)) (tools s)"

definition live_blocks :: "converter \<Rightarrow> nat \<Rightarrow> block_kind option" where
  "live_blocks s = map_of (open_blocks s)"

definition stream_inv :: "converter \<Rightarrow> bool" where
  "stream_inv s \<longleftrightarrow>
     distinct (map fst (open_blocks s)) \<and> (\<forall>i \<in> fst ` set (open_blocks s). i < next_block_idx s)
     \<and> wf_btree (tools s) \<and> (\<forall>(_, slot) \<in> set (tools s). slot_started slot)
     \<and> (thinking_open s \<longrightarrow> expose_thinking s)"

definition phase_of :: "converter \<Rightarrow> phase" where
  "phase_of s = Streaming (next_block_idx s) (live_blocks s)"

text \<open>An operation on a live converter: it keeps the invariant and emits a legal stretch of events.\<close>

definition legal :: "converter \<Rightarrow> emitted \<Rightarrow> bool" where
  "legal s r \<longleftrightarrow> (stream_inv s \<longrightarrow>
     stream_inv (fst r) \<and> protocol_run (phase_of s) (snd r) (phase_of (fst r))
     \<and> started (fst r) = started s \<and> finished (fst r) = finished s)"

lemma legal_nil: "legal s (s, [])"
  by (simp add: legal_def run_nil)

lemma legal_then:
  assumes "legal s r" and "legal (fst r) (f (fst r))"
  shows "legal s (then_emit r f)"
  using assms by (auto simp: legal_def then_emit_def split: prod.splits intro: run_append)

interpretation legally: emission legal
  by unfold_locales (rule legal_nil, rule legal_then)

lemmas legal_some = legally.ok_some
lemmas legal_all = legally.ok_all

lemma live_iff: "stream_inv s \<Longrightarrow> live_blocks s i = Some k \<longleftrightarrow> (i, k) \<in> set (open_blocks s)"
  by (simp add: live_blocks_def stream_inv_def map_of_eq_Some_iff)

lemma legal_close: "legal s (close_open_thinking s)"
proof (cases "thinking_open s")
  case False
  then show ?thesis by (simp add: close_open_thinking_def legal_nil)
next
  case True
  let ?s' = "s\<lparr>thinking_open := False\<rparr>"
  have blocks: "open_blocks s = (thinking_idx s, KThinking) # open_blocks ?s'"
    using True by (simp add: open_blocks_def)
  show ?thesis
    unfolding legal_def
  proof
    assume inv: "stream_inv s"
    then have inv': "stream_inv ?s'" by (simp add: stream_inv_def blocks)
    have fresh: "thinking_idx s \<notin> fst ` set (open_blocks ?s')"
      using inv by (simp add: stream_inv_def blocks)
    then have "live_blocks ?s' = (live_blocks s)(thinking_idx s := None)"
      by (auto simp: live_blocks_def blocks fun_eq_iff map_of_eq_None_iff)
    moreover have "live_blocks s (thinking_idx s) \<noteq> None" by (simp add: live_blocks_def blocks)
    ultimately have "protocol_run (phase_of s) [BlockStop (thinking_idx s)] (phase_of ?s')"
      by (auto simp: phase_of_def intro!: run_one end_block)
    with inv' True show "stream_inv (fst (close_open_thinking s))
      \<and> protocol_run (phase_of s) (snd (close_open_thinking s)) (phase_of (fst (close_open_thinking s)))
      \<and> started (fst (close_open_thinking s)) = started s
      \<and> finished (fst (close_open_thinking s)) = finished s"
      by (simp add: close_open_thinking_def close_thinking_def)
  qed
qed

text \<open>Opening a block: the new state has one more open block, at the next index.\<close>

lemma open_one:
  assumes "stream_inv s"
    and blocks: "mset (open_blocks s') = add_mset (next_block_idx s, kind_of_block b) (mset (open_blocks s))"
    and nxt: "next_block_idx s' = Suc (next_block_idx s)"
    and rest: "wf_btree (tools s')" "\<forall>(_, slot) \<in> set (tools s'). slot_started slot"
      "thinking_open s' \<longrightarrow> expose_thinking s'"
  shows "stream_inv s' \<and> protocol_run (phase_of s) [BlockStart (next_block_idx s) b] (phase_of s')"
proof -
  let ?n = "next_block_idx s"
  have fresh: "?n \<notin> fst ` set (open_blocks s)"
    using assms(1) by (auto simp: stream_inv_def)
  have "distinct (map fst (open_blocks s))" using assms(1) by (simp add: stream_inv_def)
  note new = map_of_add_fresh [OF this fresh blocks]
  have inv': "stream_inv s'"
    using assms(1) rest new(1) nxt by (auto simp: stream_inv_def new(3) less_Suc_eq)
  then have "phase_of s' = Streaming (Suc ?n) ((live_blocks s)(?n \<mapsto> kind_of_block b))"
    by (simp add: phase_of_def nxt live_blocks_def new(2))
  then show ?thesis using inv' by (simp add: phase_of_def run_one begin_block)
qed

lemma delta_one:
  assumes "stream_inv s" and "(i, kind_of_delta d) \<in> set (open_blocks s)"
  shows "protocol_run (phase_of s) [BlockDelta i d] (phase_of s)"
  using assms by (simp add: phase_of_def live_iff run_one block_delta)

lemma legal_reasoning: "legal s (feed_reasoning r s)"
  unfolding legal_def
proof
  assume inv: "stream_inv s"
  let ?s1 = "s\<lparr>thinking_accum := thinking_accum s @ r\<rparr>"
  have same: "open_blocks ?s1 = open_blocks s" by (simp add: open_blocks_def)
  have inv1: "stream_inv ?s1" using inv by (simp add: stream_inv_def same)
  have phase1: "phase_of ?s1 = phase_of s" by (simp add: phase_of_def live_blocks_def same)
  obtain s2 es where open2: "open_thinking ?s1 = (s2, es)" by fastforce
  show "stream_inv (fst (feed_reasoning r s)) \<and>
        protocol_run (phase_of s) (snd (feed_reasoning r s)) (phase_of (fst (feed_reasoning r s))) \<and>
        started (fst (feed_reasoning r s)) = started s \<and> finished (fst (feed_reasoning r s)) = finished s"
  proof (cases "expose_thinking s")
    case False
    with inv1 phase1 show ?thesis by (simp add: feed_reasoning_def run_nil)
  next
    case True
    have s2: "stream_inv s2 \<and> protocol_run (phase_of s) es (phase_of s2)"
    proof (cases "thinking_open s")
      case False
      then have "s2 = ?s1\<lparr>thinking_idx := next_block_idx s, next_block_idx := Suc (next_block_idx s),
          thinking_open := True\<rparr>" and "es = [BlockStart (next_block_idx s) ThinkingBlock]"
        using open2 by (auto simp: open_thinking_def)
      with inv False True open_one [OF inv1, of s2 ThinkingBlock] phase1 show ?thesis
        by (simp add: stream_inv_def open_blocks_def)
    qed (use open2 inv1 phase1 in \<open>auto simp: open_thinking_def run_nil\<close>)
    have "(thinking_idx s2, KThinking) \<in> set (open_blocks s2)" and "started s2 = started s"
      and "finished s2 = finished s"
      using open2 by (auto simp: open_thinking_def open_blocks_def split: if_splits)
    moreover from this s2 have "protocol_run (phase_of s2) [BlockDelta (thinking_idx s2) (ThinkingDelta r)]
        (phase_of s2)"
      by (intro delta_one) auto
    ultimately show ?thesis
      using s2 True run_append [of "phase_of s" es "phase_of s2"] by (simp add: feed_reasoning_def open2)
  qed
qed

lemma legal_open_text: "legal s (open_text s)"
  unfolding legal_def
proof
  assume inv: "stream_inv s"
  let ?s' = "s\<lparr>text_idx := next_block_idx s, next_block_idx := Suc (next_block_idx s), text_open := True\<rparr>"
  show "stream_inv (fst (open_text s)) \<and>
        protocol_run (phase_of s) (snd (open_text s)) (phase_of (fst (open_text s))) \<and>
        started (fst (open_text s)) = started s \<and> finished (fst (open_text s)) = finished s"
  proof (cases "text_open s")
    case True
    then show ?thesis using inv by (simp add: open_text_def run_nil)
  next
    case False
    then have "mset (open_blocks ?s') = add_mset (next_block_idx s, kind_of_block TextBlock) (mset (open_blocks s))"
      by (simp add: open_blocks_def)
    from open_one [OF inv this] inv have
      "stream_inv ?s' \<and> protocol_run (phase_of s) [BlockStart (next_block_idx s) TextBlock] (phase_of ?s')"
      by (simp add: stream_inv_def)
    with False show ?thesis by (simp add: open_text_def)
  qed
qed

text \<open>The accumulators do not matter to the protocol.\<close>

lemma phase_same:
  assumes "open_blocks s' = open_blocks s" and "next_block_idx s' = next_block_idx s"
    and "tools s' = tools s" and "thinking_open s' = thinking_open s"
    and "expose_thinking s' = expose_thinking s"
  shows "phase_of s' = phase_of s" and "stream_inv s' = stream_inv s"
  using assms by (simp_all add: phase_of_def live_blocks_def stream_inv_def)

lemma feed_content_then:
  "feed_content content s =
     then_emit (then_emit (close_open_thinking s)
                  (\<lambda>s1. open_text (s1\<lparr>text_accum := text_accum s1 @ content\<rparr>)))
       (\<lambda>s2. (s2, [BlockDelta (text_idx s2) (TextDelta content)]))"
  by (simp add: feed_content_def then_emit_def split: prod.split)

lemma legal_content: "legal s (feed_content content s)"
proof -
  have opens: "legal s1 (open_text (s1\<lparr>text_accum := text_accum s1 @ content\<rparr>))" for s1
    using legal_open_text [of "s1\<lparr>text_accum := text_accum s1 @ content\<rparr>"]
    by (simp add: legal_def phase_same [of "s1\<lparr>text_accum := text_accum s1 @ content\<rparr>" s1] open_blocks_def)
  have in_open: "text_open (fst (then_emit r (\<lambda>s1. open_text (s1\<lparr>text_accum := text_accum s1 @ content\<rparr>))))" for r
    by (simp add: then_emit_def open_text_def split: prod.split)
  have delta: "legal s2 (s2, [BlockDelta (text_idx s2) (TextDelta content)])" if "text_open s2" for s2
    using that by (simp add: legal_def delta_one open_blocks_def)
  show ?thesis
    unfolding feed_content_then
    by (intro legal_then legal_close opens delta in_open)
qed

text \<open>A tool-call delta: either the slot is known and its block open, or a new block is opened.\<close>

definition feed_slot :: "json \<Rightarrow> converter \<Rightarrow> emitted" where
  "feed_slot tool_call s =
     (let index = unwrap_or 0 (get_i64 ''index'' tool_call) in
      case ensure_slot index tool_call s of (s2, slot0) \<Rightarrow>
      case start_slot (update_slot tool_call slot0) of (slot, es2) \<Rightarrow>
        (s2\<lparr>tools := bt_put index slot (tools s2)\<rparr>, es2 @ argument_delta tool_call slot))"

lemma feed_tool_call_then: "feed_tool_call t s = then_emit (close_open_thinking s) (feed_slot t)"
  by (simp add: feed_tool_call_def feed_slot_def then_emit_def Let_def split: prod.split)

lemma update_slot_fields [simp]:
  "block_idx (update_slot t slot) = block_idx slot"
  "slot_started (update_slot t slot) = slot_started slot"
  by (simp_all add: update_slot_def Let_def split: option.split)

definition fresh_slot :: "json \<Rightarrow> converter \<Rightarrow> tool_slot" where
  "fresh_slot t s =
     \<lparr>slot_id = unwrap_or [] (get_str ''id'' t),
      slot_name = unwrap_or [] (Option.bind (pointer2 ''function'' ''name'' t) as_str),
      slot_arguments = [], block_idx = next_block_idx s, slot_started = False\<rparr>"

lemma fresh_slot_fields [simp]:
  "block_idx (fresh_slot t s) = next_block_idx s" "\<not> slot_started (fresh_slot t s)"
  "slot_arguments (fresh_slot t s) = []"
  by (simp_all add: fresh_slot_def)

lemma feed_slot_old:
  assumes "map_of (tools s) (unwrap_or 0 (get_i64 ''index'' t)) = Some old" and "slot_started old"
  shows "feed_slot t s =
    (s\<lparr>tools := bt_put (unwrap_or 0 (get_i64 ''index'' t)) (update_slot t old) (tools s)\<rparr>,
     argument_delta t (update_slot t old))"
  using assms by (simp add: feed_slot_def ensure_slot_def start_slot_def Let_def)

lemma feed_slot_new:
  assumes "map_of (tools s) (unwrap_or 0 (get_i64 ''index'' t)) = None"
  defines "slot \<equiv> (update_slot t (fresh_slot t s))\<lparr>slot_started := True\<rparr>"
  shows "feed_slot t s =
    (s\<lparr>next_block_idx := Suc (next_block_idx s),
       tools := bt_put (unwrap_or 0 (get_i64 ''index'' t)) slot (tools s)\<rparr>,
     [BlockStart (next_block_idx s) (ToolBlock (slot_id slot) (slot_name slot))] @ argument_delta t slot)"
proof -
  have "ensure_slot (unwrap_or 0 (get_i64 ''index'' t)) t s =
    (s\<lparr>next_block_idx := Suc (next_block_idx s),
       tools := bt_put (unwrap_or 0 (get_i64 ''index'' t)) (fresh_slot t s) (tools s)\<rparr>, fresh_slot t s)"
    using assms(1) by (simp add: ensure_slot_def fresh_slot_def Let_def)
  then show ?thesis
    by (simp add: feed_slot_def start_slot_def slot_def Let_def)
qed

lemma argument_delta_run:
  assumes "stream_inv s" and "(block_idx slot, KTool) \<in> set (open_blocks s)"
  shows "protocol_run (phase_of s) (argument_delta t slot) (phase_of s)"
proof -
  have "protocol_run (phase_of s) [BlockDelta (block_idx slot) (InputJsonDelta a)] (phase_of s)" for a
    using assms by (intro delta_one) auto
  then show ?thesis by (simp add: argument_delta_def run_nil split: option.split)
qed

lemma legal_slot: "legal s (feed_slot t s)"
  unfolding legal_def
proof
  assume inv: "stream_inv s"
  then have wf: "wf_btree (tools s)" and all_started: "\<forall>(_, slot) \<in> set (tools s). slot_started slot"
    by (auto simp: stream_inv_def)
  let ?i = "unwrap_or 0 (get_i64 ''index'' t)"
  let ?idx = "\<lambda>p. (block_idx (snd p), KTool)"
  have blocks: "open_blocks u = (if thinking_open u then [(thinking_idx u, KThinking)] else [])
     @ (if text_open u then [(text_idx u, KText)] else []) @ map ?idx (tools u)" for u
    by (simp add: open_blocks_def case_prod_unfold)
  show "stream_inv (fst (feed_slot t s)) \<and>
        protocol_run (phase_of s) (snd (feed_slot t s)) (phase_of (fst (feed_slot t s))) \<and>
        started (fst (feed_slot t s)) = started s \<and> finished (fst (feed_slot t s)) = finished s"
  proof (cases "map_of (tools s) ?i")
    case (Some old)
    let ?slot = "update_slot t old"
    let ?s' = "s\<lparr>tools := bt_put ?i ?slot (tools s)\<rparr>"
    have old: "(?i, old) \<in> set (tools s)" and st: "slot_started old"
      using Some all_started by (auto dest: map_of_SomeD)
    have feed: "feed_slot t s = (?s', argument_delta t ?slot)"
      by (rule feed_slot_old [OF Some st])
    have "map ?idx (bt_put ?i ?slot (tools s)) = map ?idx (tools s)"
      by (rule map_bt_put_same [OF wf Some]) simp
    then have same: "open_blocks ?s' = open_blocks s" by (simp add: blocks)
    have inv': "stream_inv ?s'"
      using inv all_started st set_bt_put_subset [of ?i ?slot "tools s"]
      by (auto simp: stream_inv_def same wf_btree_bt_put)
    have "phase_of ?s' = phase_of s" by (simp add: phase_of_def live_blocks_def same)
    moreover from old have "?idx (?i, old) \<in> ?idx ` set (tools s)" by (rule imageI)
    then have "(block_idx ?slot, KTool) \<in> set (open_blocks s)" by (simp add: blocks)
    then have "(block_idx ?slot, KTool) \<in> set (open_blocks ?s')" by (simp only: same)
    ultimately show ?thesis
      using inv' argument_delta_run [OF inv', of ?slot t] by (simp add: feed)
  next
    case None
    define slot where "slot = (update_slot t (fresh_slot t s))\<lparr>slot_started := True\<rparr>"
    let ?n = "next_block_idx s"
    let ?b = "ToolBlock (slot_id slot) (slot_name slot)"
    let ?s' = "s\<lparr>next_block_idx := Suc ?n, tools := bt_put ?i slot (tools s)\<rparr>"
    have feed: "feed_slot t s = (?s', [BlockStart ?n ?b] @ argument_delta t slot)"
      unfolding slot_def by (rule feed_slot_new [OF None])
    have "?i \<notin> fst ` set (tools s)" using None by (simp add: map_of_eq_None_iff)
    then have "mset (map ?idx (bt_put ?i slot (tools s))) = add_mset (?n, KTool) (mset (map ?idx (tools s)))"
      by (simp add: mset_bt_put_new slot_def)
    then have "mset (open_blocks ?s') = add_mset (?n, kind_of_block ?b) (mset (open_blocks s))"
      by (simp add: blocks)
    moreover have "\<forall>(_, u) \<in> set (bt_put ?i slot (tools s)). slot_started u"
      using all_started set_bt_put_subset [of ?i slot "tools s"] by (auto simp: slot_def)
    ultimately have s': "stream_inv ?s' \<and> protocol_run (phase_of s) [BlockStart ?n ?b] (phase_of ?s')"
      using open_one [OF inv, of ?s' ?b] wf inv by (simp add: wf_btree_bt_put stream_inv_def)
    have "(?n, KTool) \<in> set (open_blocks ?s')"
      using arg_cong [OF \<open>mset (open_blocks ?s') = _\<close>, of set_mset] by simp
    then have "(block_idx slot, KTool) \<in> set (open_blocks ?s')" by (simp add: slot_def)
    then have "protocol_run (phase_of s) ([BlockStart ?n ?b] @ argument_delta t slot) (phase_of ?s')"
      using s' run_append argument_delta_run by blast
    with s' show ?thesis by (simp only: feed fst_conv snd_conv) simp
  qed
qed

lemma legal_tool_call: "legal s (feed_tool_call t s)"
  unfolding feed_tool_call_then by (intro legal_then legal_close legal_slot)

lemma legal_delta: "legal s (feed_delta d s)"
  unfolding feed_delta_def
  by (intro legal_then legal_some legal_all legal_reasoning legal_content legal_tool_call)

lemma legal_choice: "legal s (feed_choice choice s)"
proof -
  have "legal (note_finish_reason choice s) (feed_choice choice s)"
    unfolding feed_choice_def by (intro legal_some legal_delta)
  moreover have "phase_of (note_finish_reason choice s) = phase_of s"
    and "stream_inv (note_finish_reason choice s) = stream_inv s"
    by (rule phase_same; simp add: open_blocks_def note_finish_reason_def split: option.split)+
  moreover have "started (note_finish_reason choice s) = started s"
    and "finished (note_finish_reason choice s) = finished s"
    by (simp_all add: note_finish_reason_def split: option.split)
  ultimately show ?thesis by (simp add: legal_def)
qed

section \<open>The whole stream\<close>

definition feed_chunks :: "json list \<Rightarrow> converter \<Rightarrow> emitted" where
  "feed_chunks chunks s = emit_all (\<lambda>chunk s. fst (feed_chunk chunk s)) chunks s"

text \<open>A live converter: not finished, and nothing open before the message has begun.\<close>

definition live_converter :: "converter \<Rightarrow> bool" where
  "live_converter s \<longleftrightarrow> stream_inv s \<and> \<not> finished s
     \<and> (\<not> started s \<longrightarrow> open_blocks s = [] \<and> next_block_idx s = 0)"

definition stream_phase :: "converter \<Rightarrow> phase" where
  "stream_phase s = (if started s then phase_of s else Fresh)"

lemma note_chunk_same:
  "phase_of (note_chunk c s) = phase_of s" "stream_inv (note_chunk c s) = stream_inv s"
  "started (note_chunk c s) = started s" "finished (note_chunk c s) = finished s"
  "open_blocks (note_chunk c s) = open_blocks s" "next_block_idx (note_chunk c s) = next_block_idx s"
proof -
  have fields: "started (note_chunk c s) = started s" "finished (note_chunk c s) = finished s"
    "open_blocks (note_chunk c s) = open_blocks s" "next_block_idx (note_chunk c s) = next_block_idx s"
    "tools (note_chunk c s) = tools s" "thinking_open (note_chunk c s) = thinking_open s"
    "expose_thinking (note_chunk c s) = expose_thinking s"
    by (simp_all add: note_chunk_def Let_def open_blocks_def split: option.split)
  show "phase_of (note_chunk c s) = phase_of s" by (rule phase_same(1)) (fact fields)+
  show "stream_inv (note_chunk c s) = stream_inv s" by (rule phase_same(2)) (fact fields)+
  show "started (note_chunk c s) = started s" "finished (note_chunk c s) = finished s"
    "open_blocks (note_chunk c s) = open_blocks s" "next_block_idx (note_chunk c s) = next_block_idx s"
    by (fact fields)+
qed

lemma start_message_run:
  assumes "live_converter s"
  defines "r \<equiv> start_message s"
  shows "stream_inv (fst r) \<and> started (fst r) \<and> \<not> finished (fst r)
    \<and> protocol_run (stream_phase s) (snd r) (phase_of (fst r))"
proof (cases "started s")
  case True
  with assms show ?thesis
    by (simp add: start_message_def live_converter_def stream_phase_def run_nil)
next
  case False
  have same: "open_blocks (s\<lparr>started := True\<rparr>) = open_blocks s" by (simp add: open_blocks_def)
  have "phase_of (s\<lparr>started := True\<rparr>) = Streaming 0 Map.empty"
    using assms(1) False by (simp add: phase_of_def live_blocks_def same live_converter_def)
  with assms False show ?thesis
    by (simp add: start_message_def live_converter_def stream_phase_def stream_inv_def same
        run_one begin_message)
qed

lemma chunk_run:
  fixes s :: converter and chunk :: json
  assumes "live_converter s"
  defines "r \<equiv> fst (feed_chunk chunk s)"
  shows "live_converter (fst r) \<and> started (fst r)
    \<and> protocol_run (stream_phase s) (snd r) (stream_phase (fst r))"
proof -
  have "live_converter (note_chunk chunk s)" and "stream_phase (note_chunk chunk s) = stream_phase s"
    using assms(1) by (simp_all add: live_converter_def stream_phase_def note_chunk_same)
  with start_message_run [of "note_chunk chunk s"] obtain s1 es1 where
    s1: "start_message (note_chunk chunk s) = (s1, es1)" "stream_inv s1" "started s1" "\<not> finished s1"
      "protocol_run (stream_phase s) es1 (phase_of s1)"
    by (cases "start_message (note_chunk chunk s)") auto
  obtain s2 es2 where s2: "emit_some (emit_all feed_choice) (get_arr ''choices'' chunk) s1 = (s2, es2)"
    by fastforce
  have "legal s1 (s2, es2)"
    unfolding s2 [symmetric] by (intro legal_some legal_all legal_choice)
  with s1 have "stream_inv s2" "started s2" "\<not> finished s2" "protocol_run (phase_of s1) es2 (phase_of s2)"
    by (simp_all add: legal_def)
  moreover have "r = (s2, es1 @ es2)"
    using assms(1) by (simp add: r_def feed_chunk_def live_converter_def then_emit_def s1(1) s2)
  ultimately show ?thesis
    using s1(5) run_append by (auto simp: live_converter_def stream_phase_def)
qed

lemma chunks_run:
  "live_converter s \<Longrightarrow> chunks \<noteq> [] \<Longrightarrow>
     live_converter (fst (feed_chunks chunks s)) \<and> started (fst (feed_chunks chunks s))
     \<and> protocol_run (stream_phase s) (snd (feed_chunks chunks s)) (stream_phase (fst (feed_chunks chunks s)))"
proof (induction chunks arbitrary: s)
  case Nil
  then show ?case by simp
next
  case (Cons c cs)
  obtain s1 es1 where s1: "fst (feed_chunk c s) = (s1, es1)" by fastforce
  with chunk_run [OF Cons.prems(1), of c] have
    r1: "live_converter s1" "started s1" "protocol_run (stream_phase s) es1 (stream_phase s1)" by auto
  show ?case
  proof (cases "cs = []")
    case True
    with r1 s1 show ?thesis by (simp add: feed_chunks_def then_emit_def)
  next
    case False
    obtain s2 es2 where s2: "feed_chunks cs s1 = (s2, es2)" by fastforce
    with Cons.IH [OF r1(1) False] have "live_converter s2" "started s2"
      "protocol_run (stream_phase s1) es2 (stream_phase s2)" by auto
    moreover have "feed_chunks (c # cs) s = (s2, es1 @ es2)"
      using s1 s2 by (simp add: feed_chunks_def then_emit_def)
    ultimately show ?thesis using r1(3) run_append by auto
  qed
qed

lemma close_all_run:
  "distinct (map fst L) \<Longrightarrow>
     protocol_run (Streaming n (map_of L)) (map (\<lambda>p. BlockStop (fst p)) L) (Streaming n Map.empty)"
proof (induction L)
  case Nil
  then show ?case by (simp add: run_nil)
next
  case (Cons p L)
  obtain i k where p: "p = (i, k)" by (cases p)
  have "map_of L i = None" using Cons.prems by (simp add: p map_of_eq_None_iff)
  then have "(map_of (p # L))(i := None) = map_of L" by (auto simp: p fun_eq_iff)
  then have "protocol_step (Streaming n (map_of (p # L))) (BlockStop i) (Streaming n (map_of L))"
    using end_block [of "map_of (p # L)" i n] by (simp add: p)
  moreover have "protocol_run (Streaming n (map_of L)) (map (\<lambda>p. BlockStop (fst p)) L) (Streaming n Map.empty)"
    using Cons by simp
  ultimately show ?case unfolding p list.map fst_conv by (rule run_cons)
qed

lemma finish_events:
  assumes "stream_inv s" and "\<not> finished s"
  shows "snd (finish s) = map (\<lambda>p. BlockStop (fst p)) (open_blocks s)
    @ [MessageDelta (stop_reason_from_finish (finish_reason s))
         (case usage s of Some (_, out, _) \<Rightarrow> out | None \<Rightarrow> 0), MessageStop]"
proof -
  have "filter (slot_started \<circ> snd) (tools s) = tools s"
    using assms(1) by (auto simp: stream_inv_def filter_id_conv)
  with assms(2) show ?thesis
    by (simp add: finish_def finish_with_stop_def close_open_thinking_def close_thinking_def
        open_blocks_def case_prod_unfold comp_def)
qed

lemma finish_run:
  assumes "live_converter s" and "started s"
  shows "protocol_run (stream_phase s) (snd (finish s)) Complete"
proof -
  have inv: "stream_inv s" "\<not> finished s" using assms by (auto simp: live_converter_def)
  let ?r = "stop_reason_from_finish (finish_reason s)"
  let ?u = "case usage s of Some (_, out, _) \<Rightarrow> out | None \<Rightarrow> 0"
  have "protocol_run (stream_phase s) (map (\<lambda>p. BlockStop (fst p)) (open_blocks s))
          (Streaming (next_block_idx s) Map.empty)"
    using close_all_run inv(1) assms(2)
    by (simp add: stream_phase_def phase_of_def live_blocks_def stream_inv_def)
  moreover have "protocol_run (Streaming (next_block_idx s) Map.empty) [MessageDelta ?r ?u, MessageStop]
      Complete"
    by (auto intro!: protocol_run.intros closing complete)
  ultimately show ?thesis
    unfolding finish_events [OF inv] by (rule run_append)
qed

lemma live_new: "live_converter (new_converter random expose)"
  by (simp add: live_converter_def stream_inv_def open_blocks_def new_converter_def wf_btree_def)

text \<open>
  C5: whatever chunks the upstream sends, the client sees a legal Messages stream: one
  \<open>message_start\<close>, blocks numbered 0, 1, 2, ... in the order they open, every delta inside an open
  block of its own kind, every block closed once, then \<open>message_delta\<close> and \<open>message_stop\<close>. The only
  requirement is that at least one chunk arrived.
\<close>

theorem finished_stream_is_complete:
  assumes "chunks \<noteq> []"
  shows "protocol_run Fresh (snd (then_emit (feed_chunks chunks (new_converter random expose)) finish))
           Complete"
proof -
  let ?s = "fst (feed_chunks chunks (new_converter random expose))"
  from chunks_run [OF live_new assms] have
    run: "live_converter ?s" "started ?s"
      "protocol_run (stream_phase (new_converter random expose))
         (snd (feed_chunks chunks (new_converter random expose))) (stream_phase ?s)" by auto
  have "stream_phase (new_converter random expose) = Fresh"
    by (simp add: stream_phase_def new_converter_def)
  with run finish_run [OF run(1,2)] run_append show ?thesis
    by (fastforce simp: then_emit_def case_prod_unfold)
qed

definition hello_chunks :: "json list" where
  "hello_chunks =
     [JObj [(''model'', JStr ''m''),
            (''choices'', JArr [JObj [(''delta'', JObj [(''content'', JStr ''hi'')])]])],
      JObj [(''choices'', JArr [JObj [(''delta'', JObj []), (''finish_reason'', JStr ''stop'')]])]]"

definition hello_events :: "event list" where
  "hello_events =
     [MessageStart ''msg_0'' ''m'', BlockStart 0 TextBlock, BlockDelta 0 (TextDelta ''hi''),
      BlockStop 0, MessageDelta ''end_turn'' 0, MessageStop]"

lemma hello_stream:
  "snd (then_emit (feed_chunks hello_chunks (new_converter ''0'' False)) finish) = hello_events"
  by code_simp

theorem finished_stream_is_complete_witness:
  "hello_chunks \<noteq> [] \<and> protocol_run Fresh hello_events Complete"
proof -
  have ne: "hello_chunks \<noteq> []" by (simp add: hello_chunks_def)
  from finished_stream_is_complete [OF ne, of "''0''" False] ne show ?thesis
    by (simp add: hello_stream)
qed

text \<open>
  with no chunk at all, finishing still emits \<open>message_delta\<close> and \<open>message_stop\<close>, with no
  \<open>message_start\<close> before them: the stream the client sees is not a legal one.
\<close>

theorem empty_stream_has_no_start:
  "snd (finish (new_converter random expose)) = [MessageDelta ''end_turn'' 0, MessageStop]
   \<and> (\<forall>p. \<not> protocol_run Fresh (snd (finish (new_converter random expose))) p)"
proof -
  have "snd (finish (new_converter random expose)) = [MessageDelta ''end_turn'' 0, MessageStop]"
    by (simp add: finish_events live_new [unfolded live_converter_def] open_blocks_def)
      (simp add: new_converter_def stop_reason_from_finish_def)
  then show ?thesis
    by (auto elim!: protocol_run_ConsE simp: protocol_step_MessageDelta)
qed

text \<open>after \<open>finish\<close>, nothing more is emitted: neither by \<open>finish\<close> again nor by a late chunk.\<close>

theorem finished_converter_is_silent:
  "finish (fst (finish s)) = (fst (finish s), [])
   \<and> feed_chunk chunk (fst (finish s)) = ((fst (finish s), []), False)"
proof -
  have "finished (fst (finish s))"
    by (auto simp: finish_def finish_with_stop_def close_open_thinking_def close_thinking_def Let_def)
  then show ?thesis
    by (simp add: finish_def [of "fst (finish s)"] finish_with_stop_def feed_chunk_def)
qed

section \<open>The deltas against the accumulators\<close>

fun text_in :: "event \<Rightarrow> string" where
  "text_in (BlockDelta _ (TextDelta s)) = s"
| "text_in _ = []"

fun thinking_in :: "event \<Rightarrow> string" where
  "thinking_in (BlockDelta _ (ThinkingDelta s)) = s"
| "thinking_in _ = []"

fun arguments_in :: "nat \<Rightarrow> event \<Rightarrow> string" where
  "arguments_in i (BlockDelta j (InputJsonDelta s)) = (if i = j then s else [])"
| "arguments_in i _ = []"

definition text_of :: "event list \<Rightarrow> string" where
  "text_of es = concat (map text_in es)"

definition thinking_of :: "event list \<Rightarrow> string" where
  "thinking_of es = concat (map thinking_in es)"

definition arguments_of :: "nat \<Rightarrow> event list \<Rightarrow> string" where
  "arguments_of i es = concat (map (arguments_in i) es)"

lemma of_simps [simp]:
  "text_of [] = []" "thinking_of [] = []" "arguments_of i [] = []"
  "text_of (e # es) = text_in e @ text_of es"
  "thinking_of (e # es) = thinking_in e @ thinking_of es"
  "arguments_of i (e # es) = arguments_in i e @ arguments_of i es"
  "text_of (es @ fs) = text_of es @ text_of fs"
  "thinking_of (es @ fs) = thinking_of es @ thinking_of fs"
  "arguments_of i (es @ fs) = arguments_of i es @ arguments_of i fs"
  by (simp_all add: text_of_def thinking_of_def arguments_of_def)

text \<open>The events sent so far carry exactly what the converter has accumulated.\<close>

definition traced :: "bool \<Rightarrow> converter \<Rightarrow> event list \<Rightarrow> bool" where
  "traced x s es \<longleftrightarrow>
     text_of es = text_accum s \<and> expose_thinking s = x
     \<and> thinking_of es = (if x then thinking_accum s else [])
     \<and> (\<forall>(_, slot) \<in> set (tools s). arguments_of (block_idx slot) es = slot_arguments slot)
     \<and> (\<forall>i \<ge> next_block_idx s. arguments_of i es = [])"

definition tracks :: "converter \<Rightarrow> emitted \<Rightarrow> bool" where
  "tracks s r \<longleftrightarrow> legal s r \<and> (stream_inv s \<longrightarrow> (\<forall>x es. traced x s es \<longrightarrow> traced x (fst r) (es @ snd r)))"

lemma tracks_nil: "tracks s (s, [])"
  by (simp add: tracks_def legal_nil)

lemma tracks_then:
  assumes "tracks s r" and "tracks (fst r) (f (fst r))"
  shows "tracks s (then_emit r f)"
proof -
  have "legal s (then_emit r f)" using assms legal_then by (simp add: tracks_def)
  moreover have "stream_inv s \<Longrightarrow> stream_inv (fst r)" using assms(1) by (simp add: tracks_def legal_def)
  ultimately show ?thesis
    using assms by (auto simp: tracks_def then_emit_def split: prod.splits) (metis append_assoc)
qed

interpretation tracking: emission tracks
  by unfold_locales (rule tracks_nil, rule tracks_then)

lemmas tracks_some = tracking.ok_some
lemmas tracks_all = tracking.ok_all

lemma tracks_close: "tracks s (close_open_thinking s)"
  using legal_close [of s]
  by (auto simp: tracks_def close_open_thinking_def close_thinking_def traced_def)

lemma tracks_reasoning: "tracks s (feed_reasoning r s)"
  using legal_reasoning [of s r]
  by (auto simp: tracks_def feed_reasoning_def open_thinking_def traced_def Let_def)

lemma tracks_content: "tracks s (feed_content content s)"
  using legal_content [of s content]
  by (auto simp: tracks_def feed_content_def open_text_def close_open_thinking_def close_thinking_def
      traced_def)

definition delta_arguments :: "json \<Rightarrow> string" where
  "delta_arguments t = unwrap_or [] (Option.bind (pointer2 ''function'' ''arguments'' t) as_str)"

lemma update_slot_arguments:
  "slot_arguments (update_slot t slot) = slot_arguments slot @ delta_arguments t"
  by (simp add: update_slot_def delta_arguments_def Let_def split: option.split)

lemma argument_delta_of [simp]:
  "text_of (argument_delta t slot) = []" "thinking_of (argument_delta t slot) = []"
  "arguments_of i (argument_delta t slot) = (if i = block_idx slot then delta_arguments t else [])"
  by (auto simp: argument_delta_def delta_arguments_def non_empty_def filter_opt_def unwrap_or_def
      split: option.split)

lemma slot_indices:
  assumes "stream_inv s" and "(i, u) \<in> set (tools s)"
  shows "block_idx u < next_block_idx s"
    and "(j, v) \<in> set (tools s) \<Longrightarrow> block_idx v = block_idx u \<Longrightarrow> j = i"
proof -
  have dist: "distinct (map (\<lambda>p. block_idx (snd p)) (tools s))"
    and bound: "\<forall>i \<in> fst ` set (open_blocks s). i < next_block_idx s"
    using assms(1) by (auto simp: stream_inv_def open_blocks_def comp_def case_prod_unfold)
  from assms(2) have "(block_idx u, KTool) \<in> set (open_blocks s)"
    by (force simp: open_blocks_def image_iff)
  with bound show "block_idx u < next_block_idx s" by force
  assume "(j, v) \<in> set (tools s)" and "block_idx v = block_idx u"
  with assms(2) have "(j, v) = (i, u)"
    using inj_onD [OF distinct_map [THEN iffD1, OF dist, THEN conjunct2], of "(j, v)" "(i, u)"] by simp
  then show "j = i" by simp
qed

lemma tracks_slot: "tracks s (feed_slot t s)"
  unfolding tracks_def
proof (intro conjI impI allI)
  show "legal s (feed_slot t s)" by (rule legal_slot)
  fix x es assume inv: "stream_inv s" and tr: "traced x s es"
  let ?i = "unwrap_or 0 (get_i64 ''index'' t)"
  have wf: "wf_btree (tools s)" using inv by (simp add: stream_inv_def)
  have args: "arguments_of (block_idx u) es = slot_arguments u" if "(j, u) \<in> set (tools s)" for j u
    using tr that by (auto simp: traced_def)
  have none: "arguments_of n es = []" if "next_block_idx s \<le> n" for n
    using tr that by (simp add: traced_def)
  show "traced x (fst (feed_slot t s)) (es @ snd (feed_slot t s))"
  proof (cases "map_of (tools s) ?i")
    case (Some old)
    then have old: "(?i, old) \<in> set (tools s)" by (rule map_of_SomeD)
    then have "slot_started old" using inv by (auto simp: stream_inv_def)
    note feed = feed_slot_old [OF Some this]
    have "block_idx old < next_block_idx s" by (rule slot_indices(1) [OF inv old])
    moreover have "block_idx u \<noteq> block_idx old" if "(j, u) \<in> set (tools s)" "j \<noteq> ?i" for j u
      using slot_indices(2) [OF inv old that(1)] that(2) by blast
    ultimately show ?thesis
      using tr args none old unfolding feed traced_def
      by (auto simp: update_slot_arguments dest!: set_bt_put_cases [OF _ wf])
  next
    case None
    have "block_idx u < next_block_idx s" if "(j, u) \<in> set (tools s)" for j u
      by (rule slot_indices(1) [OF inv that])
    then show ?thesis
      using tr args none unfolding feed_slot_new [OF None] traced_def
      by (fastforce simp: update_slot_arguments dest!: set_bt_put_cases [OF _ wf])
  qed
qed

lemma tracks_delta: "tracks s (feed_delta d s)"
proof -
  have "tracks s (feed_tool_call t s)" for t s
    unfolding feed_tool_call_then by (intro tracks_then tracks_close tracks_slot)
  then show ?thesis
    unfolding feed_delta_def
    by (intro tracks_then tracks_some tracks_all tracks_reasoning tracks_content)
qed

text \<open>Fields the tracking does not look at may change freely.\<close>

lemma tracks_via:
  assumes "tracks s' r"
    and "open_blocks s' = open_blocks s" "next_block_idx s' = next_block_idx s" "tools s' = tools s"
    and "thinking_open s' = thinking_open s" "expose_thinking s' = expose_thinking s"
    and "started s' = started s" "finished s' = finished s"
    and "text_accum s' = text_accum s" "thinking_accum s' = thinking_accum s"
  shows "tracks s r"
proof -
  have "phase_of s' = phase_of s" by (rule phase_same(1)) (fact assms)+
  moreover have "stream_inv s' = stream_inv s" by (rule phase_same(2)) (fact assms)+
  moreover have "traced x s' es = traced x s es" for x es
    using assms by (simp add: traced_def)
  ultimately show ?thesis
    using assms(1) by (simp add: tracks_def legal_def assms(7,8))
qed

lemma tracks_choice: "tracks s (feed_choice choice s)"
proof (rule tracks_via)
  show "tracks (note_finish_reason choice s) (feed_choice choice s)"
    unfolding feed_choice_def by (intro tracks_some tracks_delta)
qed (simp_all add: note_finish_reason_def open_blocks_def split: option.split)

lemma chunk_traced:
  assumes "live_converter s" and "traced x s es"
  shows "traced x (fst (fst (feed_chunk chunk s))) (es @ snd (fst (feed_chunk chunk s)))"
proof -
  let ?s0 = "note_chunk chunk s"
  have t0: "traced x ?s0 es"
    using assms(2) by (simp add: traced_def note_chunk_def Let_def split: option.split)
  have live0: "live_converter ?s0" using assms(1) by (simp add: live_converter_def note_chunk_same)
  obtain s1 es1 where s1: "start_message ?s0 = (s1, es1)" by fastforce
  then have t1: "traced x s1 (es @ es1)"
    using t0 by (auto simp: start_message_def traced_def split: if_splits)
  have inv1: "stream_inv s1" using start_message_run [OF live0] by (simp add: s1)
  have "tracks s1 (emit_some (emit_all feed_choice) (get_arr ''choices'' chunk) s1)"
    by (intro tracks_some tracks_all tracks_choice)
  with t1 inv1 assms(1) show ?thesis
    by (auto simp: tracks_def feed_chunk_def then_emit_def s1 live_converter_def split: prod.split)
      (metis append_assoc)+
qed

lemma chunks_traced:
  "live_converter s \<Longrightarrow> traced x s es \<Longrightarrow>
     traced x (fst (feed_chunks chunks s)) (es @ snd (feed_chunks chunks s))
     \<and> live_converter (fst (feed_chunks chunks s))"
proof (induction chunks arbitrary: s es)
  case Nil
  then show ?case by (simp add: feed_chunks_def)
next
  case (Cons c cs)
  obtain s1 es1 where s1: "fst (feed_chunk c s) = (s1, es1)" by fastforce
  with chunk_traced [OF Cons.prems, of c] have "traced x s1 (es @ es1)" by simp
  moreover have "live_converter s1" using chunk_run [OF Cons.prems(1), of c] by (simp add: s1)
  ultimately show ?case
    using Cons.IH [of s1 "es @ es1"] s1
    by (simp add: feed_chunks_def then_emit_def case_prod_unfold)
qed

text \<open>
  C13: the client receives exactly what the converter accumulates for the non-stream answer and the
  reasoning shadow. Over all chunks and the final frames, the text deltas concatenate to the
  accumulated text, the thinking deltas to the accumulated reasoning when thinking is exposed and to
  nothing when it is not, and the fragments of each tool block to the arguments of its call.
\<close>

theorem deltas_carry_the_answer:
  "let r = then_emit (feed_chunks chunks (new_converter random expose)) finish
   in text_of (snd r) = acc_text (accumulated_of (fst r))
    \<and> thinking_of (snd r) = (if expose then acc_reasoning (accumulated_of (fst r)) else [])
    \<and> map (\<lambda>(_, slot). arguments_of (block_idx slot) (snd r)) (tools (fst r))
        = map accum_arguments (acc_tool_calls (accumulated_of (fst r)))"
proof -
  define r where "r = then_emit (feed_chunks chunks (new_converter random expose)) finish"
  let ?s = "fst (feed_chunks chunks (new_converter random expose))"
  let ?es = "snd (feed_chunks chunks (new_converter random expose))"
  have tr: "traced expose ?s ?es" and live: "live_converter ?s"
    using chunks_traced [OF live_new, where es = "[]" and chunks = chunks]
    by (simp_all add: traced_def) (simp_all add: new_converter_def)
  then have inv: "stream_inv ?s" "\<not> finished ?s" by (simp_all add: live_converter_def)
  have fields: "text_accum (fst (finish ?s)) = text_accum ?s"
    "thinking_accum (fst (finish ?s)) = thinking_accum ?s"
    "tools (fst (finish ?s)) = map (\<lambda>(i, slot). (i, slot\<lparr>slot_started := False\<rparr>)) (tools ?s)"
    using inv(2) by (auto simp: finish_def finish_with_stop_def close_open_thinking_def
        close_thinking_def Let_def)
  have none: "text_of (snd (finish ?s)) = []" "thinking_of (snd (finish ?s)) = []"
    "arguments_of i (snd (finish ?s)) = []" for i
    unfolding finish_events [OF inv]
    by (simp_all add: text_of_def thinking_of_def arguments_of_def comp_def)
  have r: "r = (fst (finish ?s), ?es @ snd (finish ?s))"
    by (simp add: r_def then_emit_def case_prod_unfold)
  show ?thesis
    using tr unfolding Let_def r_def [symmetric]
    unfolding r fst_conv snd_conv of_simps none append_Nil2 accumulated_of_def fields traced_def
    by auto
qed

end
