(* ===== verification/Responses_Request.thy ===== *)
theory Responses_Request
  imports Policy
begin

text \<open>
  The Responses API request conversion (\<open>src/responses/request.rs\<close>): input items with the pending
  function calls, messages, calls and their outputs, images, tools, tool choice, and the request.
\<close>

section \<open>Content parts\<close>

definition input_image_url :: "members \<Rightarrow> nat \<Rightarrow> nat \<Rightarrow> protocol_error + string" where
  "input_image_url part index part_index =
     (case mget part ''image_url'' of
        Some (JStr url) \<Rightarrow> Inr url
      | Some (JObj m) \<Rightarrow>
          ok_or (PE ''input[{index}].output[{part_index}]: input_image.image_url object requires url''
                   [ANat index, ANat part_index]) (mstr m ''url'')
      | Some JNull \<Rightarrow>
          ok_or (PE ''input[{index}].output[{part_index}]: input_image requires image_url or url''
                   [ANat index, ANat part_index]) (mstr part ''url'')
      | None \<Rightarrow>
          ok_or (PE ''input[{index}].output[{part_index}]: input_image requires image_url or url''
                   [ANat index, ANat part_index]) (mstr part ''url'')
      | Some _ \<Rightarrow>
          Inl (PE ''input[{index}].output[{part_index}]: input_image.image_url must be a string or object''
                 [ANat index, ANat part_index]))"

definition convert_input_image :: "members \<Rightarrow> nat \<Rightarrow> nat \<Rightarrow> protocol_error + json" where
  "convert_input_image part index part_index =
     rbind (input_image_url part index part_index)
       (\<lambda>url. if url = []
              then Inl (PE ''input[{index}].output[{part_index}]: input_image url is empty''
                          [ANat index, ANat part_index])
              else Inr (image_url_part url))"

text \<open>The two part loops differ in the \<open>refusal\<close> part and in the field their errors name.\<close>

definition message_part ::
    "nat \<Rightarrow> string list \<times> json list \<Rightarrow> nat \<times> json \<Rightarrow> protocol_error + string list \<times> json list" where
  "message_part index acc ip =
     (case acc of (texts, images) \<Rightarrow> case ip of (part_index, part0) \<Rightarrow>
        rbind (ok_or (PE ''input[{index}].content[{part_index}] must be an object''
                        [ANat index, ANat part_index]) (as_object part0))
          (\<lambda>part.
             case mstr part ''type'' of
               None \<Rightarrow> Inl (PE ''input[{index}].content[{part_index}] requires a type''
                              [ANat index, ANat part_index])
             | Some kind \<Rightarrow>
                 if kind = ''input_text'' \<or> kind = ''output_text'' then
                   Inr (texts @ [unwrap_or [] (mstr part ''text'')], images)
                 else if kind = ''input_image'' then
                   rbind (convert_input_image part index part_index)
                     (\<lambda>p. Inr (texts, images @ [p]))
                 else if kind = ''refusal'' then
                   Inr (texts @ [unwrap_or [] (mstr part ''refusal'')], images)
                 else
                   Inl (PE ''input[{index}].content[{part_index}]: unsupported content type {other:?}''
                          [ANat index, ANat part_index, AStr kind])))"

definition output_part ::
    "nat \<Rightarrow> string list \<times> json list \<Rightarrow> nat \<times> json \<Rightarrow> protocol_error + string list \<times> json list" where
  "output_part index acc ip =
     (case acc of (texts, images) \<Rightarrow> case ip of (part_index, part0) \<Rightarrow>
        rbind (ok_or (PE ''input[{index}].output[{part_index}] must be an object''
                        [ANat index, ANat part_index]) (as_object part0))
          (\<lambda>part.
             case mstr part ''type'' of
               None \<Rightarrow> Inl (PE ''input[{index}].output[{part_index}] requires a type''
                              [ANat index, ANat part_index])
             | Some kind \<Rightarrow>
                 if kind = ''input_text'' \<or> kind = ''output_text'' then
                   Inr (texts @ [unwrap_or [] (mstr part ''text'')], images)
                 else if kind = ''input_image'' then
                   rbind (convert_input_image part index part_index)
                     (\<lambda>p. Inr (texts, images @ [p]))
                 else
                   Inl (PE ''input[{index}].output[{part_index}]: unsupported content type {other:?}''
                          [ANat index, ANat part_index, AStr kind])))"

section \<open>Input items\<close>

definition message_content :: "members \<Rightarrow> nat \<Rightarrow> protocol_error + string \<times> json list" where
  "message_content obj index =
     (case unwrap_or JNull (mget obj ''content'') of
        JStr s \<Rightarrow> Inr (s, [])
      | JArr parts \<Rightarrow>
          rbind (rfold (message_part index) ([], []) (enumerate 0 parts))
            (\<lambda>(texts, images). Inr (join [LF] texts, images))
      | JNull \<Rightarrow> Inr ([], [])
      | _ \<Rightarrow> Inl (PE ''input[{index}].content must be a string or an array'' [ANat index]))"

definition role_message :: "string \<Rightarrow> json \<Rightarrow> json" where
  "role_message role content = JObj [(''role'', JStr role), (''content'', content)]"

definition convert_message_item :: "members \<Rightarrow> nat \<Rightarrow> protocol_error + json" where
  "convert_message_item obj index =
     rbind (ok_or (PE ''input[{index}]: message requires a role'' [ANat index]) (mstr obj ''role''))
       (\<lambda>role. rbind (message_content obj index)
          (\<lambda>(body, images).
             if role = ''system'' \<or> role = ''developer'' then
               (if images \<noteq> []
                then Inl (PE ''input[{index}]: system/developer messages cannot carry images'' [ANat index])
                else Inr (role_message ''system'' (JStr body)))
             else if role = ''user'' then
               Inr (role_message ''user''
                      (if images = [] then JStr body
                       else JArr ((if body = [] then [] else [text_part body]) @ images)))
             else if role = ''assistant'' then
               (if images \<noteq> []
                then Inl (PE ''input[{index}]: assistant messages cannot carry images'' [ANat index])
                else Inr (role_message ''assistant'' (if body = [] then JNull else JStr body)))
             else
               Inl (PE ''input[{index}]: unsupported message role {other:?}'' [ANat index, AStr role])))"

definition convert_function_call :: "members \<Rightarrow> nat \<Rightarrow> protocol_error + json" where
  "convert_function_call obj index =
     rbind (ok_or (PE ''input[{index}]: function_call requires call_id'' [ANat index])
              (non_empty (mstr obj ''call_id'')))
       (\<lambda>call_id. rbind (ok_or (PE ''input[{index}]: function_call requires name'' [ANat index])
                           (non_empty (mstr obj ''name'')))
          (\<lambda>name. Inr (function_call call_id name (unwrap_or ''{}'' (mstr obj ''arguments'')))))"

definition convert_function_call_output :: "members \<Rightarrow> nat \<Rightarrow> protocol_error + json" where
  "convert_function_call_output obj index =
     rbind (ok_or (PE ''input[{index}]: function_call_output requires call_id'' [ANat index])
              (non_empty (mstr obj ''call_id'')))
       (\<lambda>call_id.
          rbind
            (case mget obj ''output'' of
               None \<Rightarrow> Inr (JStr [])
             | Some JNull \<Rightarrow> Inr (JStr [])
             | Some (JStr s) \<Rightarrow> Inr (JStr s)
             | Some (JArr parts) \<Rightarrow>
                 rbind (rfold (output_part index) ([], []) (enumerate 0 parts))
                   (\<lambda>(texts, images). Inr (multimodal_content texts images))
             | Some _ \<Rightarrow>
                 Inl (PE ''input[{index}]: function_call_output.output must be a string or an array''
                        [ANat index]))
            (\<lambda>content. Inr (JObj [(''role'', JStr ''tool''), (''tool_call_id'', JStr call_id),
                                   (''content'', content)])))"

definition flush_calls :: "json list \<times> json list \<Rightarrow> json list \<times> json list" where
  "flush_calls st =
     (case st of (messages, pending) \<Rightarrow>
        if pending = [] then (messages, pending)
        else (messages @ [JObj [(''role'', JStr ''assistant''), (''content'', JNull),
                                (''tool_calls'', JArr pending)]], []))"

text \<open>One item; the state is the messages so far and the pending calls.\<close>

definition input_item_step ::
    "json list \<times> json list \<Rightarrow> nat \<times> json \<Rightarrow> protocol_error + json list \<times> json list" where
  "input_item_step st ii =
     (case st of (messages, pending) \<Rightarrow> case ii of (index, item) \<Rightarrow>
        rbind (ok_or (PE ''input[{index}] must be an object'' [ANat index]) (as_object item))
          (\<lambda>obj.
             let kind = unwrap_or ''message'' (mstr obj ''type'')
             in if kind = ''message'' then
                  rbind (convert_message_item obj index) (\<lambda>m. Inr (messages @ [m], pending))
                else if kind = ''function_call'' then
                  rbind (convert_function_call obj index) (\<lambda>call. Inr (messages, pending @ [call]))
                else if kind = ''function_call_output'' then
                  (case flush_calls (messages, pending) of (messages', pending') \<Rightarrow>
                     rbind (convert_function_call_output obj index)
                       (\<lambda>m. Inr (messages' @ [m], pending')))
                else if kind = ''reasoning'' then Inr (flush_calls (messages, pending))
                else if kind = ''web_search_call'' then
                  Inl (PE ''input item type \"web_search_call\" is not supported: this proxy does not execute hosted web search'' [])
                else if kind = ''item_reference'' then
                  Inl (PE ''input item type \"item_reference\" is not supported (this proxy is stateless; replay full items)'' [])
                else
                  Inl (PE ''input[{index}]: unsupported item type {other:?}'' [ANat index, AStr kind])))"

definition convert_input_items :: "json list \<Rightarrow> protocol_error + json list" where
  "convert_input_items items =
     rbind (rfold input_item_step ([], []) (enumerate 0 items))
       (\<lambda>st. case flush_calls st of (messages, _) \<Rightarrow>
          if messages = [] then Inl (PE ''input must not be empty'' []) else Inr messages)"

definition convert_input :: "members \<Rightarrow> protocol_error + json list" where
  "convert_input object =
     (case mget object ''input'' of
        Some (JStr s) \<Rightarrow> Inr [user_message (JStr s)]
      | Some (JArr items) \<Rightarrow> convert_input_items items
      | Some _ \<Rightarrow> Inl (PE ''input must be a string or an array of items'' [])
      | None \<Rightarrow> Inl (PE ''input is required'' []))"

section \<open>Tools and tool choice\<close>

text \<open>A tool becomes one chat tool, or none when it is hosted by a backend.\<close>

definition resp_convert_tool :: "nat \<Rightarrow> json \<Rightarrow> protocol_error + json option" where
  "resp_convert_tool index tool =
     rbind (ok_or (PE ''tools[{index}] must be an object'' [ANat index]) (as_object tool))
       (\<lambda>obj.
          let kind = mstr obj ''type''
          in if kind = Some ''function'' \<and> mget obj ''function'' \<noteq> None then Inr (Some tool)
             else if kind = Some ''function'' \<or> kind = None then
               rbind (ok_or (PE ''tools[{index}].name is required'' [ANat index])
                        (non_empty (mstr obj ''name'')))
                 (\<lambda>name.
                    if (case mget obj ''parameters'' of
                          None \<Rightarrow> False | Some schema \<Rightarrow> \<not> is_object schema)
                    then Inl (PE ''tools[{index}].parameters must be an object'' [ANat index])
                    else Inr (Some (JObj [(''type'', JStr ''function''),
                           (''function'',
                            JObj ([(''name'', JStr name)]
                              @ opt_member ''description'' (map_option JStr (mstr obj ''description''))
                              @ opt_member ''parameters'' (mget obj ''parameters'')
                              @ opt_member ''strict''
                                  (map_option JBool (Option.bind (mget obj ''strict'') as_bool))))])))
             else Inr None)"

definition resp_convert_tools :: "json list \<Rightarrow> protocol_error + json list" where
  "resp_convert_tools tools =
     rbind (traverse_idx resp_convert_tool 0 tools)
       (\<lambda>converted. Inr (List.map_filter (\<lambda>t. t) converted))"

definition resp_convert_tool_choice :: "json \<Rightarrow> protocol_error + json option" where
  "resp_convert_tool_choice choice =
     (case choice of
        JStr mode \<Rightarrow>
          if mode = ''auto'' \<or> mode = ''none'' \<or> mode = ''required'' then Inr (Some (JStr mode))
          else Inl (PE ''unsupported tool_choice mode {other:?}'' [AStr mode])
      | JObj obj \<Rightarrow>
          (case mstr obj ''type'' of
             None \<Rightarrow> Inl (PE ''tool_choice requires a type'' [])
           | Some kind \<Rightarrow>
               if kind = ''function'' then
                 rbind (ok_or (PE ''tool_choice.type=function requires name'' [])
                          (non_empty (mstr obj ''name'')))
                   (\<lambda>name. Inr (Some (JStr ''auto'')))
               else if kind = ''auto'' \<or> kind = ''none'' \<or> kind = ''required'' \<or> kind = ''allowed_tools''
               then Inr (Some (JStr ''auto''))
               else Inl (PE ''unsupported tool_choice type {other:?}'' [AStr kind]))
      | JNull \<Rightarrow> Inr None
      | _ \<Rightarrow> Inl (PE ''tool_choice must be a string or object'' []))"

section \<open>The request\<close>

record resp_converted =
  resp_chat_body :: members
  resp_thinking_requested :: bool
  resp_client_model :: "string option"
  prompt_cache_key :: "string option"

definition max_output_member :: "members \<Rightarrow> protocol_error + members" where
  "max_output_member object =
     (case mget object ''max_output_tokens'' of
        None \<Rightarrow> Inr []
      | Some v \<Rightarrow>
          rbind (ok_or (PE ''max_output_tokens must be a positive integer'' [])
                   (filter_opt (\<lambda>n. 0 < n) (as_u64 v)))
            (\<lambda>n. Inr [(''max_tokens'', JNum (PosInt n))]))"

definition wire_effort :: "string \<Rightarrow> protocol_error + string" where
  "wire_effort effort =
     (if effort = ''none'' \<or> effort = ''minimal'' \<or> effort = ''low'' then Inr ''low''
      else if effort = ''medium'' \<or> effort = ''high'' \<or> effort = ''xhigh'' \<or> effort = ''max''
        then Inr ''high''
      else Inl (PE ''reasoning.effort {other:?} is not supported (expected one of none, minimal, low, medium, high, xhigh, max)''
                  [AStr effort]))"

text \<open>The \<open>reasoning_effort\<close> member and whether reasoning may be shown.\<close>

definition reasoning_member :: "members \<Rightarrow> protocol_error + members \<times> bool" where
  "reasoning_member object =
     (case mget object ''reasoning'' of
        None \<Rightarrow> Inr ([], False)
      | Some v \<Rightarrow>
          rbind (ok_or (PE ''reasoning must be an object'' []) (as_object v))
            (\<lambda>reasoning.
               let effort = mstr reasoning ''effort'';
                   shown = (case mstr reasoning ''summary'' of
                              None \<Rightarrow> False | Some summary \<Rightarrow> summary \<noteq> ''none'') \<or> effort = None
               in (case effort of
                     None \<Rightarrow> Inr ([], shown)
                   | Some e \<Rightarrow>
                       rbind (wire_effort e) (\<lambda>w. Inr ([(''reasoning_effort'', JStr w)], shown)))))"

definition resp_tools_member :: "members \<Rightarrow> protocol_error + members" where
  "resp_tools_member object =
     (case mget object ''tools'' of
        None \<Rightarrow> Inr []
      | Some v \<Rightarrow>
          rbind (ok_or (PE ''tools must be an array'' []) (as_array v))
            (\<lambda>tools.
               if tools = [] then Inr []
               else rbind (resp_convert_tools tools)
                      (\<lambda>ts. Inr (if ts = [] then [] else [(''tools'', JArr ts)]))))"

definition resp_choice_member :: "members \<Rightarrow> protocol_error + members" where
  "resp_choice_member object =
     (case mget object ''tool_choice'' of
        None \<Rightarrow> Inr []
      | Some choice \<Rightarrow>
          rbind (resp_convert_tool_choice choice) (\<lambda>v. Inr (opt_member ''tool_choice'' v)))"

definition resp_convert_request ::
    "codec \<Rightarrow> json \<Rightarrow> string \<Rightarrow> protocol_error + resp_converted" where
  "resp_convert_request c request default_model =
     rbind (ok_or (PE ''request body must be a JSON object'' []) (as_object request)) (\<lambda>object.
     rbind (max_output_member object) (\<lambda>max_tokens.
     rbind (reasoning_member object) (\<lambda>(effort, thinking).
     rbind (convert_input object) (\<lambda>messages.
     rbind (resp_tools_member object) (\<lambda>tools.
     rbind (resp_choice_member object) (\<lambda>choice.
     let key = non_empty (mstr object ''prompt_cache_key'') in
       Inr \<lparr>resp_chat_body =
              [(''model'', JStr default_model)] @ max_tokens
              @ float_member c object ''temperature''
              @ float_member c object ''top_p''
              @ opt_member ''prompt_cache_key'' (map_option JStr key)
              @ effort @ [(''messages'', JArr messages)] @ tools @ choice,
            resp_thinking_requested = thinking,
            resp_client_model = mstr object ''model'',
            prompt_cache_key = key\<rparr>))))))"

end
