(* ===== verification/Responses_Request_Props.thy ===== *)
theory Responses_Request_Props
  imports Responses_Request Anthropic_Request_Props
begin

text \<open>
  Properties of the Responses request conversion: calls and outputs keep their ids and order, a
  message item overtakes the calls before it, and the members of the chat body.
\<close>

section \<open>Calls and outputs\<close>

definition item_kind :: "json \<Rightarrow> string" where
  "item_kind item = unwrap_or ''message'' (get_str ''type'' item)"

definition call_of_item :: "json \<Rightarrow> json" where
  "call_of_item item =
     function_call (unwrap_or [] (get_str ''call_id'' item)) (unwrap_or [] (get_str ''name'' item))
       (unwrap_or ''{}'' (get_str ''arguments'' item))"

definition items_of_kind :: "string \<Rightarrow> json list \<Rightarrow> json list" where
  "items_of_kind k items = filter (\<lambda>i. item_kind i = k) items"

lemma message_item_traffic:
  "convert_message_item obj i = Inr m \<Longrightarrow> message_calls m = [] \<and> \<not> is_tool_message m"
proof -
  assume conv: "convert_message_item obj i = Inr m"
  have shape: "message_calls (role_message r v) = []"
    "is_tool_message (role_message r v) \<longleftrightarrow> r = ''tool''" for r v
    by (simp_all add: role_message_def message_calls_def is_tool_message_def)
  from conv obtain role body images where
    "(if role = ''system'' \<or> role = ''developer'' then
        (if images \<noteq> []
         then Inl (PE ''input[{index}]: system/developer messages cannot carry images'' [ANat i])
         else Inr (role_message ''system'' (JStr body)))
      else if role = ''user'' then
        Inr (role_message ''user''
               (if images = [] then JStr body
                else JArr ((if body = [] then [] else [text_part body]) @ images)))
      else if role = ''assistant'' then
        (if images \<noteq> []
         then Inl (PE ''input[{index}]: assistant messages cannot carry images'' [ANat i])
         else Inr (role_message ''assistant'' (if body = [] then JNull else JStr body)))
      else Inl (PE ''input[{index}]: unsupported message role {other:?}'' [ANat i, AStr role]))
     = (Inr m :: protocol_error + json)"
    unfolding convert_message_item_def rbind_eq_Inr ok_or_eq_Inr by (elim exE conjE) (simp add: case_prod_unfold)
  then have "\<exists>r v. m = role_message r v \<and> r \<in> {''system'', ''user'', ''assistant''}"
    by (simp split: if_split_asm) blast+
  with shape show ?thesis by auto
qed

lemma output_item_traffic:
  "convert_function_call_output obj i = Inr m \<Longrightarrow>
     message_calls m = [] \<and> is_tool_message m \<and> result_id m = unwrap_or [] (mstr obj ''call_id'')"
  by (auto simp: convert_function_call_output_def message_calls_def is_tool_message_def result_id_def)

lemma call_item_traffic:
  "convert_function_call obj i = Inr call \<Longrightarrow> call = call_of_item (JObj obj)"
  by (auto simp: convert_function_call_def call_of_item_def mstr_def)

text \<open>The calls of a state: those already in messages, then the pending ones.\<close>

definition state_calls :: "json list \<times> json list \<Rightarrow> json list" where
  "state_calls st = concat (map message_calls (fst st)) @ snd st"

definition state_results :: "json list \<times> json list \<Rightarrow> string list" where
  "state_results st = map result_id (filter is_tool_message (fst st))"

lemma flush_traffic:
  "state_calls (flush_calls st) = state_calls st" "state_results (flush_calls st) = state_results st"
  "snd (flush_calls st) = []"
  by (cases st; simp add: flush_calls_def state_calls_def state_results_def message_calls_def
      is_tool_message_def)+

lemma step_traffic:
  assumes "input_item_step st (i, item) = Inr st'"
  shows "state_calls st' = state_calls st
           @ (if item_kind item = ''function_call'' then [call_of_item item] else [])
       \<and> state_results st' = state_results st
           @ (if item_kind item = ''function_call_output''
              then [unwrap_or [] (get_str ''call_id'' item)] else [])"
proof -
  obtain messages pending where st: "st = (messages, pending)" by (cases st)
  obtain obj where item: "item = JObj obj"
    using assms by (auto simp: input_item_step_def st)
  have kind: "item_kind item = unwrap_or ''message'' (mstr obj ''type'')"
    by (simp add: item_kind_def item mstr_def)
  obtain fm fp where fl: "flush_calls st = (fm, fp)" by fastforce
  with flush_traffic [of st] have fl': "fp = []" "state_calls (fm, []) = state_calls st"
    "state_results (fm, []) = state_results st" by auto
  consider (message) m where "item_kind item = ''message''" "convert_message_item obj i = Inr m"
        "st' = (messages @ [m], pending)"
    | (call) c where "item_kind item = ''function_call''" "convert_function_call obj i = Inr c"
        "st' = (messages, pending @ [c])"
    | (answer) m where "item_kind item = ''function_call_output''"
        "convert_function_call_output obj i = Inr m" "st' = (fm @ [m], [])"
    | (reasoning) "item_kind item = ''reasoning''" "st' = flush_calls st"
    using assms fl fl'(1) unfolding input_item_step_def st
    by (auto simp: item kind [unfolded item] Let_def split: if_splits)
  then show ?thesis
  proof cases
    case message
    with message_item_traffic [OF message(2)] show ?thesis
      by (simp add: st state_calls_def state_results_def)
  next
    case call
    with call_item_traffic [OF call(2)] show ?thesis
      by (simp add: st state_calls_def state_results_def item)
  next
    case answer
    with output_item_traffic [OF answer(2)] fl' show ?thesis
      by (simp add: state_calls_def state_results_def item mstr_def)
  next
    case reasoning
    with flush_traffic [of st] show ?thesis by simp
  qed
qed

lemma fold_traffic:
  "rfold input_item_step st iis = Inr st' \<Longrightarrow>
     state_calls st' = state_calls st @ map call_of_item (items_of_kind ''function_call'' (map snd iis))
   \<and> state_results st' = state_results st
       @ map (\<lambda>t. unwrap_or [] (get_str ''call_id'' t)) (items_of_kind ''function_call_output'' (map snd iis))"
proof (induction iis arbitrary: st)
  case Nil
  then show ?case by (simp add: items_of_kind_def)
next
  case (Cons ii iis)
  obtain i item where ii: "ii = (i, item)" by (cases ii)
  from Cons.prems obtain mid where mid: "input_item_step st (i, item) = Inr mid"
    and rest: "rfold input_item_step mid iis = Inr st'" by (auto simp: ii)
  from step_traffic [OF mid] Cons.IH [OF rest] show ?case
    by (simp add: items_of_kind_def ii)
qed

lemma convert_items_fold:
  assumes "convert_input_items items = Inr out"
  obtains st where "rfold input_item_step ([], []) (enumerate 0 items) = Inr st"
    and "out = fst (flush_calls st)"
  using assms by (auto simp: convert_input_items_def case_prod_unfold split: if_splits)

text \<open>
  C24: no call and no output of a Responses history is lost, added, renamed or reordered among its
  kind: the tool calls of the converted messages are the \<open>function_call\<close> items in order, with the same
  \<open>call_id\<close>, name and argument string, and the tool messages answer the \<open>call_id\<close>s of the
  \<open>function_call_output\<close> items in order.
\<close>

theorem responses_history_keeps_calls:
  assumes "convert_input_items items = Inr out"
  shows "concat (map message_calls out) = map call_of_item (items_of_kind ''function_call'' items)
    \<and> map result_id (filter is_tool_message out)
        = map (\<lambda>t. unwrap_or [] (get_str ''call_id'' t)) (items_of_kind ''function_call_output'' items)"
proof -
  obtain st where st: "rfold input_item_step ([], []) (enumerate 0 items) = Inr st"
    and out: "out = fst (flush_calls st)"
    using convert_items_fold [OF assms] .
  from flush_traffic [of st] have "state_calls st = concat (map message_calls out)"
    "state_results st = map result_id (filter is_tool_message out)"
    by (simp_all add: state_calls_def state_results_def out)
  with fold_traffic [OF st] show ?thesis by (simp add: state_calls_def state_results_def)
qed

definition sample_items :: "json list" where
  "sample_items =
     [JObj [(''type'', JStr ''function_call''), (''call_id'', JStr ''a''), (''name'', JStr ''f'')],
      JObj [(''role'', JStr ''user''), (''content'', JStr ''wait'')],
      JObj [(''type'', JStr ''function_call_output''), (''call_id'', JStr ''a''), (''output'', JStr ''1'')]]"

definition sample_messages :: "json list" where
  "sample_messages =
     [role_message ''user'' (JStr ''wait''),
      JObj [(''role'', JStr ''assistant''), (''content'', JNull),
            (''tool_calls'', JArr [function_call ''a'' ''f'' ''{}''])],
      JObj [(''role'', JStr ''tool''), (''tool_call_id'', JStr ''a''), (''content'', JStr ''1'')]]"

lemma sample_items_converted: "convert_input_items sample_items = Inr sample_messages"
  by code_simp

theorem responses_history_keeps_calls_witness:
  "convert_input_items sample_items = Inr sample_messages
   \<and> concat (map message_calls sample_messages)
       = map call_of_item (items_of_kind ''function_call'' sample_items)
   \<and> items_of_kind ''function_call'' sample_items \<noteq> []"
  using responses_history_keeps_calls [OF sample_items_converted] sample_items_converted
  by (simp add: sample_items_def items_of_kind_def item_kind_def)

text \<open>
  a message item overtakes the calls that precede it. The pending calls are not flushed when a
  message arrives, so a history of a call followed by a message is converted into the message
  followed by the call, and two calls with a message between them are merged into one turn after it.
\<close>

theorem message_item_overtakes_pending_calls:
  assumes "convert_function_call call1 0 = Inr c1" and "mstr call1 ''type'' = Some ''function_call''"
    and "convert_message_item message 1 = Inr m" and "unwrap_or ''message'' (mstr message ''type'') = ''message''"
    and "convert_function_call call2 2 = Inr c2" and "mstr call2 ''type'' = Some ''function_call''"
  shows "convert_input_items [JObj call1, JObj message]
           = Inr [m, JObj [(''role'', JStr ''assistant''), (''content'', JNull), (''tool_calls'', JArr [c1])]]
    \<and> convert_input_items [JObj call1, JObj message, JObj call2]
           = Inr [m, JObj [(''role'', JStr ''assistant''), (''content'', JNull), (''tool_calls'', JArr [c1, c2])]]"
  using assms by (simp add: convert_input_items_def input_item_step_def flush_calls_def numeral_2_eq_2)

theorem message_item_overtakes_pending_calls_witness:
  "convert_input_items
     [JObj [(''type'', JStr ''function_call''), (''call_id'', JStr ''a''), (''name'', JStr ''f'')],
      JObj [(''role'', JStr ''user''), (''content'', JStr ''hi'')]]
   = Inr [role_message ''user'' (JStr ''hi''),
          JObj [(''role'', JStr ''assistant''), (''content'', JNull),
                (''tool_calls'', JArr [function_call ''a'' ''f'' ''{}''])]]"
proof -
  let ?call = "[(''type'', JStr ''function_call''), (''call_id'', JStr ''a''), (''name'', JStr ''f'')]"
  let ?msg = "[(''role'', JStr ''user''), (''content'', JStr ''hi'')]"
  have "convert_function_call ?call 0 = Inr (function_call ''a'' ''f'' ''{}'')"
    and "convert_function_call ?call 2 = Inr (function_call ''a'' ''f'' ''{}'')"
    and "convert_message_item ?msg 1 = Inr (role_message ''user'' (JStr ''hi''))"
    by (simp_all add: convert_function_call_def convert_message_item_def message_content_def mstr_def)
  from message_item_overtakes_pending_calls [OF this(1) _ this(3) _ this(2)] show ?thesis
    by (simp add: mstr_def)
qed

section \<open>Tools and the chat body\<close>

definition is_client_tool :: "json \<Rightarrow> bool" where
  "is_client_tool tool \<longleftrightarrow> get_str ''type'' tool = Some ''function'' \<or> get_str ''type'' tool = None"

text \<open>The chat tool of a client tool: name, description, schema and strictness as the client gave them.\<close>

definition chat_tool :: "json \<Rightarrow> json \<Rightarrow> bool" where
  "chat_tool tool out \<longleftrightarrow>
     (if get_str ''type'' tool = Some ''function'' \<and> get ''function'' tool \<noteq> None then out = tool
      else get_str ''type'' out = Some ''function''
        \<and> pointer2 ''function'' ''name'' out = get ''name'' tool
        \<and> pointer2 ''function'' ''description'' out = map_option JStr (get_str ''description'' tool)
        \<and> pointer2 ''function'' ''parameters'' out = get ''parameters'' tool)"

lemma convert_tool_form:
  assumes "resp_convert_tool i tool = Inr r"
  shows "case r of None \<Rightarrow> \<not> is_client_tool tool | Some out \<Rightarrow> is_client_tool tool \<and> chat_tool tool out"
proof -
  obtain obj where obj: "tool = JObj obj" using assms by (auto simp: resp_convert_tool_def)
  have kind: "get_str ''type'' tool = mstr obj ''type''" by (simp add: obj mstr_def)
  consider "mstr obj ''type'' = Some ''function''" "mget obj ''function'' \<noteq> None" "r = Some tool"
    | name where "is_client_tool tool" "mget obj ''function'' = None \<or> mstr obj ''type'' = None"
        "mstr obj ''name'' = Some name"
        "r = Some (JObj [(''type'', JStr ''function''),
           (''function'',
            JObj ([(''name'', JStr name)]
              @ opt_member ''description'' (map_option JStr (mstr obj ''description''))
              @ opt_member ''parameters'' (mget obj ''parameters'')
              @ opt_member ''strict'' (map_option JBool (Option.bind (mget obj ''strict'') as_bool))))])"
    | "\<not> is_client_tool tool" "r = None"
    using assms unfolding is_client_tool_def kind
    by (auto simp: resp_convert_tool_def obj Let_def split: if_split_asm)
  then show ?thesis
  proof cases
    case 1
    then have "is_client_tool tool" and "get ''function'' tool \<noteq> None"
      by (simp_all add: is_client_tool_def kind) (simp add: obj)
    with 1 show ?thesis by (simp add: chat_tool_def kind)
  next
    case (2 name)
    then have "\<not> (get_str ''type'' tool = Some ''function'' \<and> get ''function'' tool \<noteq> None)"
      by (auto simp: kind obj mstr_def)
    with 2 show ?thesis
      by (simp add: chat_tool_def) (auto simp: obj pointer2_def mstr_def opt_member_get map_add_def
          split: option.split)
  next
    case 3
    then show ?thesis by simp
  qed
qed

lemma convert_tools_form:
  "traverse_idx resp_convert_tool i tools = Inr rs \<Longrightarrow>
     list_all2 chat_tool (filter is_client_tool tools) (List.map_filter (\<lambda>t. t) rs)"
proof (induction tools arbitrary: i rs)
  case Nil
  then show ?case by (simp add: List.map_filter_def)
next
  case (Cons t ts)
  then obtain r rest where r: "resp_convert_tool i t = Inr r"
    and rest: "traverse_idx resp_convert_tool (Suc i) ts = Inr rest" and rs: "rs = r # rest" by auto
  from convert_tool_form [OF r] Cons.IH [OF rest] show ?case
    by (simp add: rs List.map_filter_def split: option.splits)
qed

text \<open>
  of the declared tools exactly the client's function tools reach the model, in order, each with
  its name, description and schema unchanged; tools hosted by a backend are dropped, never offered.
\<close>

theorem responses_tools_are_client_tools:
  assumes "resp_convert_tools tools = Inr out"
  shows "list_all2 chat_tool (filter is_client_tool tools) out"
  using assms convert_tools_form by (auto simp: resp_convert_tools_def)

theorem responses_tools_are_client_tools_witness:
  "let f = JObj [(''type'', JStr ''function''), (''name'', JStr ''f''), (''parameters'', JObj [])];
       w = JObj [(''type'', JStr ''web_search'')];
       g = JObj [(''type'', JStr ''function''),
                 (''function'', JObj [(''name'', JStr ''f''), (''parameters'', JObj [])])]
   in resp_convert_tools [w, f] = Inr [g] \<and> list_all2 chat_tool (filter is_client_tool [w, f]) [g]"
proof -
  have "resp_convert_tools
      [JObj [(''type'', JStr ''web_search'')],
       JObj [(''type'', JStr ''function''), (''name'', JStr ''f''), (''parameters'', JObj [])]]
    = Inr [JObj [(''type'', JStr ''function''),
                 (''function'', JObj [(''name'', JStr ''f''), (''parameters'', JObj [])])]]"
    by code_simp
  from responses_tools_are_client_tools [OF this] this show ?thesis unfolding Let_def by blast
qed

lemma wire_effort_values: "wire_effort e = Inr w \<Longrightarrow> w = ''low'' \<or> w = ''high''"
  unfolding wire_effort_def by (simp split: if_split_asm)

lemma resp_choice_values:
  assumes "resp_convert_tool_choice v = Inr (Some t)"
  shows "t = JStr ''auto'' \<or> t = JStr ''required'' \<or> t = JStr ''none''"
proof (cases v)
  case (JStr mode)
  with assms show ?thesis
    unfolding resp_convert_tool_choice_def by (simp split: if_split_asm) blast
next
  case (JObj obj)
  then show ?thesis
  proof (cases "mstr obj ''type''")
    case None
    with JObj assms show ?thesis by (simp add: resp_convert_tool_choice_def)
  next
    case (Some kind)
    with JObj assms show ?thesis
      by (simp add: resp_convert_tool_choice_def split: if_split_asm) blast
  qed
qed (use assms in \<open>simp_all add: resp_convert_tool_choice_def\<close>)

text \<open>
  an accepted Responses request becomes a chat body with the configured model, a reasoning effort
  of \<open>low\<close> or \<open>high\<close> when one was given, the client's cache key verbatim, and one of the three tool
  choices the upstream accepts.
\<close>

theorem responses_request_members:
  assumes "resp_convert_request c (JObj m) d = Inr r"
  shows "mget (resp_chat_body r) ''model'' = Some (JStr d)
    \<and> mget (resp_chat_body r) ''reasoning_effort''
        \<in> {None, Some (JStr ''low''), Some (JStr ''high'')}
    \<and> mget (resp_chat_body r) ''prompt_cache_key'' = map_option JStr (non_empty (mstr m ''prompt_cache_key''))
    \<and> mget (resp_chat_body r) ''tool_choice''
        \<in> {None, Some (JStr ''auto''), Some (JStr ''required''), Some (JStr ''none'')}
    \<and> (\<exists>out. convert_input m = Inr out \<and> mget (resp_chat_body r) ''messages'' = Some (JArr out))"
proof -
  from assms obtain mx effort shown out tls choice where
    mx: "max_output_member m = Inr mx" and eff: "reasoning_member m = Inr (effort, shown)"
    and out: "convert_input m = Inr out" and tls: "resp_tools_member m = Inr tls"
    and choice: "resp_choice_member m = Inr choice"
    and body: "resp_chat_body r = [(''model'', JStr d)] @ mx
              @ float_member c m ''temperature'' @ float_member c m ''top_p''
              @ opt_member ''prompt_cache_key'' (map_option JStr (non_empty (mstr m ''prompt_cache_key'')))
              @ effort @ [(''messages'', JArr out)] @ tls @ choice"
    unfolding resp_convert_request_def rbind_eq_Inr ok_or_eq_Inr as_object_Some Let_def
    by (elim exE conjE) (simp add: case_prod_unfold; fastforce)
  have mx_get: "j \<noteq> ''max_tokens'' \<Longrightarrow> mget mx j = None" for j
    using mx by (auto simp: max_output_member_def split: option.splits)
  have eff_get: "mget effort j = None" if "j \<noteq> ''reasoning_effort''" for j
    using eff that by (auto simp: reasoning_member_def Let_def split: option.splits)
  have tls_get: "j \<noteq> ''tools'' \<Longrightarrow> mget tls j = None" for j
    using tls by (auto simp: resp_tools_member_def split: option.splits if_splits)
  have choice_get: "j \<noteq> ''tool_choice'' \<Longrightarrow> mget choice j = None" for j
    using choice by (auto simp: resp_choice_member_def opt_member_get split: option.splits)
  note parts = member_part_get(1) opt_member_get mx_get eff_get tls_get choice_get
  have "mget (resp_chat_body r) ''messages'' = Some (JArr out)"
    by (simp add: body map_add_def parts)
  moreover have "mget (resp_chat_body r) ''model'' = Some (JStr d)"
    by (simp add: body map_add_def parts)
  moreover have "mget (resp_chat_body r) ''prompt_cache_key''
      = map_option JStr (non_empty (mstr m ''prompt_cache_key''))"
    by (cases "non_empty (mstr m ''prompt_cache_key'')") (simp_all add: body map_add_def parts non_empty_def)
  moreover have "mget (resp_chat_body r) ''reasoning_effort'' = mget effort ''reasoning_effort''"
    by (simp add: body map_add_def parts split: option.split)
  moreover have "mget effort ''reasoning_effort'' \<in> {None, Some (JStr ''low''), Some (JStr ''high'')}"
    using eff wire_effort_values by (fastforce simp: reasoning_member_def Let_def split: option.splits)
  moreover have "mget (resp_chat_body r) ''tool_choice'' = mget choice ''tool_choice''"
    by (simp add: body map_add_def parts split: option.split)
  moreover have "mget choice ''tool_choice''
      \<in> {None, Some (JStr ''auto''), Some (JStr ''required''), Some (JStr ''none'')}"
    using choice resp_choice_values by (fastforce simp: resp_choice_member_def opt_member_get split: option.splits)
  ultimately show ?thesis using out by simp
qed

theorem responses_request_members_witness:
  "let m = [(''input'', JArr sample_items), (''reasoning'', JObj [(''effort'', JStr ''xhigh'')]),
            (''instructions'', JStr ''be nice'')];
       body = [(''model'', JStr ''flash''), (''reasoning_effort'', JStr ''high''),
               (''messages'', JArr sample_messages)]
   in resp_convert_request sample_codec (JObj m) ''flash''
        = Inr \<lparr>resp_chat_body = body, resp_thinking_requested = False, resp_client_model = None,
               prompt_cache_key = None\<rparr>
      \<and> mget body ''model'' = Some (JStr ''flash'')"
proof -
  let ?m = "[(''input'', JArr sample_items), (''reasoning'', JObj [(''effort'', JStr ''xhigh'')]),
            (''instructions'', JStr ''be nice'')]"
  have conv: "resp_convert_request sample_codec (JObj ?m) ''flash''
        = Inr \<lparr>resp_chat_body = [(''model'', JStr ''flash''), (''reasoning_effort'', JStr ''high''),
                 (''messages'', JArr sample_messages)],
               resp_thinking_requested = False, resp_client_model = None, prompt_cache_key = None\<rparr>"
    by code_simp
  show ?thesis
    unfolding Let_def using conv responses_request_members [OF conv] by simp
qed

end
