(* ===== verification/Responses_Stream.thy ===== *)
theory Responses_Stream
  imports Anthropic_Stream
begin

text \<open>
  The chat-completions to Responses stream converter (\<open>src/responses/stream.rs\<close>, \<open>types.rs\<close>). A frame
  is its sequence number with a value of \<open>frame_event\<close>; \<open>frame_json\<close> gives the JSON object sent. The
  random ids come from the parameter \<open>rnd\<close>: the converter's \<open>ids_drawn\<close> counts how many it has used.
\<close>

section \<open>Wire types\<close>

type_synonym usage4 = "u64 \<times> u64 \<times> u64 \<times> u64"

definition resp_map_usage :: "json \<Rightarrow> usage4" where
  "resp_map_usage u =
     (let input = unwrap_or 0 (get_u64 ''prompt_tokens'' u);
          out = unwrap_or 0 (get_u64 ''completion_tokens'' u);
          cached = unwrap_or 0
            (Option.bind (pointer2 ''prompt_tokens_details'' ''cached_tokens'' u) as_u64);
          reasoning = unwrap_or 0
            (Option.bind (pointer2 ''completion_tokens_details'' ''reasoning_tokens'' u) as_u64)
      in (input, out, min cached input, min reasoning out))"

definition usage_json :: "usage4 \<Rightarrow> json" where
  "usage_json u =
     (case u of (input, out, cached, reasoning) \<Rightarrow>
        JObj [(''input_tokens'', JU64 input),
              (''input_tokens_details'', JObj [(''cached_tokens'', JU64 cached)]),
              (''output_tokens'', JU64 out),
              (''output_tokens_details'', JObj [(''reasoning_tokens'', JU64 reasoning)]),
              (''total_tokens'', JU64 (input + out))])"

definition resp_sse_event :: "codec \<Rightarrow> json \<Rightarrow> string" where
  "resp_sse_event c data = ''data: '' @ to_text c data @ [CHR 0x0A, CHR 0x0A]"

definition resp_sse_ping :: string where
  "resp_sse_ping = '': ping'' @ [CHR 0x0A, CHR 0x0A]"

definition base_response ::
    "string \<Rightarrow> string \<Rightarrow> string \<Rightarrow> json list \<Rightarrow> usage4 option \<Rightarrow> u64 \<Rightarrow> members" where
  "base_response resp_id model_id status output u created =
     [(''id'', JStr resp_id), (''object'', JStr ''response''), (''created_at'', JU64 created),
      (''status'', JStr status), (''model'', JStr model_id), (''output'', JArr output),
      (''usage'', usage_json (unwrap_or (0, 0, 0, 0) u)), (''error'', JNull),
      (''incomplete_details'', JNull), (''parallel_tool_calls'', JBool True)]"

section \<open>Items and frames\<close>

datatype item =
    ReasoningItem string "string option"
  | MessageItem string "string option"
  | CallItem string string string "string option"

text \<open>The text or the arguments of an item are there once it is completed.\<close>

definition summary_text :: "string \<Rightarrow> json" where
  "summary_text s = JObj [(''type'', JStr ''summary_text''), (''text'', JStr s)]"

definition output_text :: "string \<Rightarrow> json" where
  "output_text s = JObj [(''type'', JStr ''output_text''), (''text'', JStr s), (''annotations'', JArr [])]"

fun item_json :: "item \<Rightarrow> json" where
  "item_json (ReasoningItem i s) =
     JObj [(''type'', JStr ''reasoning''), (''id'', JStr i),
           (''summary'', JArr (case s of None \<Rightarrow> [] | Some t \<Rightarrow> [summary_text t])),
           (''status'', JStr (if s = None then ''in_progress'' else ''completed''))]"
| "item_json (MessageItem i s) =
     JObj [(''type'', JStr ''message''), (''id'', JStr i), (''role'', JStr ''assistant''),
           (''status'', JStr (if s = None then ''in_progress'' else ''completed'')),
           (''content'', JArr (case s of None \<Rightarrow> [] | Some t \<Rightarrow> [output_text t]))]"
| "item_json (CallItem i call_id name s) =
     JObj [(''type'', JStr ''function_call''), (''id'', JStr i), (''call_id'', JStr call_id),
           (''name'', JStr name), (''arguments'', JStr (unwrap_or [] s)),
           (''status'', JStr (if s = None then ''in_progress'' else ''completed''))]"

datatype frame_event =
    Created members
  | InProgress members
  | ItemAdded nat item
  | SummaryPartAdded string nat
  | SummaryDelta string nat string
  | SummaryTextDone string nat string
  | SummaryPartDone string nat string
  | TextPartAdded string nat
  | OutputTextDelta string nat string
  | OutputTextDone string nat string
  | TextPartDone string nat string
  | ArgumentsDelta string nat string
  | ArgumentsDone string nat string
  | ItemDone nat item
  | Terminal string members

definition part_members :: "string \<Rightarrow> string \<Rightarrow> nat \<Rightarrow> string \<Rightarrow> members" where
  "part_members type item_id index part_index =
     [(''type'', JStr type), (''item_id'', JStr item_id), (''output_index'', JNat index),
      (part_index, JNat 0)]"

fun event_members :: "frame_event \<Rightarrow> members" where
  "event_members (Created r) = [(''type'', JStr ''response.created''), (''response'', JObj r)]"
| "event_members (InProgress r) = [(''type'', JStr ''response.in_progress''), (''response'', JObj r)]"
| "event_members (ItemAdded n i) =
     [(''type'', JStr ''response.output_item.added''), (''output_index'', JNat n), (''item'', item_json i)]"
| "event_members (SummaryPartAdded i n) =
     part_members ''response.reasoning_summary_part.added'' i n ''summary_index''
       @ [(''part'', summary_text [])]"
| "event_members (SummaryDelta i n s) =
     part_members ''response.reasoning_summary_text.delta'' i n ''summary_index'' @ [(''delta'', JStr s)]"
| "event_members (SummaryTextDone i n s) =
     part_members ''response.reasoning_summary_text.done'' i n ''summary_index'' @ [(''text'', JStr s)]"
| "event_members (SummaryPartDone i n s) =
     part_members ''response.reasoning_summary_part.done'' i n ''summary_index''
       @ [(''part'', summary_text s)]"
| "event_members (TextPartAdded i n) =
     part_members ''response.content_part.added'' i n ''content_index'' @ [(''part'', output_text [])]"
| "event_members (OutputTextDelta i n s) =
     part_members ''response.output_text.delta'' i n ''content_index'' @ [(''delta'', JStr s)]"
| "event_members (OutputTextDone i n s) =
     part_members ''response.output_text.done'' i n ''content_index'' @ [(''text'', JStr s)]"
| "event_members (TextPartDone i n s) =
     part_members ''response.content_part.done'' i n ''content_index'' @ [(''part'', output_text s)]"
| "event_members (ArgumentsDelta i n s) =
     [(''type'', JStr ''response.function_call_arguments.delta''), (''item_id'', JStr i),
      (''output_index'', JNat n), (''delta'', JStr s)]"
| "event_members (ArgumentsDone i n s) =
     [(''type'', JStr ''response.function_call_arguments.done''), (''item_id'', JStr i),
      (''output_index'', JNat n), (''arguments'', JStr s)]"
| "event_members (ItemDone n i) =
     [(''type'', JStr ''response.output_item.done''), (''output_index'', JNat n), (''item'', item_json i)]"
| "event_members (Terminal type r) = [(''type'', JStr type), (''response'', JObj r)]"

type_synonym frame = "u64 \<times> frame_event"

definition frame_json :: "frame \<Rightarrow> json" where
  "frame_json f = JObj (event_members (snd f) @ [(''sequence_number'', JU64 (fst f))])"

definition resp_render :: "codec \<Rightarrow> frame list \<Rightarrow> string" where
  "resp_render c fs = concat (map (\<lambda>f. resp_sse_event c (frame_json f)) fs)"

section \<open>The converter\<close>

text \<open>\<open>ReasoningState\<close> and \<open>MessageState\<close>; an index of \<open>usize::MAX\<close> (not assigned yet) is \<open>None\<close>.\<close>

record item_state =
  state_item_id :: string
  state_index :: "nat option"
  accum :: string
  item_added :: bool
  part_added :: bool
  part_done :: bool
  item_done :: bool

record call_slot =
  call_item_id :: string
  call_id :: string
  call_name :: string
  call_arguments :: string
  call_index :: nat
  call_done :: bool
  call_server :: bool

datatype output_item = OutReasoning string | OutMessage string | OutCall string

record responses_converter =
  response_id :: string
  base_model :: string
  expose_reasoning :: bool
  resp_started :: bool
  sequence :: u64
  created_at :: u64
  next_output_index :: nat
  reasoning :: "item_state option"
  message :: "item_state option"
  calls :: "(int, call_slot) table"
  server_tool_names :: "string set"
  output_items :: "output_item list"
  resp_finish_reason :: "string option"
  resp_usage :: "usage4 option"
  resp_error :: "string option"
  model_seen :: "string option"
  ids_drawn :: nat

type_synonym emission = "responses_converter \<times> frame list"

definition new_responses_converter ::
    "(nat \<Rightarrow> string) \<Rightarrow> string \<Rightarrow> bool \<Rightarrow> string set \<Rightarrow> u64 \<Rightarrow> responses_converter" where
  "new_responses_converter rnd model_id expose server now =
     \<lparr>response_id = ''resp_'' @ rnd 0, base_model = model_id, expose_reasoning = expose,
      resp_started = False, sequence = 0, created_at = now, next_output_index = 0,
      reasoning = None, message = None, calls = [], server_tool_names = server, output_items = [],
      resp_finish_reason = None, resp_usage = None, resp_error = None, model_seen = None,
      ids_drawn = 1\<rparr>"

definition model_name :: "responses_converter \<Rightarrow> string" where
  "model_name s = unwrap_or (base_model s) (model_seen s)"

definition resp_has_reasoning :: "responses_converter \<Rightarrow> bool" where
  "resp_has_reasoning s \<longleftrightarrow> (case reasoning s of None \<Rightarrow> False | Some r \<Rightarrow> accum r \<noteq> [])"

definition resp_has_text :: "responses_converter \<Rightarrow> bool" where
  "resp_has_text s \<longleftrightarrow> (case message s of None \<Rightarrow> False | Some m \<Rightarrow> accum m \<noteq> [])"

definition resp_has_tools :: "responses_converter \<Rightarrow> bool" where
  "resp_has_tools s \<longleftrightarrow> calls s \<noteq> []"

definition reasoning_text :: "responses_converter \<Rightarrow> string" where
  "reasoning_text s = (case reasoning s of None \<Rightarrow> [] | Some r \<Rightarrow> accum r)"

definition tool_call_ids :: "responses_converter \<Rightarrow> string list" where
  "tool_call_ids s = map (\<lambda>(_, t). call_id t) (calls s)"

definition reasoning_bytes :: "responses_converter \<Rightarrow> nat" where
  "reasoning_bytes s = (case reasoning s of None \<Rightarrow> 0 | Some r \<Rightarrow> length (accum r))"

definition text_bytes :: "responses_converter \<Rightarrow> nat" where
  "text_bytes s = (case message s of None \<Rightarrow> 0 | Some m \<Rightarrow> length (accum m))"

definition tool_bytes :: "responses_converter \<Rightarrow> nat" where
  "tool_bytes s = sum_list (map (\<lambda>(_, t). length (call_arguments t)) (calls s))"

definition has_server_tools :: "responses_converter \<Rightarrow> bool" where
  "has_server_tools s \<longleftrightarrow> (\<exists>p \<in> set (calls s). call_server (snd p))"

definition has_client_tools :: "responses_converter \<Rightarrow> bool" where
  "has_client_tools s \<longleftrightarrow> (\<exists>p \<in> set (calls s). \<not> call_server (snd p))"

definition server_tool_calls :: "responses_converter \<Rightarrow> tool_call_accum list" where
  "server_tool_calls s =
     map (\<lambda>(_, t). \<lparr>accum_id = call_id t, accum_name = call_name t, accum_arguments = call_arguments t\<rparr>)
       (filter (call_server \<circ> snd) (calls s))"

definition begin_new_upstream_round :: "responses_converter \<Rightarrow> responses_converter" where
  "begin_new_upstream_round s = s\<lparr>calls := [], resp_finish_reason := None\<rparr>"

section \<open>Emitting\<close>

text \<open>
  An item that is closed has been added, so its index is assigned: the default in the closing
  operations below is never used.
\<close>

definition emit :: "frame_event \<Rightarrow> responses_converter \<Rightarrow> emission" where
  "emit e s = (s\<lparr>sequence := sequence s + 1\<rparr>, [(sequence s + 1, e)])"

definition emits :: "frame_event list \<Rightarrow> responses_converter \<Rightarrow> emission" where
  "emits es s = emit_all emit es s"

definition ensure_started :: "responses_converter \<Rightarrow> emission" where
  "ensure_started s =
     (if resp_started s then (s, [])
      else
        let r = base_response (response_id s) (model_name s) ''in_progress'' [] None (created_at s)
        in emits [Created r, InProgress r] (s\<lparr>resp_started := True\<rparr>))"

definition fresh_item :: "string \<Rightarrow> item_state" where
  "fresh_item i = \<lparr>state_item_id = i, state_index = None, accum = [], item_added = False,
                   part_added = False, part_done = False, item_done = False\<rparr>"

text \<open>The reasoning (message) state, created with a new id when there is none.\<close>

definition ensure_reasoning :: "(nat \<Rightarrow> string) \<Rightarrow> responses_converter \<Rightarrow> responses_converter \<times> item_state" where
  "ensure_reasoning rnd s =
     (case reasoning s of
        Some r \<Rightarrow> (s, r)
      | None \<Rightarrow> (s\<lparr>ids_drawn := Suc (ids_drawn s)\<rparr>, fresh_item (''rs_'' @ rnd (ids_drawn s))))"

definition ensure_message :: "(nat \<Rightarrow> string) \<Rightarrow> responses_converter \<Rightarrow> responses_converter \<times> item_state" where
  "ensure_message rnd s =
     (case message s of
        Some m \<Rightarrow> (s, m)
      | None \<Rightarrow> (s\<lparr>ids_drawn := Suc (ids_drawn s)\<rparr>, fresh_item (''msg_'' @ rnd (ids_drawn s))))"

definition assign_index :: "responses_converter \<Rightarrow> item_state \<Rightarrow> nat \<times> nat" where
  "assign_index s r =
     (case state_index r of
        Some n \<Rightarrow> (n, next_output_index s)
      | None \<Rightarrow> (next_output_index s, Suc (next_output_index s)))"

definition resp_feed_reasoning ::
    "(nat \<Rightarrow> string) \<Rightarrow> string \<Rightarrow> responses_converter \<Rightarrow> emission" where
  "resp_feed_reasoning rnd txt s =
     (case ensure_reasoning rnd s of (s1, r) \<Rightarrow>
        if \<not> expose_reasoning s then (s1\<lparr>reasoning := Some (r\<lparr>accum := accum r @ txt\<rparr>)\<rparr>, [])
        else
          case assign_index s1 r of (index, nxt) \<Rightarrow>
          let i = state_item_id r;
              s2 = s1\<lparr>next_output_index := nxt,
                      reasoning := Some (r\<lparr>accum := accum r @ txt, item_added := True,
                                           state_index := Some index, part_added := True\<rparr>),
                      output_items := output_items s1
                        @ (if item_added r then [] else [OutReasoning i])\<rparr>
          in emits ((if item_added r then [] else [ItemAdded index (ReasoningItem i None)])
                    @ (if part_added r then [] else [SummaryPartAdded i index])
                    @ [SummaryDelta i index txt]) s2)"

definition resp_feed_text ::
    "(nat \<Rightarrow> string) \<Rightarrow> string \<Rightarrow> responses_converter \<Rightarrow> emission" where
  "resp_feed_text rnd txt s =
     (case ensure_message rnd s of (s1, m) \<Rightarrow>
      case assign_index s1 m of (index, nxt) \<Rightarrow>
      let i = state_item_id m;
          first = \<not> item_added m;
          m' = m\<lparr>accum := accum m @ txt, state_index := Some index\<rparr>;
          s2 = s1\<lparr>next_output_index := nxt,
                  message := Some (if first then m'\<lparr>item_added := True, part_added := True\<rparr> else m'),
                  output_items := output_items s1 @ (if first then [OutMessage i] else [])\<rparr>
      in emits ((if first then [ItemAdded index (MessageItem i None), TextPartAdded i index] else [])
                @ [OutputTextDelta i index txt]) s2)"

definition close_message_item :: "responses_converter \<Rightarrow> emission" where
  "close_message_item s =
     (case message s of
        None \<Rightarrow> (s, [])
      | Some m \<Rightarrow>
          if item_done m then (s, [])
          else
            let i = state_item_id m; index = unwrap_or 0 (state_index m); txt = accum m
            in emits ((if part_added m \<and> \<not> part_done m
                       then [OutputTextDone i index txt, TextPartDone i index txt] else [])
                      @ [ItemDone index (MessageItem i (Some txt))])
                 (s\<lparr>message := Some (m\<lparr>item_done := True, part_done := True\<rparr>)\<rparr>))"

definition close_reasoning_item :: "responses_converter \<Rightarrow> emission" where
  "close_reasoning_item s =
     (case reasoning s of
        None \<Rightarrow> (s, [])
      | Some r \<Rightarrow>
          if \<not> item_added r \<or> item_done r then (s, [])
          else
            let i = state_item_id r; index = unwrap_or 0 (state_index r); txt = accum r
            in emits ((if part_added r \<and> \<not> part_done r
                       then [SummaryTextDone i index txt, SummaryPartDone i index txt] else [])
                      @ [ItemDone index (ReasoningItem i (Some txt))])
                 (s\<lparr>reasoning := Some (r\<lparr>item_done := True, part_done := True\<rparr>)\<rparr>))"

section \<open>Tool calls\<close>

definition function_name :: "json \<Rightarrow> string option" where
  "function_name tool_call = Option.bind (pointer2 ''function'' ''name'' tool_call) as_str"

definition function_arguments :: "json \<Rightarrow> string option" where
  "function_arguments tool_call = Option.bind (pointer2 ''function'' ''arguments'' tool_call) as_str"

definition call_number :: "json \<Rightarrow> int" where
  "call_number tool_call = unwrap_or 0 (get_i64 ''index'' tool_call)"

text \<open>The slot registered for a call index seen for the first time.\<close>

definition add_call :: "(nat \<Rightarrow> string) \<Rightarrow> json \<Rightarrow> responses_converter \<Rightarrow> emission" where
  "add_call rnd tool_call s =
     (let name = unwrap_or [] (function_name tool_call);
          cid = unwrap_or [] (get_str ''id'' tool_call);
          index = next_output_index s;
          i = ''fc_'' @ rnd (ids_drawn s);
          server = (name \<in> server_tool_names s);
          slot = \<lparr>call_item_id = i, call_id = cid, call_name = name, call_arguments = [],
                  call_index = index, call_done = False, call_server = server\<rparr>;
          s1 = s\<lparr>next_output_index := Suc index, ids_drawn := Suc (ids_drawn s),
                 calls := bt_put (call_number tool_call) slot (calls s)\<rparr>
      in if server then (s1, [])
         else emits [ItemAdded index (CallItem i cid name None)]
                (s1\<lparr>output_items := output_items s1 @ [OutCall i]\<rparr>))"

definition ensure_tool_item_added :: "(nat \<Rightarrow> string) \<Rightarrow> json \<Rightarrow> responses_converter \<Rightarrow> emission" where
  "ensure_tool_item_added rnd tool_call s =
     (if map_of (calls s) (call_number tool_call) \<noteq> None then (s, [])
      else then_emit (if calls s = [] then close_message_item s else (s, [])) (add_call rnd tool_call))"

definition patch_slot :: "string set \<Rightarrow> json \<Rightarrow> call_slot \<Rightarrow> call_slot" where
  "patch_slot server_names tool_call slot =
     (let slot1 = (case non_empty (get_str ''id'' tool_call) of
                     None \<Rightarrow> slot | Some i \<Rightarrow> slot\<lparr>call_id := i\<rparr>);
          slot2 = (case non_empty (function_name tool_call) of
                     None \<Rightarrow> slot1
                   | Some n \<Rightarrow> slot1\<lparr>call_name := n,
                                     call_server := call_server slot1 \<or> n \<in> server_names\<rparr>)
      in (case function_arguments tool_call of
            None \<Rightarrow> slot2 | Some a \<Rightarrow> slot2\<lparr>call_arguments := call_arguments slot2 @ a\<rparr>))"

definition feed_tool_call_arguments :: "json \<Rightarrow> responses_converter \<Rightarrow> emission" where
  "feed_tool_call_arguments tool_call s =
     (case map_of (calls s) (call_number tool_call) of
        None \<Rightarrow> (s, [])
      | Some slot0 \<Rightarrow>
          let slot = patch_slot (server_tool_names s) tool_call slot0;
              delta = (if call_server slot then [] else unwrap_or [] (function_arguments tool_call))
          in emits (if delta = [] then [] else [ArgumentsDelta (call_item_id slot) (call_index slot) delta])
               (s\<lparr>calls := bt_put (call_number tool_call) slot (calls s)\<rparr>))"

definition feed_tool_calls :: "(nat \<Rightarrow> string) \<Rightarrow> json list \<Rightarrow> responses_converter \<Rightarrow> emission" where
  "feed_tool_calls rnd tool_calls s =
     then_emit (emit_all (ensure_tool_item_added rnd) tool_calls s)
       (emit_all feed_tool_call_arguments tool_calls)"

section \<open>Feeding a chunk\<close>

definition resp_feed_delta :: "(nat \<Rightarrow> string) \<Rightarrow> json \<Rightarrow> responses_converter \<Rightarrow> emission" where
  "resp_feed_delta rnd delta s =
     then_emit (then_emit
       (emit_some (resp_feed_reasoning rnd) (non_empty (get_str ''reasoning_content'' delta)) s)
       (emit_some (resp_feed_text rnd) (non_empty (get_str ''content'' delta))))
       (emit_some (feed_tool_calls rnd) (get_arr ''tool_calls'' delta))"

definition resp_note_finish :: "json \<Rightarrow> responses_converter \<Rightarrow> responses_converter" where
  "resp_note_finish choice s =
     (case get_str ''finish_reason'' choice of
        None \<Rightarrow> s | Some f \<Rightarrow> s\<lparr>resp_finish_reason := Some f\<rparr>)"

definition resp_feed_choice :: "(nat \<Rightarrow> string) \<Rightarrow> json \<Rightarrow> responses_converter \<Rightarrow> emission" where
  "resp_feed_choice rnd choice s =
     emit_some (resp_feed_delta rnd) (get ''delta'' choice) (resp_note_finish choice s)"

definition resp_note_chunk :: "json \<Rightarrow> responses_converter \<Rightarrow> responses_converter" where
  "resp_note_chunk chunk s =
     (let s1 = (case non_empty (get_str ''model'' chunk) of
                  None \<Rightarrow> s | Some m \<Rightarrow> s\<lparr>model_seen := Some m\<rparr>)
      in (case filter_opt is_object (get ''usage'' chunk) of
            None \<Rightarrow> s1 | Some u \<Rightarrow> s1\<lparr>resp_usage := Some (resp_map_usage u)\<rparr>))"

definition resp_choice_semantic :: "json \<Rightarrow> bool" where
  "resp_choice_semantic choice \<longleftrightarrow>
     get_str ''finish_reason'' choice \<noteq> None \<or>
     (case get ''delta'' choice of
        None \<Rightarrow> False
      | Some delta \<Rightarrow>
          non_empty (get_str ''reasoning_content'' delta) \<noteq> None
          \<or> non_empty (get_str ''content'' delta) \<noteq> None
          \<or> get_arr ''tool_calls'' delta \<noteq> None)"

definition resp_feed_chunk ::
    "(nat \<Rightarrow> string) \<Rightarrow> json \<Rightarrow> responses_converter \<Rightarrow> emission \<times> bool" where
  "resp_feed_chunk rnd chunk s =
     (then_emit (ensure_started s)
        (\<lambda>s1. emit_some (emit_all (resp_feed_choice rnd)) (get_arr ''choices'' chunk)
                 (resp_note_chunk chunk s1)),
      \<exists>choice \<in> set (unwrap_or [] (get_arr ''choices'' chunk)). resp_choice_semantic choice)"

section \<open>Finishing\<close>

definition item_text :: "item_state option \<Rightarrow> string \<Rightarrow> string" where
  "item_text st i =
     (case filter_opt (\<lambda>r. state_item_id r = i) st of None \<Rightarrow> [] | Some r \<Rightarrow> accum r)"

definition output_json :: "responses_converter \<Rightarrow> output_item \<Rightarrow> json list" where
  "output_json s it =
     (case it of
        OutReasoning i \<Rightarrow> [item_json (ReasoningItem i (Some (item_text (reasoning s) i)))]
      | OutMessage i \<Rightarrow> [item_json (MessageItem i (Some (item_text (message s) i)))]
      | OutCall i \<Rightarrow>
          (case List.find (\<lambda>p. call_item_id (snd p) = i) (calls s) of
             None \<Rightarrow> []
           | Some (_, t) \<Rightarrow>
               [item_json (CallItem (call_item_id t) (call_id t) (call_name t) (Some (call_arguments t)))]))"

definition terminal_response :: "responses_converter \<Rightarrow> string \<Rightarrow> members" where
  "terminal_response s status =
     base_response (response_id s) (model_name s) status
       (concat (map (output_json s) (output_items s))) (resp_usage s) (created_at s)"

definition upstream_error :: "string \<Rightarrow> json" where
  "upstream_error msg = JObj [(''code'', JStr ''upstream_error''), (''message'', JStr msg)]"

definition max_tokens_detail :: json where
  "max_tokens_detail = JObj [(''reason'', JStr ''max_output_tokens'')]"

definition close_call :: "call_slot \<Rightarrow> frame_event list" where
  "close_call t =
     [ArgumentsDone (call_item_id t) (call_index t) (call_arguments t),
      ItemDone (call_index t)
        (CallItem (call_item_id t) (call_id t) (call_name t) (Some (call_arguments t)))]"

definition close_calls :: "responses_converter \<Rightarrow> emission" where
  "close_calls s =
     (case emits (concat (map (close_call \<circ> snd)
                     (filter (\<lambda>p. \<not> call_done (snd p) \<and> \<not> call_server (snd p)) (calls s)))) s of
        (s1, fs) \<Rightarrow> (s1\<lparr>calls := map (\<lambda>(k, t). (k, t\<lparr>call_done := True\<rparr>)) (calls s1)\<rparr>, fs))"

definition terminal_event :: "responses_converter \<Rightarrow> frame_event" where
  "terminal_event s =
     (if resp_finish_reason s = Some ''length''
      then Terminal ''response.incomplete''
             (minsert ''incomplete_details'' max_tokens_detail (terminal_response s ''incomplete''))
      else Terminal ''response.completed'' (terminal_response s ''completed''))"

definition resp_finish :: "string option \<Rightarrow> responses_converter \<Rightarrow> emission" where
  "resp_finish error s0 =
     (let s = s0\<lparr>resp_error := error\<rparr>
      in case error of
           Some msg \<Rightarrow>
             emit (Terminal ''response.failed''
                     (minsert ''error'' (upstream_error msg) (terminal_response s ''failed''))) s
         | None \<Rightarrow>
             then_emit (then_emit (then_emit (close_reasoning_item s) close_message_item) close_calls)
               (\<lambda>s1. emit (terminal_event s1) s1))"

definition resp_nonstream_response :: "responses_converter \<Rightarrow> json" where
  "resp_nonstream_response s =
     (case resp_error s of
        Some msg \<Rightarrow>
          JObj (minsert ''error'' (upstream_error msg) (terminal_response s ''failed''))
      | None \<Rightarrow>
          if resp_finish_reason s = Some ''length''
          then JObj (minsert ''incomplete_details'' max_tokens_detail (terminal_response s ''incomplete''))
          else JObj (terminal_response s ''completed''))"

end
