(* ===== verification/Responses_Items.thy ===== *)
theory Responses_Items
  imports Responses_Stream_Props
begin

text \<open>
  The item protocol of a Responses stream: a step relation over its events, a simulation between the
  converter and the relation's states, and the complete run of a response that ends without error.
\<close>

section \<open>The protocol\<close>








section \<open>The converter against the protocol\<close>



definition call_entry :: "call_slot \<Rightarrow> nat \<times> string" where
  "call_entry t = (call_index t, call_item_id t)"





















section \<open>Text and tool calls\<close>







lemma patch_slot_entry [simp]:
  "call_entry (patch_slot names t slot) = call_entry slot"
  "call_done (patch_slot names t slot) = call_done slot"
  "call_item_id (patch_slot names t slot) = call_item_id slot"
  "call_index (patch_slot names t slot) = call_index slot"
  by (simp_all add: patch_slot_def call_entry_def Let_def split: option.split)






section \<open>The whole response\<close>

















text \<open>A message that is closed by a tool call and then continued: the delta follows the item's end.\<close>

definition late_text_chunks :: "json list" where
  "late_text_chunks =
     (let chunk = (\<lambda>d. JObj [(''choices'', JArr [JObj [(''delta'', d)]])])
      in [chunk (JObj [(''content'', JStr ''a'')]),
          chunk (JObj [(''tool_calls'', JArr [JObj [(''id'', JStr ''t'')]])]),
          chunk (JObj [(''content'', JStr ''b'')])])"

lemma text_after_item_done:
  "drop 5 (map snd (snd (resp_feed_chunks (\<lambda>_. ''0'') late_text_chunks
       (new_responses_converter (\<lambda>_. ''0'') ''m'' False {} 0))))
   = [OutputTextDone ''msg_0'' 0 ''a'', TextPartDone ''msg_0'' 0 ''a'',
      ItemDone 0 (MessageItem ''msg_0'' (Some ''a'')), ItemAdded 1 (CallItem ''fc_0'' ''t'' [] None),
      OutputTextDelta ''msg_0'' 0 ''b'']"
  by code_simp

section \<open>The terminal frame and the accumulators\<close>

lemma terminal_response_sequence [simp]:
  "terminal_response (s\<lparr>sequence := n\<rparr>) status = terminal_response s status"
proof -
  have "output_json (s\<lparr>sequence := n\<rparr>) = output_json s"
    by (rule ext) (simp add: output_json_def split: output_item.split)
  then show ?thesis by (simp add: terminal_response_def model_name_def)
qed

lemma close_error:
  "resp_error (fst (close_reasoning_item s)) = resp_error s"
  "resp_error (fst (close_message_item s)) = resp_error s"
  "resp_error (fst (close_calls s)) = resp_error s"
  by (auto simp: close_reasoning_item_def close_message_item_def close_calls_def Let_def fst_emits
      case_prod_unfold simp del: emits_simps split: option.split)

text \<open>
  C23: streaming and non-streaming cannot diverge: the last frame of every finished response is the
  terminal event, and the response object in it is the one the non-stream path would return.
\<close>

theorem terminal_frame_is_the_nonstream_response:
  "\<exists>pre n t r. snd (resp_finish err s) = pre @ [(n, Terminal t r)]
     \<and> resp_nonstream_response (fst (resp_finish err s)) = JObj r"
proof (cases err)
  case (Some msg)
  then show ?thesis
    by (simp add: resp_finish_def emit_def resp_nonstream_response_def Let_def)
next
  case None
  define s3 where "s3 = fst (then_emit (then_emit (close_reasoning_item (s\<lparr>resp_error := None\<rparr>))
    close_message_item) close_calls)"
  define pre where "pre = snd (then_emit (then_emit (close_reasoning_item (s\<lparr>resp_error := None\<rparr>))
    close_message_item) close_calls)"
  have fin: "resp_finish None s
      = (s3\<lparr>sequence := sequence s3 + 1\<rparr>, pre @ [(sequence s3 + 1, terminal_event s3)])"
    by (simp add: resp_finish_def Let_def then_emit_def case_prod_unfold emit_def s3_def pre_def)
  have "resp_error s3 = None"
    by (simp add: s3_def then_emit_def case_prod_unfold close_error)
  then show ?thesis
    by (simp add: None fin terminal_event_def resp_nonstream_response_def)
qed

fun text_in_frame :: "frame \<Rightarrow> string" where
  "text_in_frame (_, OutputTextDelta _ _ t) = t"
| "text_in_frame _ = []"

fun summary_in_frame :: "frame \<Rightarrow> string" where
  "summary_in_frame (_, SummaryDelta _ _ t) = t"
| "summary_in_frame _ = []"

definition texts :: "frame list \<Rightarrow> string" where
  "texts fs = concat (map text_in_frame fs)"

definition summaries :: "frame list \<Rightarrow> string" where
  "summaries fs = concat (map summary_in_frame fs)"

definition message_text :: "responses_converter \<Rightarrow> string" where
  "message_text s = (case message s of None \<Rightarrow> [] | Some m \<Rightarrow> accum m)"

definition carries :: "responses_converter \<Rightarrow> emission \<Rightarrow> bool" where
  "carries s r \<longleftrightarrow> message_text (fst r) = message_text s @ texts (snd r)
     \<and> expose_reasoning (fst r) = expose_reasoning s
     \<and> (if expose_reasoning s then reasoning_text (fst r) = reasoning_text s @ summaries (snd r)
        else summaries (snd r) = [])"

lemma carries_nil: "carries s (s, [])"
  by (simp add: carries_def texts_def summaries_def)

lemma carries_then: "carries s r \<Longrightarrow> carries (fst r) (f (fst r)) \<Longrightarrow> carries s (then_emit r f)"
  by (auto simp: carries_def then_emit_def texts_def summaries_def case_prod_unfold)

interpretation carrying: emission carries
  by unfold_locales (rule carries_nil, rule carries_then)

lemma frames_cons [simp]:
  "texts [] = []" "summaries [] = []"
  "texts (f # fs) = text_in_frame f @ texts fs" "summaries (f # fs) = summary_in_frame f @ summaries fs"
  "texts (fs @ gs) = texts fs @ texts gs" "summaries (fs @ gs) = summaries fs @ summaries gs"
  by (simp_all add: texts_def summaries_def)

lemma any_number:
  "text_in_frame (n, e) = text_in_frame (0, e)" "summary_in_frame (n, e) = summary_in_frame (0, e)"
  by (cases e; simp)+

lemma frames_emits:
  "texts (snd (emits es s)) = concat (map (\<lambda>e. text_in_frame (0, e)) es)"
  "summaries (snd (emits es s)) = concat (map (\<lambda>e. summary_in_frame (0, e)) es)"
  by (induction es arbitrary: s)
    (simp_all add: then_emit_def emit_def case_prod_unfold any_number [of "sequence _ + 1"])

lemmas carry_simps = carries_def frames_emits fst_emits message_text_def reasoning_text_def Let_def

lemma carries_via:
  assumes "carries s' r" and "message s' = message s" and "reasoning s' = reasoning s"
    and "expose_reasoning s' = expose_reasoning s"
  shows "carries s r"
proof -
  have "message_text s' = message_text s" "reasoning_text s' = reasoning_text s"
    using assms by (simp_all add: message_text_def reasoning_text_def)
  with assms(1,4) show ?thesis by (simp add: carries_def)
qed

lemma carries_started: "carries s (ensure_started s)"
  by (auto simp: ensure_started_def carry_simps simp del: emits_simps)

lemma carries_reasoning: "carries s (resp_feed_reasoning rnd t s)"
  by (auto simp: resp_feed_reasoning_def ensure_reasoning_def assign_index_def fresh_item_def
      carry_simps case_prod_unfold simp del: emits_simps split: option.split)

lemma carries_text: "carries s (resp_feed_text rnd t s)"
  by (auto simp: resp_feed_text_def ensure_message_def assign_index_def fresh_item_def
      carry_simps case_prod_unfold simp del: emits_simps split: option.split)

lemma carries_close:
  "carries s (close_message_item s)" "carries s (close_reasoning_item s)"
  by (auto simp: close_message_item_def close_reasoning_item_def carry_simps
      simp del: emits_simps split: option.split)

lemma carries_calls: "carries s (close_calls s)"
proof -
  have "\<forall>e \<in> set (close_call t). text_in_frame (0, e) = [] \<and> summary_in_frame (0, e) = []" for t
    by (simp add: close_call_def)
  then show ?thesis
    by (auto simp: close_calls_def carry_simps case_prod_unfold simp del: emits_simps split: option.split)
qed

lemma carries_emit:
  "text_in_frame (0, e) = [] \<Longrightarrow> summary_in_frame (0, e) = [] \<Longrightarrow> carries s (emit e s)"
  by (simp add: emit_def carry_simps any_number [of "sequence s + 1"])

lemma carries_tools: "carries s (ensure_tool_item_added rnd t s)" "carries s (feed_tool_call_arguments t s)"
proof -
  have "carries s (add_call rnd t s)" for s
    by (auto simp: add_call_def carry_simps simp del: emits_simps split: option.split)
  then show "carries s (ensure_tool_item_added rnd t s)"
    unfolding ensure_tool_item_added_def
    by (auto intro!: carries_nil carries_then carries_close)
  show "carries s (feed_tool_call_arguments t s)"
    by (auto simp: feed_tool_call_arguments_def carry_simps simp del: emits_simps split: option.split)
qed

lemma carries_chunk: "carries s (fst (resp_feed_chunk rnd chunk s))"
proof -
  have delta: "carries s (resp_feed_delta rnd d s)" for s d
    unfolding resp_feed_delta_def feed_tool_calls_def
    by (intro carries_then carrying.ok_some carrying.ok_all carries_reasoning carries_text carries_tools)
  have choice: "carries s (resp_feed_choice rnd choice s)" for s choice
    by (rule carries_via [of "resp_note_finish choice s"])
      (auto simp: resp_feed_choice_def resp_note_finish_def intro!: carrying.ok_some delta
        split: option.split)
  have "carries s1 (emit_some (emit_all (resp_feed_choice rnd)) (get_arr ''choices'' chunk)
           (resp_note_chunk chunk s1))" for s1
    by (rule carries_via [of "resp_note_chunk chunk s1"])
      (auto simp: resp_note_chunk_def Let_def intro!: carrying.ok_some carrying.ok_all choice
        split: option.split)
  then show ?thesis
    unfolding resp_feed_chunk_def fst_conv by (intro carries_then carries_started)
qed

lemma carries_finish: "carries s (resp_finish err s)"
proof (rule carries_via)
  show "carries (s\<lparr>resp_error := err\<rparr>) (resp_finish err s)"
    by (auto simp: resp_finish_def Let_def terminal_event_def split: option.split
        intro!: carries_then carries_emit carries_close carries_calls)
qed simp_all

text \<open>
  C21: the client receives exactly the text that is accumulated for the terminal object: over the whole
  response the text deltas concatenate to the accumulated message, and the summary deltas to the
  accumulated reasoning when reasoning is exposed and to nothing when it is not.
\<close>

theorem responses_deltas_carry_the_answer:
  "let r = then_emit (resp_feed_chunks rnd chunks (new_responses_converter rnd m expose server now))
             (resp_finish err)
   in texts (snd r) = message_text (fst r)
      \<and> summaries (snd r) = (if expose then reasoning_text (fst r) else [])"
proof -
  let ?s = "new_responses_converter rnd m expose server now"
  have "carries ?s (then_emit (resp_feed_chunks rnd chunks ?s) (resp_finish err))"
    unfolding resp_feed_chunks_def
    by (intro carries_then carrying.ok_all carries_chunk carries_finish)
  then show ?thesis
    by (auto simp: carries_def Let_def new_responses_converter_def message_text_def reasoning_text_def)
qed

end
