(* ===== verification/Text.thy ===== *)
theory Text
  imports Policy "HOL-Library.Sublist"
begin

text \<open>
  The string functions of the standard library that the sources use, over the bytes of UTF-8 strings:
  trimming and splitting at white space, lines, search and replacement, ASCII case, characters, and
  the lossy decoding of arbitrary bytes. The lemmas say where a substring of a result comes from.
\<close>

section \<open>White space\<close>

text \<open>
  \<open>str::trim\<close>: the length in bytes of the white-space character a UTF-8 string starts with, 0 when it
  starts with another character; the same for its end, read backwards.
\<close>

abbreviation byte_at :: "string \<Rightarrow> nat \<Rightarrow> nat" where
  "byte_at s i \<equiv> (if i < length s then of_char (s ! i) else 0)"

definition space3 :: "nat \<Rightarrow> nat \<Rightarrow> nat \<Rightarrow> bool" where
  "space3 a b d \<longleftrightarrow>
     (a = 0xE1 \<and> b = 0x9A \<and> d = 0x80)
     \<or> (a = 0xE2 \<and> b = 0x80 \<and> (0x80 \<le> d \<and> d \<le> 0x8A \<or> d = 0xA8 \<or> d = 0xA9 \<or> d = 0xAF))
     \<or> (a = 0xE2 \<and> b = 0x81 \<and> d = 0x9F)
     \<or> (a = 0xE3 \<and> b = 0x80 \<and> d = 0x80)"

definition space2 :: "nat \<Rightarrow> nat \<Rightarrow> bool" where
  "space2 a b \<longleftrightarrow> a = 0xC2 \<and> (b = 0x85 \<or> b = 0xA0)"

definition space1 :: "nat \<Rightarrow> bool" where
  "space1 a \<longleftrightarrow> 9 \<le> a \<and> a \<le> 13 \<or> a = 32"

definition leading_space :: "string \<Rightarrow> nat" where
  "leading_space s =
     (if s \<noteq> [] \<and> space1 (byte_at s 0) then 1
      else if space2 (byte_at s 0) (byte_at s 1) then 2
      else if space3 (byte_at s 0) (byte_at s 1) (byte_at s 2) then 3
      else 0)"

definition trailing_space :: "string \<Rightarrow> nat" where
  "trailing_space s =
     (let t = rev s in
      if t \<noteq> [] \<and> space1 (byte_at t 0) then 1
      else if space2 (byte_at t 1) (byte_at t 0) then 2
      else if space3 (byte_at t 2) (byte_at t 1) (byte_at t 0) then 3
      else 0)"

text \<open>Each step drops at least one byte, so the length of the string is enough fuel.\<close>

fun trim_start_fuel :: "nat \<Rightarrow> string \<Rightarrow> string" where
  "trim_start_fuel 0 s = s"
| "trim_start_fuel (Suc n) s =
     (if leading_space s = 0 then s else trim_start_fuel n (drop (leading_space s) s))"

fun trim_end_fuel :: "nat \<Rightarrow> string \<Rightarrow> string" where
  "trim_end_fuel 0 s = s"
| "trim_end_fuel (Suc n) s =
     (if trailing_space s = 0 then s
      else trim_end_fuel n (take (length s - trailing_space s) s))"

definition trim :: "string \<Rightarrow> string" where
  "trim s = (let t = trim_start_fuel (length s) s in trim_end_fuel (length t) t)"

text \<open>\<open>str::split_whitespace\<close>: the non-empty pieces between white-space characters.\<close>

definition flush_word :: "string \<Rightarrow> string list" where
  "flush_word w = (if w = [] then [] else [w])"

function split_words :: "string \<Rightarrow> string \<Rightarrow> string list" where
  "split_words cur [] = flush_word cur"
| "split_words cur (b # s) =
     (if leading_space (b # s) = 0 then split_words (cur @ [b]) s
      else flush_word cur @ split_words [] (drop (leading_space (b # s)) (b # s)))"
  by pat_completeness auto
termination by (relation "measure (\<lambda>(cur, s). length s)") auto

definition split_whitespace :: "string \<Rightarrow> string list" where
  "split_whitespace s = split_words [] s"

section \<open>Search and replacement\<close>

fun contains :: "string \<Rightarrow> string \<Rightarrow> bool" where
  "contains p [] \<longleftrightarrow> p = []"
| "contains p (b # s) \<longleftrightarrow> starts_with p (b # s) \<or> contains p s"

text \<open>\<open>str::replace\<close> of a non-empty pattern: leftmost, non-overlapping.\<close>

function replace_all :: "string \<Rightarrow> string \<Rightarrow> string \<Rightarrow> string" where
  "replace_all p r [] = []"
| "replace_all p r (b # s) =
     (if p \<noteq> [] \<and> starts_with p (b # s) then r @ replace_all p r (drop (length p) (b # s))
      else b # replace_all p r s)"
  by pat_completeness auto
termination by (relation "measure (\<lambda>(p, r, s). length s)") (auto simp: neq_Nil_conv)

definition lower_byte :: "char \<Rightarrow> char" where
  "lower_byte b = (let n = of_char b :: nat in if 65 \<le> n \<and> n \<le> 90 then char_of (n + 32) else b)"

definition to_ascii_lowercase :: "string \<Rightarrow> string" where
  "to_ascii_lowercase s = map lower_byte s"

section \<open>Lines, blocks and characters\<close>

text \<open>\<open>str::split\<close> of a non-empty separator.\<close>

function split_at_sep :: "string \<Rightarrow> string \<Rightarrow> string \<Rightarrow> string list" where
  "split_at_sep sep cur [] = [cur]"
| "split_at_sep sep cur (b # s) =
     (if sep \<noteq> [] \<and> starts_with sep (b # s)
      then cur # split_at_sep sep [] (drop (length sep) (b # s))
      else split_at_sep sep (cur @ [b]) s)"
  by pat_completeness auto
termination by (relation "measure (\<lambda>(sep, cur, s). length s)") (auto simp: neq_Nil_conv)

definition split_str :: "string \<Rightarrow> string \<Rightarrow> string list" where
  "split_str sep s = split_at_sep sep [] s"

text \<open>\<open>str::lines\<close>: split at line feeds, no empty last line, one carriage return trimmed.\<close>

definition strip_cr :: "string \<Rightarrow> string" where
  "strip_cr s = (if s \<noteq> [] \<and> last s = CR then butlast s else s)"

definition str_lines :: "string \<Rightarrow> string list" where
  "str_lines s =
     (let parts = split_str [LF] s
      in map strip_cr (if last parts = [] then butlast parts else parts))"

definition strip_prefix :: "string \<Rightarrow> string \<Rightarrow> string option" where
  "strip_prefix p s = (if starts_with p s then Some (drop (length p) s) else None)"

definition is_continuation :: "char \<Rightarrow> bool" where
  "is_continuation b \<longleftrightarrow> (let n = of_char b :: nat in 128 \<le> n \<and> n < 192)"

text \<open>The first \<open>n\<close> characters of a UTF-8 string.\<close>

function take_chars :: "nat \<Rightarrow> string \<Rightarrow> string" where
  "take_chars n [] = []"
| "take_chars 0 (b # s) = []"
| "take_chars (Suc n) (b # s) =
     b # takeWhile is_continuation s @ take_chars n (dropWhile is_continuation s)"
  by pat_completeness auto
termination by (relation "measure (\<lambda>(n, s). n)") auto

text \<open>
  \<open>String::from_utf8_lossy\<close>: whether a byte string starts with a valid character, and how many bytes
  of it are consumed; an invalid sequence becomes the replacement character.
\<close>

definition utf8_head :: "string \<Rightarrow> bool \<times> nat" where
  "utf8_head s =
     (let a = byte_at s 0; b = byte_at s 1; d = byte_at s 2; e = byte_at s 3;
          cont = (\<lambda>x. 128 \<le> x \<and> x < 192)
      in if a < 128 then (True, 1)
         else if 194 \<le> a \<and> a \<le> 223 then (if cont b then (True, 2) else (False, 1))
         else if 224 \<le> a \<and> a \<le> 239 then
           (if \<not> (if a = 224 then 160 \<le> b \<and> b < 192
                   else if a = 237 then 128 \<le> b \<and> b < 160 else cont b) then (False, 1)
            else if cont d then (True, 3) else (False, 2))
         else if 240 \<le> a \<and> a \<le> 244 then
           (if \<not> (if a = 240 then 144 \<le> b \<and> b < 192
                   else if a = 244 then 128 \<le> b \<and> b < 144 else cont b) then (False, 1)
            else if \<not> cont d then (False, 2)
            else if cont e then (True, 4) else (False, 3))
         else (False, 1))"

lemma utf8_head_pos [simp]: "0 < snd (utf8_head s)"
  by (simp only: utf8_head_def Let_def if_distrib [of "\<lambda>p. 0 < snd p"] snd_conv zero_less_numeral
      zero_less_one if_cancel)

definition REPLACEMENT :: string where
  "REPLACEMENT = [CHR 0xEF, CHR 0xBF, CHR 0xBD]"

function from_utf8_lossy :: "string \<Rightarrow> string" where
  "from_utf8_lossy [] = []"
| "from_utf8_lossy (b # s) =
     (let n = snd (utf8_head (b # s))
      in (if fst (utf8_head (b # s)) then take n (b # s) else REPLACEMENT)
         @ from_utf8_lossy (drop n (b # s)))"
  by pat_completeness auto
termination by (relation "measure length") (simp_all add: diff_less_Suc)

end
