(* ===== verification/F64.thy ===== *)
theory F64
  imports Text
begin

text \<open>
  The few operations on \<open>f64\<close> the sources compute with, on the 64 bits of the value: comparison with zero,
  \<open>as i64\<close>, \<open>round\<close>, and the division by 1000.0 with its rounding to the nearest value, ties to even. A finite
  positive value is a mantissa below \<open>2 ^ 53\<close> times a power of two.
\<close>

section \<open>Classes and parts\<close>

definition F64_INF :: u64 where
  "F64_INF = 0x7FF0000000000000"

definition f64_positive :: "u64 \<Rightarrow> bool" where
  "f64_positive b \<longleftrightarrow> 0 < b \<and> b \<le> F64_INF"

definition f64_non_negative :: "u64 \<Rightarrow> bool" where
  "f64_non_negative b \<longleftrightarrow> b \<le> F64_INF \<or> b = 0x8000000000000000"

text \<open>\<open>v <= 0.0\<close>: a zero, or a negative value that is not NaN.\<close>

definition f64_not_above_zero :: "u64 \<Rightarrow> bool" where
  "f64_not_above_zero b \<longleftrightarrow> b = 0 \<or> (0x8000000000000000 \<le> b \<and> b \<le> 0xFFF0000000000000)"

definition f64_is_nan :: "u64 \<Rightarrow> bool" where
  "f64_is_nan b \<longleftrightarrow> uint b mod 2 ^ 63 > uint F64_INF"

text \<open>Mantissa and exponent of the magnitude of a finite value.\<close>

definition f64_parts :: "int \<Rightarrow> int \<times> int" where
  "f64_parts n =
     (let e = n div 2 ^ 52
      in (if e = 0 then n mod 2 ^ 52 else 2 ^ 52 + n mod 2 ^ 52, max e 1 - 1075))"

section \<open>Conversion to integers\<close>

text \<open>The magnitude of a finite value, truncated.\<close>

definition f64_trunc :: "int \<Rightarrow> int" where
  "f64_trunc n =
     (let e = n div 2 ^ 52;
          m = (if e = 0 then n mod 2 ^ 52 else 2 ^ 52 + n mod 2 ^ 52);
          x = max e 1
      in if x \<ge> 1075 then m * 2 ^ nat (x - 1075) else m div 2 ^ nat (1075 - x))"

text \<open>\<open>v as i64\<close>: zero for NaN, saturating.\<close>

definition f64_as_i64 :: "u64 \<Rightarrow> int" where
  "f64_as_i64 b =
     (let n = uint b mod 2 ^ 63; negative = 2 ^ 63 \<le> uint b
      in if n > uint F64_INF then 0
         else if n = uint F64_INF then (if negative then - (2 ^ 63) else 2 ^ 63 - 1)
         else if negative then max (- (2 ^ 63)) (- f64_trunc n)
         else min (2 ^ 63 - 1) (f64_trunc n))"

text \<open>\<open>round\<close> of a mantissa and an exponent: to the nearest integer, halves away from zero.\<close>

definition f64_round :: "int \<times> int \<Rightarrow> int" where
  "f64_round p =
     (case p of (m, x) \<Rightarrow> if x \<ge> 0 then m * 2 ^ nat x else (2 * m + 2 ^ nat (- x)) div (2 * 2 ^ nat (- x)))"

section \<open>Division\<close>

definition half_even :: "int \<Rightarrow> int \<Rightarrow> int" where
  "half_even a b =
     (let q = a div b; r = a mod b in if 2 * r > b \<or> (2 * r = b \<and> odd q) then q + 1 else q)"

text \<open>
  Division of a normal value by 1000.0. The quotient of the mantissas lies in one of two binades; its
  exponent is chosen so that the rounded quotient has 53 bits.
\<close>

definition f64_div_1000 :: "int \<times> int \<Rightarrow> int \<times> int" where
  "f64_div_1000 p =
     (case p of (m, x) \<Rightarrow>
        let k = (if m * 2 ^ 10 < 1000 * 2 ^ 53 then 10 else 9 :: nat)
        in (half_even (m * 2 ^ k) 1000, x - int k))"

lemma half_even_near:
  assumes "0 < b"
  shows "\<bar>2 * (b * half_even a b) - 2 * a\<bar> \<le> b"
proof -
  define q r where "q = a div b" and "r = a mod b"
  have a: "a = b * q + r" "0 \<le> r" "r < b" using assms by (simp_all add: q_def r_def)
  have "half_even a b = (if 2 * r > b \<or> (2 * r = b \<and> odd q) then q + 1 else q)"
    by (simp add: half_even_def Let_def q_def r_def)
  then show ?thesis using a by (auto simp: algebra_simps abs_le_iff)
qed

lemma half_even_exact: "0 < b \<Longrightarrow> half_even (b * c) b = c"
  by (simp add: half_even_def Let_def)

section \<open>Integers as floating-point values\<close>

fun bit_length :: "nat \<Rightarrow> nat" where
  "bit_length n = (if n = 0 then 0 else Suc (bit_length (n div 2)))"

declare bit_length.simps [simp del]

lemma bit_length_bounds: "0 < n \<Longrightarrow> 2 ^ (bit_length n - 1) \<le> n \<and> n < 2 ^ bit_length n"
proof (induction n rule: bit_length.induct)
  case (1 n)
  show ?case
  proof (cases "n = 1")
    case True
    then show ?thesis by (simp add: bit_length.simps)
  next
    case False
    with "1.prems" have half: "0 < n div 2" by simp
    with "1.IH" "1.prems" have ih: "2 ^ (bit_length (n div 2) - 1) \<le> n div 2" "n div 2 < 2 ^ bit_length (n div 2)"
      by simp_all
    have "bit_length (n div 2) \<noteq> 0" using half by (subst bit_length.simps) simp
    then have "(2 :: nat) ^ bit_length (n div 2) = 2 * 2 ^ (bit_length (n div 2) - 1)"
      by (cases "bit_length (n div 2)") simp_all
    moreover have "bit_length n = Suc (bit_length (n div 2))" using "1.prems" by (subst bit_length.simps) simp
    moreover define y where "y = (2 :: nat) ^ (bit_length (n div 2) - 1)"
    ultimately have "y \<le> n div 2" "n div 2 < 2 * y" "2 ^ (bit_length n - 1) = 2 * y" "2 ^ bit_length n = 4 * y"
      using ih by simp_all
    then show ?thesis by linarith
  qed
qed

text \<open>The bits of an integer below \<open>2 ^ 53\<close>, which an \<open>f64\<close> represents exactly.\<close>

definition f64_of_nat :: "nat \<Rightarrow> u64" where
  "f64_of_nat n =
     (if n = 0 then 0
      else word_of_int ((int (bit_length n) + 1021) * 2 ^ 52 + int n * 2 ^ (53 - bit_length n)))"

lemma mantissa_range:
  assumes "0 < n" "n < 2 ^ 53"
  shows "1 \<le> bit_length n" "bit_length n \<le> 53"
    "2 ^ 52 \<le> int n * 2 ^ (53 - bit_length n)" "int n * 2 ^ (53 - bit_length n) < 2 ^ 53"
proof -
  let ?l = "bit_length n"
  have b: "2 ^ (?l - 1) \<le> n" "n < 2 ^ ?l" using bit_length_bounds [OF assms(1)] by simp_all
  show l1: "1 \<le> ?l" using assms(1) by (subst bit_length.simps) simp
  have "(2 :: nat) ^ (?l - 1) < 2 ^ 53" using b(1) assms(2) by (rule order.strict_trans1)
  then have "?l - 1 < 53" by (rule power_less_imp_less_exp [rotated]) simp
  then show l2: "?l \<le> 53" by simp
  have "2 ^ (?l - 1) * 2 ^ (53 - ?l) \<le> n * 2 ^ (53 - ?l)" "n * 2 ^ (53 - ?l) < 2 ^ ?l * 2 ^ (53 - ?l)"
    using b by simp_all
  moreover have "(?l - 1) + (53 - ?l) = 52" "?l + (53 - ?l) = 53" using l1 l2 by simp_all
  ultimately have "2 ^ 52 \<le> n * 2 ^ (53 - ?l)" "n * 2 ^ (53 - ?l) < 2 ^ 53"
    by (simp_all only: flip: power_add)
  then have "int (2 ^ 52) \<le> int (n * 2 ^ (53 - ?l))" "int (n * 2 ^ (53 - ?l)) < int (2 ^ 53)"
    by (simp_all only: of_nat_less_iff of_nat_le_iff)
  then show "2 ^ 52 \<le> int n * 2 ^ (53 - ?l)" "int n * 2 ^ (53 - ?l) < 2 ^ 53"
    by (simp_all only: of_nat_mult of_nat_power of_nat_numeral)
qed

lemma uint_word_of_int_id: "0 \<le> z \<Longrightarrow> z < 2 ^ 64 \<Longrightarrow> uint (word_of_int z :: u64) = z"
  by (simp add: uint_word_of_int)

lemma digits_apart: "0 \<le> r \<Longrightarrow> r < c \<Longrightarrow> (z * c + r) div c = z \<and> (z * c + r) mod c = r" for r c z :: int
  by simp

lemma f64_of_nat_bits:
  assumes "0 < n" "n < 2 ^ 53"
  shows "uint (f64_of_nat n) = (int (bit_length n) + 1021) * 2 ^ 52 + int n * 2 ^ (53 - bit_length n)"
    and "f64_parts (uint (f64_of_nat n)) = (int n * 2 ^ (53 - bit_length n), int (bit_length n) - 53)"
proof -
  let ?l = "int (bit_length n)" and ?m = "int n * 2 ^ (53 - bit_length n)"
  note f = mantissa_range [OF assms]
  have "0 \<le> (?l + 1021) * 2 ^ 52 + ?m" using f(3) by simp
  moreover have "(?l + 1021) * 2 ^ 52 + ?m < 2 ^ 64" using f(2,4) by simp
  ultimately show u: "uint (f64_of_nat n) = (?l + 1021) * 2 ^ 52 + ?m"
    unfolding f64_of_nat_def if_not_P [OF gr_implies_not0 [OF assms(1)]] by (rule uint_word_of_int_id)
  define r where "r = ?m - 2 ^ 52"
  have r: "?m = 2 ^ 52 + r" "0 \<le> r" "r < 2 ^ 52" using f(3,4) by (simp_all add: r_def)
  have split: "uint (f64_of_nat n) = (?l + 1022) * 2 ^ 52 + r" using u r(1) by simp
  have "uint (f64_of_nat n) div 2 ^ 52 = ?l + 1022" "uint (f64_of_nat n) mod 2 ^ 52 = r"
    using digits_apart [OF r(2,3)] unfolding split by blast+
  then show "f64_parts (uint (f64_of_nat n)) = (?m, ?l - 53)"
    using r(1) by (simp add: f64_parts_def Let_def)
qed

section \<open>Rounding of exact values\<close>

lemma round_exact:
  assumes "0 < n" "n < 2 ^ 53"
  shows "f64_round (int n * 2 ^ (53 - bit_length n), int (bit_length n) - 53) = int n"
proof -
  let ?k = "53 - bit_length n"
  have l: "bit_length n \<le> 53" using mantissa_range(2) [OF assms] .
  show ?thesis
  proof (cases "?k = 0")
    case True
    with l show ?thesis by (simp add: f64_round_def)
  next
    case False
    have "nat (- (int (bit_length n) - 53)) = ?k" using l by simp
    moreover have "(2 * (int n * 2 ^ ?k) + 2 ^ ?k) div (2 * 2 ^ ?k) = int n"
    proof -
      have eq: "2 * (int n * 2 ^ ?k) + 2 ^ ?k = int n * (2 * 2 ^ ?k) + 2 ^ ?k" by simp
      show ?thesis unfolding eq by (rule digits_apart [THEN conjunct1]) simp_all
    qed
    ultimately show ?thesis using False by (simp add: f64_round_def)
  qed
qed

text \<open>Nine more bits are enough for the quotient by 1000 to round to the nearest second.\<close>

lemma half_even_seconds:
  assumes "9 \<le> d"
  shows "(2 * half_even (n * 2 ^ d) 1000 + 2 ^ d) div (2 * 2 ^ d) = (n + 500) div 1000"
proof -
  define P :: int where "P = 2 ^ d"
  define m where "m = half_even (n * P) 1000"
  define q r where "q = (n + 500) div 1000" and "r = (n + 500) mod 1000"
  have n: "n = 1000 * q + r - 500" "0 \<le> r" "r < 1000" by (simp_all add: q_def r_def)
  have "(2 :: int) ^ 9 \<le> 2 ^ d" using assms by (rule power_increasing) simp
  then have P: "512 \<le> P" by (simp add: P_def)
  have near: "\<bar>2 * (1000 * m) - 2 * (n * P)\<bar> \<le> 1000"
    using half_even_near [of 1000 "n * P"] by (simp add: m_def)
  have nP: "n * P = 1000 * (q * P) + r * P - 500 * P" by (simp add: n algebra_simps)
  have low: "q * (2 * P) \<le> 2 * m + P"
  proof (cases "r = 0")
    case True
    have "P = 2 * 2 ^ (d - 1)" using assms by (simp add: P_def flip: power_Suc)
    then have "n * P = 1000 * (q * P - 2 ^ (d - 1))" using nP True by (simp add: algebra_simps)
    then have "m = q * P - 2 ^ (d - 1)" by (simp only: m_def half_even_exact)
    with \<open>P = 2 * 2 ^ (d - 1)\<close> show ?thesis by (simp add: algebra_simps)
  next
    case False
    with n(2) have "1 * P \<le> r * P" using P by (intro mult_right_mono) auto
    with near nP P show ?thesis by linarith
  qed
  have "r * P \<le> 999 * P" using n(3) P by (intro mult_right_mono) auto
  then have "2 * m + P < (q + 1) * (2 * P)" using near nP P unfolding distrib_right by linarith
  moreover have "0 < 2 * P" using P by simp
  ultimately have "(2 * m + P) div (2 * P) = q"
    using low by (intro int_div_pos_eq [of _ _ _ "2 * m + P - q * (2 * P)"]) (auto simp: algebra_simps)
  then show ?thesis by (simp add: m_def P_def q_def)
qed

lemma round_milliseconds:
  assumes "0 < n" "n < 2 ^ 53"
  shows "f64_round (f64_div_1000 (int n * 2 ^ (53 - bit_length n), int (bit_length n) - 53)) = (int n + 500) div 1000"
proof -
  let ?l = "bit_length n"
  have l: "?l \<le> 53" using mantissa_range(2) [OF assms] .
  define k :: nat where "k = (if int n * 2 ^ (53 - ?l) * 2 ^ 10 < 1000 * 2 ^ 53 then 10 else 9)"
  have k: "9 \<le> k" by (simp add: k_def)
  have split: "f64_div_1000 (int n * 2 ^ (53 - ?l), int ?l - 53)
      = (half_even (int n * 2 ^ (53 - ?l) * 2 ^ k) 1000, int ?l - 53 - int k)"
    unfolding f64_div_1000_def k_def Let_def by simp
  have scale: "int n * 2 ^ (53 - ?l) * 2 ^ k = int n * 2 ^ (53 - ?l + k)" by (simp add: power_add)
  have shift: "nat (- (int ?l - 53 - int k)) = 53 - ?l + k" "\<not> 0 \<le> int ?l - 53 - int k" using l k by simp_all
  show ?thesis
    unfolding split f64_round_def prod.case if_not_P [OF shift(2)] shift(1) scale
    by (rule half_even_seconds) (use k in simp)
qed

end
