(* ===== verification/Credential.thy ===== *)
theory Credential
  imports F64
begin

text \<open>
  LobsterAI credentials (\<open>src/lobsterai/credential.rs\<close>): parsing of the nested and the flat form, the
  display name, the expiry test, the refresh of the stored data, and the atomic write of the file.

  A file system is a map from paths to the bytes of regular files. Parameters stand for what the
  source takes from elsewhere: the JSON codec \<open>c\<close>, the pretty printer \<open>pretty\<close>
  (\<open>serde_json::to_vec_pretty\<close>), HMAC-SHA256 \<open>hmac\<close> (key, message, 32 bytes), and the reading of a timestamp \<open>ts_of\<close>, which is
  \<open>norm_ts\<close> of the codec and of \<open>parse\<close> (\<open>str::parse::<f64>\<close>, the value as bits).
\<close>

type_synonym path = string
type_synonym fs = "path \<Rightarrow> string option"

datatype credential_error = NotAnObject | MissingAccessToken | TooLarge | Io path | Parse path

record credential_data =
  raw :: json
  uid :: string
  user_id :: string
  nickname :: string
  uuid :: string
  first_keyfrom :: string
  latest_keyfrom :: string
  access_token :: string
  refresh_token :: string
  expires_at_secs :: int
  last_refresh_secs :: int

record credential =
  cred_id :: string
  cred_safe_name :: string
  cred_path :: path
  cred_data :: credential_data

section \<open>Text\<close>

fun digits_fuel :: "nat \<Rightarrow> nat \<Rightarrow> string" where
  "digits_fuel 0 n = []"
| "digits_fuel (Suc k) n =
     (if n < 10 then [hex_digit n] else digits_fuel k (n div 10) @ [hex_digit (n mod 10)])"

text \<open>Decimal digits; a number below \<open>10 ^ k\<close> needs at most \<open>k\<close> of them.\<close>

definition show_nat :: "nat \<Rightarrow> string" where
  "show_nat n = digits_fuel (Suc n) n"

definition show_int :: "int \<Rightarrow> string" where
  "show_int i = (if i < 0 then CHR 0x2D # show_nat (nat (- i)) else show_nat (nat i))"

section \<open>Timestamps\<close>

text \<open>From 1e12 on (the literal as bits) a timestamp counts as milliseconds; NaN rounds to 0.\<close>

definition MILLIS_FROM :: u64 where
  "MILLIS_FROM = 0x426D1A94A2000000"

definition ts_secs :: "u64 \<Rightarrow> int" where
  "ts_secs b =
     (if f64_is_nan b then 0
      else if b = F64_INF then 2 ^ 63 - 1
      else min (2 ^ 63 - 1)
             (f64_round (if MILLIS_FROM \<le> b then f64_div_1000 (f64_parts (uint b)) else f64_parts (uint b))))"

definition norm_ts :: "codec \<Rightarrow> (string \<Rightarrow> u64 option) \<Rightarrow> json option \<Rightarrow> int option" where
  "norm_ts c parse v =
     Option.bind (case v of
                    Some (JNum n) \<Rightarrow> Some (num_f64 c n)
                  | Some (JStr s) \<Rightarrow> parse (trim s)
                  | _ \<Rightarrow> None)
       (\<lambda>b. if f64_not_above_zero b then None else Some (ts_secs b))"

section \<open>Parsing\<close>

fun find_field :: "json \<Rightarrow> string list \<Rightarrow> string option" where
  "find_field v [] = None"
| "find_field v (k # ks) = or_else (get_str k v) (find_field v ks)"

definition str_field :: "json \<Rightarrow> string list \<Rightarrow> string" where
  "str_field v keys = trim (unwrap_or [] (find_field v keys))"

definition auth_of :: "json \<Rightarrow> json" where
  "auth_of v = (case get ''auth'' v of Some a \<Rightarrow> a | None \<Rightarrow> v)"

definition account_of :: "json \<Rightarrow> json" where
  "account_of v =
     (case get ''auth'' v of
        Some _ \<Rightarrow> unwrap_or (JObj []) (get ''account'' v)
      | None \<Rightarrow> v)"

definition parse_credential ::
    "(json option \<Rightarrow> int option) \<Rightarrow> json \<Rightarrow> credential_error + credential_data" where
  "parse_credential ts_of v =
     rbind (ok_or NotAnObject (as_object v)) (\<lambda>object.
       let auth = auth_of v;
           account = account_of v;
           token = str_field auth [''accessToken'', ''access_token'', ''token'']
       in if token = [] then Inl MissingAccessToken
          else
            let acc_uid = str_field account [''uid'', ''id''];
                the_uid = (if acc_uid = [] \<and> mget object ''uid'' \<noteq> None
                           then str_field v [''uid''] else acc_uid)
            in Inr \<lparr>raw = v, uid = the_uid,
                    user_id = str_field account [''userId'', ''user_id'', ''yid''],
                    nickname = str_field account [''nickname''],
                    uuid = str_field auth [''uuid''],
                    first_keyfrom = str_field auth [''firstKeyfrom''],
                    latest_keyfrom = str_field auth [''latestKeyfrom''],
                    access_token = token,
                    refresh_token = str_field auth [''refreshToken'', ''refresh_token''],
                    expires_at_secs = unwrap_or 0
                      (ts_of (or_else (get ''expiresAt'' auth) (get ''expires_at'' auth))),
                    last_refresh_secs = unwrap_or 0 (ts_of (get ''lastRefreshTime'' auth))\<rparr>)"

definition read_credential_file ::
    "codec \<Rightarrow> (json option \<Rightarrow> int option) \<Rightarrow> fs \<Rightarrow> path \<Rightarrow> credential_error + credential_data" where
  "read_credential_file c ts_of files p =
     rbind (ok_or (Io p) (files p)) (\<lambda>bytes.
       if length bytes > 1024 * 1024 then Inl TooLarge
       else
         rbind (ok_or (Parse p) (from_text c bytes)) (\<lambda>v.
           case parse_credential ts_of v of
             Inr data \<Rightarrow> Inr data
           | Inl e \<Rightarrow> Inl (if e = NotAnObject \<or> e = MissingAccessToken then Parse p else e)))"

section \<open>A live credential\<close>

definition safe_name :: "(string \<Rightarrow> string \<Rightarrow> string) \<Rightarrow> string \<Rightarrow> string \<Rightarrow> string" where
  "safe_name hmac secret the_uid =
     ''acct-'' @ take 8 (to_hex (hmac secret (''lobsterai-proxy/cred-safe-name/v1'' @ [CHR 0x00] @ the_uid)))"

definition file_name :: "path \<Rightarrow> string" where
  "file_name p =
     (case rposition (\<lambda>ch. ch = CHR 0x2F) p of None \<Rightarrow> p | Some i \<Rightarrow> drop (Suc i) p)"

definition new_credential ::
    "(string \<Rightarrow> string \<Rightarrow> string) \<Rightarrow> path \<Rightarrow> credential_data \<Rightarrow> string \<Rightarrow> credential" where
  "new_credential hmac p data secret =
     \<lparr>cred_id = (if file_name p = [] then ''unknown.json'' else file_name p),
      cred_safe_name = safe_name hmac secret (uid data), cred_path = p, cred_data = data\<rparr>"

definition cred_uid :: "credential \<Rightarrow> string" where
  "cred_uid k = uid (cred_data k)"

text \<open>\<open>i64\<close> bounds; the subtraction saturates at them.\<close>

definition sat_sub_i64 :: "int \<Rightarrow> int \<Rightarrow> int" where
  "sat_sub_i64 a b = max (- (2 ^ 63)) (min (2 ^ 63 - 1) (a - b))"

definition needs_refresh :: "int \<Rightarrow> int \<Rightarrow> credential \<Rightarrow> bool" where
  "needs_refresh margin now k \<longleftrightarrow>
     expires_at_secs (cred_data k) = 0 \<or> now \<ge> sat_sub_i64 (expires_at_secs (cred_data k)) margin"

definition mark_access_expired :: "int \<Rightarrow> credential \<Rightarrow> credential" where
  "mark_access_expired now k = k\<lparr>cred_data := (cred_data k)\<lparr>expires_at_secs := now\<rparr>\<rparr>"

section \<open>Atomic write\<close>

text \<open>
  The states the file system goes through: an empty temporary file, the temporary file with a prefix
  of the body (one state per prefix length in \<open>cuts\<close>), with the whole body, and after the rename.
\<close>

definition atomic_write_states :: "path \<Rightarrow> path \<Rightarrow> string \<Rightarrow> nat list \<Rightarrow> fs \<Rightarrow> fs list" where
  "atomic_write_states tmp p body cuts files =
     [files, files(tmp \<mapsto> [])]
     @ map (\<lambda>n. files(tmp \<mapsto> take n body)) cuts
     @ [files(tmp \<mapsto> body), files(tmp := None, p \<mapsto> body)]"

text \<open>What may go wrong: nothing, creating or writing the temporary file, or the rename.\<close>

datatype write_outcome = WriteOk | TempFailed "string option" | RenameFailed

definition atomic_write :: "write_outcome \<Rightarrow> path \<Rightarrow> path \<Rightarrow> string \<Rightarrow> fs \<Rightarrow> fs \<times> bool" where
  "atomic_write outcome tmp p body files =
     (case outcome of
        WriteOk \<Rightarrow> (files(tmp := None, p \<mapsto> body), True)
      | TempFailed part \<Rightarrow> (files(tmp := part), False)
      | RenameFailed \<Rightarrow> (files(tmp := None), False))"

definition temp_path :: "string \<Rightarrow> string \<Rightarrow> path" where
  "temp_path dir random = dir @ ''/'' @ ''.credential-'' @ random @ ''.tmp''"

section \<open>Refreshing the stored data\<close>

definition data_account_value :: "credential_data \<Rightarrow> json" where
  "data_account_value d =
     JObj [(''uid'', JStr (uid d)), (''userId'', JStr (user_id d)), (''nickname'', JStr (nickname d))]"

definition refreshed_auth :: "string \<Rightarrow> string \<Rightarrow> int \<Rightarrow> int \<Rightarrow> json \<Rightarrow> json" where
  "refreshed_auth access refresh expires now old_auth =
     JObj [(''accessToken'', JStr access), (''refreshToken'', JStr refresh),
           (''expiresAt'', JNum (if expires < 0 then NegInt expires else PosInt (of_int expires))),
           (''uuid'', JStr (str_field old_auth [''uuid''])),
           (''firstKeyfrom'', JStr (str_field old_auth [''firstKeyfrom''])),
           (''latestKeyfrom'', JStr (show_int now)),
           (''lastRefreshTime'', JNum (if now < 0 then NegInt now else PosInt (of_int now)))]"

text \<open>The file's JSON after a refresh: \<open>auth\<close> replaced, or the flat form made nested.\<close>

definition refreshed_raw :: "credential_data \<Rightarrow> json \<Rightarrow> string \<Rightarrow> string \<Rightarrow> int \<Rightarrow> int \<Rightarrow> json" where
  "refreshed_raw d v access refresh expires now =
     (let auth = refreshed_auth access refresh expires now (unwrap_or v (get ''auth'' v))
      in if get ''account'' v \<noteq> None \<or> get ''auth'' v \<noteq> None then set_key ''auth'' auth v
         else JObj [(''auth'', auth), (''account'', data_account_value d)])"

definition apply_refresh ::
    "codec \<Rightarrow> (json \<Rightarrow> string) \<Rightarrow> (json option \<Rightarrow> int option) \<Rightarrow> write_outcome \<Rightarrow> path
      \<Rightarrow> string \<Rightarrow> string \<Rightarrow> int \<Rightarrow> int \<Rightarrow> credential \<Rightarrow> fs \<Rightarrow> (credential \<times> fs) \<times> bool" where
  "apply_refresh c pretty ts_of outcome tmp access refresh expires now k files =
     (let d = cred_data k;
          v = unwrap_or (raw d) (Option.bind (files (cred_path k)) (from_text c));
          v' = refreshed_raw d v access refresh expires now
      in case atomic_write outcome tmp (cred_path k) (pretty v') files of
           (files', False) \<Rightarrow> ((k, files'), False)
         | (files', True) \<Rightarrow>
             (case parse_credential ts_of v' of
                Inl _ \<Rightarrow> ((k, files'), False)
              | Inr d' \<Rightarrow> ((k\<lparr>cred_data := d'\<rparr>, files'), True)))"

section \<open>Stale temporary files\<close>

definition is_hex_digit :: "char \<Rightarrow> bool" where
  "is_hex_digit ch \<longleftrightarrow>
     (let n = of_char ch :: nat
      in 48 \<le> n \<and> n \<le> 57 \<or> 65 \<le> n \<and> n \<le> 70 \<or> 97 \<le> n \<and> n \<le> 102)"

definition is_temp_name :: "string \<Rightarrow> bool" where
  "is_temp_name name \<longleftrightarrow>
     starts_with ''.credential-'' name \<and> length name = 12 + 16 + 4
     \<and> drop 28 name = ''.tmp'' \<and> list_all is_hex_digit (take 16 (drop 12 name))"

text \<open>
  \<open>entries\<close> are the names of the regular files of the directory with their ages in seconds, when the
  age is known; the result is the files kept and the number removed (removals that succeed).
\<close>

definition cleanup_stale_temp_files ::
    "(string \<Rightarrow> bool) \<Rightarrow> (string \<times> nat option) list \<Rightarrow> (string \<times> nat option) list \<times> nat" where
  "cleanup_stale_temp_files removable entries =
     (let stale = (\<lambda>(name, age). is_temp_name name
                     \<and> (case age of None \<Rightarrow> False | Some a \<Rightarrow> a \<ge> 86400) \<and> removable name)
      in (filter (\<lambda>e. \<not> stale e) entries, length (filter stale entries)))"

end
