(* ===== verification/Pool.thy ===== *)
theory Pool
  imports Credential
begin

text \<open>
  The account pool (\<open>src/lobsterai/pool.rs\<close>): loading and pruning of accounts, sticky sessions,
  selection by credits with round robin, cooldowns, and the status snapshot. Each locked operation
  takes one reading \<open>now\<close> of the clock; \<open>files\<close> is the file system at that moment.
\<close>

section \<open>State\<close>

datatype cool_kind = HardCredit | SoftRate | ErrThreshold

record limits =
  cred_cooldown_secs :: nat
  model_cooldown_secs :: nat
  hard_credit_cooldown_secs :: nat
  sticky_max :: nat
  sticky_ttl_secs :: nat

record pool_state =
  credits :: "(string, int) table"
  fail_until :: "(string \<times> cool_kind, instant) table"
  model_fail :: "(string \<times> string, instant) table"
  sticky :: "(string, string \<times> instant) table"
  sticky_order :: "string list"
  rr :: u64
  err_counts :: "(string, nat) table"

record pool =
  entries :: "credential list"
  server_secret :: string
  limits_of :: limits
  state :: pool_state

definition empty_state :: pool_state where
  "empty_state =
     \<lparr>credits = [], fail_until = [], model_fail = [], sticky = [], sticky_order = [], rr = 0,
      err_counts = []\<rparr>"

definition new_pool :: "string \<Rightarrow> limits \<Rightarrow> pool" where
  "new_pool secret lim = \<lparr>entries = [], server_secret = secret, limits_of = lim, state = empty_state\<rparr>"

definition credential_by_safe_name :: "string \<Rightarrow> pool \<Rightarrow> credential option" where
  "credential_by_safe_name name p = List.find (\<lambda>k. cred_safe_name k = name) (entries p)"

section \<open>Loading and pruning\<close>

text \<open>One path of \<open>load_files\<close>: the state is the entries, the known uids and the known paths.\<close>

definition load_file ::
    "codec \<Rightarrow> (json option \<Rightarrow> int option) \<Rightarrow> (string \<Rightarrow> string \<Rightarrow> string) \<Rightarrow> string \<Rightarrow> fs
      \<Rightarrow> path \<Rightarrow> credential list \<times> string list \<times> path list \<Rightarrow> credential list \<times> string list \<times> path list" where
  "load_file c ts_of hmac secret files p acc =
     (case acc of (es, uids, paths) \<Rightarrow>
        if files p = None \<or> p \<in> set paths then (es, uids, paths)
        else
          case read_credential_file c ts_of files p of
            Inl _ \<Rightarrow> (es, uids, paths)
          | Inr d \<Rightarrow>
              if uid d \<in> set uids then (es, uids, paths)
              else (es @ [new_credential hmac p d secret], uid d # uids, p # paths))"

definition load_files ::
    "codec \<Rightarrow> (json option \<Rightarrow> int option) \<Rightarrow> (string \<Rightarrow> string \<Rightarrow> string) \<Rightarrow> fs \<Rightarrow> path list \<Rightarrow> pool \<Rightarrow> pool" where
  "load_files c ts_of hmac files paths p =
     (case fold (load_file c ts_of hmac (server_secret p) files) paths
             (entries p, map cred_uid (entries p), map cred_path (entries p)) of
        (es, _, _) \<Rightarrow> p\<lparr>entries := es\<rparr>)"

definition remove_sticky :: "string \<Rightarrow> pool_state \<Rightarrow> pool_state" where
  "remove_sticky fp s =
     s\<lparr>sticky := AList.delete fp (sticky s), sticky_order := filter (\<lambda>k. k \<noteq> fp) (sticky_order s)\<rparr>"

definition bound_to :: "(string \<Rightarrow> bool) \<Rightarrow> pool_state \<Rightarrow> string list" where
  "bound_to P s = map fst (filter (\<lambda>(_, owner, _). P owner) (sticky s))"

definition on_disk :: "fs \<Rightarrow> credential \<Rightarrow> bool" where
  "on_disk files k \<longleftrightarrow> files (cred_path k) \<noteq> None"

definition prune :: "fs \<Rightarrow> pool \<Rightarrow> pool" where
  "prune files p =
     (let kept = filter (on_disk files) (entries p);
          ids = set (map cred_uid kept);
          s = state p
      in if length kept = length (entries p) then p\<lparr>entries := kept\<rparr>
         else
           let s1 = s\<lparr>credits := filter (\<lambda>(i, _). i \<in> ids) (credits s),
                      fail_until := filter (\<lambda>((i, _), _). i \<in> ids) (fail_until s),
                      model_fail := filter (\<lambda>((i, _), _). i \<in> ids) (model_fail s),
                      err_counts := filter (\<lambda>(i, _). i \<in> ids) (err_counts s)\<rparr>
           in p\<lparr>entries := kept, state := fold remove_sticky (bound_to (\<lambda>i. i \<notin> ids) s1) s1\<rparr>)"

section \<open>Health\<close>

definition globally_healthy :: "instant \<Rightarrow> string \<Rightarrow> pool_state \<Rightarrow> bool" where
  "globally_healthy now i s \<longleftrightarrow> list_all (\<lambda>((owner, _), until). owner \<noteq> i \<or> now \<ge> until) (fail_until s)"

definition model_healthy :: "instant \<Rightarrow> string \<Rightarrow> string \<Rightarrow> pool_state \<Rightarrow> bool" where
  "model_healthy now i m s \<longleftrightarrow>
     (case map_of (model_fail s) (i, m) of None \<Rightarrow> True | Some until \<Rightarrow> now \<ge> until)"

definition usable :: "instant \<Rightarrow> string \<Rightarrow> pool_state \<Rightarrow> string \<Rightarrow> bool" where
  "usable now m s i \<longleftrightarrow> globally_healthy now i s \<and> model_healthy now i m s"

section \<open>Sticky sessions\<close>

definition sticky_expired :: "instant \<Rightarrow> limits \<Rightarrow> pool_state \<Rightarrow> string \<Rightarrow> bool" where
  "sticky_expired now lim s key \<longleftrightarrow>
     (case map_of (sticky s) key of
        Some (_, touched) \<Rightarrow> now - touched > from_secs (sticky_ttl_secs lim)
      | None \<Rightarrow> True)"

definition must_evict :: "instant \<Rightarrow> limits \<Rightarrow> pool_state \<Rightarrow> string \<Rightarrow> bool" where
  "must_evict now lim s key \<longleftrightarrow> sticky_expired now lim s key \<or> length (sticky s) > sticky_max lim"

definition evict_sticky :: "instant \<Rightarrow> limits \<Rightarrow> pool_state \<Rightarrow> pool_state" where
  "evict_sticky now lim s =
     evict_loop sticky_order (must_evict now lim) remove_sticky (length (sticky_order s)) s"

definition move_sticky_to_back :: "string \<Rightarrow> pool_state \<Rightarrow> pool_state" where
  "move_sticky_to_back fp s = s\<lparr>sticky_order := filter (\<lambda>k. k \<noteq> fp) (sticky_order s) @ [fp]\<rparr>"

definition touch_sticky :: "instant \<Rightarrow> string \<Rightarrow> string \<Rightarrow> pool_state \<Rightarrow> pool_state" where
  "touch_sticky now fp i s = move_sticky_to_back fp (s\<lparr>sticky := AList.update fp (i, now) (sticky s)\<rparr>)"

definition bind_sticky :: "instant \<Rightarrow> string \<Rightarrow> string \<Rightarrow> nat \<Rightarrow> pool_state \<Rightarrow> pool_state" where
  "bind_sticky now fp i mx s =
     (let s1 = (if map_of (sticky s) fp = None \<and> length (sticky s) \<ge> mx
                then (case sticky_order s of [] \<Rightarrow> s | oldest # _ \<Rightarrow> remove_sticky oldest s)
                else s)
      in s1\<lparr>sticky := AList.update fp (i, now) (sticky s1), sticky_order := sticky_order s1 @ [fp]\<rparr>)"

section \<open>Selection\<close>

definition rank_of :: "pool_state \<Rightarrow> credential \<Rightarrow> int" where
  "rank_of s k = unwrap_or (-1) (map_of (credits s) (cred_uid k))"

definition top_ranked :: "pool_state \<Rightarrow> credential list \<Rightarrow> credential list" where
  "top_ranked s candidates =
     (let ranked = sort_key (\<lambda>p. - fst p) (map (\<lambda>k. (rank_of s k, k)) candidates)
      in case ranked of
           [] \<Rightarrow> []
         | (best, _) # _ \<Rightarrow> map snd (filter (\<lambda>p. fst p = best) ranked))"

text \<open>The session's account when it is still there and healthy; otherwise the binding is removed.\<close>

definition sticky_pick ::
    "instant \<Rightarrow> string option \<Rightarrow> string \<Rightarrow> credential list \<Rightarrow> pool_state \<Rightarrow> credential option \<times> pool_state" where
  "sticky_pick now session_fp m es s =
     (case session_fp of
        None \<Rightarrow> (None, s)
      | Some fp \<Rightarrow>
          (case map_of (sticky s) fp of
             None \<Rightarrow> (None, s)
           | Some (i, _) \<Rightarrow>
               (case List.find (\<lambda>k. cred_uid k = i) es of
                  Some k \<Rightarrow>
                    if usable now m s i then (Some k, touch_sticky now fp i s)
                    else (None, remove_sticky fp s)
                | None \<Rightarrow> (None, remove_sticky fp s))))"

definition ranked_pick ::
    "instant \<Rightarrow> string option \<Rightarrow> string \<Rightarrow> limits \<Rightarrow> credential list \<Rightarrow> pool_state
      \<Rightarrow> credential option \<times> pool_state" where
  "ranked_pick now session_fp m lim es s =
     (let candidates = filter (\<lambda>k. usable now m s (cred_uid k)) es
      in if candidates = [] then (None, s)
         else
           let top = top_ranked s candidates;
               k = top ! (unat (rr s) mod length top);
               s1 = s\<lparr>rr := rr s + 1\<rparr>
           in (Some k,
               case session_fp of
                 None \<Rightarrow> s1
               | Some fp \<Rightarrow> bind_sticky now fp (cred_uid k) (sticky_max lim) s1))"

definition pick ::
    "instant \<Rightarrow> fs \<Rightarrow> string option \<Rightarrow> string \<Rightarrow> pool \<Rightarrow> credential option \<times> pool" where
  "pick now files session_fp m p =
     (let es = filter (on_disk files) (entries p)
      in case sticky_pick now session_fp m es (evict_sticky now (limits_of p) (state p)) of
           (Some k, s) \<Rightarrow> (Some k, p\<lparr>entries := es, state := s\<rparr>)
         | (None, s) \<Rightarrow>
             (case ranked_pick now session_fp m (limits_of p) es s of
                (r, s') \<Rightarrow> (r, p\<lparr>entries := es, state := s'\<rparr>)))"

section \<open>Feedback\<close>

definition set_credits :: "string \<Rightarrow> int \<Rightarrow> pool_state \<Rightarrow> pool_state" where
  "set_credits i n s = s\<lparr>credits := AList.update i n (credits s)\<rparr>"

definition credits_of :: "string \<Rightarrow> pool_state \<Rightarrow> int option" where
  "credits_of i s = map_of (credits s) i"

definition note_status :: "instant \<Rightarrow> limits \<Rightarrow> string \<Rightarrow> nat \<Rightarrow> string \<Rightarrow> pool_state \<Rightarrow> pool_state" where
  "note_status now lim i status m s =
     (if status = 401 \<or> status = 403 then
        s\<lparr>fail_until := AList.update (i, ErrThreshold) (now + from_secs (cred_cooldown_secs lim))
                          (fail_until s)\<rparr>
      else if status = 429 then
        let s1 = s\<lparr>model_fail := AList.update (i, m)
                     (now + from_secs (max (model_cooldown_secs lim) 1)) (model_fail s)\<rparr>
        in fold remove_sticky (bound_to (\<lambda>owner. owner = i) s1) s1
      else s)"

definition note_hard_credit :: "instant \<Rightarrow> limits \<Rightarrow> string \<Rightarrow> pool_state \<Rightarrow> pool_state" where
  "note_hard_credit now lim i s =
     s\<lparr>fail_until := AList.update (i, HardCredit) (now + from_secs (hard_credit_cooldown_secs lim))
                       (fail_until s)\<rparr>"

definition note_error_threshold :: "instant \<Rightarrow> limits \<Rightarrow> string \<Rightarrow> pool_state \<Rightarrow> pool_state" where
  "note_error_threshold now lim i s =
     (let count = Suc (unwrap_or 0 (map_of (err_counts s) i));
          s1 = s\<lparr>err_counts := AList.update i count (err_counts s)\<rparr>
      in if count \<ge> 3
         then s1\<lparr>fail_until := AList.update (i, ErrThreshold) (now + from_secs (cred_cooldown_secs lim))
                                (fail_until s1),
                 err_counts := AList.update i 0 (err_counts s1)\<rparr>
         else s1)"

definition note_success :: "string \<Rightarrow> pool_state \<Rightarrow> pool_state" where
  "note_success i s = s\<lparr>err_counts := AList.update i 0 (err_counts s)\<rparr>"

section \<open>Status\<close>

definition all_cooled_until :: "instant \<Rightarrow> int \<Rightarrow> string \<Rightarrow> pool \<Rightarrow> int option" where
  "all_cooled_until now now_secs m p =
     (let healthy = filter (\<lambda>k. globally_healthy now (cred_uid k) (state p)) (entries p)
      in if healthy = [] then None
         else
           let untils = map (\<lambda>until. now_secs + int (as_secs (until - now)))
                 (List.map_filter (\<lambda>k. map_of (model_fail (state p)) (cred_uid k, m)) healthy)
           in if length untils < length healthy then None
              else (case untils of [] \<Rightarrow> None | u # us \<Rightarrow> Some (fold min us u)))"

definition json_int :: "int \<Rightarrow> json" where
  "json_int i = JNum (if i < 0 then NegInt i else PosInt (of_int i))"

definition secs_left :: "instant \<Rightarrow> string \<Rightarrow> instant option \<Rightarrow> members" where
  "secs_left now key until =
     (case until of
        Some u \<Rightarrow> if u > now then [(key, JNum (PosInt (of_nat (as_secs (u - now)))))] else []
      | None \<Rightarrow> [])"

definition snapshot_entry :: "instant \<Rightarrow> string \<Rightarrow> pool_state \<Rightarrow> credential \<Rightarrow> json" where
  "snapshot_entry now m s k =
     (let i = cred_uid k
      in JObj ([(''name'', JStr (cred_safe_name k)), (''file'', JStr (cred_safe_name k)),
                (''healthy'', JBool (globally_healthy now i s)),
                (''sticky_sessions'',
                 JNum (PosInt (of_nat (length (filter (\<lambda>(_, owner, _). owner = i) (sticky s))))))]
         @ opt_member ''credits'' (map_option json_int (map_of (credits s) i))
         @ secs_left now ''hard_credit_cooldown_secs_left'' (map_of (fail_until s) (i, HardCredit))
         @ secs_left now ''cooldown_secs_left'' (map_of (fail_until s) (i, ErrThreshold))
         @ secs_left now ''model_cooldown_secs_left'' (map_of (model_fail s) (i, m))
         @ [(''token_expires_at_secs'', json_int (expires_at_secs (cred_data k))),
            (''last_refresh_secs'', json_int (last_refresh_secs (cred_data k)))]))"

definition snapshot :: "instant \<Rightarrow> string \<Rightarrow> pool \<Rightarrow> json list" where
  "snapshot now m p = map (snapshot_entry now m (state p)) (entries p)"

section \<open>Seeding\<close>

definition list_credential_files :: "(string \<times> string) list \<Rightarrow> string \<Rightarrow> path list" where
  "list_credential_files names dir =
     sort (map (\<lambda>(_, name). dir @ ''/'' @ name)
       (filter (\<lambda>(d, name). d = dir \<and> starts_with ''lobsterai-'' name
                  \<and> starts_with (rev ''.json'') (rev name)) names))"

text \<open>One source file: its target is written only when the uid is unknown and the name is free.\<close>

definition seed_file ::
    "codec \<Rightarrow> (json option \<Rightarrow> int option) \<Rightarrow> string list \<Rightarrow> string \<Rightarrow> path \<Rightarrow> fs \<Rightarrow> fs" where
  "seed_file c ts_of have dir file files =
     (case read_credential_file c ts_of files file of
        Inl _ \<Rightarrow> files
      | Inr d \<Rightarrow>
          if uid d \<in> set have then files
          else
            let dest = dir @ ''/'' @ file_name file
            in if files dest \<noteq> None then files else files(dest := files file))"

definition seed_from_dirs ::
    "codec \<Rightarrow> (json option \<Rightarrow> int option) \<Rightarrow> string \<Rightarrow> path list \<Rightarrow> path list \<Rightarrow> fs \<Rightarrow> fs" where
  "seed_from_dirs c ts_of dir managed sources files =
     (let have = map uid (List.map_filter
            (\<lambda>p. case read_credential_file c ts_of files p of Inr d \<Rightarrow> Some d | Inl _ \<Rightarrow> None) managed)
      in fold (seed_file c ts_of have dir) sources files)"

end
