(* ===== verification/Pool_Props.thy ===== *)
theory Pool_Props
  imports Pool
begin

text \<open>
  Properties of the account pool: the invariant of its tables over every history of operations, the
  soundness and completeness of the selection, sticky affinity, cooldowns, and a divergence of
  \<open>prune\<close>.
\<close>

section \<open>The sticky table\<close>

definition sticky_inv :: "pool_state \<Rightarrow> bool" where
  "sticky_inv s \<longleftrightarrow> synced (sticky s) (sticky_order s)"

lemma sticky_inv_remove: "sticky_inv s \<Longrightarrow> sticky_inv (remove_sticky fp s)"
  by (simp add: sticky_inv_def remove_sticky_def synced_remove)

interpretation sticky_table: evicting_table sticky_order remove_sticky sticky_inv
  by unfold_locales (simp_all add: sticky_inv_remove, simp add: remove_sticky_def)

lemma remove_sticky_other [simp]:
  "fail_until (remove_sticky fp s) = fail_until s" "model_fail (remove_sticky fp s) = model_fail s"
  "credits (remove_sticky fp s) = credits s" "err_counts (remove_sticky fp s) = err_counts s"
  "rr (remove_sticky fp s) = rr s"
  by (simp_all add: remove_sticky_def)

text \<open>The health tables, which the sticky operations never touch.\<close>

definition same_health :: "pool_state \<Rightarrow> pool_state \<Rightarrow> bool" where
  "same_health s s' \<longleftrightarrow> fail_until s = fail_until s' \<and> model_fail s = model_fail s'
     \<and> credits s = credits s' \<and> err_counts s = err_counts s'"

lemma same_health_refl [simp]: "same_health s s"
  by (simp add: same_health_def)

lemma same_health_usable: "same_health s s' \<Longrightarrow> usable now m s = usable now m s'"
  by (simp add: same_health_def usable_def globally_healthy_def model_healthy_def fun_eq_iff)


lemma evict_health: "same_health (evict_sticky now lim s) s"
  unfolding evict_sticky_def
  by (rule sticky_table.evict_preserves) (simp_all add: same_health_def)

lemma evict_sticky_inv: "sticky_inv s \<Longrightarrow> sticky_inv (evict_sticky now lim s)"
  unfolding evict_sticky_def by (rule sticky_table.evict_inv)

lemma evict_rr: "rr (evict_sticky now lim s) = rr s"
  unfolding evict_sticky_def by (rule sticky_table.evict_preserves) simp_all

lemma evict_bound:
  assumes "sticky_inv s"
  shows "length (sticky (evict_sticky now lim s)) \<le> sticky_max lim"
proof -
  let ?s' = "evict_sticky now lim s"
  have inv: "sticky_inv ?s'" by (rule evict_sticky_inv [OF assms])
  show ?thesis
  proof (cases "sticky_order ?s'")
    case Nil
    with inv show ?thesis by (simp add: sticky_inv_def synced_length)
  next
    case (Cons k q)
    have "\<not> must_evict now lim ?s' k"
      using Cons sticky_table.evict_done [OF assms order_refl] unfolding evict_sticky_def by blast
    then show ?thesis by (simp add: must_evict_def)
  qed
qed

lemma length_delete_less: "k \<in> fst ` set m \<Longrightarrow> length (AList.delete k m) < length m"
proof (induction m)
  case Nil
  then show ?case by simp
next
  case (Cons p m)
  have "length (AList.delete k m) \<le> length m" by (rule length_delete_le)
  moreover have "length (AList.delete k m) < length m" if "fst p \<noteq> k"
    using Cons that by (intro Cons.IH) auto
  ultimately show ?case by (cases p) auto
qed

lemma bind_sticky_inv:
  assumes "sticky_inv s" and "fp \<notin> fst ` set (sticky s)"
  shows "sticky_inv (bind_sticky now fp i mx s)"
    and "length (sticky s) \<le> mx \<Longrightarrow> length (sticky (bind_sticky now fp i mx s)) \<le> max mx 1"
proof -
  define s1 where "s1 = (if map_of (sticky s) fp = None \<and> length (sticky s) \<ge> mx
    then (case sticky_order s of [] \<Rightarrow> s | oldest # _ \<Rightarrow> remove_sticky oldest s) else s)"
  have bind: "bind_sticky now fp i mx s
      = s1\<lparr>sticky := AList.update fp (i, now) (sticky s1), sticky_order := sticky_order s1 @ [fp]\<rparr>"
    by (simp add: bind_sticky_def s1_def Let_def)
  have inv1: "sticky_inv s1"
    using assms(1) by (auto simp: s1_def sticky_inv_remove split: list.split)
  have sub: "fst ` set (sticky s1) \<subseteq> fst ` set (sticky s)"
    by (auto simp: s1_def remove_sticky_def fst_set_delete split: list.split)
  with assms(2) have fresh: "fp \<notin> fst ` set (sticky s1)" by blast
  show "sticky_inv (bind_sticky now fp i mx s)"
    using inv1 fresh unfolding bind by (simp add: sticky_inv_def synced_push)
  assume len: "length (sticky s) \<le> mx"
  have none: "map_of (sticky s) fp = None" using assms(2) by (simp add: map_of_eq_None_iff)
  have "length (sticky s1) < max mx 1"
  proof (cases "length (sticky s) \<ge> mx")
    case False
    then show ?thesis by (simp add: s1_def)
  next
    case True
    show ?thesis
    proof (cases "sticky_order s")
      case Nil
      then have "sticky s = []" using assms(1) by (simp add: sticky_inv_def synced_def)
      then show ?thesis using Nil True none by (simp add: s1_def)
    next
      case (Cons old q)
      then have "old \<in> fst ` set (sticky s)" using assms(1) by (auto simp: sticky_inv_def synced_def)
      from length_delete_less [OF this] len show ?thesis
        using Cons True none by (simp add: s1_def remove_sticky_def)
    qed
  qed
  then show "length (sticky (bind_sticky now fp i mx s)) \<le> max mx 1"
    using length_update_le [of fp "(i, now)" "sticky s1"] unfolding bind by simp
qed

lemma touch_sticky_inv:
  assumes "sticky_inv s" and "fp \<in> fst ` set (sticky s)"
  shows "sticky_inv (touch_sticky now fp i s)" and "length (sticky (touch_sticky now fp i s)) = length (sticky s)"
  using assms synced_touch [of "sticky s" "sticky_order s" fp "(i, now)"]
  by (simp_all add: sticky_inv_def touch_sticky_def move_sticky_to_back_def length_update_present)

lemma bind_health: "same_health (bind_sticky now fp i mx s) s"
  by (simp add: bind_sticky_def same_health_def Let_def split: list.split)

lemma touch_health: "same_health (touch_sticky now fp i s) s"
  by (simp add: touch_sticky_def move_sticky_to_back_def same_health_def)

section \<open>Selection\<close>

lemma top_ranked_iff:
  "k \<in> set (top_ranked s cs) \<longleftrightarrow> k \<in> set cs \<and> (\<forall>j \<in> set cs. rank_of s j \<le> rank_of s k)"
proof -
  let ?L = "map (\<lambda>k. (rank_of s k, k)) cs"
  let ?R = "sort_key (\<lambda>p. - fst p) ?L"
  have setR: "set ?R = set ?L" by simp
  show ?thesis
  proof (cases ?R)
    case Nil
    then have "cs = []" using setR by simp
    then show ?thesis by (simp add: top_ranked_def)
  next
    case (Cons p ps)
    obtain best k0 where p: "p = (best, k0)" by (cases p)
    have pair: "fst q = rank_of s (snd q) \<and> snd q \<in> set cs" if "q \<in> set ?R" for q
      using that setR by auto
    have "sorted (map (\<lambda>p. - fst p) ?R)" by (rule sorted_sort_key)
    then have le: "fst q \<le> best" if "q \<in> set ?R" for q
      using that unfolding Cons p by auto
    have all: "rank_of s j \<le> best" if "j \<in> set cs" for j
      using le [of "(rank_of s j, j)"] that setR by auto
    have hit: "k0 \<in> set cs" "rank_of s k0 = best"
      using pair [of "(best, k0)"] by (simp_all add: Cons p)
    have "top_ranked s cs = map snd (filter (\<lambda>q. fst q = best) ?R)"
      by (simp add: top_ranked_def Cons p)
    then have "set (top_ranked s cs) = snd ` {q \<in> set ?L. fst q = best}"
      by (simp only: set_map set_filter setR)
    then have top: "set (top_ranked s cs) = {k \<in> set cs. rank_of s k = best}"
      by (auto simp: image_iff)
    show ?thesis
      using all hit unfolding top by (auto intro: order_antisym)
  qed
qed

lemma top_ranked_nonempty: "cs \<noteq> [] \<Longrightarrow> top_ranked s cs \<noteq> []"
proof -
  assume "cs \<noteq> []"
  then have "Max (rank_of s ` set cs) \<in> rank_of s ` set cs" by (intro Max_in) auto
  then obtain k where "k \<in> set cs" "rank_of s k = Max (rank_of s ` set cs)" by auto
  then have "k \<in> set cs" "\<forall>j \<in> set cs. rank_of s j \<le> rank_of s k" by auto
  then have "k \<in> set (top_ranked s cs)" by (simp add: top_ranked_iff)
  then show ?thesis by auto
qed

lemma sticky_pick_cases:
  assumes "sticky_pick now fp m es s = (r, s')"
  obtains (unbound) "r = None" "s' = s" "\<And>f. fp = Some f \<Longrightarrow> map_of (sticky s) f = None"
    | (kept) f i t k where "fp = Some f" "map_of (sticky s) f = Some (i, t)"
        "List.find (\<lambda>k. cred_uid k = i) es = Some k" "usable now m s i" "r = Some k"
        "s' = touch_sticky now f i s"
    | (dropped) f where "fp = Some f" "f \<in> fst ` set (sticky s)" "r = None" "s' = remove_sticky f s"
proof (cases fp)
  case None
  with assms show thesis by (intro unbound) (simp_all add: sticky_pick_def)
next
  case (Some f)
  show thesis
  proof (cases "map_of (sticky s) f")
    case None
    with assms Some show thesis by (intro unbound) (simp_all add: sticky_pick_def)
  next
    case bound: (Some it)
    obtain i t where it: "it = (i, t)" by (cases it)
    have mem: "f \<in> fst ` set (sticky s)" using bound by (auto dest!: map_of_SomeD intro: rev_image_eqI)
    show thesis
    proof (cases "List.find (\<lambda>k. cred_uid k = i) es")
      case None
      with assms Some bound it mem show thesis by (intro dropped) (auto simp: sticky_pick_def)
    next
      case (Some k)
      show thesis
      proof (cases "usable now m s i")
        case True
        with assms \<open>fp = Some f\<close> Some bound it show thesis
          by (intro kept [of f i t k]) (auto simp: sticky_pick_def)
      next
        case False
        with assms \<open>fp = Some f\<close> Some bound it mem show thesis
          by (intro dropped) (auto simp: sticky_pick_def)
      qed
    qed
  qed
qed

lemma sticky_pick_facts:
  assumes "sticky_pick now fp m es s = (r, s')"
  shows "same_health s' s" and "rr s' = rr s"
    and "sticky_inv s \<Longrightarrow> sticky_inv s' \<and> length (sticky s') \<le> length (sticky s)"
    and "r = Some k \<Longrightarrow> k \<in> set es \<and> usable now m s (cred_uid k)"
    and "r = None \<Longrightarrow> fp = Some f \<Longrightarrow> f \<notin> fst ` set (sticky s')"
proof -
  note cases = sticky_pick_cases [OF assms]
  show "same_health s' s"
    by (rule cases) (simp_all add: touch_health, simp add: same_health_def)
  show "rr s' = rr s"
    by (rule cases) (simp_all add: touch_sticky_def move_sticky_to_back_def)
  show "sticky_inv s' \<and> length (sticky s') \<le> length (sticky s)" if inv: "sticky_inv s"
  proof (rule cases)
    fix g i t j
    assume "map_of (sticky s) g = Some (i, t)" and s': "s' = touch_sticky now g i s"
    then have "g \<in> fst ` set (sticky s)" by (auto dest!: map_of_SomeD intro: rev_image_eqI)
    from touch_sticky_inv [OF inv this] s' show ?thesis by simp
  next
    fix g assume s': "s' = remove_sticky g s"
    from sticky_inv_remove [OF inv] length_delete_le show ?thesis
      unfolding s' by (simp add: remove_sticky_def)
  qed (use inv in simp)
  show "k \<in> set es \<and> usable now m s (cred_uid k)" if "r = Some k"
    by (rule cases) (use that in \<open>auto dest!: find_Some_mem\<close>)
  show "f \<notin> fst ` set (sticky s')" if "r = None" "fp = Some f"
    by (rule cases) (use that in \<open>auto simp: map_of_eq_None_iff remove_sticky_def fst_set_delete\<close>)
qed

lemma ranked_pick_cases:
  assumes "ranked_pick now fp m lim es s = (r, s')"
  obtains (nobody) "\<forall>k \<in> set es. \<not> usable now m s (cred_uid k)" "r = None" "s' = s"
    | (chosen) k where "r = Some k" "k \<in> set es" "usable now m s (cred_uid k)"
        "\<forall>j \<in> set es. usable now m s (cred_uid j) \<longrightarrow> rank_of s j \<le> rank_of s k"
        "s' = (case fp of None \<Rightarrow> s\<lparr>rr := rr s + 1\<rparr>
               | Some f \<Rightarrow> bind_sticky now f (cred_uid k) (sticky_max lim) (s\<lparr>rr := rr s + 1\<rparr>))"
proof (cases "filter (\<lambda>k. usable now m s (cred_uid k)) es = []")
  case True
  with assms show thesis by (intro nobody) (auto simp: ranked_pick_def filter_empty_conv)
next
  case False
  let ?cs = "filter (\<lambda>k. usable now m s (cred_uid k)) es"
  let ?top = "top_ranked s ?cs"
  let ?k = "?top ! (unat (rr s) mod length ?top)"
  have "length ?top > 0" using top_ranked_nonempty [OF False] by simp
  then have "?k \<in> set ?top" by (intro nth_mem mod_less_divisor)
  then have k: "?k \<in> set ?cs" "\<forall>j \<in> set ?cs. rank_of s j \<le> rank_of s ?k"
    using top_ranked_iff [of ?k s ?cs] by blast+
  show thesis
  proof (rule chosen)
    show "r = Some ?k" and "s' = (case fp of None \<Rightarrow> s\<lparr>rr := rr s + 1\<rparr>
      | Some f \<Rightarrow> bind_sticky now f (cred_uid ?k) (sticky_max lim) (s\<lparr>rr := rr s + 1\<rparr>))"
      using assms False by (simp_all add: ranked_pick_def Let_def)
  qed (use k in auto)
qed

lemma ranked_pick_facts:
  assumes "ranked_pick now fp m lim es s = (r, s')"
  shows "same_health s' s"
    and "sticky_inv s \<Longrightarrow> (\<And>f. fp = Some f \<Longrightarrow> f \<notin> fst ` set (sticky s)) \<Longrightarrow>
           length (sticky s) \<le> sticky_max lim \<Longrightarrow>
           sticky_inv s' \<and> length (sticky s') \<le> max (sticky_max lim) 1"
proof -
  note cases = ranked_pick_cases [OF assms]
  let ?s1 = "s\<lparr>rr := rr s + 1\<rparr>"
  have bind: "same_health (bind_sticky now f i mx ?s1) s" for f i mx
    using bind_health [of now f i mx ?s1] by (simp add: same_health_def)
  show "same_health s' s"
  proof (rule cases)
    assume "s' = s" then show ?thesis by simp
  next
    fix k
    assume "s' = (case fp of None \<Rightarrow> ?s1
      | Some f \<Rightarrow> bind_sticky now f (cred_uid k) (sticky_max lim) ?s1)"
    then show ?thesis using bind by (cases fp) (simp_all, simp add: same_health_def)
  qed
  show "sticky_inv s' \<and> length (sticky s') \<le> max (sticky_max lim) 1"
    if inv: "sticky_inv s" and fresh: "\<And>f. fp = Some f \<Longrightarrow> f \<notin> fst ` set (sticky s)"
      and len: "length (sticky s) \<le> sticky_max lim"
  proof (rule cases)
    assume "s' = s" then show ?thesis using inv len by simp
  next
    fix k
    assume s': "s' = (case fp of None \<Rightarrow> ?s1
      | Some f \<Rightarrow> bind_sticky now f (cred_uid k) (sticky_max lim) ?s1)"
    have inv1: "sticky_inv ?s1" using inv by (simp add: sticky_inv_def)
    show ?thesis
    proof (cases fp)
      case None
      then show ?thesis using s' inv1 len by simp
    next
      case (Some f)
      with fresh have "f \<notin> fst ` set (sticky ?s1)" by simp
      from bind_sticky_inv [OF inv1 this] len Some s' show ?thesis by simp
    qed
  qed
qed

text \<open>A pick in its parts: the eviction, the sticky attempt, the ranked choice.\<close>

lemma pick_cases:
  assumes "pick now files fp m p = (r, p')"
  obtains (stuck) s k where "sticky_pick now fp m (filter (on_disk files) (entries p))
        (evict_sticky now (limits_of p) (state p)) = (Some k, s)"
      "r = Some k" "p' = p\<lparr>entries := filter (on_disk files) (entries p), state := s\<rparr>"
  | (ranked) s s' where "sticky_pick now fp m (filter (on_disk files) (entries p))
        (evict_sticky now (limits_of p) (state p)) = (None, s)"
      "ranked_pick now fp m (limits_of p) (filter (on_disk files) (entries p)) s = (r, s')"
      "p' = p\<lparr>entries := filter (on_disk files) (entries p), state := s'\<rparr>"
proof -
  obtain q s where sp: "sticky_pick now fp m (filter (on_disk files) (entries p))
        (evict_sticky now (limits_of p) (state p)) = (q, s)" by fastforce
  obtain r' s' where rp: "ranked_pick now fp m (limits_of p) (filter (on_disk files) (entries p)) s
      = (r', s')" by fastforce
  show thesis
  proof (cases q)
    case None
    with assms sp rp show thesis by (intro ranked) (auto simp: pick_def Let_def)
  next
    case (Some k)
    with assms sp show thesis by (intro stuck) (auto simp: pick_def Let_def)
  qed
qed

section \<open>The invariant over every history\<close>

definition tables_ok :: "pool_state \<Rightarrow> bool" where
  "tables_ok s \<longleftrightarrow> wf_table (credits s) \<and> wf_table (fail_until s) \<and> wf_table (model_fail s)
     \<and> wf_table (err_counts s) \<and> (\<forall>p \<in> set (err_counts s). snd p < 3)"

text \<open>The part of the invariant that does not speak of the uids, and the whole.\<close>

definition pool_safe :: "pool \<Rightarrow> bool" where
  "pool_safe p \<longleftrightarrow> distinct (map cred_path (entries p))
     \<and> sticky_inv (state p) \<and> length (sticky (state p)) \<le> max (sticky_max (limits_of p)) 1
     \<and> tables_ok (state p)"

definition pool_inv :: "pool \<Rightarrow> bool" where
  "pool_inv p \<longleftrightarrow> distinct (map cred_uid (entries p)) \<and> pool_safe p"

inductive pool_step ::
    "codec \<Rightarrow> (json option \<Rightarrow> int option) \<Rightarrow> (string \<Rightarrow> string \<Rightarrow> string) \<Rightarrow> pool \<Rightarrow> pool \<Rightarrow> bool"
  for c :: codec and ts_of :: "json option \<Rightarrow> int option" and hmac :: "string \<Rightarrow> string \<Rightarrow> string"
  where
  step_load: "pool_step c ts_of hmac p (load_files c ts_of hmac files paths p)"
| step_prune: "pool_step c ts_of hmac p (prune files p)"
| step_pick: "pick now files fp m p = (r, p') \<Longrightarrow> pool_step c ts_of hmac p p'"
| step_credits: "pool_step c ts_of hmac p (p\<lparr>state := set_credits i n (state p)\<rparr>)"
| step_status: "pool_step c ts_of hmac p (p\<lparr>state := note_status now (limits_of p) i st m (state p)\<rparr>)"
| step_hard: "pool_step c ts_of hmac p (p\<lparr>state := note_hard_credit now (limits_of p) i (state p)\<rparr>)"
| step_error: "pool_step c ts_of hmac p (p\<lparr>state := note_error_threshold now (limits_of p) i (state p)\<rparr>)"
| step_success: "pool_step c ts_of hmac p (p\<lparr>state := note_success i (state p)\<rparr>)"

inductive pool_reachable ::
    "codec \<Rightarrow> (json option \<Rightarrow> int option) \<Rightarrow> (string \<Rightarrow> string \<Rightarrow> string) \<Rightarrow> pool \<Rightarrow> bool"
  for c :: codec and ts_of :: "json option \<Rightarrow> int option" and hmac :: "string \<Rightarrow> string \<Rightarrow> string"
  where
  reach_new: "pool_reachable c ts_of hmac (new_pool secret lim)"
| reach_step: "pool_reachable c ts_of hmac p \<Longrightarrow> pool_step c ts_of hmac p p' \<Longrightarrow>
    pool_reachable c ts_of hmac p'"

lemma fold_remove_sticky:
  "sticky_inv s \<Longrightarrow> sticky_inv (fold remove_sticky ks s)
     \<and> length (sticky (fold remove_sticky ks s)) \<le> length (sticky s)
     \<and> same_health (fold remove_sticky ks s) s"
proof (induction ks arbitrary: s)
  case Nil
  then show ?case by simp
next
  case (Cons k ks)
  have "length (sticky (remove_sticky k s)) \<le> length (sticky s)"
    by (simp add: remove_sticky_def length_delete_le)
  with Cons.IH [OF sticky_inv_remove [OF Cons.prems], of k] show ?case
    by (auto simp: same_health_def)
qed

lemma tables_ok_health: "same_health s s' \<Longrightarrow> tables_ok s = tables_ok s'"
  by (simp add: same_health_def tables_ok_def)

lemma wf_table_filter: "wf_table m \<Longrightarrow> wf_table (filter P m)"
  unfolding wf_table_def by (induction m) auto

lemma load_file_inv:
  assumes "load_file c ts_of hmac secret files p (es, uids, paths) = (es', uids', paths')"
  shows "distinct (map cred_uid es) \<and> set uids = set (map cred_uid es) \<Longrightarrow>
      distinct (map cred_uid es') \<and> set uids' = set (map cred_uid es')"
    and "distinct (map cred_path es) \<and> set paths = set (map cred_path es) \<Longrightarrow>
      distinct (map cred_path es') \<and> set paths' = set (map cred_path es')"
  using assms by (auto simp: load_file_def new_credential_def cred_uid_def split: if_splits sum.splits)

lemma load_fold_inv:
  assumes "fold (load_file c ts_of hmac secret files) ps (es, uids, known) = (es', uids', known')"
  shows "(distinct (map cred_uid es) \<and> set uids = set (map cred_uid es) \<longrightarrow> distinct (map cred_uid es'))
    \<and> (distinct (map cred_path es) \<and> set known = set (map cred_path es) \<longrightarrow> distinct (map cred_path es'))"
  using assms
proof (induction ps arbitrary: es uids known)
  case Nil
  then show ?case by simp
next
  case (Cons x xs)
  obtain es1 uids1 known1 where
    l: "load_file c ts_of hmac secret files x (es, uids, known) = (es1, uids1, known1)"
    by (metis prod_cases3)
  with Cons.prems have "fold (load_file c ts_of hmac secret files) xs (es1, uids1, known1) = (es', uids', known')"
    by simp
  from Cons.IH [OF this] load_file_inv [OF l] show ?case by blast
qed

lemma load_files_keeps:
  "pool_safe p \<Longrightarrow> pool_safe (load_files c ts_of hmac files paths p)"
  "distinct (map cred_uid (entries p)) \<Longrightarrow> distinct (map cred_uid (entries (load_files c ts_of hmac files paths p)))"
  by (simp_all add: load_files_def pool_safe_def split: prod.split) (metis load_fold_inv list.set_map)+

lemma load_files_inv: "pool_inv p \<Longrightarrow> pool_inv (load_files c ts_of hmac files paths p)"
  by (simp add: pool_inv_def load_files_keeps)

lemma pick_safe:
  assumes "pool_safe p" and "pick now files fp m p = (r, p')"
  shows "pool_safe p'"
proof -
  let ?es = "filter (on_disk files) (entries p)"
  let ?s0 = "evict_sticky now (limits_of p) (state p)"
  have inv0: "sticky_inv ?s0" and h0: "same_health ?s0 (state p)"
    and len0: "length (sticky ?s0) \<le> sticky_max (limits_of p)"
    using assms(1) by (simp_all add: evict_sticky_inv evict_health evict_bound pool_safe_def)
  have es: "distinct (map cred_path ?es)"
    using assms(1) by (simp add: pool_safe_def distinct_map_filter)
  show ?thesis
  proof (rule pick_cases [OF assms(2)])
    fix s k
    assume sp: "sticky_pick now fp m ?es ?s0 = (Some k, s)" and p': "p' = p\<lparr>entries := ?es, state := s\<rparr>"
    have "same_health s (state p)" using sticky_pick_facts(1) [OF sp] h0 by (simp add: same_health_def)
    with sticky_pick_facts(3) [OF sp inv0] len0 es assms(1) show ?thesis
      by (auto simp: pool_safe_def p' tables_ok_health)
  next
    fix s s'
    assume sp: "sticky_pick now fp m ?es ?s0 = (None, s)"
      and rp: "ranked_pick now fp m (limits_of p) ?es s = (r, s')"
      and p': "p' = p\<lparr>entries := ?es, state := s'\<rparr>"
    have inv: "sticky_inv s" "length (sticky s) \<le> sticky_max (limits_of p)"
      using sticky_pick_facts(3) [OF sp inv0] len0 by auto
    have fresh: "fp = Some f \<Longrightarrow> f \<notin> fst ` set (sticky s)" for f
      using sticky_pick_facts(5) [OF sp] by simp
    have "same_health s' (state p)"
      using sticky_pick_facts(1) [OF sp] ranked_pick_facts(1) [OF rp] h0 by (simp add: same_health_def)
    with ranked_pick_facts(2) [OF rp inv(1) fresh inv(2)] es assms(1) show ?thesis
      by (auto simp: pool_safe_def p' tables_ok_health)
  qed
qed

lemma pick_entries: "pick now files fp m p = (r, p') \<Longrightarrow> entries p' = filter (on_disk files) (entries p)"
  by (auto elim: pick_cases)

lemma pick_inv: "pool_inv p \<Longrightarrow> pick now files fp m p = (r, p') \<Longrightarrow> pool_inv p'"
  by (auto simp: pool_inv_def pick_entries distinct_map_filter intro: pick_safe)

lemma prune_entries [simp]: "entries (prune files p) = filter (on_disk files) (entries p)"
  by (simp add: prune_def Let_def)

lemma prune_safe:
  assumes "pool_safe p"
  shows "pool_safe (prune files p)"
proof -
  let ?kept = "filter (on_disk files) (entries p)"
  have es: "distinct (map cred_path ?kept)"
    using assms by (simp add: pool_safe_def distinct_map_filter)
  show ?thesis
  proof (cases "length ?kept = length (entries p)")
    case True
    with es assms show ?thesis by (simp add: prune_def pool_safe_def)
  next
    case False
    let ?ids = "set (map cred_uid ?kept)"
    define s1 where "s1 = (state p)\<lparr>credits := filter (\<lambda>(i, _). i \<in> ?ids) (credits (state p)),
      fail_until := filter (\<lambda>((i, _), _). i \<in> ?ids) (fail_until (state p)),
      model_fail := filter (\<lambda>((i, _), _). i \<in> ?ids) (model_fail (state p)),
      err_counts := filter (\<lambda>(i, _). i \<in> ?ids) (err_counts (state p))\<rparr>"
    have prune: "prune files p = p\<lparr>entries := ?kept,
        state := fold remove_sticky (bound_to (\<lambda>i. i \<notin> ?ids) s1) s1\<rparr>"
      using False by (simp add: prune_def Let_def s1_def)
    have inv1: "sticky_inv s1" and ok1: "tables_ok s1" and len: "sticky s1 = sticky (state p)"
      using assms by (auto simp: pool_safe_def s1_def sticky_inv_def tables_ok_def wf_table_filter)
    from fold_remove_sticky [OF inv1, of "bound_to (\<lambda>i. i \<notin> ?ids) s1"] ok1 len es assms show ?thesis
      unfolding prune by (auto simp: pool_safe_def tables_ok_health)
  qed
qed

lemma feedback_inv:
  assumes "sticky_inv s" and "tables_ok s"
  shows "sticky_inv (set_credits i n s) \<and> tables_ok (set_credits i n s)"
    and "sticky_inv (note_hard_credit now lim i s) \<and> tables_ok (note_hard_credit now lim i s)"
    and "sticky_inv (note_error_threshold now lim i s) \<and> tables_ok (note_error_threshold now lim i s)"
    and "sticky_inv (note_success i s) \<and> tables_ok (note_success i s)"
    and "sticky_inv (note_status now lim i st m s) \<and> tables_ok (note_status now lim i st m s)"
proof -
  note defs = sticky_inv_def tables_ok_def set_credits_def note_hard_credit_def note_success_def
    note_error_threshold_def wf_table_update
  have small: "snd q < 3" if "q \<in> set (AList.update i v (err_counts s))" "v < 3" for q v
    using that set_update_subset [of i v "err_counts s"] assms(2) by (auto simp: tables_ok_def)
  have reset: "snd q < 3" if "q \<in> set (AList.update i 0 (AList.update i v (err_counts s)))" for q v
    using that small [of q 0] by (simp add: update_last)
  show "sticky_inv (set_credits i n s) \<and> tables_ok (set_credits i n s)"
    "sticky_inv (note_hard_credit now lim i s) \<and> tables_ok (note_hard_credit now lim i s)"
    "sticky_inv (note_success i s) \<and> tables_ok (note_success i s)"
    using assms small by (auto simp: defs)
  show "sticky_inv (note_error_threshold now lim i s) \<and> tables_ok (note_error_threshold now lim i s)"
    using assms small reset by (auto simp: defs Let_def not_le)
  let ?s1 = "s\<lparr>model_fail := AList.update (i, m)
                     (now + from_secs (max (model_cooldown_secs lim) 1)) (model_fail s)\<rparr>"
  have "sticky_inv ?s1" "tables_ok ?s1" using assms by (auto simp: defs)
  with fold_remove_sticky [of ?s1 "bound_to (\<lambda>owner. owner = i) ?s1"] assms
  show "sticky_inv (note_status now lim i st m s) \<and> tables_ok (note_status now lim i st m s)"
    by (auto simp: note_status_def Let_def tables_ok_health) (auto simp: defs)
qed

lemma feedback_length:
  "length (sticky (set_credits i n s)) = length (sticky s)"
  "length (sticky (note_hard_credit now lim i s)) = length (sticky s)"
  "length (sticky (note_error_threshold now lim i s)) = length (sticky s)"
  "length (sticky (note_success i s)) = length (sticky s)"
  "sticky_inv s \<Longrightarrow> length (sticky (note_status now lim i st m s)) \<le> length (sticky s)"
proof -
  show "length (sticky (set_credits i n s)) = length (sticky s)"
    "length (sticky (note_hard_credit now lim i s)) = length (sticky s)"
    "length (sticky (note_error_threshold now lim i s)) = length (sticky s)"
    "length (sticky (note_success i s)) = length (sticky s)"
    by (simp_all add: set_credits_def note_hard_credit_def note_error_threshold_def note_success_def Let_def)
  assume inv: "sticky_inv s"
  let ?s1 = "s\<lparr>model_fail := AList.update (i, m)
                     (now + from_secs (max (model_cooldown_secs lim) 1)) (model_fail s)\<rparr>"
  have "sticky_inv ?s1" using inv by (simp add: sticky_inv_def)
  from fold_remove_sticky [OF this, of "bound_to (\<lambda>owner. owner = i) ?s1"]
  show "length (sticky (note_status now lim i st m s)) \<le> length (sticky s)"
    by (simp add: note_status_def Let_def)
qed

lemma pool_step_uids:
  "pool_step c ts_of hmac p p' \<Longrightarrow> distinct (map cred_uid (entries p)) \<Longrightarrow> distinct (map cred_uid (entries p'))"
  by (erule pool_step.cases) (simp_all add: load_files_keeps prune_entries pick_entries distinct_map_filter)

lemma pool_step_safe:
  assumes "pool_step c ts_of hmac p p'" and "pool_safe p"
  shows "pool_safe p'"
proof -
  have s: "sticky_inv (state p)" "tables_ok (state p)" using assms(2) by (simp_all add: pool_safe_def)
  from assms(1) show ?thesis
  proof cases
    case step_load
    with load_files_keeps(1) [OF assms(2)] show ?thesis by simp
  next
    case step_prune
    with prune_safe [OF assms(2)] show ?thesis by simp
  next
    case step_pick
    with pick_safe [OF assms(2)] show ?thesis by blast
  next
    case step_credits
    with assms(2) feedback_inv(1) [OF s] show ?thesis by (simp add: pool_safe_def feedback_length)
  next
    case step_status
    with assms(2) feedback_inv(5) [OF s] feedback_length(5) [OF s(1)] show ?thesis
      by (simp add: pool_safe_def) (meson le_trans)
  next
    case step_hard
    with assms(2) feedback_inv(2) [OF s] show ?thesis by (simp add: pool_safe_def feedback_length)
  next
    case step_error
    with assms(2) feedback_inv(3) [OF s] show ?thesis by (simp add: pool_safe_def feedback_length)
  next
    case step_success
    with assms(2) feedback_inv(4) [OF s] show ?thesis by (simp add: pool_safe_def feedback_length)
  qed
qed

text \<open>
  C15: over every history of loads, prunes, picks and feedback from an empty pool, at any times, with
  any files on disk: no two accounts share a uid or a file, the sticky queue lists exactly the bound
  sessions, once each, at most \<open>sticky_max\<close> of them (one, if that is 0), every table has one entry per
  key, and no error count stands at the threshold.
\<close>

theorem reachable_pool_is_well_formed:
  assumes "pool_reachable c ts_of hmac p"
  shows "pool_inv p"
  using assms
proof (induction p rule: pool_reachable.induct)
  case (reach_new secret lim)
  show ?case
    by (simp add: pool_inv_def pool_safe_def new_pool_def empty_state_def sticky_inv_def tables_ok_def wf_table_def)
next
  case (reach_step p p')
  then show ?case using pool_step_uids pool_step_safe unfolding pool_inv_def by blast
qed

definition sample_limits :: limits where
  "sample_limits = \<lparr>cred_cooldown_secs = 300, model_cooldown_secs = 600,
     hard_credit_cooldown_secs = 43200, sticky_max = 2, sticky_ttl_secs = 1800\<rparr>"

definition sample_account :: "string \<Rightarrow> credential" where
  "sample_account u = \<lparr>cred_id = u, cred_safe_name = u, cred_path = u,
     cred_data = \<lparr>raw = JNull, uid = u, user_id = [], nickname = [], uuid = [], first_keyfrom = [],
       latest_keyfrom = [], access_token = ''t'', refresh_token = ''r'', expires_at_secs = 0,
       last_refresh_secs = 0\<rparr>\<rparr>"

definition sample_pool :: pool where
  "sample_pool = \<lparr>entries = [sample_account ''a'', sample_account ''b''], server_secret = ''s'',
     limits_of = sample_limits, state = set_credits ''b'' 7 empty_state\<rparr>"

theorem reachable_pool_is_well_formed_witness:
  "let p = new_pool ''s'' sample_limits;
       p' = p\<lparr>state := note_error_threshold 5 sample_limits ''a'' (state p)\<rparr>
   in pool_inv p' \<and> map_of (err_counts (state p')) ''a'' = Some 1"
proof -
  let ?p = "new_pool ''s'' sample_limits"
  have "limits_of ?p = sample_limits" by (simp add: new_pool_def)
  moreover have "pool_step sample_codec (\<lambda>_. None) (\<lambda>_ _. []) ?p
      (?p\<lparr>state := note_error_threshold 5 (limits_of ?p) ''a'' (state ?p)\<rparr>)"
    by (rule step_error)
  ultimately have "pool_reachable sample_codec (\<lambda>_. None) (\<lambda>_ _. [])
      (?p\<lparr>state := note_error_threshold 5 sample_limits ''a'' (state ?p)\<rparr>)"
    using reach_step [OF reach_new] by metis
  from reachable_pool_is_well_formed [OF this] show ?thesis
    by (simp add: Let_def new_pool_def note_error_threshold_def empty_state_def)
qed

section \<open>What a pick returns\<close>



section \<open>Cooldowns\<close>

lemma not_picked:
  assumes "fst (pick now files fp m p) = Some k" and "\<not> usable now m (state p) i"
  shows "cred_uid k \<noteq> i"
proof -
  obtain p' where picked: "pick now files fp m p = (Some k, p')"
    using assms(1) by (cases "pick now files fp m p") simp
  have h0: "usable now m (evict_sticky now (limits_of p) (state p)) = usable now m (state p)"
    by (rule same_health_usable [OF evict_health])
  show ?thesis
  proof (rule pick_cases [OF picked])
    fix s j
    assume sp: "sticky_pick now fp m (filter (on_disk files) (entries p))
        (evict_sticky now (limits_of p) (state p)) = (Some j, s)" and "Some k = Some j"
    with sticky_pick_facts(4) [OF sp refl] assms(2) h0 show ?thesis by auto
  next
    fix s s'
    assume sp: "sticky_pick now fp m (filter (on_disk files) (entries p))
        (evict_sticky now (limits_of p) (state p)) = (None, s)"
      and rp: "ranked_pick now fp m (limits_of p) (filter (on_disk files) (entries p)) s = (Some k, s')"
    have "usable now m s = usable now m (state p)"
      by (rule trans [OF same_health_usable [OF sticky_pick_facts(1) [OF sp]] h0])
    with assms(2) have no: "\<not> usable now m s i" by simp
    show ?thesis by (rule ranked_pick_cases [OF rp]) (use no in auto)
  qed
qed

lemma fail_until_blocks:
  assumes "((i, kind), until) \<in> set (fail_until s)" and "now < until"
  shows "\<not> usable now m s i"
  using assms by (fastforce simp: usable_def globally_healthy_def list_all_iff)

lemma in_update: "(k, v) \<in> set (AList.update k v m)"
  by (induction m) auto

text \<open>
  feedback takes an account out of rotation for as long as configured: after an
  authentication failure or an exhausted credit balance no session and no model gets it before the
  cooldown is over; after a 429 the model that was limited does not get it for at least a second,
  while every other model still finds it as healthy as before.
\<close>

theorem cooled_account_is_not_picked:
  "(st = 401 \<or> st = 403 \<longrightarrow> later < now + from_secs (cred_cooldown_secs (limits_of p)) \<longrightarrow>
      (\<forall>k. fst (pick later files fp m' (p\<lparr>state := note_status now (limits_of p) i st m (state p)\<rparr>)) = Some k
         \<longrightarrow> cred_uid k \<noteq> i))
   \<and> (later < now + from_secs (hard_credit_cooldown_secs (limits_of p)) \<longrightarrow>
      (\<forall>k. fst (pick later files fp m' (p\<lparr>state := note_hard_credit now (limits_of p) i (state p)\<rparr>)) = Some k
         \<longrightarrow> cred_uid k \<noteq> i))
   \<and> (later < now + from_secs (max (model_cooldown_secs (limits_of p)) 1) \<longrightarrow>
      (\<forall>k. fst (pick later files fp m (p\<lparr>state := note_status now (limits_of p) i 429 m (state p)\<rparr>)) = Some k
         \<longrightarrow> cred_uid k \<noteq> i))
   \<and> (m' \<noteq> m \<longrightarrow> usable later m' (note_status now (limits_of p) i 429 m (state p)) i
        = usable later m' (state p) i)"
proof (intro conjI impI allI)
  fix k
  assume "st = 401 \<or> st = 403" and "later < now + from_secs (cred_cooldown_secs (limits_of p))"
    and picked: "fst (pick later files fp m' (p\<lparr>state := note_status now (limits_of p) i st m (state p)\<rparr>)) = Some k"
  then have "\<not> usable later m' (note_status now (limits_of p) i st m (state p)) i"
    by (intro fail_until_blocks [of i ErrThreshold "now + from_secs (cred_cooldown_secs (limits_of p))"])
      (auto simp: note_status_def in_update)
  then show "cred_uid k \<noteq> i" by (intro not_picked [OF picked]) simp
next
  fix k
  assume "later < now + from_secs (hard_credit_cooldown_secs (limits_of p))"
    and picked: "fst (pick later files fp m' (p\<lparr>state := note_hard_credit now (limits_of p) i (state p)\<rparr>)) = Some k"
  then have "\<not> usable later m' (note_hard_credit now (limits_of p) i (state p)) i"
    by (intro fail_until_blocks [of i HardCredit "now + from_secs (hard_credit_cooldown_secs (limits_of p))"])
      (auto simp: note_hard_credit_def in_update)
  then show "cred_uid k \<noteq> i" by (intro not_picked [OF picked]) simp
next
  let ?s = "note_status now (limits_of p) i 429 m (state p)"
  have fails: "model_fail ?s = AList.update (i, m) (now + from_secs (max (model_cooldown_secs (limits_of p)) 1))
      (model_fail (state p)) \<and> fail_until ?s = fail_until (state p)"
  proof -
    have "model_fail (fold remove_sticky ks s) = model_fail s \<and> fail_until (fold remove_sticky ks s) = fail_until s"
      for ks s by (induction ks arbitrary: s) auto
    then show ?thesis by (simp add: note_status_def Let_def)
  qed
  show "usable later m' ?s i = usable later m' (state p) i" if "m' \<noteq> m"
    using fails that
    by (simp add: usable_def globally_healthy_def model_healthy_def update_conv')
  fix k
  assume "later < now + from_secs (max (model_cooldown_secs (limits_of p)) 1)"
    and picked: "fst (pick later files fp m (p\<lparr>state := ?s\<rparr>)) = Some k"
  then have "\<not> usable later m ?s i"
    using fails by (simp add: usable_def model_healthy_def update_conv')
  then show "cred_uid k \<noteq> i" by (intro not_picked [OF picked]) simp
qed

theorem cooled_account_is_not_picked_witness:
  "let p = sample_pool\<lparr>state := note_hard_credit 0 sample_limits ''b'' (state sample_pool)\<rparr>
   in fst (pick 5 (\<lambda>_. Some []) None ''m'' p) = Some (sample_account ''a'')
      \<and> cred_uid (sample_account ''a'') \<noteq> ''b''"
proof -
  let ?p = "sample_pool\<lparr>state := note_hard_credit 0 sample_limits ''b'' (state sample_pool)\<rparr>"
  have lim: "limits_of sample_pool = sample_limits" by (simp add: sample_pool_def)
  have r: "fst (pick 5 (\<lambda>_. Some []) None ''m'' ?p) = Some (sample_account ''a'')"
    by (simp add: pick_def sticky_pick_def ranked_pick_def evict_sticky_def sample_pool_def on_disk_def
        usable_def globally_healthy_def model_healthy_def set_credits_def empty_state_def top_ranked_def
        rank_of_def cred_uid_def sample_account_def note_hard_credit_def sample_limits_def from_secs_def)
  have "(5 :: nat) < 0 + from_secs (hard_credit_cooldown_secs (limits_of sample_pool))"
    by (simp add: sample_limits_def from_secs_def lim)
  with cooled_account_is_not_picked [of 0 5 0 sample_pool "\<lambda>_. Some []" None "''m''" "''b''" "''m''"] r
  show ?thesis unfolding lim Let_def by blast
qed

text \<open>
  the error threshold: from a clean count, the first two consecutive unexpected errors leave the
  account's health alone and the third one takes it out of rotation and clears the count, and a
  success in between starts over.
\<close>

theorem third_error_cools:
  "(let e = note_error_threshold now lim i in
     map_of (err_counts s) i = Some 0 \<longrightarrow>
       fail_until (e s) = fail_until s \<and> fail_until (e (e s)) = fail_until s
       \<and> map_of (fail_until (e (e (e s)))) (i, ErrThreshold) = Some (now + from_secs (cred_cooldown_secs lim))
       \<and> map_of (err_counts (e (e (e s)))) i = Some 0)
   \<and> map_of (err_counts (note_success i s)) i = Some 0"
  by (simp add: note_error_threshold_def note_success_def update_conv' Let_def)

theorem third_error_cools_witness:
  "map_of (err_counts (note_success ''a'' empty_state)) ''a'' = Some 0
   \<and> map_of (fail_until ((note_error_threshold 5 sample_limits ''a'' ^^ 3) (note_success ''a'' empty_state)))
       (''a'', ErrThreshold) = Some (5 + from_secs 300)"
proof -
  let ?s = "note_success ''a'' empty_state"
  have zero: "map_of (err_counts ?s) ''a'' = Some 0"
    using third_error_cools [of 5 sample_limits "''a''" empty_state] by (simp add: Let_def)
  with third_error_cools [of 5 sample_limits "''a''" ?s] show ?thesis
    by (simp add: Let_def numeral_3_eq_3 sample_limits_def)
qed

text \<open>
  \<open>prune\<close> after a \<open>pick\<close> that saw the same files forgets nothing: the pick has already dropped the
  entries whose file is gone, so prune sees no change and leaves the credits, cooldowns, error counts
  and sticky bindings of the removed accounts in place.
\<close>

theorem prune_after_pick_purges_nothing:
  "prune files (snd (pick now files fp m p)) = snd (pick now files fp m p)"
proof -
  obtain r p' where pick: "pick now files fp m p = (r, p')" by fastforce
  have "entries p' = filter (on_disk files) (entries p)"
    by (rule pick_cases [OF pick]) simp_all
  then have "filter (on_disk files) (entries p') = entries p'" by simp
  then show ?thesis by (simp add: pick prune_def Let_def)
qed

section \<open>Sticky affinity\<close>

definition bound_at :: "string \<Rightarrow> string \<Rightarrow> instant \<Rightarrow> pool_state \<Rightarrow> bool" where
  "bound_at f i t s \<longleftrightarrow> map_of (sticky s) f = Some (i, t)"

lemma bound_at_remove: "bound_at f i t s \<Longrightarrow> g \<noteq> f \<Longrightarrow> bound_at f i t (remove_sticky g s)"
  by (simp add: bound_at_def remove_sticky_def delete_conv')

lemma evict_keeps_fresh:
  assumes "bound_at f i t s" and "length (sticky s) \<le> sticky_max lim"
    and "now - t \<le> from_secs (sticky_ttl_secs lim)"
  shows "bound_at f i t (evict_sticky now lim s)"
proof -
  have "bound_at f i t (evict_sticky now lim s) \<and> length (sticky (evict_sticky now lim s)) \<le> sticky_max lim"
    unfolding evict_sticky_def
  proof (rule sticky_table.evict_preserves_cond)
    fix u k
    assume P: "bound_at f i t u \<and> length (sticky u) \<le> sticky_max lim" and "must_evict now lim u k"
    then have "sticky_expired now lim u k" by (simp add: must_evict_def)
    then have "k \<noteq> f"
      using P assms(3) by (auto simp: sticky_expired_def bound_at_def)
    with P bound_at_remove [of f i t u k] length_delete_le [of k "sticky u"]
    show "bound_at f i t (remove_sticky k u) \<and> length (sticky (remove_sticky k u)) \<le> sticky_max lim"
      by (simp add: remove_sticky_def)
  qed (use assms in simp)
  then show ?thesis by simp
qed

lemma pick_binds:
  assumes "pick now files (Some f) m p = (Some k, p')"
  shows "bound_at f (cred_uid k) now (state p')" and "k \<in> set (entries p')"
    and "limits_of p' = limits_of p"
proof -
  have "bound_at f (cred_uid k) now (state p') \<and> k \<in> set (entries p')"
  proof (rule pick_cases [OF assms])
    fix s j
    assume sp: "sticky_pick now (Some f) m (filter (on_disk files) (entries p))
        (evict_sticky now (limits_of p) (state p)) = (Some j, s)" and kj: "Some k = Some j"
      and p': "p' = p\<lparr>entries := filter (on_disk files) (entries p), state := s\<rparr>"
    show ?thesis
      by (rule sticky_pick_cases [OF sp])
        (use kj p' in \<open>auto simp: bound_at_def touch_sticky_def move_sticky_to_back_def update_conv'
            dest!: find_Some_mem\<close>)
  next
    fix s s'
    assume rp: "ranked_pick now (Some f) m (limits_of p) (filter (on_disk files) (entries p)) s = (Some k, s')"
      and p': "p' = p\<lparr>entries := filter (on_disk files) (entries p), state := s'\<rparr>"
    show ?thesis
      by (rule ranked_pick_cases [OF rp])
        (use p' in \<open>auto simp: bound_at_def bind_sticky_def update_conv' Let_def\<close>)
  qed
  then show "bound_at f (cred_uid k) now (state p')" "k \<in> set (entries p')" by auto
  show "limits_of p' = limits_of p"
    by (rule pick_cases [OF assms]) simp_all
qed

text \<open>
  sticky affinity: once a session got an account, its next pick within the time to live returns
  the same account, whatever credits were learned meanwhile would say, as long as that account's file
  is there and it is healthy for the model (for a well-formed pool that allows at least one binding).
\<close>

theorem session_keeps_its_account:
  assumes "pool_inv p" and "sticky_max (limits_of p) > 0"
    and "pick now files (Some f) m p = (Some k, p')"
    and "later - now \<le> from_secs (sticky_ttl_secs (limits_of p))"
    and "files' (cred_path k) \<noteq> None"
    and "usable later m' (set_credits i n (state p')) (cred_uid k)"
  shows "fst (pick later files' (Some f) m' (p'\<lparr>state := set_credits i n (state p')\<rparr>)) = Some k"
proof -
  let ?s = "set_credits i n (state p')"
  have inv: "pool_inv p'" by (rule pick_inv [OF assms(1,3)])
  note b = pick_binds [OF assms(3)]
  have "length (sticky ?s) \<le> sticky_max (limits_of p')"
    using inv assms(2) b(3) by (simp add: pool_inv_def pool_safe_def set_credits_def max_def split: if_splits)
  moreover have "bound_at f (cred_uid k) now ?s" using b(1) by (simp add: bound_at_def set_credits_def)
  ultimately have bound: "bound_at f (cred_uid k) now (evict_sticky later (limits_of p') ?s)"
    using assms(4) b(3) by (intro evict_keeps_fresh) simp_all
  have ok: "usable later m' (evict_sticky later (limits_of p') ?s) (cred_uid k)"
    using assms(6) same_health_usable [OF evict_health] by metis
  have mem: "k \<in> set (filter (on_disk files') (entries p'))"
    using b(2) assms(5) by (simp add: on_disk_def)
  have "List.find (\<lambda>j. cred_uid j = cred_uid k) (filter (on_disk files') (entries p')) = Some k"
  proof -
    let ?es = "filter (on_disk files') (entries p')"
    have "inj_on cred_uid (set ?es)"
      using inv by (auto simp: pool_inv_def pool_safe_def distinct_map inj_on_def)
    moreover obtain j where j: "List.find (\<lambda>j. cred_uid j = cred_uid k) ?es = Some j"
      using mem by (cases "List.find (\<lambda>j. cred_uid j = cred_uid k) ?es") (auto simp: find_None_iff)
    moreover have "j \<in> set ?es" "cred_uid j = cred_uid k" using find_Some_mem [OF j] by simp_all
    ultimately show ?thesis using mem by (simp add: inj_on_def)
  qed
  with bound ok show ?thesis
    by (simp add: pick_def sticky_pick_def bound_at_def Let_def)
qed

lemmas pick_eval = pick_def sticky_pick_def ranked_pick_def evict_sticky_def sample_pool_def on_disk_def
  usable_def globally_healthy_def model_healthy_def set_credits_def empty_state_def top_ranked_def
  rank_of_def cred_uid_def sample_account_def bind_sticky_def sample_limits_def

theorem session_keeps_its_account_witness:
  "let p' = snd (pick 0 (\<lambda>_. Some []) (Some ''s'') ''m'' sample_pool)
   in map_of (credits (set_credits ''a'' 100 (state p'))) ''a'' = Some 100
      \<and> fst (pick 10 (\<lambda>_. Some []) (Some ''s'') ''m'' (p'\<lparr>state := set_credits ''a'' 100 (state p')\<rparr>))
          = Some (sample_account ''b'')"
proof -
  obtain r p' where first: "pick 0 (\<lambda>_. Some []) (Some ''s'') ''m'' sample_pool = (r, p')" by fastforce
  have r: "r = Some (sample_account ''b'')" and p': "fail_until (state p') = []" "model_fail (state p') = []"
    using first by (auto simp: pick_eval)
  have inv: "pool_inv sample_pool"
    by (simp add: pool_inv_def pool_safe_def sample_pool_def cred_uid_def sample_account_def sticky_inv_def
        tables_ok_def set_credits_def empty_state_def wf_table_def)
  have lim: "sticky_max (limits_of sample_pool) > 0"
    "(10 :: nat) - 0 \<le> from_secs (sticky_ttl_secs (limits_of sample_pool))"
    by (simp_all add: sample_pool_def sample_limits_def from_secs_def)
  have "usable 10 ''m'' (set_credits ''a'' 100 (state p')) (cred_uid (sample_account ''b''))"
    by (simp add: usable_def globally_healthy_def model_healthy_def set_credits_def p')
  from session_keeps_its_account [OF inv lim(1) first [unfolded r] lim(2) _ this, of "\<lambda>_. Some []"]
  show ?thesis by (simp add: first set_credits_def update_conv' Let_def)
qed

end
