(* ===== verification/Shadow.thy ===== *)
theory Shadow
  imports Policy
begin

text \<open>
  The reasoning shadow store (\<open>src/reasoning_shadow.rs\<close>): reasoning of tool turns kept per session,
  bounded in sessions and bytes, restored while it is younger than the time to live. The 64-bit hash
  of a call id (\<open>DefaultHasher\<close>) is the parameter \<open>hash\<close>; each locked operation reads the clock once.
\<close>

section \<open>State\<close>

type_synonym shadow_key = "nat list \<times> u64"

record shadow_entry =
  entry_reasoning :: string
  created :: instant

record shadow_metrics =
  stores :: u64
  restores :: u64
  misses :: u64
  evicted_entries :: u64
  dropped_oversized :: u64
  active_entries :: u64

record shadow_limits =
  max_sessions :: nat
  max_total_bytes :: nat
  max_entry_bytes :: nat
  ttl :: duration

record session_state =
  session_entries :: "(shadow_key, shadow_entry) table"
  bytes :: nat

record shadow =
  sessions :: "(string, session_state) table"
  lru :: "string list"
  total_bytes :: nat
  metrics :: shadow_metrics

definition default_limits :: shadow_limits where
  "default_limits = \<lparr>max_sessions = 256, max_total_bytes = 64 * 1024 * 1024,
     max_entry_bytes = 1024 * 1024, ttl = from_secs 600\<rparr>"

definition new_shadow :: shadow where
  "new_shadow = \<lparr>sessions = [], lru = [], total_bytes = 0,
     metrics = \<lparr>stores = 0, restores = 0, misses = 0, evicted_entries = 0, dropped_oversized = 0,
                active_entries = 0\<rparr>\<rparr>"

definition usize_max :: nat where
  "usize_max = 2 ^ 64 - 1"

definition sat_add :: "nat \<Rightarrow> nat \<Rightarrow> nat" where
  "sat_add a b = min (a + b) usize_max"

definition sat_mul :: "nat \<Rightarrow> nat \<Rightarrow> nat" where
  "sat_mul a b = min (a * b) usize_max"

section \<open>Keys\<close>

definition hex_value :: "char \<Rightarrow> nat option" where
  "hex_value ch =
     (let n = of_char ch :: nat
      in if 48 \<le> n \<and> n \<le> 57 then Some (n - 48)
         else if 65 \<le> n \<and> n \<le> 70 then Some (n - 55)
         else if 97 \<le> n \<and> n \<le> 102 then Some (n - 87)
         else None)"

text \<open>
  \<open>u8::from_str_radix(chunk, 16)\<close> of one or two bytes, with its optional plus sign. A chunk that is
  not UTF-8 is read as \<open>"0"\<close>: of two bytes those are the ones that are neither two ASCII bytes nor
  one two-byte character, of one byte those above 127.
\<close>

definition valid_chunk :: "string \<Rightarrow> bool" where
  "valid_chunk s \<longleftrightarrow>
     list_all is_ascii_byte s
     \<or> (case s of
          [a, b] \<Rightarrow> (of_char a :: nat) \<in> {0xC2..0xDF} \<and> (of_char b :: nat) \<in> {0x80..0xBF}
        | _ \<Rightarrow> False)"

definition from_hex_chunk :: "string \<Rightarrow> nat option" where
  "from_hex_chunk s =
     (case s of
        [a] \<Rightarrow> hex_value a
      | [a, b] \<Rightarrow>
          if a = CHR 0x2B then hex_value b
          else (case (hex_value a, hex_value b) of
                  (Some x, Some y) \<Rightarrow> Some (16 * x + y) | _ \<Rightarrow> None)
      | _ \<Rightarrow> None)"

fun chunks2 :: "'a list \<Rightarrow> 'a list list" where
  "chunks2 (a # b # xs) = [a, b] # chunks2 xs"
| "chunks2 [a] = [[a]]"
| "chunks2 [] = []"

definition session_key :: "string \<Rightarrow> nat list" where
  "session_key fp =
     (let key = map (\<lambda>(i, chunk). unwrap_or i (from_hex_chunk (if valid_chunk chunk then chunk else ''0'')))
            (enumerate 0 (take 8 (chunks2 fp)))
      in key @ replicate (8 - length key) 0)"

definition shadow_key_of :: "(string \<Rightarrow> u64) \<Rightarrow> string \<Rightarrow> string \<Rightarrow> shadow_key" where
  "shadow_key_of hash fp call = (session_key fp, hash call)"

section \<open>Removal and limits\<close>

definition remove_session :: "string \<Rightarrow> shadow \<Rightarrow> shadow" where
  "remove_session name s =
     (let s1 = (case map_of (sessions s) name of
                  None \<Rightarrow> s
                | Some st \<Rightarrow>
                    s\<lparr>sessions := AList.delete name (sessions s),
                      total_bytes := total_bytes s - bytes st,
                      metrics := (metrics s)\<lparr>evicted_entries := evicted_entries (metrics s)
                                     + of_nat (length (session_entries st))\<rparr>\<rparr>)
      in s1\<lparr>lru := filter (\<lambda>k. k \<noteq> name) (lru s1)\<rparr>)"

definition clear_session :: "string \<Rightarrow> shadow \<Rightarrow> shadow" where
  "clear_session fp s =
     (case map_of (sessions s) fp of
        None \<Rightarrow> s
      | Some st \<Rightarrow>
          s\<lparr>sessions := AList.delete fp (sessions s), total_bytes := total_bytes s - bytes st,
            metrics := (metrics s)\<lparr>evicted_entries := evicted_entries (metrics s)
                           + of_nat (length (session_entries st))\<rparr>,
            lru := filter (\<lambda>k. k \<noteq> fp) (lru s)\<rparr>)"

definition entry_expired :: "instant \<Rightarrow> shadow_limits \<Rightarrow> shadow_entry \<Rightarrow> bool" where
  "entry_expired now lim e \<longleftrightarrow> now - created e > ttl lim"

definition expired_sessions :: "instant \<Rightarrow> shadow_limits \<Rightarrow> shadow \<Rightarrow> string list" where
  "expired_sessions now lim s =
     map fst (filter (\<lambda>(_, st). list_all (entry_expired now lim \<circ> snd) (session_entries st)) (sessions s))"

definition enforce_limits :: "instant \<Rightarrow> shadow_limits \<Rightarrow> shadow \<Rightarrow> shadow" where
  "enforce_limits now lim s =
     (let s1 = fold remove_session (expired_sessions now lim s) s;
          s2 = evict_loop lru (\<lambda>s _. total_bytes s > max_total_bytes lim) remove_session (length (lru s1)) s1
      in evict_loop lru (\<lambda>s _. length (sessions s) > max_sessions lim) remove_session (length (lru s2)) s2)"

definition entry_count :: "shadow \<Rightarrow> u64" where
  "entry_count s = sum_list (map (\<lambda>(_, st). of_nat (length (session_entries st))) (sessions s))"

section \<open>Store and restore\<close>

definition put_entries ::
    "(string \<Rightarrow> u64) \<Rightarrow> string \<Rightarrow> string list \<Rightarrow> shadow_entry
      \<Rightarrow> (shadow_key, shadow_entry) table \<Rightarrow> (shadow_key, shadow_entry) table" where
  "put_entries hash fp ids e m = fold (\<lambda>i. AList.update (shadow_key_of hash fp i) e) ids m"

definition add_reasoning ::
    "(string \<Rightarrow> u64) \<Rightarrow> instant \<Rightarrow> string \<Rightarrow> string list \<Rightarrow> string \<Rightarrow> shadow \<Rightarrow> shadow" where
  "add_reasoning hash now fp ids reasoning s =
     (let st = (case map_of (sessions s) fp of
                  None \<Rightarrow> \<lparr>session_entries = [], bytes = 0\<rparr> | Some st \<Rightarrow> st);
          added = sat_mul (length reasoning) (length ids);
          st' = \<lparr>session_entries = put_entries hash fp ids \<lparr>entry_reasoning = reasoning, created = now\<rparr>
                   (session_entries st),
                 bytes = sat_add (bytes st) added\<rparr>
      in s\<lparr>sessions := AList.update fp st' (sessions s),
           lru := (if map_of (sessions s) fp = None then lru s @ [fp] else lru s),
           total_bytes := sat_add (total_bytes s) added,
           metrics := (metrics s)\<lparr>stores := stores (metrics s) + 1\<rparr>\<rparr>)"

definition store ::
    "(string \<Rightarrow> u64) \<Rightarrow> instant \<Rightarrow> shadow_limits \<Rightarrow> string \<Rightarrow> string list \<Rightarrow> string \<Rightarrow> shadow \<Rightarrow> shadow" where
  "store hash now lim fp ids reasoning s =
     (if reasoning = [] \<or> ids = [] then s
      else if length reasoning > max_entry_bytes lim
        then s\<lparr>metrics := (metrics s)\<lparr>dropped_oversized := dropped_oversized (metrics s) + 1\<rparr>\<rparr>
      else
        let s1 = enforce_limits now lim (add_reasoning hash now fp ids reasoning s)
        in s1\<lparr>metrics := (metrics s1)\<lparr>active_entries := entry_count s1\<rparr>\<rparr>)"

definition count_miss :: "shadow \<Rightarrow> shadow" where
  "count_miss s = s\<lparr>metrics := (metrics s)\<lparr>misses := misses (metrics s) + 1\<rparr>\<rparr>"

fun first_entry ::
    "(string \<Rightarrow> u64) \<Rightarrow> string \<Rightarrow> string list \<Rightarrow> (shadow_key, shadow_entry) table
      \<Rightarrow> (shadow_key \<times> shadow_entry) option" where
  "first_entry hash fp [] m = None"
| "first_entry hash fp (i # is) m =
     (case map_of m (shadow_key_of hash fp i) of
        Some e \<Rightarrow> Some (shadow_key_of hash fp i, e)
      | None \<Rightarrow> first_entry hash fp is m)"

definition restore ::
    "(string \<Rightarrow> u64) \<Rightarrow> instant \<Rightarrow> shadow_limits \<Rightarrow> string \<Rightarrow> string list \<Rightarrow> shadow \<Rightarrow> string option \<times> shadow" where
  "restore hash now lim fp ids s =
     (if ids = [] then (None, s)
      else
        case map_of (sessions s) fp of
          None \<Rightarrow> (None, s)
        | Some st \<Rightarrow>
            (case first_entry hash fp ids (session_entries st) of
               None \<Rightarrow> (None, count_miss s)
             | Some (key, e) \<Rightarrow>
                 if entry_expired now lim e
                 then (None, count_miss (s\<lparr>sessions := AList.update fp
                        (st\<lparr>session_entries := AList.delete key (session_entries st)\<rparr>) (sessions s)\<rparr>))
                 else (Some (entry_reasoning e),
                       s\<lparr>metrics := (metrics s)\<lparr>restores := restores (metrics s) + 1\<rparr>\<rparr>)))"

section \<open>Restoring into a body\<close>

definition call_id_list :: "json list \<Rightarrow> string list" where
  "call_id_list calls = List.map_filter (get_str ''id'') calls"

definition restore_message ::
    "(string \<Rightarrow> u64) \<Rightarrow> instant \<Rightarrow> shadow_limits \<Rightarrow> string \<Rightarrow> shadow \<Rightarrow> json \<Rightarrow> shadow \<times> json" where
  "restore_message hash now lim fp s message =
     (if \<not> role_is ''assistant'' message then (s, message)
      else if get ''reasoning_content'' message \<noteq> None then (s, message)
      else
        case get_arr ''tool_calls'' message of
          None \<Rightarrow> (s, message)
        | Some calls \<Rightarrow>
            (case restore hash now lim fp (call_id_list calls) s of
               (None, s') \<Rightarrow> (s', message)
             | (Some reasoning, s') \<Rightarrow> (s', set_key ''reasoning_content'' (JStr reasoning) message)))"

fun restore_messages ::
    "(string \<Rightarrow> u64) \<Rightarrow> instant \<Rightarrow> shadow_limits \<Rightarrow> string \<Rightarrow> shadow \<Rightarrow> json list \<Rightarrow> shadow \<times> json list" where
  "restore_messages hash now lim fp s [] = (s, [])"
| "restore_messages hash now lim fp s (m # ms) =
     (case restore_message hash now lim fp s m of (s1, m') \<Rightarrow>
      case restore_messages hash now lim fp s1 ms of (s2, ms') \<Rightarrow> (s2, m' # ms'))"

definition restore_into ::
    "(string \<Rightarrow> u64) \<Rightarrow> instant \<Rightarrow> shadow_limits \<Rightarrow> string \<Rightarrow> members \<Rightarrow> shadow \<Rightarrow> shadow \<times> members" where
  "restore_into hash now lim fp body s =
     (case Option.bind (mget body ''messages'') as_array of
        None \<Rightarrow> (s, body)
      | Some messages \<Rightarrow>
          let boundary = reasoning_epoch_boundary messages in
          case restore_messages hash now lim fp s (drop boundary messages) of (s', rest) \<Rightarrow>
            (s', minsert ''messages'' (JArr (take boundary messages @ rest)) body))"

end
