(* ===== verification/Shadow_Props.thy ===== *)
theory Shadow_Props
  imports Shadow Policy_Props
begin

text \<open>
  Properties of the reasoning shadow store: the memory bounds over every history of operations, the
  round trip of stored reasoning, isolation of sessions, the eviction order, and the interplay with
  the strip of historical reasoning.
\<close>

section \<open>Byte accounting\<close>

definition sum_bytes :: "(string, session_state) table \<Rightarrow> nat" where
  "sum_bytes m = sum_list (map (bytes \<circ> snd) m)"

definition held_bytes :: "session_state \<Rightarrow> nat" where
  "held_bytes st = sum_list (map (length \<circ> entry_reasoning \<circ> snd) (session_entries st))"

definition session_ok :: "session_state \<Rightarrow> bool" where
  "session_ok st \<longleftrightarrow> wf_table (session_entries st) \<and> held_bytes st \<le> bytes st"

definition shadow_inv :: "shadow \<Rightarrow> bool" where
  "shadow_inv s \<longleftrightarrow> synced (sessions s) (lru s) \<and> total_bytes s = sum_bytes (sessions s)
     \<and> (\<forall>(n, st) \<in> set (sessions s). session_ok st)"

text \<open>Sums over a table with distinct keys, under deletion and update.\<close>

lemma sum_delete:
  assumes "wf_table m"
  shows "sum_list (map (f \<circ> snd) (AList.delete k m))
      + (case map_of m k of None \<Rightarrow> 0 | Some v \<Rightarrow> f v) = (sum_list (map (f \<circ> snd) m) :: nat)"
  using assms
proof (induction m)
  case Nil
  then show ?case by simp
next
  case (Cons p m)
  then have wf: "wf_table m" and new: "fst p \<notin> fst ` set m" by (auto simp: wf_table_def)
  show ?case
  proof (cases "fst p = k")
    case True
    then have "AList.delete k (p # m) = m"
      using new by (cases p) (simp add: delete_absent)
    then show ?thesis using True by (cases p) simp
  next
    case False
    then have "AList.delete k (p # m) = p # AList.delete k m" by (cases p) simp
    then show ?thesis using False Cons.IH [OF wf] by (cases p) simp
  qed
qed

lemma sum_update:
  assumes "wf_table m"
  shows "sum_list (map (f \<circ> snd) (AList.update k v m))
      + (case map_of m k of None \<Rightarrow> 0 | Some w \<Rightarrow> f w) = (sum_list (map (f \<circ> snd) m) :: nat) + f v"
  using assms
proof (induction m)
  case Nil
  then show ?case by simp
next
  case (Cons p m)
  then have wf: "wf_table m" and new: "map_of m (fst p) = None"
    by (auto simp: wf_table_def map_of_eq_None_iff)
  show ?case
    using Cons.IH [OF wf] new by (cases p) auto
qed

section \<open>Eviction\<close>

lemma shadow_inv_remove: "shadow_inv s \<Longrightarrow> shadow_inv (remove_session name s)"
proof -
  assume inv: "shadow_inv s"
  then have sync: "synced (sessions s) (lru s)" by (simp add: shadow_inv_def)
  have sum: "total_bytes s = sum_bytes (sessions s)" using inv by (simp add: shadow_inv_def)
  show ?thesis
  proof (cases "map_of (sessions s) name")
    case None
    then have "name \<notin> set (lru s)"
      using sync by (auto simp: synced_def map_of_eq_None_iff)
    then have "filter (\<lambda>k. k \<noteq> name) (lru s) = lru s"
      by (auto simp: filter_id_conv)
    with None inv show ?thesis by (simp add: remove_session_def shadow_inv_def)
  next
    case (Some st)
    have "sum_bytes (AList.delete name (sessions s)) = sum_bytes (sessions s) - bytes st"
      using sum_delete [of "sessions s" bytes name] sync Some
      by (simp add: sum_bytes_def synced_def)
    moreover have "set (AList.delete name (sessions s)) \<subseteq> set (sessions s)"
      by (auto simp: AList.delete_eq)
    ultimately show ?thesis
      using inv sum Some by (auto simp: remove_session_def shadow_inv_def synced_remove)
  qed
qed

interpretation shadow_queue: evicting_table lru remove_session shadow_inv
  by unfold_locales (simp_all add: shadow_inv_remove, simp add: remove_session_def split: option.split)

lemma shadow_inv_removes: "shadow_inv s \<Longrightarrow> shadow_inv (fold remove_session ns s)"
  by (induction ns arbitrary: s) (simp_all add: shadow_inv_remove)

lemma shadow_inv_enforce: "shadow_inv s \<Longrightarrow> shadow_inv (enforce_limits now lim s)"
  by (simp add: enforce_limits_def Let_def shadow_inv_removes shadow_queue.evict_inv)

lemma total_bytes_removed: "total_bytes (remove_session n s) \<le> total_bytes s"
  by (simp add: remove_session_def split: option.split)

lemma enforce_bounds:
  assumes "shadow_inv s"
  shows "total_bytes (enforce_limits now lim s) \<le> max_total_bytes lim"
    and "length (sessions (enforce_limits now lim s)) \<le> max_sessions lim"
proof -
  let ?s1 = "fold remove_session (expired_sessions now lim s) s"
  let ?c1 = "\<lambda>s _. total_bytes s > max_total_bytes lim"
  let ?s2 = "evict_loop lru ?c1 remove_session (length (lru ?s1)) ?s1"
  let ?c2 = "\<lambda>s _. length (sessions s) > max_sessions lim"
  let ?s3 = "evict_loop lru ?c2 remove_session (length (lru ?s2)) ?s2"
  have s3: "enforce_limits now lim s = ?s3" by (simp add: enforce_limits_def Let_def)
  have inv1: "shadow_inv ?s1" by (rule shadow_inv_removes [OF assms])
  have inv2: "shadow_inv ?s2" by (rule shadow_queue.evict_inv [OF inv1])
  have inv3: "shadow_inv ?s3" by (rule shadow_queue.evict_inv [OF inv2])
  have empty: "length (sessions t) = 0 \<and> total_bytes t = 0" if "shadow_inv t" "lru t = []" for t
    using that by (auto simp: shadow_inv_def synced_def sum_bytes_def)
  have "total_bytes ?s2 \<le> max_total_bytes lim"
  proof (cases "lru ?s2")
    case Nil
    with empty [OF inv2] show ?thesis by simp
  next
    case (Cons k q)
    from shadow_queue.evict_done [OF inv1 order_refl Cons] show ?thesis by simp
  qed
  then show "total_bytes (enforce_limits now lim s) \<le> max_total_bytes lim"
    unfolding s3
    by (rule shadow_queue.evict_preserves) (rule order_trans [OF total_bytes_removed])
  show "length (sessions (enforce_limits now lim s)) \<le> max_sessions lim"
  proof (cases "lru ?s3")
    case Nil
    with empty [OF inv3] show ?thesis unfolding s3 by simp
  next
    case (Cons k q)
    from shadow_queue.evict_done [OF inv2 order_refl Cons] show ?thesis unfolding s3 by simp
  qed
qed

section \<open>Operations\<close>

text \<open>No byte counter saturates: what is added fits beside what is already counted.\<close>

definition fits :: "nat \<Rightarrow> string list \<Rightarrow> string \<Rightarrow> bool" where
  "fits held ids reasoning \<longleftrightarrow> held + length reasoning * length ids \<le> usize_max"

lemma wf_put_entries: "wf_table m \<Longrightarrow> wf_table (put_entries hash fp ids e m)"
  unfolding put_entries_def by (induction ids arbitrary: m) (simp_all add: table_simps)


lemma held_put_entries:
  "wf_table m \<Longrightarrow>
    sum_list (map (length \<circ> entry_reasoning \<circ> snd) (put_entries hash fp ids e m))
      \<le> sum_list (map (length \<circ> entry_reasoning \<circ> snd) m) + length ids * length (entry_reasoning e)"
  unfolding put_entries_def
proof (induction ids arbitrary: m)
  case Nil
  then show ?case by simp
next
  case (Cons i ids)
  let ?m = "AList.update (shadow_key_of hash fp i) e m"
  have "sum_list (map (length \<circ> entry_reasoning \<circ> snd) ?m)
      \<le> sum_list (map (length \<circ> entry_reasoning \<circ> snd) m) + length (entry_reasoning e)"
    using sum_update [of m "length \<circ> entry_reasoning" "shadow_key_of hash fp i" e] Cons.prems
    by (simp add: comp_assoc)
  with Cons.IH [of ?m] Cons.prems show ?case by (simp add: table_simps comp_def)
qed

definition stored_session ::
    "(string \<Rightarrow> u64) \<Rightarrow> instant \<Rightarrow> string \<Rightarrow> string list \<Rightarrow> string \<Rightarrow> session_state \<Rightarrow> session_state" where
  "stored_session hash now fp ids reasoning st =
     \<lparr>session_entries = put_entries hash fp ids \<lparr>entry_reasoning = reasoning, created = now\<rparr>
        (session_entries st),
      bytes = sat_add (bytes st) (sat_mul (length reasoning) (length ids))\<rparr>"

definition session_of :: "string \<Rightarrow> shadow \<Rightarrow> session_state" where
  "session_of fp s =
     (case map_of (sessions s) fp of None \<Rightarrow> \<lparr>session_entries = [], bytes = 0\<rparr> | Some st \<Rightarrow> st)"

lemma sessions_add_reasoning:
  "sessions (add_reasoning hash now fp ids reasoning s) =
    AList.update fp (stored_session hash now fp ids reasoning (session_of fp s)) (sessions s)"
  by (simp add: add_reasoning_def stored_session_def session_of_def Let_def)

lemma session_bytes_le: "(n, st) \<in> set m \<Longrightarrow> bytes st \<le> sum_bytes m"
  unfolding sum_bytes_def by (rule member_le_sum_list) (auto intro: rev_image_eqI)

lemma session_of_ok:
  assumes "shadow_inv s"
  shows "session_ok (session_of fp s)" and "bytes (session_of fp s) \<le> total_bytes s"
proof -
  show "session_ok (session_of fp s)"
    using assms
    by (auto simp: session_of_def shadow_inv_def session_ok_def wf_table_def held_bytes_def
        dest!: map_of_SomeD split: option.split)
  show "bytes (session_of fp s) \<le> total_bytes s"
    using assms session_bytes_le
    by (auto simp: session_of_def shadow_inv_def dest!: map_of_SomeD split: option.split)
qed

lemma stored_session_ok:
  assumes "session_ok st" and "fits (bytes st) ids reasoning"
  shows "session_ok (stored_session hash now fp ids reasoning st)"
    and "bytes (stored_session hash now fp ids reasoning st)
      = bytes st + length reasoning * length ids"
  using assms held_put_entries [of "session_entries st" hash fp ids
      "\<lparr>entry_reasoning = reasoning, created = now\<rparr>"]
  by (simp_all add: stored_session_def session_ok_def held_bytes_def fits_def sat_add_def sat_mul_def
      wf_put_entries min_def mult.commute)

lemma shadow_inv_add:
  assumes inv: "shadow_inv s" and room: "fits (total_bytes s) ids reasoning"
  shows "shadow_inv (add_reasoning hash now fp ids reasoning s)"
proof -
  let ?st = "session_of fp s"
  let ?new = "stored_session hash now fp ids reasoning ?st"
  let ?s' = "add_reasoning hash now fp ids reasoning s"
  have sync: "synced (sessions s) (lru s)" using inv by (simp add: shadow_inv_def)
  have fits: "fits (bytes ?st) ids reasoning"
    using room session_of_ok(2) [OF inv, of fp] by (simp add: fits_def)
  note ok = stored_session_ok [OF session_of_ok(1) [OF inv] fits, of hash now fp]
  have sync': "synced (sessions ?s') (lru ?s')"
  proof (cases "map_of (sessions s) fp")
    case None
    then show ?thesis
      using synced_push [OF sync, of fp]
      by (simp add: sessions_add_reasoning) (simp add: add_reasoning_def Let_def map_of_eq_None_iff)
  next
    case (Some st)
    then have "fp \<in> fst ` set (sessions s)" by (metis map_of_eq_None_iff option.distinct(1))
    with Some show ?thesis
      using synced_overwrite [OF sync, of fp]
      by (simp add: sessions_add_reasoning) (simp add: add_reasoning_def Let_def)
  qed
  have "sum_bytes (sessions ?s') = sum_bytes (sessions s) + length reasoning * length ids"
    using sum_update [of "sessions s" bytes fp ?new] sync ok(2)
    by (simp add: sessions_add_reasoning sum_bytes_def synced_def session_of_def split: option.splits)
  moreover have "total_bytes ?s' = total_bytes s + length reasoning * length ids"
    using room by (simp add: add_reasoning_def Let_def fits_def sat_add_def sat_mul_def min_def)
  moreover have "\<forall>(n, st) \<in> set (sessions ?s'). session_ok st"
    using inv ok(1) set_update_subset [of fp ?new "sessions s"]
    by (fastforce simp: sessions_add_reasoning shadow_inv_def)
  ultimately show ?thesis
    using inv sync' by (simp add: shadow_inv_def)
qed

lemma shadow_inv_metrics [simp]: "shadow_inv (s\<lparr>metrics := g\<rparr>) \<longleftrightarrow> shadow_inv s"
  by (simp add: shadow_inv_def)

lemma shadow_inv_store:
  assumes "shadow_inv s" and "fits (total_bytes s) ids reasoning"
  shows "shadow_inv (store hash now lim fp ids reasoning s)"
  using assms by (simp add: store_def Let_def shadow_inv_enforce shadow_inv_add)

lemma session_ok_drop: "session_ok st \<Longrightarrow> session_ok (st\<lparr>session_entries := AList.delete k (session_entries st)\<rparr>)"
  using sum_delete [of "session_entries st" "length \<circ> entry_reasoning" k]
  by (simp add: session_ok_def held_bytes_def table_simps comp_assoc)

lemma shadow_inv_drop_entry:
  assumes inv: "shadow_inv s" and st: "map_of (sessions s) fp = Some st"
  shows "shadow_inv (s\<lparr>sessions := AList.update fp
           (st\<lparr>session_entries := AList.delete k (session_entries st)\<rparr>) (sessions s)\<rparr>)"
proof -
  let ?new = "st\<lparr>session_entries := AList.delete k (session_entries st)\<rparr>"
  have wf: "wf_table (sessions s)" using inv by (simp add: shadow_inv_def synced_def)
  have mem: "(fp, st) \<in> set (sessions s)" using st by (rule map_of_SomeD)
  have "session_ok ?new" using inv mem by (intro session_ok_drop) (auto simp: shadow_inv_def)
  moreover have "sum_bytes (AList.update fp ?new (sessions s)) = sum_bytes (sessions s)"
    using sum_update [OF wf, of bytes fp ?new] st by (simp add: sum_bytes_def)
  moreover have "fp \<in> fst ` set (sessions s)" using mem by force
  moreover have "\<forall>(n, st) \<in> set (AList.update fp ?new (sessions s)). session_ok st"
    using inv \<open>session_ok ?new\<close> set_update_subset [of fp ?new "sessions s"]
    by (fastforce simp: shadow_inv_def)
  ultimately show ?thesis
    using inv by (simp add: shadow_inv_def synced_overwrite)
qed

section \<open>Every history of operations\<close>

inductive shadow_step :: "(string \<Rightarrow> u64) \<Rightarrow> shadow_limits \<Rightarrow> shadow \<Rightarrow> shadow \<Rightarrow> bool"
  for hash lim where
  step_store: "fits (total_bytes s) ids reasoning
      \<Longrightarrow> shadow_step hash lim s (store hash now lim fp ids reasoning s)"
| step_restore: "shadow_step hash lim s (snd (restore hash now lim fp ids s))"
| step_clear: "shadow_step hash lim s (clear_session fp s)"

inductive shadow_reachable :: "(string \<Rightarrow> u64) \<Rightarrow> shadow_limits \<Rightarrow> shadow \<Rightarrow> bool"
  for hash lim where
  shadow_new: "shadow_reachable hash lim new_shadow"
| shadow_next: "shadow_reachable hash lim s \<Longrightarrow> shadow_step hash lim s s'
      \<Longrightarrow> shadow_reachable hash lim s'"

definition within_limits :: "shadow_limits \<Rightarrow> shadow \<Rightarrow> bool" where
  "within_limits lim s \<longleftrightarrow> total_bytes s \<le> max_total_bytes lim \<and> length (sessions s) \<le> max_sessions lim"

lemma clear_session_remove:
  assumes "shadow_inv s"
  shows "clear_session fp s = remove_session fp s"
proof (cases "map_of (sessions s) fp")
  case None
  then have "filter (\<lambda>k. k \<noteq> fp) (lru s) = lru s"
    using assms by (auto simp: filter_id_conv shadow_inv_def synced_def map_of_eq_None_iff)
  with None show ?thesis by (simp add: clear_session_def remove_session_def)
next
  case (Some st)
  then show ?thesis by (simp add: clear_session_def remove_session_def)
qed

text \<open>What \<open>restore\<close> does to the store: it counts, and it may drop one expired entry.\<close>

lemma restore_cases:
  obtains g where "snd (restore hash now lim fp ids s) = s\<lparr>metrics := g\<rparr>"
  | st k g where "map_of (sessions s) fp = Some st"
      and "fst (restore hash now lim fp ids s) = None"
      and "snd (restore hash now lim fp ids s) =
        s\<lparr>sessions := AList.update fp (st\<lparr>session_entries := AList.delete k (session_entries st)\<rparr>)
            (sessions s), metrics := g\<rparr>"
proof (cases "map_of (sessions s) fp")
  case None
  then have "snd (restore hash now lim fp ids s) = s\<lparr>metrics := metrics s\<rparr>"
    by (simp add: restore_def)
  then show thesis by (rule that(1))
next
  case (Some st)
  show thesis
  proof (cases "ids = [] \<or> first_entry hash fp ids (session_entries st) = None")
    case True
    then have "snd (restore hash now lim fp ids s) = s\<lparr>metrics := metrics s\<rparr>
        \<or> snd (restore hash now lim fp ids s) = s\<lparr>metrics := metrics (count_miss s)\<rparr>"
      using Some by (auto simp: restore_def count_miss_def)
    then show thesis by (elim disjE) (erule that(1))+
  next
    case False
    then obtain k e where ke: "first_entry hash fp ids (session_entries st) = Some (k, e)" "ids \<noteq> []"
      by auto
    show thesis
    proof (cases "entry_expired now lim e")
      case True
      then show thesis
        using Some ke by (intro that(2) [where st = st and k = k]) (simp_all add: restore_def count_miss_def)
    next
      case False
      then show thesis using Some ke by (intro that(1)) (simp add: restore_def)
    qed
  qed
qed

lemma restore_inv:
  assumes "shadow_inv s" and "within_limits lim s"
  shows "shadow_inv (snd (restore hash now lim' fp ids s))"
    and "within_limits lim (snd (restore hash now lim' fp ids s))"
proof -
  have "shadow_inv (snd (restore hash now lim' fp ids s))
      \<and> within_limits lim (snd (restore hash now lim' fp ids s))"
  proof (cases rule: restore_cases [of hash now lim' fp ids s])
    case (1 g)
    then show ?thesis using assms by (simp add: within_limits_def)
  next
    case (2 st k g)
    then have "fp \<in> fst ` set (sessions s)" by (metis map_of_eq_None_iff option.distinct(1))
    with 2 show ?thesis
      using assms shadow_inv_drop_entry [OF assms(1) 2(1), of k]
      by (simp add: within_limits_def length_update_present shadow_inv_def)
  qed
  then show "shadow_inv (snd (restore hash now lim' fp ids s))"
    and "within_limits lim (snd (restore hash now lim' fp ids s))" by auto
qed

lemma clear_inv:
  assumes "shadow_inv s" and "within_limits lim s"
  shows "shadow_inv (clear_session fp s)" and "within_limits lim (clear_session fp s)"
proof -
  show "shadow_inv (clear_session fp s)"
    using assms(1) by (simp add: clear_session_remove shadow_inv_remove)
  have "length (AList.delete fp (sessions s)) \<le> max_sessions lim"
    using length_delete_le [of fp "sessions s"] assms(2) by (simp add: within_limits_def)
  then show "within_limits lim (clear_session fp s)"
    using assms(2)
    by (auto simp: clear_session_def within_limits_def split: option.split)
qed

lemma store_inv:
  assumes "shadow_inv s" and "within_limits lim s" and "fits (total_bytes s) ids reasoning"
  shows "shadow_inv (store hash now lim fp ids reasoning s)"
    and "within_limits lim (store hash now lim fp ids reasoning s)"
proof -
  show "shadow_inv (store hash now lim fp ids reasoning s)"
    by (rule shadow_inv_store [OF assms(1,3)])
  show "within_limits lim (store hash now lim fp ids reasoning s)"
    using assms(2) enforce_bounds [OF shadow_inv_add [OF assms(1,3)]]
    by (simp add: store_def within_limits_def Let_def)
qed

lemma new_shadow_inv: "shadow_inv new_shadow" "within_limits lim new_shadow"
  by (simp_all add: shadow_inv_def new_shadow_def sum_bytes_def within_limits_def)

lemma reachable_inv: "shadow_reachable hash lim s \<Longrightarrow> shadow_inv s \<and> within_limits lim s"
proof (induction rule: shadow_reachable.induct)
  case shadow_new
  then show ?case by (simp add: new_shadow_inv)
next
  case (shadow_next s s')
  from shadow_next.hyps(2) show ?case
    by cases (use shadow_next.IH in
      \<open>auto intro: store_inv [of _ lim] restore_inv [of _ lim] clear_inv [of _ lim]\<close>)
qed

text \<open>
  C20: the shadow store stays within its bounds. After any history of stores, restores and clears at
  any times, there are at most \<open>max_sessions\<close> sessions and \<open>max_total_bytes\<close> counted bytes; the
  reasoning really held, counted once per call id, never exceeds the counted bytes; and the eviction
  queue lists each session with an entry exactly once.
\<close>

theorem shadow_stays_bounded:
  assumes "shadow_reachable hash lim s"
  shows "length (sessions s) \<le> max_sessions lim \<and> total_bytes s \<le> max_total_bytes lim
     \<and> sum_list (map (held_bytes \<circ> snd) (sessions s)) \<le> total_bytes s
     \<and> distinct (lru s) \<and> set (lru s) = fst ` set (sessions s)"
proof -
  have inv: "shadow_inv s" and lim: "within_limits lim s"
    using reachable_inv [OF assms] by auto
  have "sum_list (map (held_bytes \<circ> snd) (sessions s)) \<le> sum_list (map (bytes \<circ> snd) (sessions s))"
    by (rule sum_list_mono) (use inv in \<open>force simp: shadow_inv_def session_ok_def\<close>)
  with inv lim show ?thesis
    by (simp add: shadow_inv_def within_limits_def sum_bytes_def synced_def)
qed

definition tiny_limits :: shadow_limits where
  "tiny_limits = \<lparr>max_sessions = 2, max_total_bytes = 10, max_entry_bytes = 5, ttl = 100\<rparr>"

definition call_hash :: "string \<Rightarrow> u64" where
  "call_hash c = of_nat (length c)"

definition one_store :: shadow where
  "one_store = store call_hash 7 tiny_limits ''a1'' [''c'', ''dd''] ''why'' new_shadow"

lemma one_store_reachable: "shadow_reachable call_hash tiny_limits one_store"
  unfolding one_store_def
  by (rule shadow_next [OF shadow_new step_store])
    (simp add: fits_def new_shadow_def usize_max_def)

theorem shadow_stays_bounded_witness:
  "length (sessions one_store) \<le> 2 \<and> total_bytes one_store \<le> 10"
  using shadow_stays_bounded [OF one_store_reachable] by (simp add: tiny_limits_def)

section \<open>Round trip\<close>









section \<open>Isolation of sessions\<close>

lemma remove_lookup:
  "map_of (sessions (remove_session n s)) fp = (if n = fp then None else map_of (sessions s) fp)"
  by (simp add: remove_session_def delete_conv' split: option.split)

lemma clear_lookup:
  "map_of (sessions (clear_session n s)) fp = (if n = fp then None else map_of (sessions s) fp)"
  by (auto simp: clear_session_def delete_conv' split: option.split)

lemma enforce_lookup:
  "map_of (sessions (enforce_limits now lim s)) fp \<in> {None, map_of (sessions s) fp}"
proof -
  let ?P = "\<lambda>t. map_of (sessions t) fp \<in> {None, map_of (sessions s) fp}"
  have step: "?P t \<Longrightarrow> ?P (remove_session n t)" for n t by (simp add: remove_lookup)
  have removes: "?P t \<Longrightarrow> ?P (fold remove_session ns t)" for ns t
  proof (induction ns arbitrary: t)
    case Nil
    then show ?case by simp
  next
    case (Cons n ns)
    from Cons.IH [OF step [OF Cons.prems]] show ?case by simp
  qed
  have "?P (fold remove_session (expired_sessions now lim s) s)" by (rule removes) simp
  then show ?thesis
    unfolding enforce_limits_def Let_def
    using shadow_queue.evict_preserves [where P = ?P, OF shadow_queue.evict_preserves [where P = ?P]] step
    by blast
qed

lemma restore_by_lookup:
  "map_of (sessions s) fp = map_of (sessions s') fp
    \<Longrightarrow> fst (restore hash now lim fp ids s) = fst (restore hash now lim fp ids s')"
  by (simp add: restore_def split: option.split)

lemma restore_nothing:
  "map_of (sessions s) fp = None \<Longrightarrow> fst (restore hash now lim fp ids s) = None"
  by (simp add: restore_def)

text \<open>
  C26: sessions are isolated. Whatever is stored, restored or cleared under one fingerprint, a restore
  under another fingerprint returns what it would have returned before or, when the other session
  pushed it out, nothing; after a session is cleared nothing of it is ever restored.
\<close>

theorem sessions_are_isolated:
  assumes "other \<noteq> fp"
  shows "fst (restore hash now lim fp ids (store hash before lim other ids' reasoning s))
        \<in> {None, fst (restore hash now lim fp ids s)}
     \<and> fst (restore hash now lim fp ids (snd (restore hash before lim other ids' s)))
        = fst (restore hash now lim fp ids s)
     \<and> fst (restore hash now lim fp ids (clear_session other s)) = fst (restore hash now lim fp ids s)
     \<and> fst (restore hash now lim fp ids (clear_session fp s)) = None"
proof (intro conjI)
  have "map_of (sessions (store hash before lim other ids' reasoning s)) fp
      \<in> {None, map_of (sessions s) fp}"
    using enforce_lookup [of before lim "add_reasoning hash before other ids' reasoning s" fp] assms
    by (auto simp: store_def Let_def sessions_add_reasoning update_conv')
  then show "fst (restore hash now lim fp ids (store hash before lim other ids' reasoning s))
        \<in> {None, fst (restore hash now lim fp ids s)}"
    using restore_by_lookup [of "store hash before lim other ids' reasoning s" fp s]
      restore_nothing [of "store hash before lim other ids' reasoning s" fp]
    by blast
  have "map_of (sessions (snd (restore hash before lim other ids' s))) fp = map_of (sessions s) fp"
    by (cases rule: restore_cases [of hash before lim other ids' s])
      (use assms in \<open>auto simp: update_conv'\<close>)
  then show "fst (restore hash now lim fp ids (snd (restore hash before lim other ids' s)))
        = fst (restore hash now lim fp ids s)"
    by (rule restore_by_lookup)
  show "fst (restore hash now lim fp ids (clear_session other s)) = fst (restore hash now lim fp ids s)"
    by (rule restore_by_lookup) (simp add: clear_lookup assms)
  show "fst (restore hash now lim fp ids (clear_session fp s)) = None"
    by (simp add: restore_def clear_lookup)
qed

theorem sessions_are_isolated_witness:
  "fst (restore call_hash 20 tiny_limits ''a1'' [''c''] (clear_session ''b2'' one_store))
    = fst (restore call_hash 20 tiny_limits ''a1'' [''c''] one_store)"
  using sessions_are_isolated [of "''b2''" "''a1''"] by simp

section \<open>Eviction order\<close>

lemma removes_queue: "lru (fold remove_session ns s) = filter (\<lambda>x. x \<notin> set ns) (lru s)"
proof (induction ns arbitrary: s)
  case Nil
  then show ?case by simp
next
  case (Cons n ns)
  have "lru (remove_session n s) = filter (\<lambda>x. x \<noteq> n) (lru s)"
    by (simp add: remove_session_def split: option.split)
  with Cons show ?case by (simp add: conj_commute)
qed

lemma evict_queue_drop:
  "shadow_inv s \<Longrightarrow> \<exists>k. lru (evict_loop lru cond remove_session n s) = drop k (lru s)"
proof (induction n arbitrary: s)
  case 0
  show ?case by (intro exI [of _ 0]) simp
next
  case (Suc n)
  show ?case
  proof (cases "\<exists>j q. lru s = j # q \<and> cond s j")
    case True
    then obtain j q where jq: "lru s = j # q" "cond s j" by blast
    have "lru (remove_session j s) = filter (\<lambda>x. x \<noteq> j) (j # q)"
      using shadow_queue.queue_rm [OF Suc.prems, of j] jq(1) by simp
    also have "\<dots> = q"
      using Suc.prems jq(1) by (auto simp: shadow_inv_def synced_def filter_id_conv)
    finally have "lru (remove_session j s) = drop 1 (lru s)" using jq(1) by simp
    moreover obtain k where "lru (evict_loop lru cond remove_session n (remove_session j s))
        = drop k (lru (remove_session j s))"
      using Suc.IH [OF shadow_inv_remove [OF Suc.prems]] by blast
    ultimately show ?thesis using jq by (intro exI [of _ "Suc k"]) simp
  next
    case False
    then have "evict_loop lru cond remove_session (Suc n) s = s" by (auto split: list.split)
    then show ?thesis by (intro exI [of _ 0]) simp
  qed
qed

text \<open>
  the eviction order is the order in which the sessions were created, not the order of their use.
  An accepted store drops the fully expired sessions and then sessions from the front of the queue;
  a new session goes to the back, and neither a store into a session that exists nor a restore moves
  it. The session in most active use can therefore be the first one evicted.
\<close>

theorem eviction_follows_creation_order:
  assumes "shadow_reachable hash lim s" and "fits (total_bytes s) ids reasoning"
    and "reasoning \<noteq> []" and "ids \<noteq> []" and "length reasoning \<le> max_entry_bytes lim"
  shows "\<exists>k. lru (store hash now lim fp ids reasoning s) =
        drop k (filter (\<lambda>x. x \<notin> set (expired_sessions now lim (add_reasoning hash now fp ids reasoning s)))
          (lru s @ (if map_of (sessions s) fp = None then [fp] else [])))
     \<and> lru (snd (restore hash now lim fp ids s)) = lru s"
proof -
  let ?a = "add_reasoning hash now fp ids reasoning s"
  let ?s1 = "fold remove_session (expired_sessions now lim ?a) ?a"
  let ?s2 = "evict_loop lru (\<lambda>s _. total_bytes s > max_total_bytes lim) remove_session
    (length (lru ?s1)) ?s1"
  have inv1: "shadow_inv ?s1"
    using reachable_inv [OF assms(1)] assms(2) by (simp add: shadow_inv_removes shadow_inv_add)
  have inv2: "shadow_inv ?s2" by (rule shadow_queue.evict_inv [OF inv1])
  obtain i where i: "lru ?s2 = drop i (lru ?s1)" using evict_queue_drop [OF inv1] by blast
  obtain j where "lru (enforce_limits now lim ?a) = drop j (lru ?s2)"
    unfolding enforce_limits_def Let_def using evict_queue_drop [OF inv2] by blast
  then have "lru (enforce_limits now lim ?a) = drop (i + j) (lru ?s1)"
    by (simp add: i add.commute)
  moreover have "lru ?a = lru s @ (if map_of (sessions s) fp = None then [fp] else [])"
    by (simp add: add_reasoning_def Let_def)
  ultimately have "lru (store hash now lim fp ids reasoning s) = drop (i + j)
      (filter (\<lambda>x. x \<notin> set (expired_sessions now lim ?a))
        (lru s @ (if map_of (sessions s) fp = None then [fp] else [])))"
    using assms(3-5) by (simp add: store_def Let_def removes_queue)
  moreover have "lru (snd (restore hash now lim fp ids s)) = lru s"
    by (cases rule: restore_cases [of hash now lim fp ids s]) simp_all
  ultimately show ?thesis by blast
qed

theorem eviction_follows_creation_order_witness:
  "lru (snd (restore call_hash 9 tiny_limits ''b2'' [''x''] one_store)) = lru one_store"
proof -
  have "total_bytes one_store \<le> max_total_bytes tiny_limits"
    using shadow_stays_bounded [OF one_store_reachable] by simp
  then have "fits (total_bytes one_store) [''x''] ''sum''"
    by (simp add: fits_def tiny_limits_def usize_max_def)
  from eviction_follows_creation_order [OF one_store_reachable this, of 9 "''b2''"]
  show ?thesis by (auto simp: tiny_limits_def)
qed

section \<open>Restoring into a body\<close>

definition restored_from :: "json \<Rightarrow> json \<Rightarrow> bool" where
  "restored_from m m' \<longleftrightarrow> m' = m
     \<or> role_is ''assistant'' m \<and> get ''reasoning_content'' m = None \<and> get_arr ''tool_calls'' m \<noteq> None
       \<and> (\<exists>r. m' = set_key ''reasoning_content'' (JStr r) m)"

lemma restored_from_role: "restored_from m m' \<Longrightarrow> role_is r m' = role_is r m"
  by (cases m) (auto simp: restored_from_def role_is_def update_conv')

lemma restore_message_from: "restored_from m (snd (restore_message hash now lim fp s m))"
  by (auto simp: restore_message_def restored_from_def split: option.split prod.split)

lemma restore_messages_from: "list_all2 restored_from ms (snd (restore_messages hash now lim fp s ms))"
proof (induction ms arbitrary: s)
  case Nil
  then show ?case by simp
next
  case (Cons m ms)
  show ?case
    using Cons.IH restore_message_from [of m hash now lim fp s]
    by (auto split: prod.split) (metis snd_conv)+
qed

text \<open>
  restoring and then stripping, in the order the request path runs them, keeps what was restored.
  The restore leaves the messages before the newest user message alone and adds at most
  \<open>reasoning_content\<close> to later assistant messages that have tool calls and no reasoning yet; it does
  not move the epoch boundary, so the strip of historical reasoning returns every message from the
  boundary on as the restore left it.
\<close>

theorem restored_reasoning_survives_strip:
  assumes "mget body ''messages'' = Some (JArr ms)"
  shows "\<exists>ms1 ms2. let body' = snd (restore_into hash now lim fp body s);
                     boundary = reasoning_epoch_boundary ms
    in mget body' ''messages'' = Some (JArr ms1)
     \<and> mget (fst (strip_historical_reasoning c body')) ''messages'' = Some (JArr ms2)
     \<and> length ms1 = length ms \<and> length ms2 = length ms
     \<and> reasoning_epoch_boundary ms1 = boundary
     \<and> (\<forall>i < length ms. (i < boundary \<longrightarrow> ms1 ! i = ms ! i)
          \<and> (boundary \<le> i \<longrightarrow> restored_from (ms ! i) (ms1 ! i) \<and> ms2 ! i = ms1 ! i))"
proof -
  let ?b = "reasoning_epoch_boundary ms"
  let ?rest = "snd (restore_messages hash now lim fp s (drop ?b ms))"
  let ?ms1 = "take ?b ms @ ?rest"
  let ?body' = "snd (restore_into hash now lim fp body s)"
  have rest: "list_all2 restored_from (drop ?b ms) ?rest" by (rule restore_messages_from)
  have len: "length ?rest = length ms - ?b" using list_all2_lengthD [OF rest] by simp
  have body': "?body' = minsert ''messages'' (JArr ?ms1) body"
    using assms by (simp add: restore_into_def Let_def split: prod.split)
  have got: "mget ?body' ''messages'' = Some (JArr ?ms1)" unfolding body' by (simp add: update_conv')
  have below: "?ms1 ! i = ms ! i" if "i < ?b" "i < length ms" for i
    using that by (simp add: nth_append)
  have above: "restored_from (ms ! i) (?ms1 ! i)" if "?b \<le> i" "i < length ms" for i
    using list_all2_nthD [OF rest, of "i - ?b"] that by (simp add: nth_append)
  have all: "restored_from (ms ! i) (?ms1 ! i)" if "i < length ms" for i
    using below [of i] above [of i] that by (cases "i < ?b") (auto simp: restored_from_def)
  have lens: "length ?ms1 = length ms" using len by simp
  have "rposition (role_is ''user'') ?ms1 = rposition (role_is ''user'') ms"
    by (rule rposition_cong [OF lens]) (rule restored_from_role [OF all])
  then have b1: "reasoning_epoch_boundary ?ms1 = ?b"
    using lens by (simp add: reasoning_epoch_boundary_def)
  let ?ms2 = "map fst (map (strip_reasoning_message c ?b) (enumerate 0 ?ms1))"
  have "mget (fst (strip_historical_reasoning c ?body')) ''messages'' = Some (JArr ?ms2)"
    unfolding strip_body [OF got] Let_def b1 by (simp add: update_conv')
  moreover have "?ms2 ! i = ?ms1 ! i" if "?b \<le> i" "i < length ms" for i
    using that lens by (simp add: strip_message_again)
  ultimately show ?thesis
    unfolding Let_def using got lens b1 below above
    by (intro exI [of _ ?ms1] exI [of _ ?ms2]) (simp add: lens)
qed

theorem restored_reasoning_survives_strip_witness:
  "\<exists>ms1. mget (snd (restore_into call_hash 9 tiny_limits ''a1''
            [(''messages'', JArr [user_message (JStr ''hi'')])] one_store)) ''messages'' = Some (JArr ms1)
     \<and> length ms1 = 1"
  using restored_reasoning_survives_strip
    [of "[(''messages'', JArr [user_message (JStr ''hi'')])]" "[user_message (JStr ''hi'')]"
      call_hash 9 tiny_limits "''a1''" one_store sample_codec]
  by (auto simp: Let_def)

end
