(* ===== verification/Watch.thy ===== *)
theory Watch
  imports Prelude
begin

text \<open>
  The stream watchdog (\<open>src/stream_watch.rs\<close>): four timeouts over the upstream stream, each disabled
  by zero. Instants are readings of a monotonic clock.
\<close>

section \<open>Model\<close>

record stream_timeouts =
  first_event :: duration
  first_semantic :: duration
  stream_idle :: duration
  semantic_idle :: duration

definition timeouts_from_secs :: "nat \<Rightarrow> nat \<Rightarrow> nat \<Rightarrow> nat \<Rightarrow> stream_timeouts" where
  "timeouts_from_secs a b d e =
     \<lparr>first_event = from_secs a, first_semantic = from_secs b, stream_idle = from_secs d,
      semantic_idle = from_secs e\<rparr>"

datatype stall_kind = FirstEvent | FirstSemantic | StreamIdle | SemanticIdle

fun stall_name :: "stall_kind \<Rightarrow> string" where
  "stall_name FirstEvent = ''upstream_first_event_timeout''"
| "stall_name FirstSemantic = ''upstream_first_semantic_timeout''"
| "stall_name StreamIdle = ''upstream_stream_idle_timeout''"
| "stall_name SemanticIdle = ''upstream_semantic_idle_timeout''"

fun stall_message :: "stall_kind \<Rightarrow> string" where
  "stall_message FirstEvent = ''upstream produced no stream event before the first-event timeout''"
| "stall_message FirstSemantic =
     ''upstream produced no reasoning/text/tool progress before the first-semantic timeout''"
| "stall_message StreamIdle = ''upstream stream was idle (no bytes) beyond the configured limit''"
| "stall_message SemanticIdle =
     ''upstream produced no reasoning/text/tool progress beyond the semantic idle limit''"

record stream_watch =
  timeouts :: stream_timeouts
  started_at :: instant
  last_byte :: instant
  last_semantic :: instant
  got_first_event :: bool
  got_first_semantic :: bool

definition new_watch :: "stream_timeouts \<Rightarrow> instant \<Rightarrow> stream_watch" where
  "new_watch t start =
     \<lparr>timeouts = t, started_at = start, last_byte = start, last_semantic = start,
      got_first_event = False, got_first_semantic = False\<rparr>"

definition on_upstream_bytes :: "instant \<Rightarrow> stream_watch \<Rightarrow> stream_watch" where
  "on_upstream_bytes now w = w\<lparr>last_byte := now\<rparr>"

definition on_sse_event :: "stream_watch \<Rightarrow> stream_watch" where
  "on_sse_event w = w\<lparr>got_first_event := True\<rparr>"

definition on_semantic :: "instant \<Rightarrow> stream_watch \<Rightarrow> stream_watch" where
  "on_semantic now w = w\<lparr>got_first_semantic := True, last_semantic := now\<rparr>"

definition check_stall :: "instant \<Rightarrow> stream_watch \<Rightarrow> stall_kind option" where
  "check_stall now w =
     (let t = timeouts w in
      if \<not> got_first_event w \<and> first_event t \<noteq> 0 \<and> now - started_at w \<ge> first_event t
        then Some FirstEvent
      else if \<not> got_first_semantic w \<and> first_semantic t \<noteq> 0
              \<and> now - started_at w \<ge> first_semantic t
        then Some FirstSemantic
      else if stream_idle t \<noteq> 0 \<and> now - last_byte w \<ge> stream_idle t then Some StreamIdle
      else if got_first_semantic w \<and> semantic_idle t \<noteq> 0 \<and> now - last_semantic w \<ge> semantic_idle t
        then Some SemanticIdle
      else None)"

definition far_deadline :: "stream_watch \<Rightarrow> instant" where
  "far_deadline w = started_at w + from_secs (60 * 60 * 24 * 365)"

definition next_deadline :: "stream_watch \<Rightarrow> instant" where
  "next_deadline w =
     (let t = timeouts w;
          d0 = far_deadline w;
          d1 = (if \<not> got_first_event w \<and> first_event t \<noteq> 0
                then min d0 (started_at w + first_event t) else d0);
          d2 = (if \<not> got_first_semantic w \<and> first_semantic t \<noteq> 0
                then min d1 (started_at w + first_semantic t) else d1);
          d3 = (if stream_idle t \<noteq> 0 then min d2 (last_byte w + stream_idle t) else d2)
      in if got_first_semantic w \<and> semantic_idle t \<noteq> 0
         then min d3 (last_semantic w + semantic_idle t) else d3)"

section \<open>Deadlines\<close>

lemma reached: "0 < d \<Longrightarrow> d \<le> now - t \<longleftrightarrow> t + d \<le> (now :: nat)"
  by arith

text \<open>
  the watchdog neither misses a stall nor raises one early. Below the one-year horizon a check
  reports a stall exactly from the instant \<open>next_deadline\<close> names, so a pump that sleeps until that
  instant checks at the right time; the deadline is never later than the horizon.
\<close>

theorem stall_exactly_at_deadline:
  assumes "now < far_deadline w"
  shows "(check_stall now w \<noteq> None \<longleftrightarrow> next_deadline w \<le> now) \<and> next_deadline w \<le> far_deadline w"
  using assms by (auto simp: check_stall_def next_deadline_def Let_def reached min_le_iff_disj)

theorem stall_exactly_at_deadline_witness:
  "check_stall 5 (new_watch (timeouts_from_secs 1 0 0 0) 0) = None
     \<longleftrightarrow> \<not> next_deadline (new_watch (timeouts_from_secs 1 0 0 0) 0) \<le> 5"
proof -
  have "5 < far_deadline (new_watch (timeouts_from_secs 1 0 0 0) 0)"
    by (simp add: far_deadline_def new_watch_def from_secs_def)
  from stall_exactly_at_deadline [OF this] show ?thesis by blast
qed

section \<open>Progress\<close>

datatype progress = Bytes instant | SseEvent | Semantic instant

fun progressed :: "progress \<Rightarrow> stream_watch \<Rightarrow> stream_watch" where
  "progressed (Bytes now) w = on_upstream_bytes now w"
| "progressed SseEvent w = on_sse_event w"
| "progressed (Semantic now) w = on_semantic now w"

fun no_semantic :: "progress \<Rightarrow> bool" where
  "no_semantic (Semantic _) = False"
| "no_semantic _ = True"

lemma progressed_fields [simp]:
  "timeouts (progressed e w) = timeouts w" "started_at (progressed e w) = started_at w"
  by (cases e; simp add: on_upstream_bytes_def on_sse_event_def on_semantic_def)+

lemma progress_fields [simp]:
  "timeouts (fold progressed es w) = timeouts w" "started_at (fold progressed es w) = started_at w"
  by (induction es arbitrary: w) simp_all

lemma silent_progress:
  assumes "list_all no_semantic es"
  shows "got_first_semantic (fold progressed es w) = got_first_semantic w"
    and "last_semantic (fold progressed es w) = last_semantic w"
proof -
  have one: "got_first_semantic (progressed e w) = got_first_semantic w
      \<and> last_semantic (progressed e w) = last_semantic w" if "no_semantic e" for e w
    using that by (cases e) (simp_all add: on_upstream_bytes_def on_sse_event_def)
  show "got_first_semantic (fold progressed es w) = got_first_semantic w"
    and "last_semantic (fold progressed es w) = last_semantic w"
    using assms by (induction es arbitrary: w) (simp_all add: one)
qed

text \<open>
  C31: a stalled model is detected however alive the connection looks. Whatever bytes and events keep
  arriving, without reasoning, text, tool or finish progress the watchdog reports a stall once the
  first-semantic timeout has passed since the start, or the semantic idle limit since the last
  progress.
\<close>

theorem stalled_model_is_detected:
  assumes "list_all no_semantic es"
    and "if got_first_semantic w
         then 0 < semantic_idle (timeouts w) \<and> last_semantic w + semantic_idle (timeouts w) \<le> now
         else 0 < first_semantic (timeouts w) \<and> started_at w + first_semantic (timeouts w) \<le> now"
  shows "check_stall now (fold progressed es w) \<noteq> None"
  using assms(2) by (auto simp: check_stall_def Let_def silent_progress [OF assms(1)] reached split: if_splits)

theorem stalled_model_is_detected_witness:
  "check_stall 40 (fold progressed [SseEvent, Bytes 20, Bytes 39]
     (on_semantic 9 (new_watch \<lparr>first_event = 5, first_semantic = 10, stream_idle = 20,
        semantic_idle = 30\<rparr> 0))) \<noteq> None"
  by (rule stalled_model_is_detected) (simp_all add: on_semantic_def new_watch_def)

end
