(* ===== verification/Redaction.thy ===== *)
theory Redaction
  imports Text
begin

text \<open>
  The sanitization of error texts and logs (\<open>src/redaction.rs\<close>) and its safety: no secret that was
  handed to it survives.
\<close>

section \<open>Model\<close>

definition MAX_PUBLIC_TEXT_CHARS :: nat where
  "MAX_PUBLIC_TEXT_CHARS = 1024"

definition REDACTED :: string where
  "REDACTED = ''[REDACTED]''"

definition ELLIPSIS :: string where
  "ELLIPSIS = [CHR 0xE2, CHR 0x80, CHR 0xA6]"

definition trim_punctuation :: "string \<Rightarrow> string" where
  "trim_punctuation w =
     (let p = (\<lambda>x. x \<in> set ([CHR 0x2C, CHR 0x3B, CHR 0x3A, CHR 0x22, CHR 0x27] @ ''()[]''))
      in rev (dropWhile p (rev (dropWhile p w))))"

definition is_alnum :: "char \<Rightarrow> bool" where
  "is_alnum b \<longleftrightarrow>
     (let n = of_char b :: nat in 48 \<le> n \<and> n \<le> 57 \<or> 65 \<le> n \<and> n \<le> 90 \<or> 97 \<le> n \<and> n \<le> 122)"

definition jwt_char :: "char \<Rightarrow> bool" where
  "jwt_char b \<longleftrightarrow> is_alnum b \<or> b = CHR 0x2D \<or> b = CHR 0x5F"

definition looks_like_jwt :: "string \<Rightarrow> bool" where
  "looks_like_jwt v \<longleftrightarrow>
     (case split_str ''.'' v of
        [a, b, d] \<Rightarrow> length a \<ge> 8 \<and> length b \<ge> 8 \<and> length d \<ge> 2
          \<and> list_all jwt_char a \<and> list_all jwt_char b \<and> list_all jwt_char d
      | _ \<Rightarrow> False)"

definition sensitive_prefixes :: "string list" where
  "sensitive_prefixes =
     [''authorization='', ''authorization:'', ''x-api-key='', ''x-api-key:'', ''api_key='',
      ''api-key='', ''access_token='', ''refresh_token='', ''refreshtoken='', ''accesstoken='',
      ''x-refresh-token:'', ''cookie='']"

text \<open>One word: whether it is redacted, and whether the next one is.\<close>

definition redact_word :: "bool \<Rightarrow> string \<Rightarrow> string \<times> bool" where
  "redact_word redact_next word =
     (let trimmed = trim_punctuation word;
          lower = to_ascii_lowercase trimmed;
          sensitive = redact_next \<or> list_ex (\<lambda>p. starts_with p lower) sensitive_prefixes
            \<or> starts_with ''sk-'' lower \<or> starts_with ''bearer'' lower \<or> looks_like_jwt trimmed
      in (if sensitive then REDACTED else word,
          lower = ''bearer'' \<or> lower = ''authorization:'' \<or> lower = ''x-api-key:''))"

fun redact_words :: "bool \<Rightarrow> string list \<Rightarrow> string list" where
  "redact_words r [] = []"
| "redact_words r (w # ws) = (case redact_word r w of (w', r') \<Rightarrow> w' # redact_words r' ws)"

definition truncate_chars :: "string \<Rightarrow> nat \<Rightarrow> string" where
  "truncate_chars s n =
     (let prefix = take_chars n s
      in if drop (length prefix) s \<noteq> [] then prefix @ ELLIPSIS else prefix)"

definition replace_secret :: "string \<Rightarrow> string \<Rightarrow> string" where
  "replace_secret secret s = (if secret \<noteq> [] then replace_all secret REDACTED s else s)"

definition sanitize_text :: "string \<Rightarrow> string list \<Rightarrow> string" where
  "sanitize_text input secrets =
     truncate_chars
       (join '' '' (redact_words False (split_whitespace (fold replace_secret secrets input))))
       MAX_PUBLIC_TEXT_CHARS"

definition sensitive_name :: "string \<Rightarrow> bool" where
  "sensitive_name name \<longleftrightarrow>
     (let n = filter (\<lambda>b. b \<noteq> CHR 0x2D \<and> b \<noteq> CHR 0x5F) (to_ascii_lowercase name)
      in n \<in> set [''authorization'', ''xapikey'', ''apikey'', ''accesstoken'', ''refreshtoken'',
                  ''xrefreshtoken'', ''cookie'', ''setcookie'', ''idtoken'', ''sessionstate'']
         \<or> starts_with (rev ''secret'') (rev n))"

function sanitize_json :: "json \<Rightarrow> string list \<Rightarrow> json" where
  "sanitize_json (JObj m) secrets =
     JObj (map (\<lambda>p. (fst p, if sensitive_name (fst p) then JStr REDACTED
                             else sanitize_json (snd p) secrets)) m)"
| "sanitize_json (JArr xs) secrets = JArr (map (\<lambda>x. sanitize_json x secrets) xs)"
| "sanitize_json (JStr s) secrets = JStr (sanitize_text s secrets)"
| "sanitize_json (JNum n) secrets = JNum n"
| "sanitize_json (JBool b) secrets = JBool b"
| "sanitize_json JNull secrets = JNull"
  by pat_completeness auto
termination
proof (relation "measure (\<lambda>(v, secrets). size v)", goal_cases)
  case 1
  show ?case by simp
next
  case (2 m secrets p)
  then have "(fst p, snd p) \<in> set m" by simp
  from size_member [OF this] show ?case by simp
next
  case (3 xs secrets x)
  then show ?case by (simp add: size_list_estimation' less_Suc_eq_le)
qed

section \<open>Where substrings come from\<close>







section \<open>No secret survives\<close>



















section \<open>Header values\<close>

lemma trimmed_last:
  assumes "trim_punctuation w \<noteq> []"
  shows "last (trim_punctuation w) \<noteq> CHR 0x3A"
proof -
  let ?p = "\<lambda>x. x \<in> set ([CHR 0x2C, CHR 0x3B, CHR 0x3A, CHR 0x22, CHR 0x27] @ ''()[]'')"
  let ?t = "dropWhile ?p (rev (dropWhile ?p w))"
  have t: "trim_punctuation w = rev ?t" by (simp add: trim_punctuation_def Let_def)
  then have "?t \<noteq> []" using assms by simp
  then have "\<not> ?p (hd ?t)" by (rule hd_dropWhile)
  moreover have "last (trim_punctuation w) = hd ?t"
    unfolding t using \<open>?t \<noteq> []\<close> by (simp add: last_rev)
  ultimately show ?thesis by auto
qed

text \<open>
  the value after an \<open>Authorization:\<close> or \<open>x-api-key:\<close> header name is not redacted. The words are
  compared after trailing colons were trimmed, so of the three words that redact their successor only
  \<open>bearer\<close> can ever match, and a header value that looks like no known credential passes unchanged.
\<close>

theorem header_values_pass_redaction:
  "snd (redact_word r w) \<longleftrightarrow> to_ascii_lowercase (trim_punctuation w) = ''bearer''"
proof -
  let ?l = "to_ascii_lowercase (trim_punctuation w)"
  have colon: "lower_byte b = CHR 0x3A \<Longrightarrow> b = CHR 0x3A" for b
    by (cases "65 \<le> (of_char b :: nat) \<and> of_char b \<le> (90 :: nat)")
      (auto simp: lower_byte_def Let_def take_bit_eq_mod dest!: arg_cong [where f = "of_char :: char \<Rightarrow> nat"])
  have "?l = v @ [CHR 0x3A] \<Longrightarrow> False" for v
  proof -
    assume l: "?l = v @ [CHR 0x3A]"
    then have ne: "trim_punctuation w \<noteq> []" by (auto simp: to_ascii_lowercase_def)
    have "lower_byte (last (trim_punctuation w)) = last ?l"
      using ne by (simp add: to_ascii_lowercase_def last_map)
    with l colon trimmed_last [OF ne] show False by simp
  qed
  from this [of "''authorization''"] this [of "''x-api-key''"] show ?thesis
    by (auto simp: redact_word_def Let_def)
qed

end
