(* ===== verification/Errors.thy ===== *)
theory Errors
  imports Credential
begin

text \<open>
  The errors a client sees (\<open>src/error.rs\<close>): the error value with its constructors, the Anthropic and
  the OpenAI envelope, and the HTTP response made of them.
\<close>

record api_error =
  err_status :: nat
  err_kind :: string
  err_message :: string
  err_request_id :: "string option"
  err_retry_after :: "int option"

definition INVALID_REQUEST :: string where "INVALID_REQUEST = ''invalid_request_error''"
definition AUTHENTICATION :: string where "AUTHENTICATION = ''authentication_error''"
definition PERMISSION :: string where "PERMISSION = ''permission_error''"
definition NOT_FOUND :: string where "NOT_FOUND = ''not_found_error''"
definition RATE_LIMIT :: string where "RATE_LIMIT = ''rate_limit_error''"
definition API :: string where "API = ''api_error''"
definition OVERLOADED :: string where "OVERLOADED = ''overloaded_error''"

definition new_error :: "nat \<Rightarrow> string \<Rightarrow> string \<Rightarrow> api_error" where
  "new_error status kind message =
     \<lparr>err_status = status, err_kind = kind, err_message = message, err_request_id = None,
      err_retry_after = None\<rparr>"

definition err_invalid_request :: "string \<Rightarrow> api_error" where
  "err_invalid_request = new_error 400 INVALID_REQUEST"

definition err_authentication :: "string \<Rightarrow> api_error" where
  "err_authentication = new_error 401 AUTHENTICATION"

definition err_permission :: "string \<Rightarrow> api_error" where
  "err_permission = new_error 403 PERMISSION"

definition err_not_found :: "string \<Rightarrow> api_error" where
  "err_not_found = new_error 404 NOT_FOUND"

definition err_rate_limit :: "string \<Rightarrow> api_error" where
  "err_rate_limit = new_error 429 RATE_LIMIT"

definition err_api :: "string \<Rightarrow> api_error" where
  "err_api = new_error 500 API"

definition err_upstream :: "nat \<Rightarrow> string \<Rightarrow> api_error" where
  "err_upstream status = new_error (if 500 \<le> status \<and> status < 600 then status else 502) API"

definition err_overloaded :: "string \<Rightarrow> api_error" where
  "err_overloaded = new_error 529 OVERLOADED"

lemmas error_constructors =
  err_invalid_request_def err_authentication_def err_permission_def err_not_found_def
  err_rate_limit_def err_api_def err_upstream_def err_overloaded_def new_error_def

section \<open>Responses\<close>

definition error_body :: "api_error \<Rightarrow> json" where
  "error_body e =
     JObj ([(''type'', JStr ''error''),
            (''error'', JObj [(''type'', JStr (err_kind e)), (''message'', JStr (err_message e))])]
       @ opt_member ''request_id'' (map_option JStr (err_request_id e)))"

record http_response =
  rs_status :: nat
  rs_retry_after :: "string option"
  rs_body :: json

text \<open>\<open>StatusCode::from_u16(..).unwrap_or(INTERNAL_SERVER_ERROR)\<close>\<close>

definition status_code :: "nat \<Rightarrow> nat" where
  "status_code n = (if 100 \<le> n \<and> n < 1000 then n else 500)"

definition retry_after_header :: "api_error \<Rightarrow> string option" where
  "retry_after_header e = map_option (\<lambda>secs. show_int (max secs 0)) (err_retry_after e)"

definition into_response :: "api_error \<Rightarrow> http_response" where
  "into_response e =
     \<lparr>rs_status = status_code (err_status e), rs_retry_after = retry_after_header e,
      rs_body = error_body e\<rparr>"

text \<open>The OpenAI envelope of the Responses frontend (\<open>openai_error_response\<close> of the orchestrator).\<close>

definition openai_error_body :: "api_error \<Rightarrow> json" where
  "openai_error_body e =
     JObj [(''error'', JObj ([(''message'', JStr (err_message e)), (''type'', JStr (err_kind e)),
                              (''code'', JStr (err_kind e))]
               @ opt_member ''request_id'' (map_option JStr (err_request_id e))))]"

definition openai_error_response :: "api_error \<Rightarrow> http_response" where
  "openai_error_response e =
     \<lparr>rs_status = status_code (err_status e), rs_retry_after = retry_after_header e,
      rs_body = openai_error_body e\<rparr>"

end
