(* ===== verification/Refresh.thy ===== *)
theory Refresh
  imports Errors Pool Redaction
begin

text \<open>
  The refresh of an access token (\<open>src/lobsterai/refresh.rs\<close>) and the periodic refresh of the pool
  (\<open>Pool::refresh_due\<close>).

  The refresh endpoint is a function from request bodies to replies. \<open>externals\<close> groups the functions
  the source takes from libraries: the JSON codec and pretty printer, the decimal reader of \<open>f64\<close>, the
  base64 decoder and HMAC. \<open>refresh_call\<close> holds what one call meets: the clock, the endpoint, the
  name of the temporary file and the fate of the file write.
\<close>

section \<open>Parameters\<close>

record externals =
  x_codec :: codec
  x_pretty :: "json \<Rightarrow> string"
  x_parse_f64 :: "string \<Rightarrow> u64 option"
  x_base64url :: "string \<Rightarrow> string option"
  x_hmac :: "string \<Rightarrow> string \<Rightarrow> string"

abbreviation x_norm_ts :: "externals \<Rightarrow> json option \<Rightarrow> int option" where
  "x_norm_ts x \<equiv> norm_ts (x_codec x) (x_parse_f64 x)"

text \<open>A failed \<open>send\<close> with the text of its error, or a status and the body that could be read.\<close>

datatype http_reply = NoReply string | Reply nat string

record refresh_call =
  rc_now :: int
  rc_millis :: int
  rc_endpoint :: "json \<Rightarrow> http_reply"
  rc_tmp :: path
  rc_write :: write_outcome
  rc_io_error :: string

definition sample_externals :: externals where
  "sample_externals =
     \<lparr>x_codec = sample_codec, x_pretty = (\<lambda>_. ''{}''), x_parse_f64 = (\<lambda>_. None),
      x_base64url = (\<lambda>_. None), x_hmac = (\<lambda>_ _. [])\<rparr>"

section \<open>Expiry\<close>

text \<open>\<open>i64\<close> addition as a release build does it; \<open>add_i64 0\<close> is the cast of a \<open>u64\<close>.\<close>

definition add_i64 :: "int \<Rightarrow> int \<Rightarrow> int" where
  "add_i64 a b = (a + b + 2 ^ 63) mod 2 ^ 64 - 2 ^ 63"

definition jwt_padding :: "string \<Rightarrow> string" where
  "jwt_padding part =
     (if length part mod 4 = 2 then part @ ''==''
      else if length part mod 4 = 3 then part @ ''='' else part)"

definition jwt_expiry :: "externals \<Rightarrow> string \<Rightarrow> int option" where
  "jwt_expiry x jwt =
     (case split_str ''.'' jwt of
        _ # part # _ \<Rightarrow>
          Option.bind (x_base64url x (jwt_padding part)) (\<lambda>bytes.
          Option.bind (from_text (x_codec x) bytes) (\<lambda>payload.
            filter_opt (\<lambda>e. e > 0) (get_i64 ''exp'' payload)))
      | _ \<Rightarrow> None)"

definition refresh_expiry :: "externals \<Rightarrow> int \<Rightarrow> string \<Rightarrow> json \<Rightarrow> int" where
  "refresh_expiry x now access data =
     (case filter_opt (\<lambda>v. v > 0) (get_i64 ''expiresIn'' data) of
        Some secs \<Rightarrow> add_i64 now secs
      | None \<Rightarrow> unwrap_or (add_i64 now (30 * 86400)) (jwt_expiry x access))"

section \<open>One refresh\<close>

definition CLIENT_VERSION :: string where
  "CLIENT_VERSION = ''2026.9.4''"

definition refresh_body :: "credential_data \<Rightarrow> int \<Rightarrow> json" where
  "refresh_body d millis =
     JObj ([(''refreshToken'', JStr (refresh_token d)), (''firstKeyfrom'', JStr (first_keyfrom d)),
            (''latestKeyfrom'', JStr (show_int millis)), (''version'', JStr CLIENT_VERSION)]
       @ (if uuid d = [] then [] else [(''uuid'', JStr (uuid d))])
       @ (if user_id d = [] then [] else [(''userId'', JStr (user_id d))]))"

text \<open>The business code of the envelope; a body without code but with data counts as success.\<close>

definition envelope_code :: "json \<Rightarrow> int" where
  "envelope_code payload =
     unwrap_or (if get ''data'' payload \<noteq> None then 0 else -1) (get_i64 ''code'' payload)"

definition envelope_message :: "string \<Rightarrow> json \<Rightarrow> string" where
  "envelope_message dflt payload =
     unwrap_or dflt (Option.bind (or_else (get ''msg'' payload) (get ''message'' payload)) as_str)"

definition EM_DASH :: string where
  "EM_DASH = [CHR 0xE2, CHR 0x80, CHR 0x94]"

text \<open>What the reply means: the new access token, the refresh token and the expiry, or an error.\<close>

definition accept_tokens ::
    "externals \<Rightarrow> int \<Rightarrow> string \<Rightarrow> json \<Rightarrow> api_error + (string \<times> string \<times> int)" where
  "accept_tokens x now old_refresh data =
     (let access = unwrap_or [] (get_str ''accessToken'' data)
      in if access = []
         then Inl (err_authentication (''refresh response carried no accessToken '' @ EM_DASH
                                     @ '' re-login required (lobsterai-proxy login)''))
         else Inr (access,
                   unwrap_or old_refresh (non_empty (get_str ''refreshToken'' data)),
                   refresh_expiry x now access data))"

definition read_refresh_reply ::
    "externals \<Rightarrow> int \<Rightarrow> credential_data \<Rightarrow> http_reply \<Rightarrow> api_error + (string \<times> string \<times> int)" where
  "read_refresh_reply x now d reply =
     (case reply of
        NoReply e \<Rightarrow> Inl (err_upstream 502 (''token refresh failed: '' @ e))
      | Reply status body \<Rightarrow>
          let secrets = [access_token d, refresh_token d]
          in if \<not> (200 \<le> status \<and> status < 300)
             then Inl (err_upstream status
                    (sanitize_text (''token refresh failed with HTTP '' @ show_nat status @ '': ''
                                      @ from_utf8_lossy body) secrets))
             else
               (case from_text (x_codec x) body of
                  None \<Rightarrow> Inl (err_upstream 502 ''token refresh returned invalid JSON'')
                | Some payload \<Rightarrow>
                    if envelope_code payload \<noteq> 0
                    then Inl (err_authentication
                           (''token refresh rejected (code='' @ show_int (envelope_code payload) @ ''): ''
                              @ sanitize_text (envelope_message ''unknown refresh error'' payload) secrets))
                    else accept_tokens x now (refresh_token d) (unwrap_or payload (get ''data'' payload))))"

text \<open>The result: the credential and the file system after the call, and the error if there is one.\<close>

definition perform_refresh ::
    "externals \<Rightarrow> refresh_call \<Rightarrow> credential \<Rightarrow> fs \<Rightarrow> (credential \<times> fs) \<times> api_error option" where
  "perform_refresh x rc k files =
     (let d = cred_data k
      in if refresh_token d = []
         then ((k, files), Some (err_authentication
                ''credential has no refresh token; please log in again (lobsterai-proxy login)''))
         else
           (case read_refresh_reply x (rc_now rc) d (rc_endpoint rc (refresh_body d (rc_millis rc))) of
              Inl e \<Rightarrow> ((k, files), Some e)
            | Inr (access, refresh, expires) \<Rightarrow>
                (case apply_refresh (x_codec x) (x_pretty x) (x_norm_ts x) (rc_write rc) (rc_tmp rc)
                        access refresh expires (rc_now rc) k files of
                   (r, True) \<Rightarrow> (r, None)
                 | (r, False) \<Rightarrow>
                     (r, Some (err_upstream 500
                            (''credential persistence failed: '' @ rc_io_error rc))))))"

definition force_refresh ::
    "externals \<Rightarrow> refresh_call \<Rightarrow> credential \<Rightarrow> fs \<Rightarrow> (credential \<times> fs) \<times> api_error option" where
  "force_refresh = perform_refresh"

datatype refresh_outcome = Refreshed | AlreadyFresh

text \<open>
  \<open>seen\<close> is the credential at the first check; \<open>k\<close> is the credential once the lock is held, after the
  callers that held it before.
\<close>

definition ensure_fresh ::
    "externals \<Rightarrow> refresh_call \<Rightarrow> int \<Rightarrow> credential \<Rightarrow> credential \<Rightarrow> fs
      \<Rightarrow> (credential \<times> fs) \<times> (api_error + refresh_outcome)" where
  "ensure_fresh x rc margin seen k files =
     (if \<not> needs_refresh margin (rc_now rc) seen then ((k, files), Inr AlreadyFresh)
      else if \<not> needs_refresh margin (rc_now rc) k then ((k, files), Inr AlreadyFresh)
      else
        (case perform_refresh x rc k files of
           (r, None) \<Rightarrow> (r, Inr Refreshed)
         | (r, Some e) \<Rightarrow> (r, Inl e)))"

section \<open>Waves of concurrent callers\<close>

text \<open>
  Callers that all looked at the credential \<open>seen\<close> and then take the lock one after the other; the
  result lists what each of them got.
\<close>

fun ensure_wave ::
    "externals \<Rightarrow> int \<Rightarrow> credential \<Rightarrow> refresh_call list \<Rightarrow> credential \<times> fs
      \<Rightarrow> (credential \<times> fs) \<times> (api_error + refresh_outcome) list" where
  "ensure_wave x margin seen [] r = (r, [])"
| "ensure_wave x margin seen (rc # rcs) r =
     (case ensure_fresh x rc margin seen (fst r) (snd r) of
        (r1, o1) \<Rightarrow>
          (case ensure_wave x margin seen rcs r1 of (r2, os) \<Rightarrow> (r2, o1 # os)))"

section \<open>The periodic refresh\<close>

definition expiry_due :: "int \<Rightarrow> int \<Rightarrow> credential \<Rightarrow> bool" where
  "expiry_due margin now k \<longleftrightarrow> expires_at_secs (cred_data k) = 0 \<or> needs_refresh margin now k"

definition keepalive_due :: "nat \<Rightarrow> int \<Rightarrow> int \<Rightarrow> credential \<Rightarrow> bool" where
  "keepalive_due keepalive margin now k \<longleftrightarrow>
     keepalive > 0 \<and> last_refresh_secs (cred_data k) > 0
     \<and> now - last_refresh_secs (cred_data k) \<ge> add_i64 0 (int keepalive) \<and> \<not> expiry_due margin now k"

definition replace_entry :: "credential \<Rightarrow> pool \<Rightarrow> pool" where
  "replace_entry k p =
     p\<lparr>entries := map (\<lambda>e. if cred_path e = cred_path k then k else e) (entries p)\<rparr>"

record pool_world =
  w_pool :: pool
  w_files :: fs
  w_refreshes :: "bool list"   \<comment> \<open>the \<open>record_refresh\<close> calls, oldest first\<close>

definition refresh_one ::
    "externals \<Rightarrow> int \<Rightarrow> nat \<Rightarrow> int \<Rightarrow> instant \<Rightarrow> credential \<times> refresh_call \<Rightarrow> pool_world \<Rightarrow> pool_world" where
  "refresh_one x margin keepalive now_s now krc w =
     (case krc of (k, rc) \<Rightarrow>
        if \<not> expiry_due margin now_s k \<and> \<not> keepalive_due keepalive margin now_s k then w
        else
          (case ensure_fresh x rc margin k k (w_files w) of
             ((k', files'), Inr _) \<Rightarrow>
               w\<lparr>w_pool := replace_entry k' (w_pool w), w_files := files',
                 w_refreshes := w_refreshes w @ [True]\<rparr>
           | ((k', files'), Inl _) \<Rightarrow>
               w\<lparr>w_pool := (w_pool w)\<lparr>state := note_status now (limits_of (w_pool w)) (cred_uid k) 401 []
                                               (state (w_pool w))\<rparr>,
                 w_files := files', w_refreshes := w_refreshes w @ [False]\<rparr>))"

text \<open>The entries are those of the start; each meets its own call.\<close>

definition refresh_due ::
    "externals \<Rightarrow> int \<Rightarrow> nat \<Rightarrow> int \<Rightarrow> instant \<Rightarrow> (credential \<Rightarrow> refresh_call) \<Rightarrow> pool_world \<Rightarrow> pool_world" where
  "refresh_due x margin keepalive now_s now call w =
     fold (refresh_one x margin keepalive now_s now)
       (map (\<lambda>k. (k, call k)) (entries (w_pool w))) w"

end
