(* ===== verification/Credential_Props.thy ===== *)
theory Credential_Props
  imports Credential
begin

text \<open>
  Properties of the timestamps in credential files: which unit they are taken in, and that the rounding
  of the floating-point division never shows.
\<close>

section \<open>A decoder that keeps integers\<close>

text \<open>The documented conversion of \<open>serde_json\<close> numbers: an integer an \<open>f64\<close> can hold is held exactly.\<close>

definition keeps_integers :: "codec \<Rightarrow> bool" where
  "keeps_integers c \<longleftrightarrow> (\<forall>n < 2 ^ 53. num_f64 c (PosInt (of_nat n)) = f64_of_nat n)"

lemma bits_below_1e12:
  assumes "0 < n" "n < 2 ^ 53"
  shows "uint MILLIS_FROM \<le> uint (f64_of_nat n) \<longleftrightarrow> 10 ^ 12 \<le> n"
proof -
  let ?l = "bit_length n" and ?m = "int n * 2 ^ (53 - bit_length n)"
  note r = mantissa_range [OF assms] and b = bit_length_bounds [OF assms(1)]
  have M: "uint MILLIS_FROM = 1061 * 2 ^ 52 + 10 ^ 12 * 2 ^ 13" by (simp add: MILLIS_FROM_def)
  have bits: "uint (f64_of_nat n) = (int ?l + 1021) * 2 ^ 52 + ?m" using f64_of_nat_bits(1) [OF assms] .
  consider "?l \<le> 39" | "?l = 40" | "41 \<le> ?l" by linarith
  then show ?thesis
  proof cases
    case 1
    then have "(2 :: nat) ^ ?l \<le> 2 ^ 39" by (rule power_increasing) simp
    then have n: "n < 10 ^ 12" using b by simp
    have "uint (f64_of_nat n) < uint MILLIS_FROM" unfolding bits M using 1 r(4) by simp
    with n show ?thesis by simp
  next
    case 2
    then have "uint (f64_of_nat n) = 1061 * 2 ^ 52 + int n * 2 ^ 13" by (simp add: bits)
    moreover have "(10 ^ 12 :: int) \<le> int n \<longleftrightarrow> 10 ^ 12 \<le> n" by simp
    ultimately show ?thesis unfolding M by auto
  next
    case 3
    then have "(2 :: nat) ^ 40 \<le> 2 ^ (?l - 1)" by (intro power_increasing) simp_all
    then have n: "10 ^ 12 \<le> n" using b by simp
    have "uint MILLIS_FROM \<le> uint (f64_of_nat n)" unfolding bits M using 3 r(3) by simp
    with n show ?thesis by simp
  qed
qed

lemma f64_of_nat_class:
  assumes "0 < n" "n < 2 ^ 53"
  shows "\<not> f64_not_above_zero (f64_of_nat n)" "\<not> f64_is_nan (f64_of_nat n)" "f64_of_nat n \<noteq> F64_INF"
proof -
  note r = mantissa_range [OF assms]
  have u: "0 < uint (f64_of_nat n)" "uint (f64_of_nat n) < 1076 * 2 ^ 52"
    unfolding f64_of_nat_bits(1) [OF assms] using r by simp_all
  then show "\<not> f64_is_nan (f64_of_nat n)" by (simp add: f64_is_nan_def F64_INF_def)
  show "f64_of_nat n \<noteq> F64_INF" using u by (auto simp: F64_INF_def)
  show "\<not> f64_not_above_zero (f64_of_nat n)" using u by (auto simp: f64_not_above_zero_def word_le_def)
qed

lemma ts_secs_of_nat:
  assumes "0 < n" "n < 2 ^ 53"
  shows "ts_secs (f64_of_nat n) = (if 10 ^ 12 \<le> n then (int n + 500) div 1000 else int n)"
proof -
  have n: "int n < 2 ^ 53" using assms(2) by simp
  then have "(int n + 500) div 1000 \<le> 2 ^ 63 - 1" "int n \<le> 2 ^ 63 - 1" by simp_all
  then show ?thesis
    using f64_of_nat_class [OF assms]
    by (simp add: ts_secs_def word_le_def bits_below_1e12 [OF assms] f64_of_nat_bits(2) [OF assms]
        round_exact [OF assms] round_milliseconds [OF assms])
qed

lemma norm_ts_of_nat:
  assumes "keeps_integers c" "0 < n" "n < 2 ^ 53"
  shows "norm_ts c parse (Some (JNum (PosInt (of_nat n)))) = Some (if 10 ^ 12 \<le> n then (int n + 500) div 1000 else int n)"
  using assms(1) f64_of_nat_class(1) [OF assms(2,3)] ts_secs_of_nat [OF assms(2,3)] assms(3)
  by (simp add: norm_ts_def keeps_integers_def)

lemma norm_ts_of_secs:
  assumes "keeps_integers c" "0 < e" "e < 10 ^ 12"
  shows "norm_ts c parse (Some (JNum (PosInt (of_int e)))) = Some e"
proof -
  define n where "n = nat e"
  have e: "e = int n" "0 < n" "n < 10 ^ 12" using assms(2,3) by (simp_all add: n_def nat_less_iff)
  from norm_ts_of_nat [OF assms(1) e(2), of parse] e(3) show ?thesis by (simp add: e(1))
qed

section \<open>Properties\<close>

text \<open>C36: A timestamp means the same in either unit. With a decoder that keeps integers, a number of seconds
  below 10^12 is read as it is and a number from there on as milliseconds, rounded to the nearest second
  with halves up: the rounding of the floating-point division never moves the result. A string is read
  like the number it denotes; an infinite one gives the largest instant, and NaN the instant 0.\<close>

theorem timestamp_means_the_same_in_either_unit:
  assumes "keeps_integers c"
  shows "(0 < n \<and> n < 10 ^ 12 \<longrightarrow> norm_ts c parse (Some (JNum (PosInt (of_nat n)))) = Some (int n))
    \<and> (10 ^ 12 \<le> n \<and> n < 2 ^ 53 \<longrightarrow>
          norm_ts c parse (Some (JNum (PosInt (of_nat n)))) = Some ((int n + 500) div 1000))
    \<and> (n < 2 ^ 53 \<and> parse (trim s) = Some (f64_of_nat n) \<longrightarrow>
          norm_ts c parse (Some (JStr s)) = norm_ts c parse (Some (JNum (PosInt (of_nat n)))))
    \<and> (parse (trim s) = Some F64_INF \<longrightarrow> norm_ts c parse (Some (JStr s)) = Some (2 ^ 63 - 1))
    \<and> (parse (trim s) = Some 0x7FF8000000000000 \<longrightarrow> norm_ts c parse (Some (JStr s)) = Some 0)"
proof (intro conjI impI)
  assume "0 < n \<and> n < 10 ^ 12"
  then show "norm_ts c parse (Some (JNum (PosInt (of_nat n)))) = Some (int n)"
    using norm_ts_of_nat [OF assms, of n] by simp
next
  assume "10 ^ 12 \<le> n \<and> n < 2 ^ 53"
  then show "norm_ts c parse (Some (JNum (PosInt (of_nat n)))) = Some ((int n + 500) div 1000)"
    using norm_ts_of_nat [OF assms, of n] by simp
next
  assume "n < 2 ^ 53 \<and> parse (trim s) = Some (f64_of_nat n)"
  then show "norm_ts c parse (Some (JStr s)) = norm_ts c parse (Some (JNum (PosInt (of_nat n))))"
    using assms by (simp add: norm_ts_def keeps_integers_def)
qed (simp_all add: norm_ts_def f64_not_above_zero_def ts_secs_def f64_is_nan_def F64_INF_def word_le_def)

definition integer_codec :: codec where
  "integer_codec = sample_codec\<lparr>num_f64 := (\<lambda>n. case n of PosInt w \<Rightarrow> f64_of_nat (unat w) | _ \<Rightarrow> 0)\<rparr>"

lemma integer_codec_keeps: "keeps_integers integer_codec"
proof -
  have "unat (of_nat n :: u64) = n" if "n < 2 ^ 53" for n :: nat
    using that by (simp add: unat_of_nat)
  then show ?thesis by (simp add: keeps_integers_def integer_codec_def)
qed

theorem timestamp_means_the_same_in_either_unit_witness:
  "norm_ts integer_codec (\<lambda>_. None) (Some (JNum (PosInt 1900000000))) = Some 1900000000
   \<and> norm_ts integer_codec (\<lambda>_. None) (Some (JNum (PosInt 1900000000499))) = Some 1900000000
   \<and> norm_ts integer_codec (\<lambda>_. None) (Some (JNum (PosInt 1900000000500))) = Some 1900000001"
  using timestamp_means_the_same_in_either_unit [OF integer_codec_keeps, of 1900000000 "\<lambda>_. None"]
    timestamp_means_the_same_in_either_unit [OF integer_codec_keeps, of 1900000000499 "\<lambda>_. None"]
    timestamp_means_the_same_in_either_unit [OF integer_codec_keeps, of 1900000000500 "\<lambda>_. None"]
  by simp

end
