(* ===== verification/Refresh_Props.thy ===== *)
theory Refresh_Props
  imports Refresh Credential_Props
begin

text \<open>
  What a refresh promises: a failed refresh never loses the credential in memory, an accepted one
  writes a file that reads back as the credential in memory, a wave of callers makes one call, and
  the keepalive branch of the periodic refresh never reaches the endpoint.
\<close>

section \<open>The written value\<close>

lemma str_field_auth [simp]:
  "str_field (refreshed_auth access refresh expires now old) [''accessToken'', ''access_token'', ''token'']
     = trim access"
  by (simp add: refreshed_auth_def str_field_def or_else_def)

lemma refreshed_raw_object:
  "\<exists>m. refreshed_raw d v access refresh expires now = JObj m"
  by (cases v) (simp_all add: refreshed_raw_def Let_def)

lemma refreshed_raw_auth:
  "get ''auth'' (refreshed_raw d v access refresh expires now)
     = Some (refreshed_auth access refresh expires now (unwrap_or v (get ''auth'' v)))"
  by (cases v) (simp_all add: refreshed_raw_def Let_def update_conv')

lemma refreshed_raw_other:
  assumes "get ''auth'' v \<noteq> None" "key \<noteq> ''auth''"
  shows "get key (refreshed_raw d v access refresh expires now) = get key v"
proof -
  from assms(1) obtain m where v: "v = JObj m" by (cases v) auto
  with assms show ?thesis by (simp add: refreshed_raw_def Let_def update_conv')
qed

lemma auth_of_refreshed:
  "auth_of (refreshed_raw d v access refresh expires now)
     = refreshed_auth access refresh expires now (unwrap_or v (get ''auth'' v))"
  by (simp add: auth_of_def refreshed_raw_auth)

lemma parse_refreshed_fails_iff:
  "(\<exists>e. parse_credential ts_of (refreshed_raw d v access refresh expires now) = Inl e)
     \<longleftrightarrow> trim access = []"
proof -
  obtain m where m: "refreshed_raw d v access refresh expires now = JObj m"
    using refreshed_raw_object by blast
  have "auth_of (JObj m) = refreshed_auth access refresh expires now (unwrap_or v (get ''auth'' v))"
    using auth_of_refreshed [of d v access refresh expires now] by (simp only: m)
  then show ?thesis by (simp add: parse_credential_def m Let_def)
qed

lemma parse_refreshed_token:
  "parse_credential ts_of (refreshed_raw d v access refresh expires now) = Inr d'
     \<Longrightarrow> access_token d' = trim access"
  by (auto simp: parse_credential_def Let_def auth_of_refreshed split: if_splits)

lemma parse_refreshed_expiry:
  assumes "parse_credential (norm_ts c parse) (refreshed_raw d v access refresh expires now) = Inr d'"
    and "keeps_integers c" "0 < expires" "expires < 10 ^ 12"
  shows "expires_at_secs d' = expires"
  using assms(1) norm_ts_of_secs [OF assms(2-4), of parse] assms(3)
  by (auto simp: parse_credential_def Let_def auth_of_refreshed refreshed_auth_def or_else_def split: if_splits)

lemma account_of_refreshed:
  "get ''auth'' v \<noteq> None
     \<Longrightarrow> account_of (refreshed_raw d v access refresh expires now) = account_of v"
  by (cases "get ''auth'' v") (simp_all add: account_of_def refreshed_raw_auth refreshed_raw_other)

lemma str_field_uid_refreshed:
  "get ''auth'' v \<noteq> None
     \<Longrightarrow> str_field (refreshed_raw d v access refresh expires now) [''uid''] = str_field v [''uid'']"
  by (simp add: str_field_def get_str_def refreshed_raw_other)

lemma parse_credential_account:
  assumes "parse_credential ts_of v = Inr d"
  shows "uid d = (if str_field (account_of v) [''uid'', ''id''] = [] \<and> get ''uid'' v \<noteq> None
                  then str_field v [''uid''] else str_field (account_of v) [''uid'', ''id''])
    \<and> user_id d = str_field (account_of v) [''userId'', ''user_id'', ''yid'']
    \<and> nickname d = str_field (account_of v) [''nickname'']"
proof (cases v)
  case (JObj m)
  from assms show ?thesis
    unfolding parse_credential_def JObj by (simp add: Let_def split: if_splits) auto
qed (use assms in \<open>simp_all add: parse_credential_def\<close>)

lemma parse_refreshed_account:
  assumes "parse_credential ts_of (refreshed_raw d v access refresh expires now) = Inr d'"
    and "parse_credential ts_of v = Inr d0" and auth: "get ''auth'' v \<noteq> None"
  shows "uid d' = uid d0 \<and> user_id d' = user_id d0 \<and> nickname d' = nickname d0"
proof -
  let ?r = "refreshed_raw d v access refresh expires now"
  have same: "get ''uid'' ?r = get ''uid'' v"
    by (rule refreshed_raw_other [OF auth]) simp
  note eqs = same account_of_refreshed [OF auth] str_field_uid_refreshed [OF auth]
  show ?thesis
    using parse_credential_account [OF assms(1), unfolded eqs] parse_credential_account [OF assms(2)]
    by simp
qed

section \<open>One refresh\<close>

text \<open>The value an accepted refresh writes: over the file as it is, or the value in memory.\<close>

definition written_value ::
    "externals \<Rightarrow> refresh_call \<Rightarrow> credential \<Rightarrow> fs \<Rightarrow> string \<Rightarrow> string \<Rightarrow> int \<Rightarrow> json" where
  "written_value x rc k files access refresh expires =
     refreshed_raw (cred_data k)
       (unwrap_or (raw (cred_data k)) (Option.bind (files (cred_path k)) (from_text (x_codec x))))
       access refresh expires (rc_now rc)"

abbreviation refresh_reply :: "externals \<Rightarrow> refresh_call \<Rightarrow> credential \<Rightarrow> api_error + (string \<times> string \<times> int)" where
  "refresh_reply x rc k \<equiv>
     read_refresh_reply x (rc_now rc) (cred_data k) (rc_endpoint rc (refresh_body (cred_data k) (rc_millis rc)))"

lemma perform_refresh_error:
  assumes "perform_refresh x rc k files = ((k', files'), Some e)" and tmp: "rc_tmp rc \<noteq> cred_path k"
  shows "k' = k \<and> (files' (cred_path k) = files (cred_path k)
           \<or> (\<exists>access refresh expires. refresh_reply x rc k = Inr (access, refresh, expires)
                \<and> rc_write rc = WriteOk \<and> trim access = []))"
proof (cases "refresh_token (cred_data k) = [] \<or> (\<exists>e'. refresh_reply x rc k = Inl e')")
  case True
  then show ?thesis using assms by (auto simp: perform_refresh_def Let_def split: if_splits)
next
  case False
  then obtain access refresh expires where r: "refresh_reply x rc k = Inr (access, refresh, expires)"
    by (cases "refresh_reply x rc k") auto
  let ?v = "written_value x rc k files access refresh expires"
  have fails: "(\<exists>e. parse_credential (x_norm_ts x) ?v = Inl e) \<longleftrightarrow> trim access = []"
    unfolding written_value_def by (rule parse_refreshed_fails_iff)
  show ?thesis
  proof (cases "rc_write rc")
    case WriteOk
    show ?thesis
      using assms False r WriteOk fails
      by (cases "parse_credential (x_norm_ts x) ?v")
        (auto simp: perform_refresh_def apply_refresh_def atomic_write_def Let_def written_value_def)
  next
    case (TempFailed part)
    with assms False r show ?thesis
      by (auto simp: perform_refresh_def apply_refresh_def atomic_write_def Let_def)
  next
    case RenameFailed
    with assms False r show ?thesis
      by (auto simp: perform_refresh_def apply_refresh_def atomic_write_def Let_def)
  qed
qed

lemma perform_refresh_ok:
  assumes r: "refresh_reply x rc k = Inr (access, refresh, expires)"
    and "rc_write rc = WriteOk" "refresh_token (cred_data k) \<noteq> []" "trim access \<noteq> []"
  shows "\<exists>d'. parse_credential (x_norm_ts x) (written_value x rc k files access refresh expires) = Inr d'
          \<and> perform_refresh x rc k files
              = ((k\<lparr>cred_data := d'\<rparr>,
                  files(rc_tmp rc := None,
                        cred_path k \<mapsto> x_pretty x (written_value x rc k files access refresh expires))), None)"
proof -
  let ?v = "written_value x rc k files access refresh expires"
  have "\<not> (\<exists>e. parse_credential (x_norm_ts x) ?v = Inl e)"
    using assms(4) parse_refreshed_fails_iff unfolding written_value_def by blast
  then obtain d' where "parse_credential (x_norm_ts x) ?v = Inr d'"
    by (cases "parse_credential (x_norm_ts x) ?v") auto
  with assms show ?thesis
    by (simp add: perform_refresh_def apply_refresh_def atomic_write_def Let_def written_value_def)
qed

section \<open>Waves and the periodic refresh\<close>

lemma fresh_caller_passes:
  "\<not> needs_refresh margin (rc_now rc) k \<Longrightarrow> ensure_fresh x rc margin seen k files = ((k, files), Inr AlreadyFresh)"
  by (simp add: ensure_fresh_def)

lemma wave_of_fresh:
  "\<forall>rc \<in> set rcs. \<not> needs_refresh margin (rc_now rc) k
     \<Longrightarrow> ensure_wave x margin seen rcs (k, files) = ((k, files), replicate (length rcs) (Inr AlreadyFresh))"
  by (induction rcs) (simp_all add: fresh_caller_passes)

lemma replace_entry_same:
  assumes "distinct (map cred_path (entries p))" "k \<in> set (entries p)"
  shows "replace_entry k p = p"
proof -
  have "(if cred_path e = cred_path k then k else e) = e" if "e \<in> set (entries p)" for e
    using assms that by (auto simp: distinct_map inj_on_def)
  then have "map (\<lambda>e. if cred_path e = cred_path k then k else e) (entries p) = entries p"
    by (simp add: map_idI)
  then show ?thesis by (simp add: replace_entry_def)
qed

lemma expiry_due_iff: "expiry_due margin now k \<longleftrightarrow> needs_refresh margin now k"
  by (auto simp: expiry_due_def needs_refresh_def)

lemma refresh_one_fresh:
  assumes "\<not> needs_refresh margin now_s k" "\<not> needs_refresh margin (rc_now rc) k"
    and "distinct (map cred_path (entries (w_pool w)))" "k \<in> set (entries (w_pool w))"
  shows "refresh_one x margin keepalive now_s now (k, rc) w
           = (if keepalive_due keepalive margin now_s k
              then w\<lparr>w_refreshes := w_refreshes w @ [True]\<rparr> else w)"
  using assms
  by (simp add: refresh_one_def expiry_due_iff fresh_caller_passes replace_entry_same)

lemma refresh_fold_fresh:
  assumes "\<forall>k \<in> set ks. \<not> needs_refresh margin now_s k \<and> \<not> needs_refresh margin (rc_now (call k)) k"
    and "distinct (map cred_path (entries (w_pool w)))" "set ks \<subseteq> set (entries (w_pool w))"
  shows "fold (refresh_one x margin keepalive now_s now) (map (\<lambda>k. (k, call k)) ks) w
           = w\<lparr>w_refreshes := w_refreshes w
                 @ replicate (length (filter (keepalive_due keepalive margin now_s) ks)) True\<rparr>"
  using assms
proof (induction ks arbitrary: w)
  case Nil
  then show ?case by simp
next
  case (Cons k ks)
  have "refresh_one x margin keepalive now_s now (k, call k) w
          = (if keepalive_due keepalive margin now_s k
             then w\<lparr>w_refreshes := w_refreshes w @ [True]\<rparr> else w)"
    using Cons.prems by (intro refresh_one_fresh) auto
  with Cons.IH [of "w\<lparr>w_refreshes := w_refreshes w @ [True]\<rparr>"] Cons.IH [of w] Cons.prems
  show ?case by simp
qed

section \<open>A concrete refresh\<close>

text \<open>Used only by the witnesses: one nested credential file and an endpoint that grants \<open>token\<close>.\<close>

definition demo_data :: credential_data where
  "demo_data =
     \<lparr>raw = JObj [], uid = ''u'', user_id = [], nickname = [], uuid = [], first_keyfrom = [],
      latest_keyfrom = [], access_token = ''old'', refresh_token = ''r'', expires_at_secs = 5,
      last_refresh_secs = 1\<rparr>"

definition demo_cred :: credential where
  "demo_cred = \<lparr>cred_id = ''f'', cred_safe_name = ''acct-1'', cred_path = ''d/f'', cred_data = demo_data\<rparr>"

definition demo_file :: json where
  "demo_file = JObj [(''auth'', JObj [(''token'', JStr ''old'')]), (''account'', JObj [(''uid'', JStr ''u'')])]"

definition demo_written :: "string \<Rightarrow> json" where
  "demo_written token = refreshed_raw demo_data demo_file token ''r'' 2592010 10"

definition demo_externals :: "string \<Rightarrow> externals" where
  "demo_externals token =
     \<lparr>x_codec = integer_codec\<lparr>from_text := (\<lambda>s.
        if s = ''R'' then Some (JObj [(''data'', JObj [(''accessToken'', JStr token)])])
        else if s = ''F'' then Some demo_file
        else if s = ''W'' then Some (demo_written token) else None)\<rparr>,
      x_pretty = (\<lambda>_. ''W''), x_parse_f64 = (\<lambda>_. None), x_base64url = (\<lambda>_. None),
      x_hmac = (\<lambda>_ _. [])\<rparr>"

definition demo_call :: "http_reply \<Rightarrow> refresh_call" where
  "demo_call reply =
     \<lparr>rc_now = 10, rc_millis = 10, rc_endpoint = (\<lambda>_. reply), rc_tmp = ''t'', rc_write = WriteOk,
      rc_io_error = []\<rparr>"

lemmas demo_defs = demo_data_def demo_cred_def demo_externals_def demo_call_def

lemma demo_reply:
  assumes "token \<noteq> []" "length (split_str ''.'' token) = 1"
  shows "read_refresh_reply (demo_externals token) 10 demo_data (Reply 200 ''R'') = Inr (token, ''r'', 2592010)"
proof -
  from assms(2) obtain a where "split_str ''.'' token = [a]"
    by (cases "split_str ''.'' token") auto
  with assms(1) show ?thesis
    by (simp add: read_refresh_reply_def demo_defs accept_tokens_def envelope_code_def get_i64_def
        refresh_expiry_def jwt_expiry_def add_i64_def non_empty_def filter_opt_def)
qed

lemma demo_facts:
  "rc_write (demo_call reply) = WriteOk" "refresh_token (cred_data demo_cred) \<noteq> []"
  "from_text (x_codec (demo_externals token)) (x_pretty (demo_externals token) (demo_written token))
     = Some (demo_written token)"
  "length (x_pretty (demo_externals token) (demo_written token)) \<le> 1024 * 1024"
  "from_text (x_codec (demo_externals token)) ''F'' = Some demo_file"
  by (simp_all add: demo_defs)

lemma demo_keeps: "keeps_integers (x_codec (demo_externals token))"
  using integer_codec_keeps by (simp add: keeps_integers_def demo_externals_def)

lemma demo_value:
  "written_value (demo_externals token) (demo_call reply) demo_cred (\<lambda>p. if p = ''d/f'' then Some ''F'' else None)
     token ''r'' 2592010 = demo_written token"
  by (simp add: written_value_def demo_defs demo_written_def)

section \<open>Properties\<close>

text \<open>C29: A refresh that fails leaves the credential in memory as it was, and it leaves the file as it
  was unless the endpoint handed out a blank access token and the write went through.\<close>

theorem failed_refresh_keeps_credential:
  assumes "perform_refresh x rc k files = ((k', files'), Some e)" "rc_tmp rc \<noteq> cred_path k"
  shows "k' = k \<and> (files' (cred_path k) = files (cred_path k)
           \<or> (\<exists>access refresh expires.
                read_refresh_reply x (rc_now rc) (cred_data k)
                    (rc_endpoint rc (refresh_body (cred_data k) (rc_millis rc))) = Inr (access, refresh, expires)
                \<and> rc_write rc = WriteOk \<and> trim access = []))"
  by (rule perform_refresh_error [OF assms])

theorem failed_refresh_keeps_credential_witness:
  "fst (fst (perform_refresh (demo_externals ''n'') (demo_call (NoReply ''x'')) demo_cred (\<lambda>_. None))) = demo_cred"
  using failed_refresh_keeps_credential
      [of "demo_externals ''n''" "demo_call (NoReply ''x'')" demo_cred "\<lambda>_. None" demo_cred "\<lambda>_. None"
        "err_upstream 502 (''token refresh failed: '' @ ''x'')"]
  by (simp add: perform_refresh_def demo_defs read_refresh_reply_def)

text \<open>A blank access token that the endpoint accepts destroys the login: the call fails and keeps
  the old token in memory, but the file it has overwritten is no longer a credential.\<close>

theorem blank_token_destroys_file:
  assumes "read_refresh_reply x (rc_now rc) (cred_data k)
             (rc_endpoint rc (refresh_body (cred_data k) (rc_millis rc))) = Inr (access, refresh, expires)"
    and "rc_write rc = WriteOk" "refresh_token (cred_data k) \<noteq> []" "trim access = []"
    and v: "v = written_value x rc k files access refresh expires"
    and "from_text (x_codec x) (x_pretty x v) = Some v"
  shows "\<exists>files' e. perform_refresh x rc k files = ((k, files'), Some e)
           \<and> (\<exists>e'. read_credential_file (x_codec x) (x_norm_ts x) files' (cred_path k) = Inl e')"
proof -
  obtain e' where e': "parse_credential (x_norm_ts x) v = Inl e'"
    using assms(4) parse_refreshed_fails_iff unfolding v written_value_def by blast
  have "read_credential_file (x_codec x) (x_norm_ts x)
      (files(rc_tmp rc := None, cred_path k \<mapsto> x_pretty x v)) (cred_path k)
      = Inl (if length (x_pretty x v) > 1024 * 1024 then TooLarge
             else if e' = NotAnObject \<or> e' = MissingAccessToken then Parse (cred_path k) else e')"
    using assms(6) e' by (simp add: read_credential_file_def)
  then show ?thesis
    using assms e'
    by (simp add: perform_refresh_def apply_refresh_def atomic_write_def Let_def written_value_def)
qed

theorem blank_token_destroys_file_witness:
  "\<exists>files' e. perform_refresh (demo_externals '' '') (demo_call (Reply 200 ''R'')) demo_cred
       (\<lambda>p. if p = ''d/f'' then Some ''F'' else None) = ((demo_cred, files'), Some e)"
proof -
  have t: "trim '' '' = []" "length (split_str ''.'' '' '') = 1"
    by (simp_all add: trim_def leading_space_def space1_def split_str_def starts_with_def)
  have r: "read_refresh_reply (demo_externals '' '') (rc_now (demo_call (Reply 200 ''R''))) (cred_data demo_cred)
      (rc_endpoint (demo_call (Reply 200 ''R''))
        (refresh_body (cred_data demo_cred) (rc_millis (demo_call (Reply 200 ''R'')))))
      = Inr ('' '', ''r'', 2592010)"
    using demo_reply [of "'' ''"] t by (simp add: demo_cred_def demo_call_def)
  show ?thesis
    using blank_token_destroys_file [OF r demo_facts(1,2) t(1) demo_value [symmetric] demo_facts(3)]
    by blast
qed

text \<open>C30: An accepted refresh writes a file that reads back as exactly the credential in memory, with
  the new access token and, when the decoder keeps integers, the new instant of expiry to the second; a
  nested file keeps its account.\<close>

theorem refreshed_file_reads_back:
  assumes "read_refresh_reply x (rc_now rc) (cred_data k)
             (rc_endpoint rc (refresh_body (cred_data k) (rc_millis rc))) = Inr (access, refresh, expires)"
    and "rc_write rc = WriteOk" "refresh_token (cred_data k) \<noteq> []" "trim access \<noteq> []"
    and "files (cred_path k) = Some bytes" "from_text (x_codec x) bytes = Some v0"
    and v: "v = written_value x rc k files access refresh expires"
    and "from_text (x_codec x) (x_pretty x v) = Some v" "length (x_pretty x v) \<le> 1024 * 1024"
  shows "\<exists>d' files'. perform_refresh x rc k files = ((k\<lparr>cred_data := d'\<rparr>, files'), None)
           \<and> read_credential_file (x_codec x) (x_norm_ts x) files' (cred_path k) = Inr d'
           \<and> access_token d' = trim access
           \<and> (keeps_integers (x_codec x) \<and> 0 < expires \<and> expires < 10 ^ 12 \<longrightarrow> expires_at_secs d' = expires)
           \<and> (\<forall>d0. get ''auth'' v0 \<noteq> None \<and> parse_credential (x_norm_ts x) v0 = Inr d0
                \<longrightarrow> uid d' = uid d0 \<and> user_id d' = user_id d0 \<and> nickname d' = nickname d0)"
proof -
  obtain d' where d': "parse_credential (x_norm_ts x) v = Inr d'"
    and run: "perform_refresh x rc k files
        = ((k\<lparr>cred_data := d'\<rparr>, files(rc_tmp rc := None, cred_path k \<mapsto> x_pretty x v)), None)"
    using perform_refresh_ok [OF assms(1-4), of files] v by blast
  have v_raw: "v = refreshed_raw (cred_data k) v0 access refresh expires (rc_now rc)"
    using assms(5,6) by (simp add: v written_value_def)
  have "read_credential_file (x_codec x) (x_norm_ts x)
      (files(rc_tmp rc := None, cred_path k \<mapsto> x_pretty x v)) (cred_path k) = Inr d'"
    using assms(8,9) d' by (simp add: read_credential_file_def)
  moreover have "access_token d' = trim access"
    using d' parse_refreshed_token unfolding v_raw by blast
  moreover have "expires_at_secs d' = expires"
    if "keeps_integers (x_codec x) \<and> 0 < expires \<and> expires < 10 ^ 12"
    using d' that parse_refreshed_expiry unfolding v_raw by blast
  moreover have "uid d' = uid d0 \<and> user_id d' = user_id d0 \<and> nickname d' = nickname d0"
    if "get ''auth'' v0 \<noteq> None" "parse_credential (x_norm_ts x) v0 = Inr d0" for d0
    using d' that unfolding v_raw by (intro parse_refreshed_account)
  ultimately show ?thesis using run by blast
qed

theorem refreshed_file_reads_back_witness:
  "\<exists>d' files'. perform_refresh (demo_externals ''new'') (demo_call (Reply 200 ''R'')) demo_cred
       (\<lambda>p. if p = ''d/f'' then Some ''F'' else None) = ((demo_cred\<lparr>cred_data := d'\<rparr>, files'), None)
     \<and> access_token d' = trim ''new''"
proof -
  have t: "trim ''new'' \<noteq> []" "length (split_str ''.'' ''new'') = 1"
    by (simp_all add: trim_def leading_space_def trailing_space_def space1_def space2_def space3_def split_str_def starts_with_def)
  have r: "read_refresh_reply (demo_externals ''new'') (rc_now (demo_call (Reply 200 ''R''))) (cred_data demo_cred)
      (rc_endpoint (demo_call (Reply 200 ''R''))
        (refresh_body (cred_data demo_cred) (rc_millis (demo_call (Reply 200 ''R'')))))
      = Inr (''new'', ''r'', 2592010)"
    using demo_reply [of "''new''"] t by (simp add: demo_cred_def demo_call_def)
  show ?thesis
    using refreshed_file_reads_back
        [OF r demo_facts(1,2) t(1) _ demo_facts(5) demo_value [symmetric] demo_facts(3,4)]
    by (simp add: demo_cred_def) blast
qed

text \<open>A wave of callers that all saw an expiring token makes one call: the first to take the lock
  refreshes, every other caller finds the token fresh.\<close>

theorem refresh_wave_is_single_flight:
  assumes "needs_refresh margin (rc_now rc) k"
    and "perform_refresh x rc k files = ((k', files'), None)"
    and "\<forall>rc' \<in> set rcs. \<not> needs_refresh margin (rc_now rc') k'"
  shows "ensure_wave x margin k (rc # rcs) (k, files)
           = ((k', files'), Inr Refreshed # replicate (length rcs) (Inr AlreadyFresh))"
  using assms by (simp add: ensure_fresh_def [of _ rc] wave_of_fresh)

theorem refresh_wave_is_single_flight_witness:
  "\<exists>k' files'. ensure_wave (demo_externals ''new'') 5 demo_cred
       [demo_call (Reply 200 ''R''), demo_call (NoReply []), demo_call (NoReply [])]
       (demo_cred, \<lambda>p. if p = ''d/f'' then Some ''F'' else None)
     = ((k', files'), [Inr Refreshed, Inr AlreadyFresh, Inr AlreadyFresh])"
proof -
  have t: "trim ''new'' \<noteq> []" "length (split_str ''.'' ''new'') = 1"
    by (simp_all add: trim_def leading_space_def trailing_space_def space1_def space2_def space3_def split_str_def starts_with_def)
  have r: "refresh_reply (demo_externals ''new'') (demo_call (Reply 200 ''R'')) demo_cred = Inr (''new'', ''r'', 2592010)"
    using demo_reply [of "''new''"] t by (simp add: demo_cred_def demo_call_def)
  let ?x = "demo_externals ''new''"
  obtain d' files' where d': "parse_credential (x_norm_ts ?x) (demo_written ''new'') = Inr d'"
    and run: "perform_refresh ?x (demo_call (Reply 200 ''R'')) demo_cred
        (\<lambda>p. if p = ''d/f'' then Some ''F'' else None) = ((demo_cred\<lparr>cred_data := d'\<rparr>, files'), None)"
    using perform_refresh_ok [OF r demo_facts(1,2) t(1), of "\<lambda>p. if p = ''d/f'' then Some ''F'' else None"]
    by (auto simp: demo_value)
  have "expires_at_secs d' = 2592010"
    using parse_refreshed_expiry [OF d' [unfolded demo_written_def] demo_keeps] by simp
  then show ?thesis
    using refresh_wave_is_single_flight [OF _ run, of 5 "[demo_call (NoReply []), demo_call (NoReply [])]"]
    by (simp add: demo_call_def needs_refresh_def sat_sub_i64_def demo_cred_def demo_data_def)
qed

text \<open>The keepalive of the periodic refresh never reaches the endpoint: when no token is near its
  expiry, a run changes no credential and no file, whatever the keepalive interval, and only counts a
  successful refresh for every account that was due.\<close>

theorem keepalive_never_refreshes:
  assumes "distinct (map cred_path (entries (w_pool w)))"
    and "\<forall>k \<in> set (entries (w_pool w)).
           \<not> needs_refresh margin now_s k \<and> \<not> needs_refresh margin (rc_now (call k)) k"
  shows "refresh_due x margin keepalive now_s now call w
           = w\<lparr>w_refreshes := w_refreshes w
                 @ replicate (length (filter (keepalive_due keepalive margin now_s) (entries (w_pool w)))) True\<rparr>"
  unfolding refresh_due_def using assms by (intro refresh_fold_fresh) auto

theorem keepalive_never_refreshes_witness:
  "w_pool (refresh_due (demo_externals ''new'') 1 60 3 0 (\<lambda>_. (demo_call (Reply 200 ''R''))\<lparr>rc_now := 3\<rparr>)
     \<lparr>w_pool = (new_pool [] \<lparr>cred_cooldown_secs = 1, model_cooldown_secs = 1, hard_credit_cooldown_secs = 1,
                sticky_max = 1, sticky_ttl_secs = 1\<rparr>)\<lparr>entries := [demo_cred]\<rparr>,
      w_files = (\<lambda>_. None), w_refreshes = []\<rparr>)
   = (new_pool [] \<lparr>cred_cooldown_secs = 1, model_cooldown_secs = 1, hard_credit_cooldown_secs = 1,
                sticky_max = 1, sticky_ttl_secs = 1\<rparr>)\<lparr>entries := [demo_cred]\<rparr>"
  by (subst keepalive_never_refreshes)
    (simp_all add: demo_cred_def demo_data_def needs_refresh_def sat_sub_i64_def demo_call_def)

end
