(* ===== verification/Upstream.thy ===== *)
theory Upstream
  imports Refresh
begin

text \<open>
  The generation call (\<open>src/lobsterai/upstream.rs\<close>): the body filter, the peek at the head of a
  stream, the quota classifier and the retry loop.

  A response body is the list of what its stream yields: chunks, or a broken connection; the end of
  the list is the end of the body. The loop runs over a script with one entry per round: the clock,
  what other tasks did to the shared pool and the files since the last round, how the backend answers
  a request made with a credential, and what a token refresh would meet. Running out of script is
  \<open>None\<close>; the properties give a length that always suffices.
\<close>

section \<open>The request body\<close>

definition PASSTHROUGH_BODY_KEYS :: "string list" where
  "PASSTHROUGH_BODY_KEYS =
     [''model'', ''messages'', ''tools'', ''tool_choice'', ''temperature'', ''top_p'', ''top_k'',
      ''max_tokens'', ''stop'', ''presence_penalty'', ''frequency_penalty'', ''reasoning_effort'',
      ''prompt_cache_key'', ''user'']"

definition copy_member :: "members \<Rightarrow> string \<Rightarrow> members \<Rightarrow> members" where
  "copy_member object key out =
     (case mget object key of Some v \<Rightarrow> minsert key v out | None \<Rightarrow> out)"

definition insert_absent :: "string \<Rightarrow> json \<Rightarrow> members \<Rightarrow> members" where
  "insert_absent key v out = (if mget out key = None then minsert key v out else out)"

definition filter_body :: "json \<Rightarrow> string \<Rightarrow> json" where
  "filter_body body m =
     (let object = unwrap_or [] (as_object body);
          out = fold (copy_member object) PASSTHROUGH_BODY_KEYS []
      in JObj (insert_absent ''stream_options'' (JObj [(''include_usage'', JBool True)])
                (minsert ''stream'' (JBool True) (minsert ''model'' (JStr m) out))))"

section \<open>Errors inside a stream\<close>

definition QUOTA_EXHAUSTED_CODE :: int where
  "QUOTA_EXHAUSTED_CODE = 40201"

record stream_error =
  se_code :: "int option"
  se_message :: string

definition is_quota_exhausted :: "stream_error \<Rightarrow> bool" where
  "is_quota_exhausted e \<longleftrightarrow> se_code e = Some QUOTA_EXHAUSTED_CODE"

definition parse_stream_error :: "json \<Rightarrow> stream_error option" where
  "parse_stream_error payload =
     map_option (\<lambda>e. \<lparr>se_code = get_i64 ''code'' e,
                      se_message = unwrap_or ''upstream error'' (get_str ''message'' e)\<rparr>)
       (get ''error'' payload)"

definition unreadable_error :: stream_error where
  "unreadable_error = \<lparr>se_code = None, se_message = ''upstream returned an error event''\<rparr>"

definition MAX_PREFIX_INSPECT_BYTES :: nat where
  "MAX_PREFIX_INSPECT_BYTES = 8 * 1024"

text \<open>One line of a block: whether an error event was named, its payload, and whether data was seen.\<close>

definition scan_line :: "string \<Rightarrow> bool \<times> string option \<times> bool \<Rightarrow> bool \<times> string option \<times> bool" where
  "scan_line line acc =
     (case acc of (is_error, payload, saw_data) \<Rightarrow>
        (case strip_prefix ''event:'' line of
           Some event \<Rightarrow> (is_error \<or> trim event = ''error'', payload, saw_data)
         | None \<Rightarrow>
             (case strip_prefix ''data:'' line of
                None \<Rightarrow> acc
              | Some rest \<Rightarrow>
                  let data = trim rest
                  in if data = ''[DONE]'' then acc
                     else if is_error then (is_error, Some data, saw_data)
                     else (is_error, payload, True))))"

definition scan_block :: "string \<Rightarrow> bool \<times> string option \<times> bool" where
  "scan_block block = fold scan_line (str_lines block) (False, None, False)"

definition payload_error :: "codec \<Rightarrow> string option \<Rightarrow> stream_error" where
  "payload_error c payload =
     unwrap_or unreadable_error
       (Option.bind (Option.bind payload (from_text c)) parse_stream_error)"

fun scan_blocks :: "codec \<Rightarrow> nat \<Rightarrow> nat \<Rightarrow> string list \<Rightarrow> (stream_error \<times> nat) option" where
  "scan_blocks c total_len offset [] = None"
| "scan_blocks c total_len offset (block # blocks) =
     (if offset + length block \<ge> total_len then None
      else
        (case scan_block block of (is_error, payload, saw_data) \<Rightarrow>
           if is_error then Some (payload_error c payload, offset + length block + 2)
           else if saw_data then None
           else scan_blocks c total_len (offset + length block + 2) blocks))"

definition scan_prefix_for_stream_error :: "codec \<Rightarrow> string \<Rightarrow> (stream_error \<times> nat) option" where
  "scan_prefix_for_stream_error c pre =
     (let t = from_utf8_lossy pre in scan_blocks c (length t) 0 (split_str [LF, LF] t))"

section \<open>Peeking at a stream\<close>

datatype stream_item = Chunk string | Broken

type_synonym byte_stream = "stream_item list"

datatype peek = Healthy string byte_stream | Errored stream_error | Unavailable

fun peek_from :: "codec \<Rightarrow> string \<Rightarrow> byte_stream \<Rightarrow> peek" where
  "peek_from c pre stream =
     (case scan_prefix_for_stream_error c pre of
        Some (e, _) \<Rightarrow> Errored e
      | None \<Rightarrow>
          if contains [LF, LF] pre then Healthy pre stream
          else if length pre \<ge> MAX_PREFIX_INSPECT_BYTES then Healthy pre stream
          else
            (case stream of
               Chunk bytes # rest \<Rightarrow> peek_from c (pre @ bytes) rest
             | _ \<Rightarrow> Unavailable))"

definition peek_stream_error :: "codec \<Rightarrow> byte_stream \<Rightarrow> peek" where
  "peek_stream_error c stream = peek_from c [] stream"

definition replay :: "string \<Rightarrow> byte_stream \<Rightarrow> byte_stream" where
  "replay pre stream = (if pre = [] then stream else Chunk pre # stream)"

text \<open>\<open>Response::bytes\<close>: the whole body, or nothing when the connection breaks.\<close>

fun read_all :: "byte_stream \<Rightarrow> string option" where
  "read_all [] = Some []"
| "read_all (Chunk b # rest) = map_option ((@) b) (read_all rest)"
| "read_all (Broken # rest) = None"

definition body_bytes :: "byte_stream \<Rightarrow> string" where
  "body_bytes stream = unwrap_or [] (read_all stream)"

section \<open>Out of credits\<close>

definition credit_needles :: "string list" where
  "credit_needles =
     [''insufficient'', ''not enough credit'', ''credit'', ''quota exceeded'', ''balance'',
      [CHR 0xE7, CHR 0xA7, CHR 0xAF, CHR 0xE5, CHR 0x88, CHR 0x86,
       CHR 0xE4, CHR 0xB8, CHR 0x8D, CHR 0xE8, CHR 0xB6, CHR 0xB3],
      [CHR 0xE4, CHR 0xBD, CHR 0x99, CHR 0xE9, CHR 0xA2, CHR 0x9D,
       CHR 0xE4, CHR 0xB8, CHR 0x8D, CHR 0xE8, CHR 0xB6, CHR 0xB3]]"

definition is_out_of_credits :: "nat \<Rightarrow> string \<Rightarrow> bool" where
  "is_out_of_credits status body \<longleftrightarrow>
     status \<in> {402, 403, 429}
     \<and> list_ex (\<lambda>needle. contains needle (to_ascii_lowercase (from_utf8_lossy body))) credit_needles"

section \<open>The loop's state\<close>

record api_failure =
  fl_status :: nat
  fl_kind :: string
  fl_message :: string
  fl_retry_after :: "int option"
  fl_before_output :: bool

record started =
  st_model :: string
  st_credential :: credential
  st_stream :: byte_stream
  st_prefix :: string
  st_started_at :: instant
  st_failovers :: nat
  st_refresh_retry :: bool

datatype generate_outcome = Started started | Failed api_failure

datatype chat_reply = SendFailed string | Answer nat byte_stream

datatype metric =
  TransportError | Upstream200Error | Upstream401 | TokenRefresh bool | Upstream429 | Upstream403
| Upstream5xx

record round =
  rd_now :: instant
  rd_done :: instant
  rd_secs :: int
  rd_others :: "pool \<times> fs \<Rightarrow> pool \<times> fs"
  rd_answer :: "credential \<Rightarrow> json \<Rightarrow> chat_reply"
  rd_refresh :: refresh_call

record gen_state =
  gs_pool :: pool
  gs_files :: fs
  gs_failovers :: nat
  gs_refresh_done :: bool
  gs_retried :: "string option"
  gs_sent :: "(credential \<times> json \<times> chat_reply) list"
  gs_metrics :: "metric list"

definition from_failure :: "api_failure \<Rightarrow> api_error" where
  "from_failure f = (new_error (fl_status f) (fl_kind f) (fl_message f))\<lparr>err_retry_after := fl_retry_after f\<rparr>"

definition failed :: "nat \<Rightarrow> string \<Rightarrow> string \<Rightarrow> int option \<Rightarrow> generate_outcome" where
  "failed status kind message retry =
     Failed \<lparr>fl_status = status, fl_kind = kind, fl_message = message, fl_retry_after = retry,
             fl_before_output = True\<rparr>"

definition count_metric :: "metric \<Rightarrow> gen_state \<Rightarrow> gen_state" where
  "count_metric e s = s\<lparr>gs_metrics := gs_metrics s @ [e]\<rparr>"

definition feedback :: "(pool_state \<Rightarrow> pool_state) \<Rightarrow> gen_state \<Rightarrow> gen_state" where
  "feedback f s = s\<lparr>gs_pool := (gs_pool s)\<lparr>state := f (state (gs_pool s))\<rparr>\<rparr>"

abbreviation gs_limits :: "gen_state \<Rightarrow> limits" where
  "gs_limits s \<equiv> limits_of (gs_pool s)"

section \<open>One round\<close>

definition choose_account ::
    "round \<Rightarrow> string option \<Rightarrow> string \<Rightarrow> gen_state \<Rightarrow> credential option \<times> gen_state" where
  "choose_account r fp m s =
     (let picked = (case pick (rd_now r) (gs_files s) fp m (gs_pool s) of
                      (k, p) \<Rightarrow> (k, s\<lparr>gs_pool := p\<rparr>))
      in case gs_retried s of
           None \<Rightarrow> picked
         | Some name \<Rightarrow>
             (case credential_by_safe_name name (gs_pool s) of
                Some k \<Rightarrow> (Some k, s)
              | None \<Rightarrow> picked))"

definition no_account :: "round \<Rightarrow> string \<Rightarrow> gen_state \<Rightarrow> generate_outcome" where
  "no_account r m s =
     (case all_cooled_until (rd_now r) (rd_secs r) m (gs_pool s) of
        Some until \<Rightarrow>
          let retry = max (until - rd_secs r) 1
          in failed 429 RATE_LIMIT
               (''model '' @ m @ '' quota is cooling down on all accounts; retry after ''
                  @ show_int retry @ ''s'') (Some retry)
      | None \<Rightarrow>
          failed 503 API ''no healthy account available (not logged in, file missing, or all cooling)'' None)"

definition failover_exhausted :: "round \<Rightarrow> string \<Rightarrow> gen_state \<Rightarrow> generate_outcome" where
  "failover_exhausted r m s =
     failed 429 RATE_LIMIT (''all accounts are rate-limited for model '' @ m)
       (map_option (\<lambda>until. max (until - rd_secs r) 1)
         (all_cooled_until (rd_done r) (rd_secs r) m (gs_pool s)))"

type_synonym verdict = "(generate_outcome \<times> gen_state) + gen_state"

definition failover :: "round \<Rightarrow> string \<Rightarrow> gen_state \<Rightarrow> verdict" where
  "failover r m s =
     (let s1 = s\<lparr>gs_failovers := Suc (gs_failovers s)\<rparr>
      in if gs_failovers s1 > max (length (entries (gs_pool s1))) 1
         then Inl (failover_exhausted r m s1, s1) else Inr s1)"

definition both_tokens :: "credential \<Rightarrow> string list" where
  "both_tokens k = [access_token (cred_data k), refresh_token (cred_data k)]"

text \<open>A response with status 200.\<close>

definition on_stream ::
    "externals \<Rightarrow> instant \<Rightarrow> string \<Rightarrow> round \<Rightarrow> credential \<Rightarrow> byte_stream \<Rightarrow> gen_state \<Rightarrow> verdict" where
  "on_stream x t0 m r k stream s =
     (case peek_stream_error (x_codec x) stream of
        Healthy pre rest \<Rightarrow>
          Inl (Started \<lparr>st_model = m, st_credential = k, st_stream = rest, st_prefix = pre,
                        st_started_at = t0, st_failovers = gs_failovers s,
                        st_refresh_retry = gs_refresh_done s\<rparr>, s)
      | Errored e \<Rightarrow>
          let s1 = count_metric Upstream200Error s
          in if is_quota_exhausted e
             then failover r m
                    (feedback (note_hard_credit (rd_done r) (gs_limits s1) (cred_uid k))
                      (feedback (set_credits (cred_uid k) 0) s1))
             else Inl (failed 502 API
                         (sanitize_text (''upstream returned an error event: '' @ se_message e) (both_tokens k)) None,
                       feedback (note_error_threshold (rd_done r) (gs_limits s1) (cred_uid k)) s1)
      | Unavailable \<Rightarrow>
          let s1 = count_metric TransportError s
          in Inl (failed 502 API ''upstream stream failed before any output'' None,
                  feedback (note_error_threshold (rd_done r) (gs_limits s1) (cred_uid k)) s1))"

definition on_unauthorized :: "externals \<Rightarrow> string \<Rightarrow> round \<Rightarrow> credential \<Rightarrow> gen_state \<Rightarrow> verdict" where
  "on_unauthorized x m r k s =
     (if gs_retried s = None then
        (case force_refresh x (rd_refresh r) k (gs_files s) of
           ((k', files'), None) \<Rightarrow>
             Inr ((count_metric (TokenRefresh True) s)
                    \<lparr>gs_pool := replace_entry k' (gs_pool s), gs_files := files',
                     gs_retried := Some (cred_safe_name k), gs_refresh_done := True\<rparr>)
         | ((k', files'), Some e) \<Rightarrow>
             Inl (failed 401 AUTHENTICATION (err_message e) None,
                  (feedback (note_status (rd_done r) (gs_limits s) (cred_uid k) 401 m)
                    (count_metric (TokenRefresh False) s))\<lparr>gs_files := files'\<rparr>))
      else
        Inl (failed 401 AUTHENTICATION
               ''LobsterAI rejected the refreshed token; please re-login (lobsterai-proxy login)'' None,
             feedback (note_status (rd_done r) (gs_limits s) (cred_uid k) 401 m) s))"

text \<open>A response with any other status and the body that could be read.\<close>

definition on_status ::
    "externals \<Rightarrow> string \<Rightarrow> round \<Rightarrow> credential \<Rightarrow> nat \<Rightarrow> string \<Rightarrow> gen_state \<Rightarrow> verdict" where
  "on_status x m r k status body s =
     (let public = (\<lambda>intro. sanitize_text (intro @ from_utf8_lossy body) (both_tokens k));
          lim = gs_limits s; i = cred_uid k
      in if is_out_of_credits status body
         then failover r m (feedback (note_hard_credit (rd_done r) lim i) s)
         else if status = 401 then on_unauthorized x m r k (count_metric Upstream401 s)
         else if status = 429
         then failover r m (feedback (note_status (rd_done r) lim i 429 m) (count_metric Upstream429 s))
         else if status = 403
         then Inl (failed 403 PERMISSION
                     (public ''LobsterAI returned HTTP 403 (permission or content policy): '') None,
                   feedback (note_status (rd_done r) lim i 403 m) (count_metric Upstream403 s))
         else if 500 \<le> status \<and> status \<le> 599
         then Inl (failed status API
                     (public (''upstream server error (HTTP '' @ show_nat status @ ''): '')) None,
                   count_metric Upstream5xx s)
         else Inl (failed status API
                     (public (''upstream rejected the request (HTTP '' @ show_nat status @ ''): '')) None,
                   feedback (note_error_threshold (rd_done r) lim i) s))"

definition on_reply ::
    "externals \<Rightarrow> instant \<Rightarrow> string \<Rightarrow> round \<Rightarrow> credential \<Rightarrow> chat_reply \<Rightarrow> gen_state \<Rightarrow> verdict" where
  "on_reply x t0 m r k reply s =
     (case reply of
        SendFailed e \<Rightarrow>
          Inl (failed 502 API
                 (sanitize_text (''upstream connection failed: '' @ e) [access_token (cred_data k)]) None,
               feedback (note_error_threshold (rd_done r) (gs_limits s) (cred_uid k))
                 (count_metric TransportError s))
      | Answer status stream \<Rightarrow>
          if status = 200 then on_stream x t0 m r k stream s
          else on_status x m r k status (body_bytes stream) s)"

definition interfere :: "round \<Rightarrow> gen_state \<Rightarrow> gen_state" where
  "interfere r s =
     (case rd_others r (gs_pool s, gs_files s) of (p, files) \<Rightarrow> s\<lparr>gs_pool := p, gs_files := files\<rparr>)"

definition generate_round ::
    "externals \<Rightarrow> instant \<Rightarrow> string \<Rightarrow> string option \<Rightarrow> json \<Rightarrow> round \<Rightarrow> gen_state \<Rightarrow> verdict" where
  "generate_round x t0 m fp body r s =
     (case choose_account r fp m (interfere r s) of
        (None, s1) \<Rightarrow> Inl (no_account r m s1, s1)
      | (Some k, s1) \<Rightarrow>
          let reply = rd_answer r k body
          in on_reply x t0 m r k reply (s1\<lparr>gs_sent := gs_sent s1 @ [(k, body, reply)]\<rparr>))"

section \<open>The loop\<close>

fun generate_loop ::
    "externals \<Rightarrow> instant \<Rightarrow> string \<Rightarrow> string option \<Rightarrow> json \<Rightarrow> round list \<Rightarrow> gen_state
      \<Rightarrow> (generate_outcome \<times> gen_state) option" where
  "generate_loop x t0 m fp body [] s = None"
| "generate_loop x t0 m fp body (r # rs) s =
     (case generate_round x t0 m fp body r s of
        Inl out \<Rightarrow> Some out
      | Inr s1 \<Rightarrow> generate_loop x t0 m fp body rs s1)"

definition model_of :: "string \<Rightarrow> json \<Rightarrow> string" where
  "model_of dflt body = unwrap_or dflt (get_str ''model'' body)"

definition start_state :: "pool \<Rightarrow> fs \<Rightarrow> gen_state" where
  "start_state p files =
     \<lparr>gs_pool = p, gs_files = files, gs_failovers = 0, gs_refresh_done = False, gs_retried = None,
      gs_sent = [], gs_metrics = []\<rparr>"

definition generate ::
    "externals \<Rightarrow> string \<Rightarrow> instant \<Rightarrow> string option \<Rightarrow> json \<Rightarrow> round list \<Rightarrow> pool \<Rightarrow> fs
      \<Rightarrow> (generate_outcome \<times> gen_state) option" where
  "generate x dflt t0 fp body rounds p files =
     (let m = model_of dflt body
      in generate_loop x t0 m fp (filter_body body m) rounds (start_state p files))"

end
