(* ===== verification/Upstream_Peek.thy ===== *)
theory Upstream_Peek
  imports Upstream
begin

text \<open>
  The head of an upstream stream: what the peek may conclude, that it never loses a byte, that an
  error frame is found however the network cuts it, and that a frame before it makes the outcome
  depend on the cut. The body filter's specification stands here too.
\<close>

section \<open>The body filter\<close>

lemma mget_copy_member:
  "mget (copy_member obj key out) j
     = (if j = key \<and> mget obj key \<noteq> None then mget obj key else mget out j)"
  by (simp add: copy_member_def update_conv' split: option.splits)

lemma mget_copy_all:
  "mget (fold (copy_member obj) keys out) j
     = (if j \<in> set keys \<and> mget obj j \<noteq> None then mget obj j else mget out j)"
  by (induction keys arbitrary: out) (auto simp: mget_copy_member)

section \<open>ASCII heads\<close>

abbreviation ascii :: "string \<Rightarrow> bool" where
  "ascii s \<equiv> list_all (\<lambda>b. (of_char b :: nat) < 128) s"

lemma lossy_ascii: "ascii a \<Longrightarrow> from_utf8_lossy (a @ b) = a @ from_utf8_lossy b"
  by (induction a) (simp_all add: utf8_head_def)

lemma lossy_ascii_all: "ascii a \<Longrightarrow> from_utf8_lossy a = a"
  using lossy_ascii [of a "[]"] by simp

lemma starts_with_self: "starts_with p (p @ t)"
  by (simp add: starts_with_def)

lemma starts_with_extend: "starts_with p s \<Longrightarrow> starts_with p (s @ t)"
  by (auto elim!: starts_withE simp: starts_with_self)

lemma contains_mono: "contains p s \<Longrightarrow> contains p (s @ t)"
proof (induction s)
  case Nil
  then show ?case by (cases t) (simp_all add: starts_with_def)
next
  case (Cons b s)
  then show ?case using starts_with_extend [of p "b # s" t] by auto
qed

lemma contains_suffix: "contains p t \<Longrightarrow> contains p (s @ t)"
  by (induction s) simp_all

lemma contains_self: "contains p (p @ t)"
  using starts_with_self [of p t] by (cases "p @ t") (auto simp del: append_is_Nil_conv)

lemma cut_before:
  assumes "a @ x = b @ y" "\<nexists>r. a = b @ r"
  obtains suf where "a @ suf = b" "suf \<noteq> []"
proof -
  from assms(1) obtain us where "a = b @ us \<and> us @ x = y \<or> a @ us = b \<and> x = us @ y"
    by (auto simp: append_eq_append_conv2)
  with assms(2) that [of us] show thesis by (cases us) auto
qed

text \<open>A blank line is found only when both of its line feeds are there.\<close>

abbreviation blank :: string where "blank \<equiv> [LF, LF]"

lemma no_blank_prefix:
  assumes "\<not> contains blank (block @ [LF])" "pre @ suf = block @ blank" "suf \<noteq> []"
  shows "\<not> contains blank pre"
proof -
  from assms(3) obtain suf' z where "suf = suf' @ [z]" by (cases suf rule: rev_cases) auto
  then have "pre @ suf' = block @ [LF]" using assms(2) by auto
  with assms(1) contains_mono [of blank pre suf'] show ?thesis by auto
qed

lemma blank_at_head:
  "starts_with blank (b # s @ LF # LF # r) \<Longrightarrow> starts_with blank (b # s @ [LF])"
  by (cases s) (simp_all add: starts_with_def)

lemma split_blank_start:
  "\<not> contains blank (s @ [LF])
     \<Longrightarrow> split_at_sep blank cur (s @ blank @ r) = (cur @ s) # split_at_sep blank [] r"
proof (induction s arbitrary: cur)
  case Nil
  then show ?case by (simp add: starts_with_def)
next
  case (Cons b s)
  then have "\<not> starts_with blank (b # s @ LF # LF # r)" using blank_at_head by auto
  with Cons show ?case by simp
qed

lemma split_no_blank: "\<not> contains blank s \<Longrightarrow> split_at_sep blank cur s = [cur @ s]"
  by (induction s arbitrary: cur) auto

section \<open>Scanning\<close>

lemma scan_undecided:
  assumes "ascii pre" "\<not> contains blank pre"
  shows "scan_prefix_for_stream_error c pre = None"
  using assms by (simp add: scan_prefix_for_stream_error_def lossy_ascii_all split_str_def split_no_blank)

lemma scan_error_frame:
  assumes "ascii block" "\<not> contains blank (block @ [LF])" "scan_block block = (True, payload, saw)"
  shows "scan_prefix_for_stream_error c (block @ blank @ r)
           = Some (payload_error c payload, length block + 2)"
proof -
  have "from_utf8_lossy (block @ blank @ r) = block @ blank @ from_utf8_lossy r"
    using lossy_ascii [of "block @ blank" r] assms(1) by simp
  with assms(2,3) show ?thesis
    by (simp add: scan_prefix_for_stream_error_def split_str_def split_blank_start [of block "[]", simplified])
qed

declare peek_from.simps [simp del]

lemma peek_finds_frame:
  assumes "ascii block" "\<not> contains blank (block @ [LF])" "scan_block block = (True, payload, saw)"
    and "length block < MAX_PREFIX_INSPECT_BYTES - 1"
    and "pre @ concat cs = block @ blank @ r"
  shows "peek_from c pre (map Chunk cs @ tail) = Errored (payload_error c payload)"
  using assms(5)
proof (induction cs arbitrary: pre)
  case Nil
  then have "scan_prefix_for_stream_error c pre = Some (payload_error c payload, length block + 2)"
    using scan_error_frame [OF assms(1-3), of c r] by simp
  then show ?case by (simp add: peek_from.simps [of c pre])
next
  case (Cons chunk cs)
  show ?case
  proof (cases "\<exists>r'. pre = block @ blank @ r'")
    case True
    then obtain r' where "pre = block @ blank @ r'" by blast
    then have "scan_prefix_for_stream_error c pre = Some (payload_error c payload, length block + 2)"
      using scan_error_frame [OF assms(1-3), of c r'] by simp
    then show ?thesis by (simp add: peek_from.simps [of c pre])
  next
    case False
    obtain suf where suf: "pre @ suf = block @ blank" "suf \<noteq> []"
      using cut_before [of pre _ "block @ blank" r] Cons.prems False by auto
    have len: "length pre \<le> length block + 1"
      using arg_cong [OF suf(1), of length] suf(2) by (cases suf) simp_all
    have "ascii (pre @ suf)" using assms(1) by (simp add: suf(1))
    then have "ascii pre" by simp
    with no_blank_prefix [OF assms(2) suf] have "scan_prefix_for_stream_error c pre = None"
      by (simp add: scan_undecided)
    moreover have "peek_from c (pre @ chunk) (map Chunk cs @ tail) = Errored (payload_error c payload)"
      using Cons.prems by (intro Cons.IH) simp
    ultimately show ?thesis
      using no_blank_prefix [OF assms(2) suf] len assms(4) by (simp add: peek_from.simps [of c pre])
  qed
qed

section \<open>No byte is lost\<close>

lemma peek_healthy_splits:
  "peek_from c pre stream = Healthy pre' rest
     \<Longrightarrow> \<exists>cs. stream = map Chunk cs @ rest \<and> pre' = pre @ concat cs"
proof (induction c pre stream rule: peek_from.induct)
  case (1 c pre stream)
  from "1.prems" consider (here) "pre' = pre" "rest = stream"
    | (further) bytes more where "stream = Chunk bytes # more"
        "peek_from c (pre @ bytes) more = Healthy pre' rest"
        "scan_prefix_for_stream_error c pre = None" "\<not> contains [LF, LF] pre"
        "\<not> MAX_PREFIX_INSPECT_BYTES \<le> length pre"
    by (subst (asm) peek_from.simps)
      (auto split: option.splits if_splits list.splits stream_item.splits)
  then show ?case
  proof cases
    case here
    then show ?thesis by (intro exI [of _ "[]"]) simp
  next
    case further
    from "1.IH" [OF further(3,4,5,1) refl further(2)]
    obtain cs where "more = map Chunk cs @ rest" "pre' = (pre @ bytes) @ concat cs" by blast
    with further(1) show ?thesis by (intro exI [of _ "bytes # cs"]) simp
  qed
qed

lemma read_all_append:
  "read_all (map Chunk cs @ rest) = map_option ((@) (concat cs)) (read_all rest)"
  by (induction cs) (simp_all add: option.map_comp comp_def option.map_ident)

section \<open>Properties\<close>

text \<open>What is sent upstream, member by member: the model is the resolved one, streaming and usage
  reporting are forced, the allowed members of the converted body pass unchanged, and no other member
  of it gets through.\<close>

lemma filter_body_get:
  "get key (filter_body body m)
     = (if key = ''stream_options'' then Some (JObj [(''include_usage'', JBool True)])
        else if key = ''stream'' then Some (JBool True)
        else if key = ''model'' then Some (JStr m)
        else if key \<in> set PASSTHROUGH_BODY_KEYS then get key body
        else None)"
proof -
  have no: "''stream_options'' \<notin> set PASSTHROUGH_BODY_KEYS" by (simp add: PASSTHROUGH_BODY_KEYS_def)
  have body: "get key body = mget (unwrap_or [] (as_object body)) key" by (cases body) simp_all
  show ?thesis
    using no by (simp add: filter_body_def Let_def insert_absent_def update_conv' mget_copy_all body)
qed

text \<open>The error frame with which the backend reports an exhausted account over HTTP 200 is found
  however the network cuts the stream into chunks, whatever follows it, as long as it is ASCII, has no
  blank line inside and fits the inspected prefix.\<close>

theorem error_frame_found_however_cut:
  assumes "ascii block" "\<not> contains [LF, LF] (block @ [LF])" "scan_block block = (True, payload, saw)"
    and "length block < MAX_PREFIX_INSPECT_BYTES - 1"
    and "concat cs = block @ [LF, LF] @ r"
  shows "peek_stream_error c (map Chunk cs @ rest) = Errored (payload_error c payload)"
  unfolding peek_stream_error_def
  by (rule peek_finds_frame [OF assms(1-4)]) (simp add: assms(5))

theorem error_frame_found_however_cut_witness:
  "peek_stream_error sample_codec (map Chunk [''event:er'', ''ror'' @ [LF] @ ''data:{}'' @ [LF], [LF], ''x''] @ [Broken])
     = Errored (payload_error sample_codec (Some ''{}''))"
proof -
  have s: "scan_block (''event:error'' @ [LF] @ ''data:{}'') = (True, Some ''{}'', False)"
    by (simp add: scan_block_def scan_line_def str_lines_def split_str_def strip_cr_def strip_prefix_def
        starts_with_def trim_def leading_space_def trailing_space_def space1_def space2_def space3_def)
  show ?thesis
    by (rule error_frame_found_however_cut [OF _ _ s, where r = "''x''"])
      (simp_all add: starts_with_def MAX_PREFIX_INSPECT_BYTES_def)
qed

text \<open>A healthy peek loses no byte: it has consumed some leading chunks and nothing else, and the
  replayed stream carries exactly the bytes of the original one, to the same end or failure.\<close>

theorem peek_never_loses_a_byte:
  assumes "peek_stream_error c stream = Healthy pre rest"
  shows "(\<exists>cs. stream = map Chunk cs @ rest \<and> pre = concat cs) \<and> read_all (replay pre rest) = read_all stream"
proof -
  obtain cs where cs: "stream = map Chunk cs @ rest" "pre = concat cs"
    using peek_healthy_splits [OF assms [unfolded peek_stream_error_def]] by auto
  then have whole: "read_all stream = map_option ((@) pre) (read_all rest)" by (simp only: read_all_append)
  have "read_all (replay pre rest) = read_all stream"
  proof (cases "pre = []")
    case True
    then show ?thesis unfolding whole by (cases "read_all rest") (simp_all add: replay_def)
  qed (simp add: whole replay_def)
  with cs show ?thesis by blast
qed

theorem peek_never_loses_a_byte_witness:
  "read_all (replay ('': '' @ [LF, LF]) [Chunk ''x'']) = Some ('': '' @ [LF, LF, CHR ''x''])"
proof -
  have "peek_stream_error c [Chunk ('': '' @ [LF, LF]), Chunk ''x''] = Healthy ('': '' @ [LF, LF]) [Chunk ''x'']" for c
    by (simp add: peek_stream_error_def peek_from.simps scan_prefix_for_stream_error_def split_str_def
        MAX_PREFIX_INSPECT_BYTES_def utf8_head_def starts_with_def scan_block_def scan_line_def str_lines_def
        strip_cr_def strip_prefix_def)
  from peek_never_loses_a_byte [OF this] show ?thesis by simp
qed

text \<open>What the peek decides depends on the cut: a comment frame ahead of the error frame hides it
  when the first chunk ends between the two, and does not when both arrive together.\<close>

theorem peek_depends_on_the_cut:
  "let ping = '': ping'' @ [LF, LF]; frame = ''event:error'' @ [LF] @ ''data:{}'' @ [LF, LF]
   in peek_stream_error c [Chunk ping, Chunk frame] = Healthy ping [Chunk frame]
      \<and> peek_stream_error c [Chunk (ping @ frame)] = Errored (payload_error c (Some ''{}''))"
  by (simp add: peek_stream_error_def peek_from.simps scan_prefix_for_stream_error_def split_str_def
      MAX_PREFIX_INSPECT_BYTES_def utf8_head_def starts_with_def scan_block_def scan_line_def str_lines_def
      strip_cr_def strip_prefix_def trim_def leading_space_def trailing_space_def space1_def space2_def
      space3_def)

end
