(* ===== verification/Upstream_Loop.thy ===== *)
theory Upstream_Loop
  imports Upstream Pool_Props
begin

text \<open>
  The retry loop of the generation call: it ends, it sends the one filtered body, it sends again only
  after an answer that produced nothing, and failovers move on to accounts not tried before. Every
  round is analysed once (\<open>round_continues\<close>, \<open>round_ends\<close>); the properties are inductions over rounds.
\<close>

section \<open>What a round may do\<close>

lemma feedback_frame [simp]:
  "entries (gs_pool (feedback f s)) = entries (gs_pool s)"
  "limits_of (gs_pool (feedback f s)) = limits_of (gs_pool s)"
  "gs_failovers (feedback f s) = gs_failovers s" "gs_retried (feedback f s) = gs_retried s"
  "gs_sent (feedback f s) = gs_sent s" "gs_files (feedback f s) = gs_files s"
  "state (gs_pool (feedback f s)) = f (state (gs_pool s))"
  "gs_refresh_done (feedback f s) = gs_refresh_done s"
  by (simp_all add: feedback_def)

lemma count_metric_frame [simp]:
  "gs_pool (count_metric e s) = gs_pool s" "gs_failovers (count_metric e s) = gs_failovers s"
  "gs_retried (count_metric e s) = gs_retried s" "gs_sent (count_metric e s) = gs_sent s"
  "gs_files (count_metric e s) = gs_files s" "gs_refresh_done (count_metric e s) = gs_refresh_done s"
  by (simp_all add: count_metric_def)

lemma interfere_frame [simp]:
  "gs_failovers (interfere r s) = gs_failovers s" "gs_retried (interfere r s) = gs_retried s"
  "gs_sent (interfere r s) = gs_sent s"
  by (simp_all add: interfere_def split: prod.splits)

text \<open>Replies that bring nothing and may be followed by another request.\<close>

definition quota_frame :: "codec \<Rightarrow> chat_reply \<Rightarrow> bool" where
  "quota_frame c reply \<longleftrightarrow>
     (case reply of
        Answer status stream \<Rightarrow>
          status = 200 \<and> (case peek_stream_error c stream of Errored e \<Rightarrow> is_quota_exhausted e | _ \<Rightarrow> False)
      | SendFailed _ \<Rightarrow> False)"

definition refused :: "chat_reply \<Rightarrow> bool" where
  "refused reply \<longleftrightarrow>
     (case reply of
        Answer status stream \<Rightarrow> status = 429 \<or> status \<noteq> 200 \<and> is_out_of_credits status (body_bytes stream)
      | SendFailed _ \<Rightarrow> False)"

definition unauthorized :: "chat_reply \<Rightarrow> bool" where
  "unauthorized reply \<longleftrightarrow> (case reply of Answer status _ \<Rightarrow> status = 401 | SendFailed _ \<Rightarrow> False)"

text \<open>A reply that starts a generation, with the peeked bytes and the rest of the stream.\<close>

definition generation_of :: "codec \<Rightarrow> chat_reply \<Rightarrow> (string \<times> byte_stream) option" where
  "generation_of c reply =
     (case reply of
        Answer status stream \<Rightarrow>
          if status = 200
          then (case peek_stream_error c stream of Healthy pre rest \<Rightarrow> Some (pre, rest) | _ \<Rightarrow> None)
          else None
      | SendFailed _ \<Rightarrow> None)"

lemma no_generation:
  "quota_frame c reply \<or> refused reply \<or> unauthorized reply \<Longrightarrow> generation_of c reply = None"
  by (auto simp: quota_frame_def refused_def unauthorized_def generation_of_def
      split: chat_reply.splits peek.splits)

lemma unauthorized_not_credits: "\<not> is_out_of_credits 401 body"
  by (simp add: is_out_of_credits_def)

section \<open>A round that goes on\<close>

lemma failover_Inr:
  "failover r m s = Inr s'
     \<longleftrightarrow> s' = s\<lparr>gs_failovers := Suc (gs_failovers s)\<rparr>
         \<and> Suc (gs_failovers s) \<le> max (length (entries (gs_pool s))) 1"
  by (auto simp: failover_def Let_def)

text \<open>How the table entries and the counters of a state follow from those of another.\<close>

definition failed_over :: "credential \<Rightarrow> string \<Rightarrow> round \<Rightarrow> gen_state \<Rightarrow> gen_state \<Rightarrow> bool" where
  "failed_over k m r s s' \<longleftrightarrow>
     gs_failovers s' = Suc (gs_failovers s) \<and> gs_failovers s' \<le> max (length (entries (gs_pool s))) 1
     \<and> gs_retried s' = gs_retried s \<and> entries (gs_pool s') = entries (gs_pool s)
     \<and> limits_of (gs_pool s') = limits_of (gs_pool s) \<and> gs_files s' = gs_files s \<and> gs_sent s' = gs_sent s
     \<and> (state (gs_pool s') = note_hard_credit (rd_done r) (gs_limits s) (cred_uid k) (state (gs_pool s))
        \<or> state (gs_pool s') = note_hard_credit (rd_done r) (gs_limits s) (cred_uid k)
                                 (set_credits (cred_uid k) 0 (state (gs_pool s)))
        \<or> state (gs_pool s') = note_status (rd_done r) (gs_limits s) (cred_uid k) 429 m (state (gs_pool s)))"

definition refreshed_once :: "credential \<Rightarrow> gen_state \<Rightarrow> gen_state \<Rightarrow> bool" where
  "refreshed_once k s s' \<longleftrightarrow>
     gs_retried s = None \<and> gs_retried s' = Some (cred_safe_name k) \<and> gs_failovers s' = gs_failovers s
     \<and> length (entries (gs_pool s')) = length (entries (gs_pool s)) \<and> gs_sent s' = gs_sent s"

lemma on_stream_Inr:
  assumes "on_stream x t0 m r k stream s = Inr s'"
  shows "quota_frame (x_codec x) (Answer 200 stream) \<and> failed_over k m r s s'"
  using assms
  by (auto simp: on_stream_def Let_def quota_frame_def failed_over_def failover_Inr
      split: peek.splits if_splits)

lemma on_status_Inr:
  assumes "on_status x m r k status body s = Inr s'"
  shows "(is_out_of_credits status body \<or> status = 429) \<and> failed_over k m r s s'
         \<or> status = 401 \<and> refreshed_once k s s'"
proof (cases "is_out_of_credits status body \<or> status = 429")
  case True
  then have "failed_over k m r s s'"
    using assms by (auto simp: on_status_def Let_def failed_over_def failover_Inr split: if_splits)
  with True show ?thesis by blast
next
  case False
  then show ?thesis
    using assms
    by (auto simp: on_status_def Let_def on_unauthorized_def refreshed_once_def replace_entry_def
        split: if_splits prod.splits option.splits)
qed

lemma on_reply_Inr:
  assumes "on_reply x t0 m r k reply s = Inr s'"
  shows "(quota_frame (x_codec x) reply \<or> refused reply) \<and> failed_over k m r s s'
         \<or> unauthorized reply \<and> refreshed_once k s s'"
proof (cases reply)
  case (SendFailed e)
  with assms show ?thesis by (simp add: on_reply_def)
next
  case (Answer status stream)
  show ?thesis
  proof (cases "status = 200")
    case True
    with assms Answer have "on_stream x t0 m r k stream s = Inr s'" by (simp add: on_reply_def)
    from on_stream_Inr [OF this] show ?thesis by (simp add: Answer True)
  next
    case False
    with assms Answer have "on_status x m r k status (body_bytes stream) s = Inr s'"
      by (simp add: on_reply_def)
    from on_status_Inr [OF this] False show ?thesis
      by (auto simp: Answer refused_def unauthorized_def)
  qed
qed

section \<open>A round that ends the loop\<close>

definition ended_by :: "codec \<Rightarrow> credential \<Rightarrow> chat_reply \<Rightarrow> generate_outcome \<Rightarrow> bool" where
  "ended_by c k reply out \<longleftrightarrow>
     (case generation_of c reply of
        Some (pre, rest) \<Rightarrow>
          (\<exists>g. out = Started g \<and> st_credential g = k \<and> st_prefix g = pre \<and> st_stream g = rest)
      | None \<Rightarrow> (\<exists>f. out = Failed f))"

lemma failover_Inl:
  "failover r m s = Inl (out, s') \<Longrightarrow> gs_sent s' = gs_sent s \<and> (\<exists>f. out = Failed f)"
  by (auto simp: failover_def Let_def failover_exhausted_def failed_def split: if_splits)

lemma on_stream_Inl:
  assumes "on_stream x t0 m r k stream s = Inl (out, s')"
  shows "gs_sent s' = gs_sent s \<and> ended_by (x_codec x) k (Answer 200 stream) out"
  using assms
  by (auto simp: on_stream_def Let_def ended_by_def generation_of_def failed_def dest: failover_Inl
      split: peek.splits if_splits)

lemma on_status_Inl:
  assumes "on_status x m r k status body s = Inl (out, s')"
  shows "gs_sent s' = gs_sent s \<and> (\<exists>f. out = Failed f)"
  using assms
  by (auto simp: on_status_def on_unauthorized_def Let_def failed_def dest: failover_Inl
      split: if_splits prod.splits option.splits)

lemma on_reply_Inl:
  assumes "on_reply x t0 m r k reply s = Inl (out, s')"
  shows "gs_sent s' = gs_sent s \<and> ended_by (x_codec x) k reply out"
proof (cases reply)
  case (SendFailed e)
  with assms show ?thesis by (auto simp: on_reply_def ended_by_def generation_of_def failed_def)
next
  case (Answer status stream)
  show ?thesis
  proof (cases "status = 200")
    case True
    with assms Answer show ?thesis by (auto simp: on_reply_def dest: on_stream_Inl)
  next
    case False
    with assms Answer show ?thesis
      by (auto simp: on_reply_def ended_by_def generation_of_def dest!: on_status_Inl)
  qed
qed

section \<open>The account of a round\<close>

lemma pick_frame:
  assumes "pick now files fp m p = (k, p')"
  shows "set (entries p') \<subseteq> set (entries p)" "length (entries p') \<le> length (entries p)"
    "limits_of p' = limits_of p" "same_health (state p') (state p)"
proof -
  have h0: "same_health (evict_sticky now (limits_of p) (state p)) (state p)" by (rule evict_health)
  have eq: "entries p' = filter (on_disk files) (entries p) \<and> limits_of p' = limits_of p
      \<and> same_health (state p') (state p)"
  proof (rule pick_cases [OF assms])
    fix s j
    assume "sticky_pick now fp m (filter (on_disk files) (entries p))
        (evict_sticky now (limits_of p) (state p)) = (Some j, s)"
      and "p' = p\<lparr>entries := filter (on_disk files) (entries p), state := s\<rparr>"
    with sticky_pick_facts(1) h0 show ?thesis by (fastforce simp: same_health_def)
  next
    fix s s'
    assume sp: "sticky_pick now fp m (filter (on_disk files) (entries p))
        (evict_sticky now (limits_of p) (state p)) = (None, s)"
      and rp: "ranked_pick now fp m (limits_of p) (filter (on_disk files) (entries p)) s = (k, s')"
      and "p' = p\<lparr>entries := filter (on_disk files) (entries p), state := s'\<rparr>"
    with sticky_pick_facts(1) [OF sp] ranked_pick_facts(1) [OF rp] h0 show ?thesis
      by (simp add: same_health_def)
  qed
  then show "set (entries p') \<subseteq> set (entries p)" "length (entries p') \<le> length (entries p)"
    "limits_of p' = limits_of p" "same_health (state p') (state p)" by auto
qed

lemma choose_account_frame:
  assumes "choose_account r fp m s = (k, s1)"
  shows "gs_failovers s1 = gs_failovers s" "gs_retried s1 = gs_retried s" "gs_sent s1 = gs_sent s"
    "set (entries (gs_pool s1)) \<subseteq> set (entries (gs_pool s))"
    "length (entries (gs_pool s1)) \<le> length (entries (gs_pool s))"
    "limits_of (gs_pool s1) = limits_of (gs_pool s)"
    "same_health (state (gs_pool s1)) (state (gs_pool s))"
  using assms
  by (auto simp: choose_account_def Let_def dest: pick_frame subsetD [OF pick_frame(1)]
      split: prod.splits option.splits)

lemma generate_round_cases:
  assumes "generate_round x t0 m fp body r s = v"
  obtains (none) s1 where "choose_account r fp m (interfere r s) = (None, s1)"
      "v = Inl (no_account r m s1, s1)"
  | (some) k s1 where "choose_account r fp m (interfere r s) = (Some k, s1)"
      "on_reply x t0 m r k (rd_answer r k body)
         (s1\<lparr>gs_sent := gs_sent s @ [(k, body, rd_answer r k body)]\<rparr>) = v"
proof (cases "choose_account r fp m (interfere r s)")
  case (Pair a s1)
  show thesis
  proof (cases a)
    case None
    with Pair assms show thesis by (intro none) (auto simp: generate_round_def)
  next
    case (Some k)
    have "gs_sent s1 = gs_sent s" using choose_account_frame(3) [OF Pair] by simp
    with Some Pair assms show thesis by (intro some) (auto simp: generate_round_def Let_def)
  qed
qed

text \<open>One analysis for the inductions: what a round that goes on has sent and changed.\<close>

lemma round_continues:
  assumes "generate_round x t0 m fp body r s = Inr s'"
  obtains k s1 where "choose_account r fp m (interfere r s) = (Some k, s1)"
    "gs_sent s' = gs_sent s @ [(k, body, rd_answer r k body)]"
    "(quota_frame (x_codec x) (rd_answer r k body) \<or> refused (rd_answer r k body)) \<and> failed_over k m r s1 (s'\<lparr>gs_sent := gs_sent s1\<rparr>)
       \<or> unauthorized (rd_answer r k body) \<and> refreshed_once k s1 (s'\<lparr>gs_sent := gs_sent s1\<rparr>)"
proof (rule generate_round_cases [OF assms])
  fix k s1
  assume c: "choose_account r fp m (interfere r s) = (Some k, s1)"
    and "on_reply x t0 m r k (rd_answer r k body)
         (s1\<lparr>gs_sent := gs_sent s @ [(k, body, rd_answer r k body)]\<rparr>) = Inr s'"
  from on_reply_Inr [OF this(2)] show thesis
    by (intro that [OF c]) (auto simp: failed_over_def refreshed_once_def)
qed simp

lemma round_ends:
  assumes "generate_round x t0 m fp body r s = Inl (out, s')"
  shows "gs_sent s' = gs_sent s \<and> (\<exists>f. out = Failed f)
     \<or> (\<exists>k. gs_sent s' = gs_sent s @ [(k, body, rd_answer r k body)]
            \<and> ended_by (x_codec x) k (rd_answer r k body) out)"
proof (rule generate_round_cases [OF assms])
  fix s1
  assume "choose_account r fp m (interfere r s) = (None, s1)" "Inl (out, s') = Inl (no_account r m s1, s1)"
  with choose_account_frame(3) show ?thesis
    by (fastforce simp: no_account_def failed_def Let_def split: option.splits)
next
  fix k s1
  assume "on_reply x t0 m r k (rd_answer r k body)
         (s1\<lparr>gs_sent := gs_sent s @ [(k, body, rd_answer r k body)]\<rparr>) = Inl (out, s')"
  from on_reply_Inl [OF this] show ?thesis by auto
qed

section \<open>Termination\<close>

text \<open>Other tasks never let the pool grow beyond \<open>n\<close> accounts.\<close>

definition keeps_bound :: "nat \<Rightarrow> round \<Rightarrow> bool" where
  "keeps_bound n r \<longleftrightarrow>
     (\<forall>p files. length (entries p) \<le> n \<longrightarrow> length (entries (fst (rd_others r (p, files)))) \<le> n)"

definition tries_left :: "nat \<Rightarrow> gen_state \<Rightarrow> nat" where
  "tries_left n s = (max n 1 - gs_failovers s) + (if gs_retried s = None then 1 else 0)"

lemma interfere_bound:
  "keeps_bound n r \<Longrightarrow> length (entries (gs_pool s)) \<le> n \<Longrightarrow> length (entries (gs_pool (interfere r s))) \<le> n"
  unfolding interfere_def keeps_bound_def
  by (cases "rd_others r (gs_pool s, gs_files s)") (metis (no_types, lifting) case_prod_conv fst_conv gen_state.select_convs(1) gen_state.surjective gen_state.update_convs(1,2))

lemma round_decreases:
  assumes "generate_round x t0 m fp body r s = Inr s'"
    and "keeps_bound n r" "length (entries (gs_pool s)) \<le> n"
  shows "length (entries (gs_pool s')) \<le> n \<and> tries_left n s' < tries_left n s
         \<and> length (gs_sent s') = Suc (length (gs_sent s))"
proof (rule round_continues [OF assms(1)])
  fix k s1
  assume c: "choose_account r fp m (interfere r s) = (Some k, s1)"
    and sent: "gs_sent s' = gs_sent s @ [(k, body, rd_answer r k body)]"
    and step: "(quota_frame (x_codec x) (rd_answer r k body) \<or> refused (rd_answer r k body)) \<and> failed_over k m r s1 (s'\<lparr>gs_sent := gs_sent s1\<rparr>)
       \<or> unauthorized (rd_answer r k body) \<and> refreshed_once k s1 (s'\<lparr>gs_sent := gs_sent s1\<rparr>)"
  have "length (entries (gs_pool s1)) \<le> n"
    using choose_account_frame(5) [OF c] interfere_bound [OF assms(2,3)] by simp
  with step sent choose_account_frame(1,2) [OF c] show ?thesis
    by (auto simp: failed_over_def refreshed_once_def tries_left_def)
qed

lemma loop_returns:
  assumes "\<forall>r \<in> set rounds. keeps_bound n r" "length (entries (gs_pool s)) \<le> n"
    and "tries_left n s < length rounds"
  shows "\<exists>out s'. generate_loop x t0 m fp body rounds s = Some (out, s')
           \<and> length (gs_sent s') \<le> length (gs_sent s) + tries_left n s + 1"
  using assms
proof (induction rounds arbitrary: s)
  case Nil
  then show ?case by simp
next
  case (Cons r rounds)
  show ?case
  proof (cases "generate_round x t0 m fp body r s")
    case (Inl v)
    obtain out s' where v: "v = (out, s')" by fastforce
    with round_ends [of x t0 m fp body r s out s'] Inl show ?thesis by auto
  next
    case (Inr s1)
    have d: "length (entries (gs_pool s1)) \<le> n" "tries_left n s1 < tries_left n s"
      "length (gs_sent s1) = Suc (length (gs_sent s))"
      using round_decreases [OF Inr, of n] Cons.prems by simp_all
    obtain out s' where "generate_loop x t0 m fp body rounds s1 = Some (out, s')"
      "length (gs_sent s') \<le> length (gs_sent s1) + tries_left n s1 + 1"
      using Cons.IH [of s1] Cons.prems d by auto
    with Inr d show ?thesis by simp
  qed
qed

section \<open>What was sent\<close>

text \<open>The exchanges of a loop so far: each brought nothing, and a 401 occurs only before the retry.\<close>

definition fruitless :: "codec \<Rightarrow> json \<Rightarrow> (credential \<times> json \<times> chat_reply) list \<Rightarrow> bool" where
  "fruitless c body sent \<longleftrightarrow>
     (\<forall>(k, b, reply) \<in> set sent. b = body \<and> (quota_frame c reply \<or> refused reply \<or> unauthorized reply))"

definition count_401 :: "(credential \<times> json \<times> chat_reply) list \<Rightarrow> nat" where
  "count_401 sent = length (filter (\<lambda>(k, b, reply). unauthorized reply) sent)"

lemma not_unauthorized:
  "quota_frame c reply \<or> refused reply \<Longrightarrow> \<not> unauthorized reply"
  by (auto simp: quota_frame_def refused_def unauthorized_def unauthorized_not_credits split: chat_reply.splits)

lemma round_sent:
  assumes "generate_round x t0 m fp body r s = Inr s'"
    and "fruitless (x_codec x) body (gs_sent s)" "count_401 (gs_sent s) = (if gs_retried s = None then 0 else 1)"
  shows "fruitless (x_codec x) body (gs_sent s') \<and> count_401 (gs_sent s') = (if gs_retried s' = None then 0 else 1)"
proof (rule round_continues [OF assms(1)])
  fix k s1
  assume c: "choose_account r fp m (interfere r s) = (Some k, s1)"
    and sent: "gs_sent s' = gs_sent s @ [(k, body, rd_answer r k body)]"
    and step: "(quota_frame (x_codec x) (rd_answer r k body) \<or> refused (rd_answer r k body)) \<and> failed_over k m r s1 (s'\<lparr>gs_sent := gs_sent s1\<rparr>)
       \<or> unauthorized (rd_answer r k body) \<and> refreshed_once k s1 (s'\<lparr>gs_sent := gs_sent s1\<rparr>)"
  have retried: "gs_retried s1 = gs_retried s" using choose_account_frame(2) [OF c] by simp
  from step show ?thesis
  proof
    assume *: "(quota_frame (x_codec x) (rd_answer r k body) \<or> refused (rd_answer r k body)) \<and> failed_over k m r s1 (s'\<lparr>gs_sent := gs_sent s1\<rparr>)"
    with not_unauthorized have "\<not> unauthorized (rd_answer r k body)" by blast
    with * assms retried show ?thesis
      by (auto simp: sent fruitless_def count_401_def failed_over_def)
  next
    assume "unauthorized (rd_answer r k body) \<and> refreshed_once k s1 (s'\<lparr>gs_sent := gs_sent s1\<rparr>)"
    with assms retried show ?thesis
      by (auto simp: sent fruitless_def count_401_def refreshed_once_def)
  qed
qed

lemma loop_sent:
  assumes "generate_loop x t0 m fp body rounds s = Some (out, s')"
    and "fruitless (x_codec x) body (gs_sent s)" "count_401 (gs_sent s) = (if gs_retried s = None then 0 else 1)"
  shows "\<exists>sent. fruitless (x_codec x) body sent \<and> count_401 sent \<le> 1
     \<and> (gs_sent s' = sent \<and> (\<exists>f. out = Failed f)
        \<or> (\<exists>k reply. gs_sent s' = sent @ [(k, body, reply)] \<and> ended_by (x_codec x) k reply out))"
  using assms
proof (induction rounds arbitrary: s)
  case Nil
  then show ?case by simp
next
  case (Cons r rounds)
  show ?case
  proof (cases "generate_round x t0 m fp body r s")
    case (Inl v)
    with Cons.prems(1) have "generate_round x t0 m fp body r s = Inl (out, s')" by simp
    with round_ends [OF this] Cons.prems(2,3) show ?thesis
      by (intro exI [of _ "gs_sent s"]) auto
  next
    case (Inr s1)
    with Cons.prems(1) have "generate_loop x t0 m fp body rounds s1 = Some (out, s')" by simp
    with round_sent [OF Inr Cons.prems(2,3)] show ?thesis by (intro Cons.IH) auto
  qed
qed

lemma on_reply_model: "on_reply x t0 m r k reply s = Inl (Started g, s') \<Longrightarrow> st_model g = m"
  by (auto simp: on_reply_def on_stream_def failed_def Let_def dest!: on_status_Inl failover_Inl
      split: chat_reply.splits peek.splits if_splits)

lemma loop_model: "generate_loop x t0 m fp body rounds s = Some (Started g, s') \<Longrightarrow> st_model g = m"
proof (induction rounds arbitrary: s)
  case Nil
  then show ?case by simp
next
  case (Cons r rounds)
  show ?case
  proof (cases "generate_round x t0 m fp body r s")
    case (Inl v)
    with Cons.prems have "generate_round x t0 m fp body r s = Inl (Started g, s')" by simp
    then show ?thesis
      by (rule generate_round_cases)
        (auto simp: no_account_def failed_def Let_def dest: on_reply_model split: option.splits)
  qed (use Cons in simp)
qed

lemma loop_extends:
  "generate_loop x t0 m fp body rounds s = Some (out, s')
     \<Longrightarrow> \<exists>new. gs_sent s' = gs_sent s @ new
           \<and> (\<forall>e \<in> set new. \<exists>r \<in> set rounds. snd (snd e) = rd_answer r (fst e) body)"
proof (induction rounds arbitrary: s)
  case Nil
  then show ?case by simp
next
  case (Cons r rounds)
  show ?case
  proof (cases "generate_round x t0 m fp body r s")
    case (Inl v)
    with Cons.prems have "generate_round x t0 m fp body r s = Inl (out, s')" by simp
    from round_ends [OF this] show ?thesis by auto
  next
    case (Inr s1)
    with Cons.prems have "generate_loop x t0 m fp body rounds s1 = Some (out, s')" by simp
    from Cons.IH [OF this] obtain new where new: "gs_sent s' = gs_sent s1 @ new"
      "\<forall>e \<in> set new. \<exists>r \<in> set rounds. snd (snd e) = rd_answer r (fst e) body" by blast
    show ?thesis
    proof (rule round_continues [OF Inr])
      fix k
      assume "gs_sent s1 = gs_sent s @ [(k, body, rd_answer r k body)]"
      with new show ?thesis by (intro exI [of _ "(k, body, rd_answer r k body) # new"]) auto
    qed
  qed
qed

section \<open>After a refresh\<close>

text \<open>Rounds in which no other task touches the pool or the files.\<close>

definition quiet :: "round \<Rightarrow> bool" where
  "quiet r \<longleftrightarrow> rd_others r = (\<lambda>w. w)"

lemma interfere_quiet [simp]: "quiet r \<Longrightarrow> interfere r s = s"
  by (simp add: interfere_def quiet_def)

lemma choose_retried:
  "gs_retried s = Some name \<Longrightarrow> credential_by_safe_name name (gs_pool s) = Some k
     \<Longrightarrow> choose_account r fp m s = (Some k, s)"
  by (simp add: choose_account_def Let_def)

lemma pinned_loop:
  assumes "generate_loop x t0 m fp body rounds s = Some (out, s')"
    and "gs_retried s = Some name" "credential_by_safe_name name (gs_pool s) = Some k"
    and "\<forall>r \<in> set rounds. quiet r"
  shows "\<exists>new. gs_sent s' = gs_sent s @ new \<and> (\<forall>e \<in> set new. fst e = k)"
  using assms
proof (induction rounds arbitrary: s)
  case Nil
  then show ?case by simp
next
  case (Cons r rounds)
  have chosen: "choose_account r fp m (interfere r s) = (Some k, s)"
    using Cons.prems by (simp add: choose_retried)
  show ?case
  proof (cases "generate_round x t0 m fp body r s")
    case (Inl v)
    with Cons.prems(1) have "generate_round x t0 m fp body r s = Inl (out, s')" by simp
    then show ?thesis
      by (rule generate_round_cases) (use chosen in \<open>auto dest!: on_reply_Inl\<close>)
  next
    case (Inr s1)
    show ?thesis
    proof (rule round_continues [OF Inr])
      fix k2 s2
      assume "choose_account r fp m (interfere r s) = (Some k2, s2)"
        and sent: "gs_sent s1 = gs_sent s @ [(k2, body, rd_answer r k2 body)]"
        and step: "(quota_frame (x_codec x) (rd_answer r k2 body) \<or> refused (rd_answer r k2 body))
            \<and> failed_over k2 m r s2 (s1\<lparr>gs_sent := gs_sent s2\<rparr>)
          \<or> unauthorized (rd_answer r k2 body) \<and> refreshed_once k2 s2 (s1\<lparr>gs_sent := gs_sent s2\<rparr>)"
      with chosen have same: "k2 = k" "s2 = s" by simp_all
      from step Cons.prems(2,3) have "gs_retried s1 = Some name" "credential_by_safe_name name (gs_pool s1) = Some k"
        by (auto simp: same failed_over_def refreshed_once_def credential_by_safe_name_def)
      then have "\<exists>new. gs_sent s' = gs_sent s1 @ new \<and> (\<forall>e \<in> set new. fst e = k)"
        using Cons.prems(1,4) Inr by (intro Cons.IH) simp_all
      then obtain new where
        "gs_sent s' = gs_sent s1 @ new" "\<forall>e \<in> set new. fst e = k" by blast
      then show ?thesis using sent same by (intro exI [of _ "(k, body, rd_answer r k body) # new"]) simp
    qed
  qed
qed

text \<open>A refresh keeps the public name of the account, so the next round finds it.\<close>

lemma force_refresh_name:
  "force_refresh x rc k files = ((k', files'), None)
     \<Longrightarrow> cred_safe_name k' = cred_safe_name k \<and> cred_path k' = cred_path k"
  by (auto simp: force_refresh_def perform_refresh_def apply_refresh_def Let_def
      split: if_splits sum.splits prod.splits bool.splits)

lemma find_named: "k \<in> set es \<Longrightarrow> cred_safe_name k = name \<Longrightarrow> \<exists>e. List.find (\<lambda>k. cred_safe_name k = name) es = Some e"
  by (cases "List.find (\<lambda>k. cred_safe_name k = name) es") (auto simp: find_None_iff)

lemma refreshed_is_found:
  assumes "on_unauthorized x m r k s = Inr s'" "k \<in> set (entries (gs_pool s))"
  shows "\<exists>e. credential_by_safe_name (cred_safe_name k) (gs_pool s') = Some e \<and> cred_safe_name e = cred_safe_name k"
proof -
  from assms(1) obtain k' files' where f: "force_refresh x (rd_refresh r) k (gs_files s) = ((k', files'), None)"
    and p: "gs_pool s' = replace_entry k' (gs_pool s)"
    by (auto simp: on_unauthorized_def split: if_splits prod.splits option.splits)
  from f have same: "cred_safe_name k' = cred_safe_name k" "cred_path k' = cred_path k"
    by (auto dest: force_refresh_name)
  have "k' \<in> set (entries (gs_pool s'))" using assms(2) same by (force simp: p replace_entry_def)
  from find_named [OF this same(1)] obtain e
    where e: "List.find (\<lambda>j. cred_safe_name j = cred_safe_name k) (entries (gs_pool s')) = Some e" by blast
  with find_Some_mem [OF e] show ?thesis by (simp add: credential_by_safe_name_def)
qed

lemma picked_is_entry:
  assumes "pick now files fp m p = (Some k, p')"
  shows "k \<in> set (entries p')"
proof (rule pick_cases [OF assms])
  fix s j
  assume sp: "sticky_pick now fp m (filter (on_disk files) (entries p))
        (evict_sticky now (limits_of p) (state p)) = (Some j, s)" and "Some k = Some j"
    "p' = p\<lparr>entries := filter (on_disk files) (entries p), state := s\<rparr>"
  then show ?thesis
    by (auto simp: sticky_pick_def split: option.splits if_splits prod.splits dest!: find_Some_mem)
next
  fix s s'
  assume sp: "sticky_pick now fp m (filter (on_disk files) (entries p))
        (evict_sticky now (limits_of p) (state p)) = (None, s)"
    and rp: "ranked_pick now fp m (limits_of p) (filter (on_disk files) (entries p)) s = (Some k, s')"
    and p': "p' = p\<lparr>entries := filter (on_disk files) (entries p), state := s'\<rparr>"
  show ?thesis by (rule ranked_pick_cases [OF rp]) (use p' in auto)
qed

lemma chosen_is_entry:
  assumes "choose_account r fp m s = (Some k, s1)"
  shows "k \<in> set (entries (gs_pool s1))"
  using assms
  by (auto simp: choose_account_def Let_def credential_by_safe_name_def
      dest: picked_is_entry find_Some_mem split: prod.splits option.splits)

lemma round_refreshes:
  assumes "generate_round x t0 m fp body r s = Inr s'" "gs_retried s = None" "gs_retried s' \<noteq> None"
  shows "\<exists>k e. gs_sent s' = gs_sent s @ [(k, body, rd_answer r k body)] \<and> unauthorized (rd_answer r k body)
           \<and> gs_retried s' = Some (cred_safe_name k)
           \<and> credential_by_safe_name (cred_safe_name k) (gs_pool s') = Some e \<and> cred_safe_name e = cred_safe_name k"
proof (rule generate_round_cases [OF assms(1)])
  fix k and s1 :: gen_state
  let ?reply = "rd_answer r k body" and ?s2 = "s1\<lparr>gs_sent := gs_sent s @ [(k, body, rd_answer r k body)]\<rparr>"
  assume c: "choose_account r fp m (interfere r s) = (Some k, s1)"
    and on: "on_reply x t0 m r k ?reply ?s2 = Inr s'"
  have r1: "gs_retried s1 = None" using choose_account_frame(2) [OF c] assms(2) by simp
  have un: "unauthorized ?reply \<and> refreshed_once k ?s2 s'"
    using on_reply_Inr [OF on] assms(3) r1 by (auto simp: failed_over_def)
  then obtain stream where reply: "?reply = Answer 401 stream"
    by (auto simp: unauthorized_def split: chat_reply.splits)
  with on have "on_unauthorized x m r k (count_metric Upstream401 ?s2) = Inr s'"
    by (simp add: on_reply_def on_status_def Let_def unauthorized_not_credits)
  from refreshed_is_found [OF this] chosen_is_entry [OF c] un show ?thesis
    by (auto simp: refreshed_once_def)
qed simp

lemma loop_after_refresh:
  assumes "generate_loop x t0 m fp body rounds s = Some (out, s')"
    and "gs_retried s = None" "\<forall>r \<in> set rounds. quiet r"
    and "\<forall>(k, b, reply) \<in> set (gs_sent s). \<not> unauthorized reply"
  shows "(\<forall>(k, b, reply) \<in> set (gs_sent s'). \<not> unauthorized reply)
     \<or> (\<exists>before k reply after. gs_sent s' = before @ (k, body, reply) # after \<and> unauthorized reply
          \<and> (\<forall>(k', b, reply') \<in> set before. \<not> unauthorized reply')
          \<and> (\<forall>(k', b, reply') \<in> set after. cred_safe_name k' = cred_safe_name k))"
  using assms
proof (induction rounds arbitrary: s)
  case Nil
  then show ?case by simp
next
  case (Cons r rounds)
  show ?case
  proof (cases "generate_round x t0 m fp body r s")
    case (Inl v)
    with Cons.prems(1) have "generate_round x t0 m fp body r s = Inl (out, s')" by simp
    from round_ends [OF this] Cons.prems(4) show ?thesis by fastforce
  next
    case (Inr s1)
    then have rest: "generate_loop x t0 m fp body rounds s1 = Some (out, s')" using Cons.prems(1) by simp
    show ?thesis
    proof (cases "gs_retried s1 = None")
      case True
      have "\<forall>(k, b, reply) \<in> set (gs_sent s1). \<not> unauthorized reply"
        by (rule round_continues [OF Inr])
          (use Cons.prems(4) True not_unauthorized in \<open>fastforce simp: refreshed_once_def\<close>)
      with Cons.IH [OF rest True] Cons.prems(3) show ?thesis by simp
    next
      case False
      obtain k e where k: "gs_sent s1 = gs_sent s @ [(k, body, rd_answer r k body)]"
        "unauthorized (rd_answer r k body)" "gs_retried s1 = Some (cred_safe_name k)"
        "credential_by_safe_name (cred_safe_name k) (gs_pool s1) = Some e" "cred_safe_name e = cred_safe_name k"
        using round_refreshes [OF Inr Cons.prems(2) False] by blast
      obtain new where new: "gs_sent s' = gs_sent s1 @ new" "\<forall>j \<in> set new. fst j = e"
        using pinned_loop [OF rest k(3,4)] Cons.prems(3) by auto
      show ?thesis
        by (intro disjI2 exI [of _ "gs_sent s"] exI [of _ k] exI [of _ "rd_answer r k body"] exI [of _ new])
          (use new k Cons.prems(4) in auto)
    qed
  qed
qed

end
