(* ===== verification/Sse_Lines.thy ===== *)
theory Sse_Lines
  imports Text
begin

text \<open>
  The line loop that the Anthropic pump, the Responses pump and the Responses aggregation share
  (\<open>StreamPump::on_bytes\<close> in \<open>src/server/orchestrator.rs\<close>, and its two copies in
  \<open>src/server/responses_pump.rs\<close>): bytes are buffered, complete lines are classified, data payloads
  go to a converter until \<open>[DONE]\<close>.

  The abstract specification is \<open>payloads\<close>: the JSON values of a whole byte string up to \<open>[DONE]\<close>. The
  locale \<open>line_consumer\<close> states what a pump does with a payload, and proves once that any cut of the
  bytes into chunks, arriving at any times, gives the converter exactly those payloads in order.
\<close>

section \<open>Lines\<close>

definition MAX_SSE_LINE_BYTES :: nat where
  "MAX_SSE_LINE_BYTES = 8 * 1024 * 1024"

definition is_blank_byte :: "char \<Rightarrow> bool" where
  "is_blank_byte b \<longleftrightarrow> b = CHR 0x20 \<or> b = CHR 0x09 \<or> b = CR"

definition trim_ascii :: "string \<Rightarrow> string" where
  "trim_ascii s = rev (dropWhile is_blank_byte (rev (dropWhile is_blank_byte s)))"

text \<open>The first complete line of a buffer and what follows it.\<close>

definition split_line :: "string \<Rightarrow> (string \<times> string) option" where
  "split_line buf =
     (if LF \<in> set buf
      then Some (takeWhile (\<lambda>b. b \<noteq> LF) buf, tl (dropWhile (\<lambda>b. b \<noteq> LF) buf)) else None)"

datatype line_kind = Skipped | EventLine | DoneLine | Payload json

definition classify_line :: "codec \<Rightarrow> string \<Rightarrow> line_kind" where
  "classify_line c raw_line =
     (let line = trim_ascii raw_line
      in if line = [] \<or> length line > MAX_SSE_LINE_BYTES then Skipped
         else
           (case strip_prefix ''data:'' line of
              None \<Rightarrow> EventLine
            | Some rest \<Rightarrow>
                let payload = trim_ascii rest
                in if payload = ''[DONE]'' then DoneLine
                   else (case from_text c payload of None \<Rightarrow> EventLine | Some v \<Rightarrow> Payload v)))"

lemma split_line_less: "split_line buf = Some (line, rest) \<Longrightarrow> length rest < length buf"
proof -
  assume a: "split_line buf = Some (line, rest)"
  then have lf: "LF \<in> set buf" and rest: "rest = tl (dropWhile (\<lambda>b. b \<noteq> LF) buf)"
    by (auto simp: split_line_def split: if_splits)
  have "dropWhile (\<lambda>b. b \<noteq> LF) buf \<noteq> []" using lf by (auto simp: dropWhile_eq_Nil_conv)
  moreover have "length (dropWhile (\<lambda>b. b \<noteq> LF) buf) \<le> length buf" by (rule length_dropWhile_le)
  ultimately show ?thesis using rest by (cases "dropWhile (\<lambda>b. b \<noteq> LF) buf") auto
qed

text \<open>
  The loop: \<open>mark\<close> is what every event line does to the state, \<open>handle\<close> what a payload does. The
  result is the new state with the frames emitted, the bytes left in the buffer, and whether \<open>[DONE]\<close>
  was seen.
\<close>

function drain ::
    "codec \<Rightarrow> ('s \<Rightarrow> 's) \<Rightarrow> (json \<Rightarrow> 's \<Rightarrow> 's \<times> 'e list) \<Rightarrow> string \<Rightarrow> 's \<Rightarrow> ('s \<times> 'e list) \<times> string \<times> bool" where
  "drain c mark handle buf s =
     (case split_line buf of
        None \<Rightarrow> ((s, []), buf, False)
      | Some (line, rest) \<Rightarrow>
          (case classify_line c line of
             Skipped \<Rightarrow> drain c mark handle rest s
           | EventLine \<Rightarrow> drain c mark handle rest (mark s)
           | DoneLine \<Rightarrow> ((mark s, []), rest, True)
           | Payload v \<Rightarrow>
               (case handle v (mark s) of
                  (s1, es1) \<Rightarrow>
                    (case drain c mark handle rest s1 of
                       ((s2, es2), left, done_seen) \<Rightarrow> ((s2, es1 @ es2), left, done_seen)))))"
  by pat_completeness auto
termination
  by (relation "measure (\<lambda>(c, mark, handle, buf, s). length buf)") (auto dest: split_line_less)

declare drain.simps [simp del]

text \<open>The loop line by line, for evaluation on concrete bytes.\<close>

lemma drain_eval:
  "split_line buf = None \<Longrightarrow> drain c mark handle buf s = ((s, []), buf, False)"
  "split_line buf = Some (line, rest) \<Longrightarrow> classify_line c line = Skipped
     \<Longrightarrow> drain c mark handle buf s = drain c mark handle rest s"
  "split_line buf = Some (line, rest) \<Longrightarrow> classify_line c line = EventLine
     \<Longrightarrow> drain c mark handle buf s = drain c mark handle rest (mark s)"
  "split_line buf = Some (line, rest) \<Longrightarrow> classify_line c line = DoneLine
     \<Longrightarrow> drain c mark handle buf s = ((mark s, []), rest, True)"
  "split_line buf = Some (line, rest) \<Longrightarrow> classify_line c line = Payload v
     \<Longrightarrow> drain c mark handle buf s =
           (case handle v (mark s) of
              (s1, es1) \<Rightarrow>
                (case drain c mark handle rest s1 of
                   ((s2, es2), left, done_seen) \<Rightarrow> ((s2, es1 @ es2), left, done_seen)))"
  by (simp_all add: drain.simps [of c mark handle buf s])

section \<open>The specification\<close>

text \<open>The payloads of a byte string up to \<open>[DONE]\<close>, and whether it is there.\<close>

function payloads :: "codec \<Rightarrow> string \<Rightarrow> json list \<times> bool" where
  "payloads c bytes =
     (case split_line bytes of
        None \<Rightarrow> ([], False)
      | Some (line, rest) \<Rightarrow>
          (case classify_line c line of
             DoneLine \<Rightarrow> ([], True)
           | Payload v \<Rightarrow> (case payloads c rest of (vs, d) \<Rightarrow> (v # vs, d))
           | _ \<Rightarrow> payloads c rest))"
  by pat_completeness auto
termination by (relation "measure (\<lambda>(c, bytes). length bytes)") (auto dest: split_line_less)

declare payloads.simps [simp del]

section \<open>Cutting the bytes\<close>

lemma split_line_append:
  "split_line a = Some (line, rest) \<Longrightarrow> split_line (a @ b) = Some (line, rest @ b)"
  by (auto simp: split_line_def takeWhile_append dropWhile_append tl_append dropWhile_eq_Nil_conv
      split: if_splits list.splits)

lemma drain_append:
  "drain c mark handle (a @ b) s =
     (case drain c mark handle a s of
        ((s1, es1), left, True) \<Rightarrow> ((s1, es1), left @ b, True)
      | ((s1, es1), left, False) \<Rightarrow>
          (case drain c mark handle (left @ b) s1 of
             ((s2, es2), left2, d) \<Rightarrow> ((s2, es1 @ es2), left2, d)))"
proof (induction c mark handle a s rule: drain.induct)
  case (1 c mark handle a s)
  show ?case
  proof (cases "split_line a")
    case None
    then have "drain c mark handle a s = ((s, []), a, False)" by (simp add: drain.simps)
    then show ?thesis by (simp split: prod.splits)
  next
    case (Some lr)
    obtain line rest where lr: "lr = (line, rest)" by fastforce
    have here: "split_line a = Some (line, rest)" using Some lr by simp
    note sl = here split_line_append [OF here, of b]
    show ?thesis
    proof (cases "classify_line c line")
      case Skipped
      with "1.IH"(1) [OF here refl Skipped] sl show ?thesis
        by (simp add: drain.simps [of _ _ _ "a @ b"] drain.simps [of _ _ _ a])
    next
      case EventLine
      with "1.IH"(2) [OF here refl EventLine] sl show ?thesis
        by (simp add: drain.simps [of _ _ _ "a @ b"] drain.simps [of _ _ _ a])
    next
      case DoneLine
      with sl show ?thesis by (simp add: drain.simps [of _ _ _ "a @ b"] drain.simps [of _ _ _ a])
    next
      case (Payload v)
      obtain s1 es1 where h: "handle v (mark s) = (s1, es1)" by fastforce
      from "1.IH"(3) [OF here refl Payload h [symmetric]] Payload sl h show ?thesis
        by (simp add: drain.simps [of _ _ _ "a @ b"] drain.simps [of _ _ _ a] split: prod.splits bool.splits)
    qed
  qed
qed

lemma drain_left: "drain c mark handle buf s = ((s', es), left, False) \<Longrightarrow> split_line left = None"
proof (induction c mark handle buf s arbitrary: es rule: drain.induct)
  case (1 c mark handle buf s)
  show ?case
    using "1.prems" [unfolded drain.simps [of c mark handle buf s]] "1.IH"
    by (auto split: option.splits line_kind.splits prod.splits)
qed

lemma drain_payloads:
  "drain c mark handle buf s = ((s', es), left, d)
     \<Longrightarrow> snd (payloads c buf) = d
         \<and> payloads c (buf @ r)
             = (if d then payloads c buf
                else (fst (payloads c buf) @ fst (payloads c (left @ r)), snd (payloads c (left @ r))))"
proof (induction c mark handle buf s arbitrary: es rule: drain.induct)
  case (1 c mark handle buf s)
  show ?case
  proof (cases "split_line buf")
    case None
    with "1.prems" have "left = buf" "\<not> d" by (auto simp: drain.simps [of _ _ _ buf])
    with None show ?thesis by (simp add: payloads.simps [of c buf])
  next
    case (Some lr)
    obtain line rest where lr: "lr = (line, rest)" by fastforce
    have here: "split_line buf = Some (line, rest)" using Some lr by simp
    note sl = here split_line_append [OF here, of r]
      payloads.simps [of c buf] payloads.simps [of c "buf @ r"]
    note run = "1.prems" [unfolded drain.simps [of c mark handle buf s]]
    show ?thesis
    proof (cases "classify_line c line")
      case Skipped
      with "1.IH"(1) [OF here refl Skipped] run sl show ?thesis by simp
    next
      case EventLine
      with "1.IH"(2) [OF here refl EventLine] run sl show ?thesis by simp
    next
      case DoneLine
      with run sl show ?thesis by auto
    next
      case (Payload v)
      obtain s1 es1 where h: "handle v (mark s) = (s1, es1)" by fastforce
      obtain s2 es2 left2 d2 where rec: "drain c mark handle rest s1 = ((s2, es2), left2, d2)"
        using prod_cases3 by (metis surj_pair)
      have "left2 = left" "d2 = d" "s2 = s'" using run here Payload h rec by auto
      with "1.IH"(3) [OF here refl Payload h [symmetric], of es2] rec Payload sl show ?thesis
        by (auto split: prod.splits)
    qed
  qed
qed

section \<open>Consumers of lines\<close>

lemma emit_all_append:
  "emit_all feed (vs @ ws) s =
     (case emit_all feed vs s of (s1, es1) \<Rightarrow> (case emit_all feed ws s1 of (s2, es2) \<Rightarrow> (s2, es1 @ es2)))"
  by (induction vs arbitrary: s) (auto simp: then_emit_def split: prod.splits)

text \<open>
  The state of the loop after the bytes \<open>sofar\<close>: some payloads have been fed to the converter \<open>s0\<close>, and
  the buffer holds what is left of the bytes, without a complete line.
\<close>

definition consumed ::
    "codec \<Rightarrow> (json \<Rightarrow> 'c \<Rightarrow> 'c \<times> 'e list) \<Rightarrow> 'c \<Rightarrow> string \<Rightarrow> string \<Rightarrow> 'c \<Rightarrow> 'e list \<Rightarrow> bool" where
  "consumed c feed s0 sofar buf s es \<longleftrightarrow>
     split_line buf = None
     \<and> (\<exists>vs. (\<forall>r. payloads c (sofar @ r) = (vs @ fst (payloads c (buf @ r)), snd (payloads c (buf @ r))))
            \<and> emit_all feed vs s0 = (s, es))"

lemma consumed_start: "consumed c feed s [] [] s []"
  unfolding consumed_def by (auto simp: split_line_def intro!: exI [of _ "[]"])

lemma consumed_payloads:
  assumes "consumed c feed s0 sofar buf s es"
  shows "emit_all feed (fst (payloads c sofar)) s0 = (s, es) \<and> \<not> snd (payloads c sofar)"
proof -
  from assms have "payloads c buf = ([], False)" by (simp add: consumed_def payloads.simps [of c buf])
  moreover from assms obtain vs where
    "payloads c (sofar @ []) = (vs @ fst (payloads c (buf @ [])), snd (payloads c (buf @ [])))"
    "emit_all feed vs s0 = (s, es)"
    unfolding consumed_def by blast
  ultimately show ?thesis by simp
qed

text \<open>
  A pump state \<open>s\<close> contains a converter, \<open>view s\<close>; arrivals and event lines leave it alone, and a
  payload is fed to it at whatever time.
\<close>

locale line_consumer =
  fixes arrive :: "'u \<Rightarrow> 's \<Rightarrow> 's"
    and mark :: "'s \<Rightarrow> 's"
    and handle :: "'u \<Rightarrow> json \<Rightarrow> 's \<Rightarrow> 's \<times> 'e list"
    and view :: "'s \<Rightarrow> 'c"
    and feed :: "json \<Rightarrow> 'c \<Rightarrow> 'c \<times> 'e list"
  assumes view_arrive: "view (arrive t s) = view s"
    and view_mark: "view (mark s) = view s"
    and view_handle: "handle t v s = (s', es) \<Longrightarrow> feed v (view s) = (view s', es)"
begin

lemma drain_view:
  "drain c mark (handle t) buf s = ((s', es), left, d)
     \<Longrightarrow> emit_all feed (fst (payloads c buf)) (view s) = (view s', es)"
proof (induction buf arbitrary: s es rule: measure_induct_rule [where f = length])
  case (less buf)
  show ?case
  proof (cases "split_line buf")
    case None
    then have "payloads c buf = ([], False)" by (simp add: payloads.simps [of c buf])
    with less.prems None show ?thesis by (auto simp: drain.simps [of _ _ _ buf])
  next
    case (Some lr)
    obtain line rest where lr: "lr = (line, rest)" by fastforce
    have here: "split_line buf = Some (line, rest)" using Some lr by simp
    show ?thesis
      using less.prems [unfolded drain.simps [of c _ _ buf s]] less.IH [OF split_line_less [OF here]]
        less.IH [OF split_line_less [OF here], of "mark s" es] here
      by (cases "classify_line c line")
        (auto simp: payloads.simps [of c buf] view_mark then_emit_def dest!: view_handle split: prod.splits)
  qed
qed

lemma consumed_step:
  assumes "consumed c feed s0 sofar buf (view s) es0"
    and dr: "drain c mark (handle t) (buf @ b) (arrive t s) = ((s', es), left, d)"
  shows "if d
     then snd (payloads c (sofar @ b)) \<and> emit_all feed (fst (payloads c (sofar @ b))) s0 = (view s', es0 @ es)
     else consumed c feed s0 (sofar @ b) left (view s') (es0 @ es)"
proof -
  from assms(1) obtain vs where
    pre: "\<And>r. payloads c (sofar @ r) = (vs @ fst (payloads c (buf @ r)), snd (payloads c (buf @ r)))"
    and vs: "emit_all feed vs s0 = (view s, es0)"
    unfolding consumed_def by blast
  have fed: "emit_all feed (fst (payloads c (buf @ b))) (view s) = (view s', es)"
    using drain_view [OF dr] by (simp add: view_arrive)
  have both: "emit_all feed (vs @ fst (payloads c (buf @ b))) s0 = (view s', es0 @ es)"
    by (simp add: emit_all_append vs fed)
  show ?thesis
  proof (cases d)
    case True
    with both drain_payloads [OF dr, of "[]"] show ?thesis by (simp add: pre)
  next
    case False
    have "split_line left = None"
      by (rule drain_left [of c mark "handle t"]) (use dr False in simp)
    moreover have "payloads c ((sofar @ b) @ r)
        = ((vs @ fst (payloads c (buf @ b))) @ fst (payloads c (left @ r)), snd (payloads c (left @ r)))" for r
      using drain_payloads [OF dr, of r] False by (simp add: pre)
    ultimately show ?thesis using both False unfolding consumed_def by auto
  qed
qed

end

end
