(* ===== verification/Pump.thy ===== *)
theory Pump
  imports Anthropic_Stream Responses_Stream Watch Shadow Errors Sse_Lines
begin

text \<open>
  The streaming pumps and the aggregation loops (\<open>src/server/orchestrator.rs\<close>,
  \<open>src/server/responses_pump.rs\<close>): upstream bytes through the line loop into a converter, under the
  watchdog, with pings, until one of five endings; the terminal bookkeeping of statistics and of the
  reasoning shadow.

  The \<open>select!\<close> of the source is a list of inputs, each the branch that fired with its instant; a
  write to the client is a frame appended to the output.
\<close>

section \<open>Statistics\<close>

definition as_millis :: "duration \<Rightarrow> nat" where
  "as_millis d = d div 1000000"

record stream_stats =
  ss_ttft :: "nat option"
  ss_first_reasoning :: "nat option"
  ss_first_text :: "nat option"
  ss_first_tool :: "nat option"
  ss_reasoning_bytes :: nat
  ss_text_bytes :: nat
  ss_tool_bytes :: nat
  ss_input_tokens :: "u64 option"
  ss_output_tokens :: "u64 option"
  ss_cached_tokens :: "u64 option"
  ss_finish_reason :: "string option"
  ss_duration :: nat

definition no_stats :: stream_stats where
  "no_stats =
     \<lparr>ss_ttft = None, ss_first_reasoning = None, ss_first_text = None, ss_first_tool = None,
      ss_reasoning_bytes = 0, ss_text_bytes = 0, ss_tool_bytes = 0, ss_input_tokens = None,
      ss_output_tokens = None, ss_cached_tokens = None, ss_finish_reason = None, ss_duration = 0\<rparr>"

definition first_time :: "bool \<Rightarrow> nat \<Rightarrow> nat option \<Rightarrow> nat option" where
  "first_time happened elapsed old = (if old = None \<and> happened then Some elapsed else old)"

definition note_progress :: "nat \<Rightarrow> bool \<Rightarrow> bool \<Rightarrow> bool \<Rightarrow> stream_stats \<Rightarrow> stream_stats" where
  "note_progress elapsed reasoned spoke called st =
     st\<lparr>ss_ttft := first_time True elapsed (ss_ttft st),
        ss_first_reasoning := first_time reasoned elapsed (ss_first_reasoning st),
        ss_first_text := first_time spoke elapsed (ss_first_text st),
        ss_first_tool := first_time called elapsed (ss_first_tool st)\<rparr>"

section \<open>The Anthropic pump\<close>

datatype out_frame = Ev event | PingFrame | ErrorFrame string

record stream_pump =
  sp_conv :: converter
  sp_watch :: stream_watch
  sp_start :: instant
  sp_stats :: stream_stats

definition new_pump :: "string \<Rightarrow> bool \<Rightarrow> stream_timeouts \<Rightarrow> instant \<Rightarrow> instant \<Rightarrow> stream_pump" where
  "new_pump random expose t request_start now =
     \<lparr>sp_conv = new_converter random expose, sp_watch = new_watch t now, sp_start = request_start,
      sp_stats = no_stats\<rparr>"

definition pump_arrive :: "instant \<Rightarrow> stream_pump \<Rightarrow> stream_pump" where
  "pump_arrive now p = p\<lparr>sp_watch := on_upstream_bytes now (sp_watch p)\<rparr>"

definition pump_mark :: "stream_pump \<Rightarrow> stream_pump" where
  "pump_mark p = p\<lparr>sp_watch := on_sse_event (sp_watch p)\<rparr>"

definition pump_handle :: "instant \<Rightarrow> json \<Rightarrow> stream_pump \<Rightarrow> stream_pump \<times> event list" where
  "pump_handle now v p =
     (case feed_chunk v (sp_conv p) of
        ((s, es), semantic) \<Rightarrow>
          (let p1 = p\<lparr>sp_conv := s\<rparr>
           in (if semantic
               then p1\<lparr>sp_watch := on_semantic now (sp_watch p),
                       sp_stats := note_progress (as_millis (now - sp_start p)) (has_reasoning s)
                                     (has_text s) (has_tools s) (sp_stats p)\<rparr>
               else p1, es)))"

definition on_bytes ::
    "codec \<Rightarrow> instant \<Rightarrow> string \<Rightarrow> string \<Rightarrow> stream_pump \<Rightarrow> (stream_pump \<times> event list) \<times> string \<times> bool" where
  "on_bytes c now b buf p = drain c pump_mark (pump_handle now) (buf @ b) p"

text \<open>What the bookkeeping of a pump needs: the store's parameters and the session, if there is one.\<close>

record pump_env =
  pe_codec :: codec
  pe_hash :: "string \<Rightarrow> u64"
  pe_shadow_limits :: shadow_limits
  pe_session :: "string option"

definition keep_reasoning ::
    "pump_env \<Rightarrow> instant \<Rightarrow> string option \<Rightarrow> string list \<Rightarrow> string \<Rightarrow> shadow \<Rightarrow> shadow" where
  "keep_reasoning env now reason ids thoughts sh =
     (case pe_session env of
        None \<Rightarrow> sh
      | Some fp \<Rightarrow>
          if reason = Some ''tool_calls''
          then store (pe_hash env) now (pe_shadow_limits env) fp ids thoughts sh
          else if reason \<noteq> None then clear_session fp sh
          else sh)"

definition final_stats :: "nat \<Rightarrow> converter \<Rightarrow> stream_stats \<Rightarrow> stream_stats" where
  "final_stats elapsed s st =
     (let a = accumulated_of s;
          st1 = (case acc_usage a of
                   None \<Rightarrow> st
                 | Some (input, output, cached) \<Rightarrow>
                     st\<lparr>ss_input_tokens := Some input, ss_output_tokens := Some output,
                        ss_cached_tokens := Some cached\<rparr>)
      in st1\<lparr>ss_duration := elapsed, ss_finish_reason := acc_finish_reason a,
             ss_reasoning_bytes := length (acc_reasoning a), ss_text_bytes := length (acc_text a),
             ss_tool_bytes := sum_list (map (\<lambda>t. length (accum_arguments t)) (acc_tool_calls a))\<rparr>)"

definition STREAM_ENDED :: string where
  "STREAM_ENDED = ''upstream stream ended unexpectedly''"

text \<open>\<open>StreamPump::finish\<close>: the pump, the shadow store, the frames and the non-stream message.\<close>

definition pump_finish ::
    "pump_env \<Rightarrow> instant \<Rightarrow> string option \<Rightarrow> stream_pump \<Rightarrow> shadow
      \<Rightarrow> (stream_pump \<times> shadow) \<times> out_frame list \<times> json" where
  "pump_finish env now error p sh =
     (case finish (sp_conv p) of
        (s, es) \<Rightarrow>
          (let warning = (if finish_reason (sp_conv p) = None
                          then [ErrorFrame (unwrap_or STREAM_ENDED error)] else []);
               a = accumulated_of s
           in ((p\<lparr>sp_conv := s, sp_stats := final_stats (as_millis (now - sp_start p)) s (sp_stats p)\<rparr>,
                keep_reasoning env now (acc_finish_reason a) (map accum_id (acc_tool_calls a))
                  (acc_reasoning a) sh),
               warning @ map Ev es, nonstream_response (pe_codec env) s)))"

section \<open>The drive loop\<close>

datatype pump_input =
  ClientGone | PingTick | Wake instant | Arrived instant string | Broke instant string | Closed instant

datatype ending =
  Stalled stall_kind | BrokenOff string | EndOfStream "string option" | DoneSeen | Disconnected

record pump_world =
  pw_pump :: stream_pump
  pw_buffer :: string
  pw_shadow :: shadow
  pw_out :: "out_frame list"
  pw_stalls :: "stall_kind list"

definition stall_error :: "stall_kind \<Rightarrow> string" where
  "stall_error k = stall_name k @ '': '' @ stall_message k"

definition stream_error_text :: "string \<Rightarrow> string" where
  "stream_error_text e = ''upstream stream error: '' @ e"

definition end_pump ::
    "pump_env \<Rightarrow> instant \<Rightarrow> string option \<Rightarrow> ending \<Rightarrow> pump_world \<Rightarrow> pump_world \<times> (ending \<times> json) option" where
  "end_pump env now error how w =
     (case pump_finish env now error (pw_pump w) (pw_shadow w) of
        ((p, sh), fs, v) \<Rightarrow>
          (w\<lparr>pw_pump := p, pw_shadow := sh, pw_out := pw_out w @ fs\<rparr>, Some (how, v)))"

definition pump_step ::
    "pump_env \<Rightarrow> pump_input \<Rightarrow> pump_world \<Rightarrow> pump_world \<times> (ending \<times> json) option" where
  "pump_step env i w =
     (case i of
        ClientGone \<Rightarrow> (w, Some (Disconnected, JNull))
      | PingTick \<Rightarrow> (w\<lparr>pw_out := pw_out w @ [PingFrame]\<rparr>, None)
      | Wake now \<Rightarrow>
          (case check_stall now (sp_watch (pw_pump w)) of
             None \<Rightarrow> (w, None)
           | Some k \<Rightarrow>
               end_pump env now (Some (stall_error k)) (Stalled k) (w\<lparr>pw_stalls := pw_stalls w @ [k]\<rparr>))
      | Closed now \<Rightarrow>
          (let error = (if finish_reason (sp_conv (pw_pump w)) = None then Some STREAM_ENDED else None)
           in end_pump env now error (EndOfStream error) w)
      | Broke now e \<Rightarrow>
          end_pump env now (Some (stream_error_text e)) (BrokenOff (stream_error_text e)) w
      | Arrived now b \<Rightarrow>
          (case on_bytes (pe_codec env) now b (pw_buffer w) (pump_arrive now (pw_pump w)) of
             ((p, es), buf, done_seen) \<Rightarrow>
               let w1 = w\<lparr>pw_pump := p, pw_buffer := buf, pw_out := pw_out w @ map Ev es\<rparr>
               in if done_seen then end_pump env now None DoneSeen w1 else (w1, None)))"

fun run_steps :: "('i \<Rightarrow> 'w \<Rightarrow> 'w \<times> 'r option) \<Rightarrow> 'i list \<Rightarrow> 'w \<Rightarrow> 'w \<times> 'r option" where
  "run_steps step [] w = (w, None)"
| "run_steps step (i # is) w =
     (case step i w of (w1, Some r) \<Rightarrow> (w1, Some r) | (w1, None) \<Rightarrow> run_steps step is w1)"

definition pump_run ::
    "pump_env \<Rightarrow> pump_input list \<Rightarrow> pump_world \<Rightarrow> pump_world \<times> (ending \<times> json) option" where
  "pump_run env = run_steps (pump_step env)"

definition start_world :: "stream_pump \<Rightarrow> shadow \<Rightarrow> pump_world" where
  "start_world p sh = \<lparr>pw_pump = p, pw_buffer = [], pw_shadow = sh, pw_out = [], pw_stalls = []\<rparr>"

text \<open>What the two callers make of an ending: the summary's error, and the aggregated result.\<close>

fun ending_error :: "ending \<Rightarrow> string option" where
  "ending_error (Stalled k) = Some (stall_error k)"
| "ending_error (BrokenOff e) = Some e"
| "ending_error (EndOfStream e) = e"
| "ending_error DoneSeen = None"
| "ending_error Disconnected = None"

definition summary_status :: "ending \<Rightarrow> nat" where
  "summary_status how = (if ending_error how \<noteq> None then 502 else 200)"

fun aggregate_result :: "ending \<Rightarrow> json \<Rightarrow> (api_error + json) option" where
  "aggregate_result (Stalled k) v = Some (Inl (err_upstream 504 (stall_error k)))"
| "aggregate_result (BrokenOff e) v = Some (Inl (err_upstream 502 e))"
| "aggregate_result (EndOfStream (Some e)) v = Some (Inl (err_upstream 502 e))"
| "aggregate_result (EndOfStream None) v = Some (Inr v)"
| "aggregate_result DoneSeen v = Some (Inr v)"
| "aggregate_result Disconnected v = None"

definition render_frame :: "codec \<Rightarrow> out_frame \<Rightarrow> string" where
  "render_frame c f =
     (case f of
        Ev e \<Rightarrow> render c [e]
      | PingFrame \<Rightarrow> sse_ping c
      | ErrorFrame m \<Rightarrow> sse_error c API m)"

section \<open>The Responses pump\<close>

datatype resp_out = RespFrame frame | RespPing

record resp_pump =
  rp_conv :: responses_converter
  rp_watch :: stream_watch
  rp_start :: instant
  rp_stats :: stream_stats

definition resp_arrive :: "instant \<Rightarrow> resp_pump \<Rightarrow> resp_pump" where
  "resp_arrive now p = p\<lparr>rp_watch := on_upstream_bytes now (rp_watch p)\<rparr>"

definition resp_mark :: "resp_pump \<Rightarrow> resp_pump" where
  "resp_mark p = p\<lparr>rp_watch := on_sse_event (rp_watch p)\<rparr>"

definition resp_handle ::
    "(nat \<Rightarrow> string) \<Rightarrow> instant \<Rightarrow> json \<Rightarrow> resp_pump \<Rightarrow> resp_pump \<times> frame list" where
  "resp_handle rnd now v p =
     (case resp_feed_chunk rnd v (rp_conv p) of
        ((s, fs), semantic) \<Rightarrow>
          (let p1 = p\<lparr>rp_conv := s\<rparr>
           in (if semantic
               then p1\<lparr>rp_watch := on_semantic now (rp_watch p),
                       rp_stats := note_progress (as_millis (now - rp_start p)) (resp_has_reasoning s)
                                     (resp_has_text s) (resp_has_tools s) (rp_stats p)\<rparr>
               else p1, fs)))"

text \<open>The aggregation keeps no time of the first reasoning.\<close>

definition agg_handle ::
    "(nat \<Rightarrow> string) \<Rightarrow> instant \<Rightarrow> json \<Rightarrow> resp_pump \<Rightarrow> resp_pump \<times> frame list" where
  "agg_handle rnd now v p =
     (case resp_feed_chunk rnd v (rp_conv p) of
        ((s, fs), semantic) \<Rightarrow>
          (let p1 = p\<lparr>rp_conv := s\<rparr>
           in (if semantic
               then p1\<lparr>rp_watch := on_semantic now (rp_watch p),
                       rp_stats := note_progress (as_millis (now - rp_start p)) False
                                     (resp_has_text s) (resp_has_tools s) (rp_stats p)\<rparr>
               else p1, fs)))"

definition resp_final_stats :: "responses_converter \<Rightarrow> stream_stats \<Rightarrow> stream_stats" where
  "resp_final_stats s st =
     (let st1 = (case resp_usage s of
                   None \<Rightarrow> st
                 | Some (input, output, cached, _) \<Rightarrow>
                     st\<lparr>ss_input_tokens := Some input, ss_output_tokens := Some output,
                        ss_cached_tokens := Some cached\<rparr>)
      in st1\<lparr>ss_finish_reason := resp_finish_reason s, ss_text_bytes := text_bytes s,
             ss_reasoning_bytes := reasoning_bytes s, ss_tool_bytes := tool_bytes s\<rparr>)"

definition resp_pump_finish ::
    "pump_env \<Rightarrow> instant \<Rightarrow> string option \<Rightarrow> resp_pump \<Rightarrow> shadow \<Rightarrow> (resp_pump \<times> shadow) \<times> frame list" where
  "resp_pump_finish env now error p sh =
     (case resp_finish error (rp_conv p) of
        (s, fs) \<Rightarrow>
          ((p\<lparr>rp_conv := s, rp_stats := resp_final_stats s (rp_stats p)\<rparr>,
            keep_reasoning env now (resp_finish_reason s) (tool_call_ids s) (reasoning_text s) sh), fs))"

record resp_world =
  rw_pump :: resp_pump
  rw_buffer :: string
  rw_shadow :: shadow
  rw_out :: "resp_out list"
  rw_stalls :: "stall_kind list"

definition unfinished_error :: "responses_converter \<Rightarrow> string option" where
  "unfinished_error s = (if resp_finish_reason s = None then Some STREAM_ENDED else None)"

text \<open>Streaming: every ending writes the terminal frames; the error of the summary is returned.\<close>

datatype resp_ending = RespEnded "string option" | RespGone

definition end_resp ::
    "pump_env \<Rightarrow> instant \<Rightarrow> string option \<Rightarrow> resp_world \<Rightarrow> resp_world \<times> resp_ending option" where
  "end_resp env now error w =
     (case resp_pump_finish env now error (rw_pump w) (rw_shadow w) of
        ((p, sh), fs) \<Rightarrow>
          (w\<lparr>rw_pump := p, rw_shadow := sh, rw_out := rw_out w @ map RespFrame fs\<rparr>, Some (RespEnded error)))"

definition resp_bytes ::
    "pump_env \<Rightarrow> (instant \<Rightarrow> json \<Rightarrow> resp_pump \<Rightarrow> resp_pump \<times> frame list) \<Rightarrow> instant \<Rightarrow> string \<Rightarrow> resp_world
      \<Rightarrow> resp_world \<times> bool" where
  "resp_bytes env handle now b w =
     (case drain (pe_codec env) resp_mark (handle now) (rw_buffer w @ b)
             (resp_arrive now (rw_pump w)) of
        ((p, fs), buf, done_seen) \<Rightarrow>
          (w\<lparr>rw_pump := p, rw_buffer := buf, rw_out := rw_out w @ map RespFrame fs\<rparr>, done_seen))"

definition resp_stream_step ::
    "pump_env \<Rightarrow> (nat \<Rightarrow> string) \<Rightarrow> pump_input \<Rightarrow> resp_world \<Rightarrow> resp_world \<times> resp_ending option" where
  "resp_stream_step env rnd i w =
     (case i of
        ClientGone \<Rightarrow> (w, Some RespGone)
      | PingTick \<Rightarrow> (w\<lparr>rw_out := rw_out w @ [RespPing]\<rparr>, None)
      | Wake now \<Rightarrow>
          (case check_stall now (rp_watch (rw_pump w)) of
             None \<Rightarrow> (w, None)
           | Some k \<Rightarrow>
               end_resp env now (Some (stall_error k)) (w\<lparr>rw_stalls := rw_stalls w @ [k]\<rparr>))
      | Closed now \<Rightarrow> end_resp env now (unfinished_error (rp_conv (rw_pump w))) w
      | Broke now e \<Rightarrow> end_resp env now (Some (stream_error_text e)) w
      | Arrived now b \<Rightarrow>
          (case resp_bytes env (resp_handle rnd) now b w of
             (w1, done_seen) \<Rightarrow>
               if done_seen then end_resp env now (unfinished_error (rp_conv (rw_pump w1))) w1
               else (w1, None)))"

text \<open>
  Aggregation: only the good endings run the terminal bookkeeping; every ending copies the converter's
  figures into the summary, here the statistics of the pump.
\<close>

definition copy_responses_stats :: "instant \<Rightarrow> resp_pump \<Rightarrow> resp_pump" where
  "copy_responses_stats now p =
     p\<lparr>rp_stats := (resp_final_stats (rp_conv p) (rp_stats p))\<lparr>ss_duration := as_millis (now - rp_start p)\<rparr>\<rparr>"

definition aggregate_ok ::
    "pump_env \<Rightarrow> instant \<Rightarrow> resp_world \<Rightarrow> resp_world \<times> (api_error + json) option" where
  "aggregate_ok env now w =
     (case resp_pump_finish env now None (rw_pump w) (rw_shadow w) of
        ((p, sh), _) \<Rightarrow>
          (w\<lparr>rw_pump := copy_responses_stats now p, rw_shadow := sh\<rparr>,
           Some (Inr (resp_nonstream_response (rp_conv p)))))"

definition aggregate_failed ::
    "instant \<Rightarrow> nat \<Rightarrow> string \<Rightarrow> resp_world \<Rightarrow> resp_world \<times> (api_error + json) option" where
  "aggregate_failed now status text w =
     (w\<lparr>rw_pump := copy_responses_stats now (rw_pump w)\<rparr>, Some (Inl (err_upstream status text)))"

definition resp_aggregate_step ::
    "pump_env \<Rightarrow> (nat \<Rightarrow> string) \<Rightarrow> pump_input \<Rightarrow> resp_world \<Rightarrow> resp_world \<times> (api_error + json) option" where
  "resp_aggregate_step env rnd i w =
     (case i of
        ClientGone \<Rightarrow> (w, None)
      | PingTick \<Rightarrow> (w, None)
      | Wake now \<Rightarrow>
          (case check_stall now (rp_watch (rw_pump w)) of
             None \<Rightarrow> (w, None)
           | Some k \<Rightarrow>
               aggregate_failed now 504 (stall_error k) (w\<lparr>rw_stalls := rw_stalls w @ [k]\<rparr>))
      | Closed now \<Rightarrow>
          (case unfinished_error (rp_conv (rw_pump w)) of
             Some e \<Rightarrow> aggregate_failed now 502 e w
           | None \<Rightarrow> aggregate_ok env now w)
      | Broke now e \<Rightarrow> aggregate_failed now 502 (stream_error_text e) w
      | Arrived now b \<Rightarrow>
          (case resp_bytes env (agg_handle rnd) now b w of
             (w1, done_seen) \<Rightarrow> if done_seen then aggregate_ok env now w1 else (w1, None)))"

definition resp_start :: "resp_pump \<Rightarrow> shadow \<Rightarrow> resp_world" where
  "resp_start p sh = \<lparr>rw_pump = p, rw_buffer = [], rw_shadow = sh, rw_out = [], rw_stalls = []\<rparr>"

definition new_resp_pump ::
    "(nat \<Rightarrow> string) \<Rightarrow> string \<Rightarrow> bool \<Rightarrow> u64 \<Rightarrow> stream_timeouts \<Rightarrow> instant \<Rightarrow> instant \<Rightarrow> resp_pump" where
  "new_resp_pump rnd m expose created_secs t request_start now =
     \<lparr>rp_conv = new_responses_converter rnd m expose {} created_secs, rp_watch = new_watch t now,
      rp_start = request_start, rp_stats = no_stats\<rparr>"

end
