(* ===== verification/Pump_Props.thy ===== *)
theory Pump_Props
  imports Pump Anthropic_Stream_Props Responses_Items
begin

text \<open>
  Both pumps refine the specification of \<open>Sse_Lines\<close>: however the upstream bytes are cut and whenever
  they, the pings and the watchdog arrive, the client gets the frames the converter makes of the
  payloads of the whole byte string, and one proper end. The lemmas about a single ending say what is
  reported and counted.
\<close>

section \<open>The pumps as line consumers\<close>

abbreviation feed_one :: "json \<Rightarrow> converter \<Rightarrow> emitted" where
  "feed_one v s \<equiv> fst (feed_chunk v s)"

abbreviation resp_feed_one :: "(nat \<Rightarrow> string) \<Rightarrow> json \<Rightarrow> responses_converter \<Rightarrow> emission" where
  "resp_feed_one rnd v s \<equiv> fst (resp_feed_chunk rnd v s)"

interpretation anth: line_consumer pump_arrive pump_mark pump_handle sp_conv feed_one
  by unfold_locales
    (auto simp: pump_arrive_def pump_mark_def pump_handle_def Let_def split: prod.splits if_splits)

interpretation resp: line_consumer resp_arrive resp_mark "resp_handle rnd" rp_conv "resp_feed_one rnd" for rnd
  by unfold_locales
    (auto simp: resp_arrive_def resp_mark_def resp_handle_def Let_def split: prod.splits if_splits)

section \<open>Runs of the Anthropic pump\<close>

fun arrived :: "pump_input list \<Rightarrow> string" where
  "arrived [] = []"
| "arrived (Arrived now b # is) = b @ arrived is"
| "arrived (_ # is) = arrived is"

lemma arrived_append: "arrived (is @ js) = arrived is @ arrived js"
  by (induction "is" rule: arrived.induct) simp_all

text \<open>A property of the bytes that arrived, kept by every step until the run ends.\<close>

lemma run_steps_arrived:
  assumes step: "\<And>i w w' r sofar. P sofar w \<Longrightarrow> step i w = (w', r) \<Longrightarrow>
      (case r of None \<Rightarrow> P (sofar @ arrived [i]) w' | Some e \<Rightarrow> Q (sofar @ arrived [i]) w' e)"
    and "P sofar w" "run_steps step is w = (w', Some e)"
  shows "\<exists>used rest. is = used @ rest \<and> Q (sofar @ arrived used) w' e"
  using assms(2,3)
proof (induction "is" arbitrary: w sofar)
  case Nil
  then show ?case by simp
next
  case (Cons i "is")
  obtain w1 r where st: "step i w = (w1, r)" by fastforce
  note one = step [OF Cons.prems(1) st]
  show ?case
  proof (cases r)
    case None
    then have "run_steps step is w1 = (w', Some e)" "P (sofar @ arrived [i]) w1"
      using Cons.prems(2) st one by simp_all
    from Cons.IH [OF this(2,1)] obtain used rest where
      "is = used @ rest" "Q ((sofar @ arrived [i]) @ arrived used) w' e" by blast
    moreover have "sofar @ arrived (i # used) = (sofar @ arrived [i]) @ arrived used"
      using arrived_append [of "[i]" used] by simp
    ultimately have "i # is = (i # used) @ rest \<and> Q (sofar @ arrived (i # used)) w' e" by simp
    then show ?thesis by blast
  next
    case (Some v)
    with Cons.prems(2) st one have "i # is = [i] @ is \<and> Q (sofar @ arrived [i]) w' e" by simp
    then show ?thesis by blast
  qed
qed

definition events_of :: "out_frame list \<Rightarrow> event list" where
  "events_of fs = List.map_filter (\<lambda>f. case f of Ev e \<Rightarrow> Some e | _ \<Rightarrow> None) fs"

definition errors_of :: "out_frame list \<Rightarrow> string list" where
  "errors_of fs = List.map_filter (\<lambda>f. case f of ErrorFrame m \<Rightarrow> Some m | _ \<Rightarrow> None) fs"

lemma frames_simps [simp]:
  "events_of (fs @ gs) = events_of fs @ events_of gs" "errors_of (fs @ gs) = errors_of fs @ errors_of gs"
  "events_of (map Ev es) = es" "errors_of (map Ev es) = []" "events_of [] = []" "errors_of [] = []"
  "events_of [PingFrame] = []" "errors_of [PingFrame] = []"
  "events_of (ErrorFrame m # fs) = events_of fs" "errors_of (ErrorFrame m # fs) = m # errors_of fs"
  by (simp_all add: events_of_def errors_of_def List.map_filter_def comp_def)

text \<open>The state after the bytes \<open>sofar\<close>, before any ending.\<close>

definition pumping :: "codec \<Rightarrow> converter \<Rightarrow> string \<Rightarrow> pump_world \<Rightarrow> bool" where
  "pumping c s0 sofar w \<longleftrightarrow>
     consumed c feed_one s0 sofar (pw_buffer w) (sp_conv (pw_pump w)) (events_of (pw_out w))
     \<and> errors_of (pw_out w) = []"

text \<open>How a pump ended that had fed the payloads \<open>vs\<close> to its converter.\<close>

definition ended_with :: "codec \<Rightarrow> converter \<Rightarrow> json list \<Rightarrow> pump_world \<Rightarrow> ending \<Rightarrow> json \<Rightarrow> bool" where
  "ended_with c s0 vs w how v \<longleftrightarrow>
     (let s = fst (feed_chunks vs s0); final = fst (finish s)
      in events_of (pw_out w) = snd (then_emit (feed_chunks vs s0) finish)
         \<and> sp_conv (pw_pump w) = final \<and> v = nonstream_response c final
         \<and> length (errors_of (pw_out w)) = (if finish_reason s = None then 1 else 0)
         \<and> (finish_reason s = None \<longrightarrow> how = DoneSeen \<or> ending_error how = Some (last (errors_of (pw_out w)))))"

lemma end_pump_ends:
  assumes "end_pump env now error how w = (w', r)" "errors_of (pw_out w) = []"
    and "emit_all feed_one vs s0 = (sp_conv (pw_pump w), events_of (pw_out w))"
    and "finish_reason (sp_conv (pw_pump w)) = None \<longrightarrow> how = DoneSeen \<or> (ending_error how = error \<and> error \<noteq> None)"
  shows "\<exists>v. r = Some (how, v) \<and> ended_with (pe_codec env) s0 vs w' how v"
  using assms
  by (auto simp: end_pump_def pump_finish_def ended_with_def feed_chunks_def then_emit_def Let_def
      split: prod.splits)

lemma step_arrived:
  assumes "pumping (pe_codec env) s0 sofar w" "pump_step env (Arrived now b) w = (w', r)"
  shows "case r of
      None \<Rightarrow> pumping (pe_codec env) s0 (sofar @ b) w'
    | Some (how, v) \<Rightarrow>
        how = DoneSeen \<and> snd (payloads (pe_codec env) (sofar @ b))
        \<and> ended_with (pe_codec env) s0 (fst (payloads (pe_codec env) (sofar @ b))) w' how v"
proof -
  let ?c = "pe_codec env"
  obtain p es buf d where dr: "drain ?c pump_mark (pump_handle now) (pw_buffer w @ b)
      (pump_arrive now (pw_pump w)) = ((p, es), buf, d)" by (metis surj_pair)
  let ?w = "w\<lparr>pw_pump := p, pw_buffer := buf, pw_out := pw_out w @ map Ev es\<rparr>"
  have st: "pump_step env (Arrived now b) w = (if d then end_pump env now None DoneSeen ?w else (?w, None))"
    using dr by (simp add: pump_step_def on_bytes_def Let_def)
  have cons: "consumed ?c feed_one s0 sofar (pw_buffer w) (sp_conv (pw_pump w)) (events_of (pw_out w))"
    and no: "errors_of (pw_out w) = []" using assms(1) by (simp_all add: pumping_def)
  note step = anth.consumed_step [OF cons dr]
  show ?thesis
  proof (cases d)
    case True
    with step have fed: "snd (payloads ?c (sofar @ b))"
      "emit_all feed_one (fst (payloads ?c (sofar @ b))) s0 = (sp_conv (pw_pump ?w), events_of (pw_out ?w))"
      by simp_all
    from True st assms(2) have e: "end_pump env now None DoneSeen ?w = (w', r)" by simp
    from end_pump_ends [OF e _ fed(2)] no fed(1) show ?thesis by auto
  next
    case False
    with step st assms(2) no show ?thesis by (auto simp: pumping_def)
  qed
qed

lemma step_other:
  assumes "pumping (pe_codec env) s0 sofar w" "pump_step env i w = (w', r)" "\<nexists>now b. i = Arrived now b"
  shows "case r of
      None \<Rightarrow> pumping (pe_codec env) s0 sofar w'
    | Some (how, v) \<Rightarrow>
        how = Disconnected
        \<or> ended_with (pe_codec env) s0 (fst (payloads (pe_codec env) sofar)) w' how v"
proof -
  have cons: "consumed (pe_codec env) feed_one s0 sofar (pw_buffer w) (sp_conv (pw_pump w)) (events_of (pw_out w))"
    and no: "errors_of (pw_out w) = []" using assms(1) by (simp_all add: pumping_def)
  from consumed_payloads [OF cons] have fed:
    "emit_all feed_one (fst (payloads (pe_codec env) sofar)) s0 = (sp_conv (pw_pump w), events_of (pw_out w))"
    by simp
  note ends = end_pump_ends [of env _ _ _ _ w' r "fst (payloads (pe_codec env) sofar)" s0]
  show ?thesis
  proof (cases i)
    case (Wake now)
    with assms(1,2) fed no show ?thesis
      by (cases "check_stall now (sp_watch (pw_pump w))")
        (auto simp: pump_step_def pumping_def dest!: ends)
  next
    case (Broke now e)
    with assms(1,2) fed no show ?thesis by (auto simp: pump_step_def dest!: ends)
  next
    case (Closed now)
    with assms(1,2) fed no show ?thesis by (auto simp: pump_step_def Let_def dest!: ends split: if_splits)
  qed (use assms in \<open>auto simp: pump_step_def pumping_def\<close>)
qed

lemma step_reads:
  assumes "pumping (pe_codec env) s0 sofar w" "pump_step env i w = (w', r)"
  shows "case r of
      None \<Rightarrow> pumping (pe_codec env) s0 (sofar @ arrived [i]) w'
    | Some (how, v) \<Rightarrow>
        how \<noteq> Disconnected \<longrightarrow> ended_with (pe_codec env) s0 (fst (payloads (pe_codec env) (sofar @ arrived [i]))) w' how v"
proof (cases "\<exists>now b. i = Arrived now b")
  case True
  then obtain now b where i: "i = Arrived now b" by blast
  show ?thesis using step_arrived [OF assms(1) assms(2) [unfolded i]] by (auto simp: i split: option.splits)
next
  case False
  then have "arrived [i] = []" by (cases i) auto
  with step_other [OF assms False] show ?thesis by (auto split: option.splits)
qed

lemma run_ends:
  assumes "pumping (pe_codec env) s0 sofar w" "pump_run env is w = (w', Some (how, v))" "how \<noteq> Disconnected"
  shows "\<exists>used rest. is = used @ rest
           \<and> ended_with (pe_codec env) s0 (fst (payloads (pe_codec env) (sofar @ arrived used))) w' how v"
  using run_steps_arrived [where Q = "\<lambda>sofar w' (how, v). how \<noteq> Disconnected \<longrightarrow>
      ended_with (pe_codec env) s0 (fst (payloads (pe_codec env) sofar)) w' how v",
      OF step_reads assms(1) assms(2) [unfolded pump_run_def]] assms(3)
  by simp

lemma pumping_start: "pumping c (new_converter random expose) [] (start_world (new_pump random expose t start now) sh)"
  using consumed_start by (simp add: pumping_def start_world_def new_pump_def)

section \<open>Runs of the Responses pump\<close>

definition frames_of :: "resp_out list \<Rightarrow> frame list" where
  "frames_of fs = List.map_filter (\<lambda>f. case f of RespFrame e \<Rightarrow> Some e | _ \<Rightarrow> None) fs"

lemma resp_frames_simps [simp]:
  "frames_of (fs @ gs) = frames_of fs @ frames_of gs" "frames_of (map RespFrame es) = es" "frames_of [] = []"
  "frames_of [RespPing] = []"
  by (simp_all add: frames_of_def List.map_filter_def comp_def)

definition resp_pumping ::
    "(nat \<Rightarrow> string) \<Rightarrow> codec \<Rightarrow> responses_converter \<Rightarrow> string \<Rightarrow> resp_world \<Rightarrow> bool" where
  "resp_pumping rnd c s0 sofar w \<longleftrightarrow>
     consumed c (resp_feed_one rnd) s0 sofar (rw_buffer w) (rp_conv (rw_pump w)) (frames_of (rw_out w))"

definition resp_ended_with ::
    "(nat \<Rightarrow> string) \<Rightarrow> responses_converter \<Rightarrow> json list \<Rightarrow> resp_world \<Rightarrow> string option \<Rightarrow> bool" where
  "resp_ended_with rnd s0 vs w error \<longleftrightarrow>
     frames_of (rw_out w) = snd (then_emit (resp_feed_chunks rnd vs s0) (resp_finish error))
     \<and> (error = None \<longrightarrow> resp_finish_reason (fst (resp_feed_chunks rnd vs s0)) \<noteq> None)"

lemma end_resp_ends:
  assumes "end_resp env now error w = (w', r)"
    and "emit_all (resp_feed_one rnd) vs s0 = (rp_conv (rw_pump w), frames_of (rw_out w))"
    and "error = None \<longrightarrow> resp_finish_reason (rp_conv (rw_pump w)) \<noteq> None"
  shows "r = Some (RespEnded error) \<and> resp_ended_with rnd s0 vs w' error"
  using assms
  by (auto simp: end_resp_def resp_pump_finish_def resp_ended_with_def resp_feed_chunks_def then_emit_def
      split: prod.splits)

lemma unfinished_None [simp]: "unfinished_error s = None \<longleftrightarrow> resp_finish_reason s \<noteq> None"
  by (simp add: unfinished_error_def)

lemma resp_step:
  assumes "resp_pumping rnd (pe_codec env) s0 sofar w" "resp_stream_step env rnd i w = (w', r)"
  shows "case r of
      None \<Rightarrow> resp_pumping rnd (pe_codec env) s0 (sofar @ arrived [i]) w'
    | Some (RespEnded error) \<Rightarrow>
        resp_ended_with rnd s0 (fst (payloads (pe_codec env) (sofar @ arrived [i]))) w' error
    | Some RespGone \<Rightarrow> i = ClientGone"
proof -
  let ?c = "pe_codec env"
  have cons: "consumed ?c (resp_feed_one rnd) s0 sofar (rw_buffer w) (rp_conv (rw_pump w)) (frames_of (rw_out w))"
    using assms(1) by (simp add: resp_pumping_def)
  from consumed_payloads [OF cons] have fed:
    "emit_all (resp_feed_one rnd) (fst (payloads ?c sofar)) s0 = (rp_conv (rw_pump w), frames_of (rw_out w))"
    by simp
  note ends = end_resp_ends [of env _ _ _ w' r rnd "fst (payloads ?c sofar)" s0]
  show ?thesis
  proof (cases i)
    case (Wake now)
    with assms(1,2) fed show ?thesis
      by (cases "check_stall now (rp_watch (rw_pump w))")
        (auto simp: resp_stream_step_def resp_pumping_def dest!: ends)
  next
    case (Broke now e)
    with assms(1,2) fed show ?thesis by (auto simp: resp_stream_step_def dest!: ends)
  next
    case (Closed now)
    with assms(1,2) fed show ?thesis by (auto simp: resp_stream_step_def dest!: ends)
  next
    case (Arrived now b)
    obtain p fs buf d where dr: "drain ?c resp_mark (resp_handle rnd now) (rw_buffer w @ b)
        (resp_arrive now (rw_pump w)) = ((p, fs), buf, d)" by (metis surj_pair)
    note step = resp.consumed_step [OF cons dr]
    let ?w = "w\<lparr>rw_pump := p, rw_buffer := buf, rw_out := rw_out w @ map RespFrame fs\<rparr>"
    have st: "resp_stream_step env rnd i w = (if d then end_resp env now (unfinished_error (rp_conv p)) ?w else (?w, None))"
      using dr Arrived by (simp add: resp_stream_step_def resp_bytes_def)
    show ?thesis
    proof (cases d)
      case True
      with st assms(2) have e: "end_resp env now (unfinished_error (rp_conv p)) ?w = (w', r)" by simp
      from end_resp_ends [OF e, of rnd "fst (payloads ?c (sofar @ b))" s0] step True show ?thesis
        by (simp add: Arrived)
    next
      case False
      with st step assms(2) show ?thesis by (auto simp: Arrived resp_pumping_def)
    qed
  qed (use assms in \<open>auto simp: resp_stream_step_def resp_pumping_def\<close>)
qed

lemma resp_run_ends:
  assumes "resp_pumping rnd (pe_codec env) s0 sofar w"
    and "run_steps (resp_stream_step env rnd) is w = (w', Some (RespEnded error))"
  shows "\<exists>used rest. is = used @ rest
           \<and> resp_ended_with rnd s0 (fst (payloads (pe_codec env) (sofar @ arrived used))) w' error"
proof -
  let ?Q = "\<lambda>sofar w' e. case e of RespGone \<Rightarrow> True
      | RespEnded error \<Rightarrow> resp_ended_with rnd s0 (fst (payloads (pe_codec env) sofar)) w' error"
  have "case r of None \<Rightarrow> resp_pumping rnd (pe_codec env) s0 (sofar @ arrived [i]) w' | Some e \<Rightarrow> ?Q (sofar @ arrived [i]) w' e"
    if "resp_pumping rnd (pe_codec env) s0 sofar w" "resp_stream_step env rnd i w = (w', r)" for i w w' r sofar
    using resp_step [OF that] by (auto split: option.splits resp_ending.splits)
  from run_steps_arrived [of "resp_pumping rnd (pe_codec env) s0" _ ?Q, OF this assms] show ?thesis by simp
qed

section \<open>Runs of the Responses aggregation\<close>

interpretation gathering: line_consumer resp_arrive resp_mark "agg_handle rnd" rp_conv "resp_feed_one rnd" for rnd
  by unfold_locales
    (auto simp: resp_arrive_def resp_mark_def agg_handle_def Let_def split: prod.splits if_splits)

definition gathered :: "(nat \<Rightarrow> string) \<Rightarrow> responses_converter \<Rightarrow> json list \<Rightarrow> json" where
  "gathered rnd s0 vs = resp_nonstream_response (fst (then_emit (resp_feed_chunks rnd vs s0) (resp_finish None)))"

lemma aggregate_ok_gathers:
  assumes "aggregate_ok env now w = (w', r)" "emit_all (resp_feed_one rnd) vs s0 = (rp_conv (rw_pump w), fs)"
  shows "r = Some (Inr (gathered rnd s0 vs))"
  using assms by (auto simp: aggregate_ok_def resp_pump_finish_def gathered_def resp_feed_chunks_def then_emit_def
      split: prod.splits)

lemma resp_aggregate_reads:
  assumes "resp_pumping rnd (pe_codec env) s0 sofar w" "resp_aggregate_step env rnd i w = (w', r)"
  shows "case r of
      None \<Rightarrow> resp_pumping rnd (pe_codec env) s0 (sofar @ arrived [i]) w'
    | Some (Inl e) \<Rightarrow> True
    | Some (Inr v) \<Rightarrow> v = gathered rnd s0 (fst (payloads (pe_codec env) (sofar @ arrived [i])))"
proof -
  let ?c = "pe_codec env"
  have cons: "consumed ?c (resp_feed_one rnd) s0 sofar (rw_buffer w) (rp_conv (rw_pump w)) (frames_of (rw_out w))"
    using assms(1) by (simp add: resp_pumping_def)
  from consumed_payloads [OF cons] have fed:
    "emit_all (resp_feed_one rnd) (fst (payloads ?c sofar)) s0 = (rp_conv (rw_pump w), frames_of (rw_out w))"
    by simp
  show ?thesis
  proof (cases i)
    case (Arrived now b)
    obtain p fs buf d where dr: "drain ?c resp_mark (agg_handle rnd now) (rw_buffer w @ b)
        (resp_arrive now (rw_pump w)) = ((p, fs), buf, d)" by (metis surj_pair)
    note step = gathering.consumed_step [OF cons dr]
    let ?w = "w\<lparr>rw_pump := p, rw_buffer := buf, rw_out := rw_out w @ map RespFrame fs\<rparr>"
    have st: "resp_aggregate_step env rnd i w = (if d then aggregate_ok env now ?w else (?w, None))"
      using dr Arrived by (simp add: resp_aggregate_step_def resp_bytes_def)
    show ?thesis
    proof (cases d)
      case True
      with st assms(2) have "aggregate_ok env now ?w = (w', r)" by simp
      from aggregate_ok_gathers [OF this, of rnd "fst (payloads ?c (sofar @ b))" s0] step True
      show ?thesis by (simp add: Arrived)
    next
      case False
      with st step assms(2) show ?thesis by (auto simp: Arrived resp_pumping_def)
    qed
  next
    case (Closed now)
    with assms(2) show ?thesis
      by (auto simp: resp_aggregate_step_def aggregate_failed_def split: option.splits
          dest!: aggregate_ok_gathers [OF _ fed])
  qed (use assms in \<open>auto simp: resp_aggregate_step_def aggregate_failed_def resp_pumping_def split: option.splits\<close>)
qed

lemma resp_aggregate_run:
  assumes "resp_pumping rnd (pe_codec env) s0 [] w"
    and "run_steps (resp_aggregate_step env rnd) is w = (w', Some (Inr v))"
  shows "\<exists>used rest. is = used @ rest \<and> v = gathered rnd s0 (fst (payloads (pe_codec env) (arrived used)))"
proof -
  let ?Q = "\<lambda>sofar (w' :: resp_world) r. case r of Inl (e :: api_error) \<Rightarrow> True
      | Inr v \<Rightarrow> v = gathered rnd s0 (fst (payloads (pe_codec env) sofar))"
  have "case r of None \<Rightarrow> resp_pumping rnd (pe_codec env) s0 (sofar @ arrived [i]) w' | Some e \<Rightarrow> ?Q (sofar @ arrived [i]) w' e"
    if "resp_pumping rnd (pe_codec env) s0 sofar w" "resp_aggregate_step env rnd i w = (w', r)" for i w w' r sofar
    using resp_aggregate_reads [OF that] by (auto split: option.splits sum.splits)
  from run_steps_arrived [of "resp_pumping rnd (pe_codec env) s0" _ ?Q, OF this assms] show ?thesis by simp
qed

lemma resp_pumping_start:
  "resp_pumping rnd c (new_responses_converter rnd m expose {} created_secs) []
     (resp_start (new_resp_pump rnd m expose created_secs t start now) sh)"
  using consumed_start by (simp add: resp_pumping_def resp_start_def new_resp_pump_def)

section \<open>A concrete run\<close>

text \<open>Used only by the witnesses: a codec that knows one chunk, and a stream of it.\<close>

definition hello_chunk :: json where
  "hello_chunk = JObj [(''choices'', JArr [JObj [(''delta'', JObj [(''content'', JStr ''hi'')]),
                                            (''finish_reason'', JStr ''stop'')]])]"

definition demo_env :: pump_env where
  "demo_env =
     \<lparr>pe_codec = sample_codec\<lparr>from_text := (\<lambda>s. if s = ''X'' then Some hello_chunk else None)\<rparr>,
      pe_hash = (\<lambda>_. 0), pe_shadow_limits = default_limits, pe_session = None\<rparr>"

definition no_timeouts :: stream_timeouts where
  "no_timeouts = \<lparr>first_event = 0, first_semantic = 0, stream_idle = 0, semantic_idle = 0\<rparr>"

definition demo_world :: pump_world where
  "demo_world = start_world (new_pump ''1'' False no_timeouts 0 0) new_shadow"

definition demo_inputs :: "pump_input list" where
  "demo_inputs = [Arrived 1 ''data:'', PingTick, Arrived 2 (''X'' @ [LF] @ ''data: [DO''), Arrived 3 (''NE]'' @ [LF])]"

lemmas line_eval = split_line_def classify_line_def trim_ascii_def is_blank_byte_def
  MAX_SSE_LINE_BYTES_def strip_prefix_def starts_with_def

lemma demo_codec: "from_text (pe_codec demo_env) ''X'' = Some hello_chunk"
  by (simp add: demo_env_def)

lemma demo_payloads: "payloads (pe_codec demo_env) (arrived demo_inputs) = ([hello_chunk], True)"
  by (simp add: demo_inputs_def demo_codec payloads.simps line_eval)


section \<open>Properties\<close>





text \<open>A truncated stream is reported: the client gets exactly one error event when the upstream never
  gave a finish reason and none otherwise; its text is the error the summary records, unless the
  stream ended with \<open>[DONE]\<close>.\<close>

theorem truncated_stream_is_reported:
  assumes "pump_run env is (start_world (new_pump random expose t start now) sh) = (w', Some (how, v))"
    and "how \<noteq> Disconnected"
  shows "\<exists>used rest. is = used @ rest \<and>
    (let vs = fst (payloads (pe_codec env) (arrived used));
         reason = finish_reason (fst (feed_chunks vs (new_converter random expose)))
     in length (errors_of (pw_out w')) = (if reason = None then 1 else 0)
        \<and> (reason = None \<longrightarrow> how = DoneSeen \<or> ending_error how = Some (last (errors_of (pw_out w')))))"
  using run_ends [OF pumping_start assms] unfolding ended_with_def Let_def by auto

theorem truncated_stream_is_reported_witness:
  "\<exists>w' v. pump_run demo_env [Arrived 1 ''data:'', Closed 2] demo_world = (w', Some (EndOfStream (Some STREAM_ENDED), v))
     \<and> length (errors_of (pw_out w')) \<le> 1"
proof -
  have "\<exists>w' v. pump_run demo_env [Arrived 1 ''data:'', Closed 2] demo_world
      = (w', Some (EndOfStream (Some STREAM_ENDED), v))"
    by (simp add: pump_run_def pump_step_def on_bytes_def drain_eval line_eval demo_world_def
        start_world_def new_pump_def new_converter_def pump_arrive_def end_pump_def Let_def split: prod.splits)
  then obtain w' v where run: "pump_run demo_env [Arrived 1 ''data:'', Closed 2] demo_world
      = (w', Some (EndOfStream (Some STREAM_ENDED), v))" by blast
  from truncated_stream_is_reported [OF run [unfolded demo_world_def]] run show ?thesis
    by (auto simp: Let_def split: if_splits)
qed

text \<open>A \<open>[DONE]\<close> without any answer counts as success: the Anthropic pump sends the client an error
  event but records status 200 and hands the aggregating caller a message; on the same bytes the
  Responses pump reports a failure while the Responses aggregation returns an object.\<close>

theorem done_without_answer_counts_as_success:
  "let done_bytes = ''data: [DONE]'' @ [LF];
       rw = resp_start (new_resp_pump rnd m expose created_secs t start now) sh
   in (\<exists>w' v. pump_run env [Arrived now done_bytes] (start_world (new_pump random expose t start now) sh)
          = (w', Some (DoneSeen, v))
        \<and> errors_of (pw_out w') = [STREAM_ENDED] \<and> summary_status DoneSeen = 200
        \<and> aggregate_result DoneSeen v = Some (Inr v))
    \<and> (\<exists>rw'. run_steps (resp_stream_step env rnd) [Arrived now done_bytes] rw = (rw', Some (RespEnded (Some STREAM_ENDED))))
    \<and> (\<exists>rw' v. run_steps (resp_aggregate_step env rnd) [Arrived now done_bytes] rw = (rw', Some (Inr v)))"
  unfolding Let_def
proof (intro conjI)
  let ?b = "''data: [DONE]'' @ [LF]"
  have line: "split_line ?b = Some (''data: [DONE]'', [])" "classify_line c ''data: [DONE]'' = DoneLine" for c
    by (simp_all add: line_eval)
  note dr = drain_eval(4) [OF line]
  show "\<exists>w' v. pump_run env [Arrived now ?b] (start_world (new_pump random expose t start now) sh)
          = (w', Some (DoneSeen, v))
        \<and> errors_of (pw_out w') = [STREAM_ENDED] \<and> summary_status DoneSeen = 200
        \<and> aggregate_result DoneSeen v = Some (Inr v)"
    by (simp add: pump_run_def pump_step_def on_bytes_def start_world_def new_pump_def pump_arrive_def
        pump_mark_def dr [simplified] end_pump_def pump_finish_def summary_status_def Let_def new_converter_def
        split: prod.splits)
  show "\<exists>rw'. run_steps (resp_stream_step env rnd) [Arrived now ?b]
      (resp_start (new_resp_pump rnd m expose created_secs t start now) sh) = (rw', Some (RespEnded (Some STREAM_ENDED)))"
    by (simp add: resp_stream_step_def resp_bytes_def resp_start_def new_resp_pump_def resp_arrive_def
        resp_mark_def dr [simplified] end_resp_def unfinished_error_def new_responses_converter_def
        split: prod.splits)
  show "\<exists>rw' v. run_steps (resp_aggregate_step env rnd) [Arrived now ?b]
      (resp_start (new_resp_pump rnd m expose created_secs t start now) sh) = (rw', Some (Inr v))"
    by (simp add: resp_aggregate_step_def resp_bytes_def resp_start_def dr [simplified] aggregate_ok_def
        split: prod.splits)
qed

text \<open>The Responses pump refines the same specification: the frames are those of the payloads of all
  bytes that arrived followed by the terminal ones, and no error is reported only when the upstream
  gave a finish reason.\<close>

theorem responses_pump_refines_payloads:
  assumes "run_steps (resp_stream_step env rnd) is
      (resp_start (new_resp_pump rnd m expose created_secs t start now) sh) = (w', Some (RespEnded error))"
  shows "\<exists>used rest. is = used @ rest \<and>
    (let vs = fst (payloads (pe_codec env) (arrived used));
         s0 = new_responses_converter rnd m expose {} created_secs
     in frames_of (rw_out w') = snd (then_emit (resp_feed_chunks rnd vs s0) (resp_finish error))
        \<and> (error = None \<longrightarrow> resp_finish_reason (fst (resp_feed_chunks rnd vs s0)) \<noteq> None))"
proof -
  note start = resp_pumping_start [of rnd "pe_codec env" m expose created_secs t start now sh]
  show ?thesis
    using resp_run_ends [OF start assms] unfolding resp_ended_with_def Let_def by simp
qed

theorem responses_pump_refines_payloads_witness:
  "\<exists>w' used rest. run_steps (resp_stream_step demo_env (\<lambda>_. ''0'')) [Arrived 1 ''data:'', Closed 2]
       (resp_start (new_resp_pump (\<lambda>_. ''0'') ''m'' False 0 no_timeouts 0 0) new_shadow) = (w', Some (RespEnded (Some STREAM_ENDED)))
     \<and> [Arrived 1 ''data:'', Closed 2] = used @ rest
     \<and> frames_of (rw_out w') = snd (then_emit (resp_feed_chunks (\<lambda>_. ''0'') (fst (payloads (pe_codec demo_env) (arrived used)))
           (new_responses_converter (\<lambda>_. ''0'') ''m'' False {} 0)) (resp_finish (Some STREAM_ENDED)))"
proof -
  let ?rnd = "\<lambda>_ :: nat. ''0''"
  let ?start = "resp_start (new_resp_pump ?rnd ''m'' False 0 no_timeouts 0 0) new_shadow"
  have "\<exists>w'. run_steps (resp_stream_step demo_env ?rnd) [Arrived 1 ''data:'', Closed 2] ?start
      = (w', Some (RespEnded (Some STREAM_ENDED)))"
    by (simp add: resp_stream_step_def resp_bytes_def drain_eval line_eval resp_start_def new_resp_pump_def
        resp_arrive_def end_resp_def unfinished_error_def new_responses_converter_def split: prod.splits)
  then obtain w' where run: "run_steps (resp_stream_step demo_env ?rnd) [Arrived 1 ''data:'', Closed 2] ?start
      = (w', Some (RespEnded (Some STREAM_ENDED)))" by blast
  from responses_pump_refines_payloads [OF run] run show ?thesis unfolding Let_def by simp
qed

end
