(* ===== verification/Session.thy ===== *)
theory Session
  imports Policy Text
begin

text \<open>
  Session identity (\<open>src/session.rs\<close> and \<open>extract_responses_session\<close> of
  \<open>src/server/orchestrator.rs\<close>): where the raw session id of a request comes from, its fingerprint, and
  the upstream conversation id.

  HMAC-SHA256 is a parameter, a function of key and message. Headers are a list of name and bytes, names in
  lower case, as the HTTP library hands them over.
\<close>

section \<open>Headers\<close>

type_synonym header_list = "(string \<times> string) list"

text \<open>\<open>HeaderValue::to_str\<close>: only visible ASCII and tabs.\<close>

definition visible_ascii :: "char \<Rightarrow> bool" where
  "visible_ascii b \<longleftrightarrow> (32 \<le> (of_char b :: nat) \<and> (of_char b :: nat) < 127) \<or> b = CHR 0x09"

definition header_str :: "header_list \<Rightarrow> string \<Rightarrow> string option" where
  "header_str headers name = filter_opt (list_all visible_ascii) (map_of headers name)"

section \<open>Anthropic sessions\<close>

definition MAX_CLIENT_SESSION_BYTES :: nat where
  "MAX_CLIENT_SESSION_BYTES = 512"

datatype session_source =
  AnthropicMetadataUser | AnthropicMetadataSession | SessionAffinityHeader | SessionIdHeader

fun source_name :: "session_source \<Rightarrow> string" where
  "source_name AnthropicMetadataUser = ''anthropic_metadata_user''"
| "source_name AnthropicMetadataSession = ''anthropic_metadata_session''"
| "source_name SessionAffinityHeader = ''session_affinity_header''"
| "source_name SessionIdHeader = ''session_id_header''"

record resolved_session =
  rs_fingerprint :: string
  rs_source :: session_source

definition valid_session_hint :: "string \<Rightarrow> string option" where
  "valid_session_hint v = (if v \<noteq> [] \<and> length v \<le> MAX_CLIENT_SESSION_BYTES then Some v else None)"

definition metadata_session :: "json \<Rightarrow> string \<Rightarrow> string option" where
  "metadata_session request field =
     Option.bind (Option.bind (get ''metadata'' request) as_object) (\<lambda>metadata.
     Option.bind (Option.bind (mget metadata field) as_str) valid_session_hint)"

definition header_session :: "header_list \<Rightarrow> string \<Rightarrow> string option" where
  "header_session headers name = Option.bind (header_str headers name) valid_session_hint"

text \<open>The bytes that go into the HMAC, and the sixteen hexadecimal digits that come out.\<close>

definition fingerprint_input :: "string \<Rightarrow> string \<Rightarrow> string" where
  "fingerprint_input domain raw_id = domain @ [CHR 0x00] @ raw_id"

definition fingerprint_domain ::
    "(string \<Rightarrow> string \<Rightarrow> string) \<Rightarrow> string \<Rightarrow> string \<Rightarrow> string \<Rightarrow> string" where
  "fingerprint_domain hmac secret domain raw_id =
     take 16 (to_hex (hmac secret (fingerprint_input domain raw_id)))"

definition SESSION_DOMAIN :: string where
  "SESSION_DOMAIN = ''lobsterai-proxy/session/v1''"

definition RESPONSES_DOMAIN :: string where
  "RESPONSES_DOMAIN = ''responses/v1''"

definition fingerprint :: "(string \<Rightarrow> string \<Rightarrow> string) \<Rightarrow> string \<Rightarrow> string \<Rightarrow> string" where
  "fingerprint hmac secret raw_id = fingerprint_domain hmac secret SESSION_DOMAIN raw_id"

definition resolve_anthropic_session ::
    "(string \<Rightarrow> string \<Rightarrow> string) \<Rightarrow> string \<Rightarrow> header_list \<Rightarrow> json \<Rightarrow> resolved_session option" where
  "resolve_anthropic_session hmac secret headers request =
     map_option (\<lambda>(raw, source). \<lparr>rs_fingerprint = fingerprint hmac secret raw, rs_source = source\<rparr>)
       (or_else (map_option (\<lambda>raw. (raw, AnthropicMetadataUser)) (metadata_session request ''user_id''))
       (or_else (map_option (\<lambda>raw. (raw, AnthropicMetadataSession)) (metadata_session request ''session_id''))
       (or_else (map_option (\<lambda>raw. (raw, SessionAffinityHeader)) (header_session headers ''x-session-affinity''))
         (map_option (\<lambda>raw. (raw, SessionIdHeader)) (header_session headers ''x-session-id'')))))"

section \<open>Responses sessions\<close>

definition grok_header :: "header_list \<Rightarrow> string \<Rightarrow> string option" where
  "grok_header headers name = non_empty (map_option trim (header_str headers name))"

definition responses_metadata_session :: "json \<Rightarrow> string option" where
  "responses_metadata_session request =
     Option.bind (Option.bind (get ''metadata'' request) as_object) (\<lambda>metadata.
       non_empty (or_else (mstr metadata ''session_id'') (mstr metadata ''user_id'')))"

definition extract_responses_session :: "json \<Rightarrow> header_list \<Rightarrow> string option" where
  "extract_responses_session request headers =
     or_else (non_empty (get_str ''prompt_cache_key'' request))
       (or_else (or_else (grok_header headers ''x-grok-conv-id'') (grok_header headers ''x-grok-session-id''))
         (responses_metadata_session request))"

section \<open>Conversation ids\<close>

text \<open>Sixteen bytes with the version and variant bits set, as five groups of hexadecimal digits.\<close>

definition stamp_version :: "char \<Rightarrow> char" where
  "stamp_version b = char_of (unat (or (and (of_char b :: 8 word) 0x0F) 0x40))"

definition stamp_variant :: "char \<Rightarrow> char" where
  "stamp_variant b = char_of (unat (or (and (of_char b :: 8 word) 0x3F) 0x80))"

definition format_uuid :: "string \<Rightarrow> string" where
  "format_uuid bytes =
     (let stamped = bytes[6 := stamp_version (bytes ! 6), 8 := stamp_variant (bytes ! 8)];
          hex = to_hex stamped
      in take 8 hex @ ''-'' @ take 4 (drop 8 hex) @ ''-'' @ take 4 (drop 12 hex) @ ''-''
           @ take 4 (drop 16 hex) @ ''-'' @ take 12 (drop 20 hex))"

text \<open>\<open>random\<close> stands for the 32 random bytes used when there is no session.\<close>

definition conversation_id ::
    "(string \<Rightarrow> string \<Rightarrow> string) \<Rightarrow> string \<Rightarrow> string \<Rightarrow> string option \<Rightarrow> string" where
  "conversation_id hmac secret random session_fp =
     format_uuid (take 16
       (case session_fp of
          Some fp \<Rightarrow> hmac secret (fingerprint_input ''lobsterai-proxy/conversation/v1'' fp)
        | None \<Rightarrow> random))"

definition random_hex :: "string \<Rightarrow> string" where
  "random_hex bytes = to_hex bytes"

definition new_request_id :: "string \<Rightarrow> string" where
  "new_request_id bytes = ''req_'' @ random_hex bytes"

section \<open>Priority of the sources\<close>

text \<open>The sources in the order of the resolver, and the hint each of them holds.\<close>

definition source_rank :: "session_source \<Rightarrow> nat" where
  "source_rank s =
     (case s of
        AnthropicMetadataUser \<Rightarrow> 0
      | AnthropicMetadataSession \<Rightarrow> 1
      | SessionAffinityHeader \<Rightarrow> 2
      | SessionIdHeader \<Rightarrow> 3)"

instantiation session_source :: linorder
begin

definition less_eq_session_source :: "session_source \<Rightarrow> session_source \<Rightarrow> bool" where
  "less_eq_session_source s t \<longleftrightarrow> source_rank s \<le> source_rank t"

definition less_session_source :: "session_source \<Rightarrow> session_source \<Rightarrow> bool" where
  "less_session_source s t \<longleftrightarrow> source_rank s < source_rank t"

instance
  by standard
    (auto simp: less_eq_session_source_def less_session_source_def source_rank_def
       split: session_source.splits)

end

fun source_hint :: "header_list \<Rightarrow> json \<Rightarrow> session_source \<Rightarrow> string option" where
  "source_hint headers request AnthropicMetadataUser = metadata_session request ''user_id''"
| "source_hint headers request AnthropicMetadataSession = metadata_session request ''session_id''"
| "source_hint headers request SessionAffinityHeader = header_session headers ''x-session-affinity''"
| "source_hint headers request SessionIdHeader = header_session headers ''x-session-id''"

lemma hint_valid:
  assumes "source_hint headers request s = Some raw"
  shows "raw \<noteq> [] \<and> length raw \<le> MAX_CLIENT_SESSION_BYTES"
  using assms
  by (cases s) (auto simp: metadata_session_def header_session_def valid_session_hint_def
      split: option.splits if_splits bind_splits)

text \<open>The resolver takes the hint of the first source that has a valid one.\<close>

lemma resolve_cases:
  "resolve_anthropic_session hmac secret headers request
     = (case List.find (\<lambda>s. source_hint headers request s \<noteq> None)
               [AnthropicMetadataUser, AnthropicMetadataSession, SessionAffinityHeader, SessionIdHeader] of
          None \<Rightarrow> None
        | Some s \<Rightarrow>
            Some \<lparr>rs_fingerprint = fingerprint hmac secret (the (source_hint headers request s)), rs_source = s\<rparr>)"
  by (auto simp: resolve_anthropic_session_def or_else_def split: option.splits)

section \<open>Hexadecimal digits\<close>

lemma hex_digit_eq:
  assumes "a < 16" "b < 16"
  shows "hex_digit a = hex_digit b \<longleftrightarrow> a = b"
proof -
  have "distinct ''0123456789abcdef''" "length ''0123456789abcdef'' = 16" by simp_all
  with assms show ?thesis unfolding hex_digit_def by (metis nth_eq_iff_index_eq)
qed

lemma hex_byte_eq: "hex_byte a = hex_byte b \<longleftrightarrow> a = b"
proof -
  have lt: "(of_char c :: nat) < 256" for c by (rule nat_of_char_less_256)
  then have "of_char c div 16 < (16 :: nat)" for c by (simp add: less_mult_imp_div_less)
  moreover have "of_char a = (of_char b :: nat)"
    if "of_char a div 16 = (of_char b div 16 :: nat)" "of_char a mod 16 = (of_char b mod 16 :: nat)"
    using that by (metis div_mult_mod_eq)
  ultimately show ?thesis by (auto simp: hex_byte_def hex_digit_eq)
qed

lemma length_hex_byte [simp]: "length (hex_byte b) = 2"
  by (simp add: hex_byte_def)

lemma hex_byte_not_Nil [simp]: "hex_byte b \<noteq> []"
  by (simp add: hex_byte_def)

lemma to_hex_simps [simp]: "to_hex [] = []" "to_hex (b # bs) = hex_byte b @ to_hex bs"
  by (simp_all add: to_hex_def)

lemma length_to_hex [simp]: "length (to_hex bs) = 2 * length bs"
  by (induction bs) simp_all

lemma to_hex_append [simp]: "to_hex (as @ bs) = to_hex as @ to_hex bs"
  by (induction as) simp_all

lemma to_hex_eq: "to_hex as = to_hex bs \<longleftrightarrow> as = bs"
proof (induction as arbitrary: bs)
  case Nil
  show ?case by (cases bs) simp_all
next
  case (Cons a as)
  then show ?case by (cases bs) (simp_all add: hex_byte_eq append_eq_append_conv)
qed

lemma take_to_hex: "take (2 * n) (to_hex bs) = to_hex (take n bs)"
proof (cases "n \<le> length bs")
  case True
  have "to_hex bs = to_hex (take n bs) @ to_hex (drop n bs)"
    by (simp flip: to_hex_append)
  with True show ?thesis by simp
next
  case False
  then show ?thesis by simp
qed

lemma take16_to_hex: "take 16 (to_hex bs) = to_hex (take 8 bs)"
  using take_to_hex [of 8 bs] by simp

lemma set_to_hex: "set (to_hex bs) \<subseteq> set ''0123456789abcdef''"
proof -
  have "hex_digit n \<in> set ''0123456789abcdef''" if "n < 16" for n
    unfolding hex_digit_def using that by (intro nth_mem) simp
  moreover have "(of_char c :: nat) div 16 < 16" for c :: char
    using nat_of_char_less_256 [of c] by (simp add: less_mult_imp_div_less)
  ultimately show ?thesis by (induction bs) (auto simp: hex_byte_def)
qed

end
