(* ===== verification/Session_Props.thy ===== *)
theory Session_Props
  imports Session
begin

text \<open>
  Properties of the session identity: the priority and bound of the client's hints, the separation of
  the frontends' fingerprints, and the shape of conversation ids.
\<close>

section \<open>Domains\<close>




section \<open>Groups of a conversation id\<close>

text \<open>The hexadecimal digits of the stamped bytes.\<close>

lemma high_digit: "unat (w :: 8 word) div 16 = unat (drop_bit 4 w)"
  by (simp only: unat_drop_bit_eq) (simp add: drop_bit_eq_div)

lemma small_word:
  fixes v :: "8 word"
  assumes "unat v \<le> 3"
  shows "v \<in> {0, 1, 2, 3}"
proof -
  define n where "n = unat v"
  have "v = of_nat n" by (simp add: n_def)
  moreover have "n = 0 \<or> n = 1 \<or> n = 2 \<or> n = 3" using assms unfolding n_def by linarith
  ultimately show ?thesis by auto
qed

lemma version_digit: "unat (or (and (of_char b :: 8 word) 0x0F) 0x40) div 16 = 4"
  unfolding high_digit by simp

lemma variant_digit: "unat (or (and (of_char b :: 8 word) 0x3F) 0x80) div 16 \<in> {8, 9, 10, 11}"
proof -
  let ?v = "and (drop_bit 4 (of_char b :: 8 word)) 3"
  have "?v \<le> 3" by (rule word_and_le1)
  then have "unat ?v \<le> 3" by (simp add: word_le_nat_alt)
  then have "?v \<in> {0, 1, 2, 3}" by (rule small_word)
  moreover have "drop_bit 4 (or (and (of_char b :: 8 word) 0x3F) 0x80) = or ?v 8" by simp
  ultimately show ?thesis unfolding high_digit by auto
qed

lemma of_char_of_word: "of_char (char_of (unat (w :: 8 word))) = (unat w :: nat)"
proof -
  have "unat w < 256" using unsigned_less [of w, where 'a = nat] by simp
  then show ?thesis by simp
qed

definition uuid_shape :: "string \<Rightarrow> bool" where
  "uuid_shape s \<longleftrightarrow>
     length s = 36 \<and> set s \<subseteq> set ''0123456789abcdef-''
     \<and> map (\<lambda>b. b = CHR ''-'') s
         = concat (map (\<lambda>n. replicate n False @ [True]) [8, 4, 4, 4]) @ replicate 12 False
     \<and> s ! 14 = CHR ''4'' \<and> s ! 19 \<in> set ''89ab''"

lemma hex_byte_digits: "\<exists>a b. hex_byte c = [a, b] \<and> a \<in> set ''0123456789abcdef'' \<and> b \<in> set ''0123456789abcdef''"
  using set_to_hex [of "[c]"] by (simp add: hex_byte_def)

lemma stamp_version_hex: "\<exists>d. hex_byte (stamp_version b) = [CHR ''4'', d]"
  unfolding hex_byte_def stamp_version_def of_char_of_word version_digit by (simp add: hex_digit_def)

lemma stamp_variant_hex: "\<exists>a d. hex_byte (stamp_variant b) = [a, d] \<and> a \<in> set ''89ab''"
  using variant_digit [of b] unfolding hex_byte_def stamp_variant_def of_char_of_word
  by (elim insertE) (simp_all add: hex_digit_def)

lemma format_uuid_shape:
  assumes "length bytes = 16"
  shows "uuid_shape (format_uuid bytes)"
proof -
  from assms obtain b0 b1 b2 b3 b4 b5 b6 b7 b8 b9 b10 b11 b12 b13 b14 b15 where
    bytes: "bytes = [b0, b1, b2, b3, b4, b5, b6, b7, b8, b9, b10, b11, b12, b13, b14, b15]"
    by (auto simp: numeral_eq_Suc length_Suc_conv)
  define hi lo where "hi c = hex_digit (of_char c div 16)" and "lo c = hex_digit (of_char c mod 16)" for c
  have digits: "hex_byte c = [hi c, lo c]" for c by (simp add: hex_byte_def hi_def lo_def)
  obtain d where version: "hex_byte (stamp_version b6) = [CHR ''4'', d]" using stamp_version_hex by blast
  obtain a e where variant: "hex_byte (stamp_variant b8) = [a, e]" and a: "a \<in> set ''89ab''"
    using stamp_variant_hex by blast
  define hex_set where "hex_set = set ''0123456789abcdef''"
  have sets: "hi c \<in> hex_set" "lo c \<in> hex_set" for c
    using hex_byte_digits [of c] by (auto simp: digits hex_set_def)
  have more: "d \<in> hex_set" "a \<in> hex_set" "e \<in> hex_set"
    using hex_byte_digits [of "stamp_version b6"] hex_byte_digits [of "stamp_variant b8"]
    by (auto simp: version variant hex_set_def)
  have "x \<noteq> CHR ''-''" if "x \<in> hex_set" for x using that by (auto simp: hex_set_def)
  with sets more have dash: "hi c \<noteq> CHR ''-''" "lo c \<noteq> CHR ''-''" "d \<noteq> CHR ''-''" "a \<noteq> CHR ''-''" "e \<noteq> CHR ''-''"
    for c by blast+
  have shown: "format_uuid bytes =
      [hi b0, lo b0, hi b1, lo b1, hi b2, lo b2, hi b3, lo b3, CHR ''-'', hi b4, lo b4, hi b5, lo b5, CHR ''-'',
       CHR ''4'', d, hi b7, lo b7, CHR ''-'', a, e, hi b9, lo b9, CHR ''-'', hi b10, lo b10, hi b11, lo b11,
       hi b12, lo b12, hi b13, lo b13, hi b14, lo b14, hi b15, lo b15]"
    using version variant by (simp add: format_uuid_def bytes Let_def digits)
  have dashes: "map (\<lambda>b. b = CHR ''-'') (format_uuid bytes)
      = concat (map (\<lambda>n. replicate n False @ [True]) [8, 4, 4, 4]) @ replicate 12 False"
    unfolding shown by (simp add: dash numeral_eq_Suc)
  define shape_set where "shape_set = set ''0123456789abcdef-''"
  have "hex_set \<subseteq> shape_set" by (simp add: hex_set_def shape_set_def)
  with sets more have "hi c \<in> shape_set" "lo c \<in> shape_set" "d \<in> shape_set" "a \<in> shape_set" "e \<in> shape_set"
    for c by blast+
  moreover have "CHR ''-'' \<in> shape_set" "CHR ''4'' \<in> shape_set" by (simp_all add: shape_set_def)
  ultimately have "set (format_uuid bytes) \<subseteq> shape_set"
    unfolding shown by simp
  with dashes a show ?thesis unfolding uuid_shape_def shape_set_def by (simp add: shown)
qed

section \<open>Properties\<close>

text \<open>The session of an Anthropic request is the hint of the first source that has a valid one, in the
  order metadata user, metadata session, affinity header, session id header; a hint is never empty and
  never longer than the bound, and there is no session only when no source has a valid hint.\<close>

theorem session_takes_first_valid_source:
  "case resolve_anthropic_session hmac secret headers request of
     None \<Rightarrow> \<forall>s. source_hint headers request s = None
   | Some r \<Rightarrow>
       (\<exists>raw. source_hint headers request (rs_source r) = Some raw
          \<and> rs_fingerprint r = fingerprint hmac secret raw
          \<and> raw \<noteq> [] \<and> length raw \<le> MAX_CLIENT_SESSION_BYTES)
       \<and> rs_source r = Min {s. source_hint headers request s \<noteq> None}"
proof -
  let ?valid = "\<lambda>s. source_hint headers request s \<noteq> None"
  let ?order = "[AnthropicMetadataUser, AnthropicMetadataSession, SessionAffinityHeader, SessionIdHeader]"
  have all: "s \<in> set ?order" for s by (cases s) simp_all
  have fin: "finite {s. ?valid s}" by (rule finite_subset [OF _ finite_set [of ?order]]) (use all in auto)
  have least: "s = Min {s. ?valid s}" if "List.find ?valid ?order = Some s" for s
  proof (rule Min_eqI [OF fin, symmetric])
    show "s \<in> {s. ?valid s}" using that unfolding find_Some_iff by blast
    show "s \<le> t" if "t \<in> {s. ?valid s}" for t
      using that \<open>List.find ?valid ?order = Some s\<close>
      by (cases t) (auto simp: less_eq_session_source_def source_rank_def split: if_splits)
  qed
  show ?thesis
  proof (cases "List.find ?valid ?order")
    case None
    then have "\<forall>s \<in> set ?order. \<not> ?valid s" by (simp only: find_None_iff) blast
    with all have "\<forall>s. \<not> ?valid s" by blast
    with None show ?thesis by (simp only: resolve_cases option.case) simp
  next
    case (Some s)
    then have "?valid s" unfolding find_Some_iff by blast
    with hint_valid obtain raw where "source_hint headers request s = Some raw"
      "raw \<noteq> []" "length raw \<le> MAX_CLIENT_SESSION_BYTES" by fastforce
    with least [OF Some] Some show ?thesis by (simp only: resolve_cases option.case) simp
  qed
qed



text \<open>Every conversation id has the shape of a version 4 UUID of the RFC variant, whatever the
  session, the secret and the random bytes.\<close>

theorem conversation_id_is_a_uuid:
  assumes "\<forall>m. length (hmac secret m) = 32" "length random = 32"
  shows "uuid_shape (conversation_id hmac secret random session_fp)"
  unfolding conversation_id_def
  by (rule format_uuid_shape) (use assms in \<open>simp split: option.split\<close>)

theorem conversation_id_is_a_uuid_witness:
  "uuid_shape (conversation_id (\<lambda>k m. replicate 32 CHR ''x'') [] (replicate 32 CHR 0xFF) None)"
  by (rule conversation_id_is_a_uuid) simp_all

end
