(* ===== verification/Metrics.thy ===== *)
theory Metrics
  imports Upstream Pump
begin

text \<open>
  Counters, gauges and histograms (\<open>src/observability.rs\<close>) and the text document of \<open>GET /metrics\<close>.

  A counter is a 64-bit word that wraps as \<open>fetch_add\<close> does; the in-flight gauges are signed 64-bit
  words. The bounds of the histogram are kept in milliseconds: a whole number of milliseconds divided by
  1000 in \<open>f64\<close> compares with the literal bound exactly as the integers do. The decimal rendering of the
  sum in seconds is a parameter.
\<close>

section \<open>Histograms\<close>

definition HISTOGRAM_BUCKETS_MS :: "nat list" where
  "HISTOGRAM_BUCKETS_MS = [5, 10, 25, 50, 100, 250, 500, 1000, 2500, 5000, 10000]"

record histogram =
  h_buckets :: "u64 list"
  h_sum_micros :: u64
  h_count :: u64

definition new_histogram :: histogram where
  "new_histogram =
     \<lparr>h_buckets = replicate (length HISTOGRAM_BUCKETS_MS) 0, h_sum_micros = 0, h_count = 0\<rparr>"

text \<open>The index of the first bound that is not below the observation.\<close>

fun bucket_index :: "nat \<Rightarrow> nat list \<Rightarrow> nat" where
  "bucket_index ms [] = 0"
| "bucket_index ms (bound # bounds) = (if ms \<le> bound then 0 else Suc (bucket_index ms bounds))"

definition observe_ms :: "nat \<Rightarrow> histogram \<Rightarrow> histogram" where
  "observe_ms ms h =
     (let i = bucket_index ms HISTOGRAM_BUCKETS_MS
      in h\<lparr>h_buckets := (if i < length (h_buckets h) then (h_buckets h)[i := h_buckets h ! i + 1]
                        else h_buckets h),
          h_sum_micros := h_sum_micros h + of_nat (min (ms * 1000) (2 ^ 64 - 1)),
          h_count := h_count h + 1\<rparr>)"

fun running_sums :: "u64 \<Rightarrow> u64 list \<Rightarrow> u64 list" where
  "running_sums running [] = []"
| "running_sums running (b # bs) = (running + b) # running_sums (running + b) bs"

definition bucket_counts :: "histogram \<Rightarrow> u64 list" where
  "bucket_counts h = running_sums 0 (h_buckets h)"

section \<open>The metrics\<close>

record proxy_metrics =
  m_requests_total :: u64
  m_requests_stream :: u64
  m_requests_ok :: u64
  m_requests_error :: u64
  m_upstream_401 :: u64
  m_upstream_403 :: u64
  m_upstream_429 :: u64
  m_upstream_5xx :: u64
  m_upstream_200_error :: u64
  m_web_search_tool_calls :: u64
  m_web_search_errors :: u64
  m_server_tool_rounds :: u64
  m_mixed_tool_rounds :: u64
  m_pause_turn_events :: u64
  m_count_tokens_requests :: u64
  m_model_discovery_requests :: u64
  m_transport_errors :: u64
  m_refresh_success :: u64
  m_refresh_failure :: u64
  m_failovers :: u64
  m_bytes_in :: u64
  m_bytes_out :: u64
  m_input_tokens_total :: u64
  m_output_tokens_total :: u64
  m_cached_tokens_total :: u64
  m_requests_in_flight :: u64
  m_streams_in_flight :: u64
  m_stream_stalls :: "u64 list"
  m_request_duration :: histogram
  m_ttft :: histogram
  m_first_reasoning :: histogram
  m_first_text :: histogram
  m_first_tool :: histogram

definition new_metrics :: proxy_metrics where
  "new_metrics =
     \<lparr>m_requests_total = 0, m_requests_stream = 0, m_requests_ok = 0, m_requests_error = 0,
      m_upstream_401 = 0, m_upstream_403 = 0, m_upstream_429 = 0, m_upstream_5xx = 0,
      m_upstream_200_error = 0, m_web_search_tool_calls = 0, m_web_search_errors = 0,
      m_server_tool_rounds = 0, m_mixed_tool_rounds = 0, m_pause_turn_events = 0,
      m_count_tokens_requests = 0, m_model_discovery_requests = 0, m_transport_errors = 0,
      m_refresh_success = 0, m_refresh_failure = 0, m_failovers = 0, m_bytes_in = 0,
      m_bytes_out = 0, m_input_tokens_total = 0, m_output_tokens_total = 0,
      m_cached_tokens_total = 0, m_requests_in_flight = 0, m_streams_in_flight = 0,
      m_stream_stalls = [0, 0, 0, 0], m_request_duration = new_histogram,
      m_ttft = new_histogram, m_first_reasoning = new_histogram, m_first_text = new_histogram,
      m_first_tool = new_histogram\<rparr>"

section \<open>Recording\<close>

definition record_request :: "bool \<Rightarrow> proxy_metrics \<Rightarrow> proxy_metrics" where
  "record_request stream m =
     m\<lparr>m_requests_total := m_requests_total m + 1,
       m_requests_stream := m_requests_stream m + (if stream then 1 else 0)\<rparr>"

definition record_ok :: "proxy_metrics \<Rightarrow> proxy_metrics" where
  "record_ok m = m\<lparr>m_requests_ok := m_requests_ok m + 1\<rparr>"

definition record_error :: "proxy_metrics \<Rightarrow> proxy_metrics" where
  "record_error m = m\<lparr>m_requests_error := m_requests_error m + 1\<rparr>"

definition record_upstream_401 :: "proxy_metrics \<Rightarrow> proxy_metrics" where
  "record_upstream_401 m = m\<lparr>m_upstream_401 := m_upstream_401 m + 1\<rparr>"

definition record_upstream_403 :: "proxy_metrics \<Rightarrow> proxy_metrics" where
  "record_upstream_403 m = m\<lparr>m_upstream_403 := m_upstream_403 m + 1\<rparr>"

definition record_upstream_429 :: "proxy_metrics \<Rightarrow> proxy_metrics" where
  "record_upstream_429 m = m\<lparr>m_upstream_429 := m_upstream_429 m + 1\<rparr>"

definition record_upstream_200_error :: "proxy_metrics \<Rightarrow> proxy_metrics" where
  "record_upstream_200_error m = m\<lparr>m_upstream_200_error := m_upstream_200_error m + 1\<rparr>"

definition record_upstream_5xx :: "proxy_metrics \<Rightarrow> proxy_metrics" where
  "record_upstream_5xx m = m\<lparr>m_upstream_5xx := m_upstream_5xx m + 1\<rparr>"

definition record_transport_error :: "proxy_metrics \<Rightarrow> proxy_metrics" where
  "record_transport_error m = m\<lparr>m_transport_errors := m_transport_errors m + 1\<rparr>"

definition record_refresh :: "bool \<Rightarrow> proxy_metrics \<Rightarrow> proxy_metrics" where
  "record_refresh success m =
     (if success then m\<lparr>m_refresh_success := m_refresh_success m + 1\<rparr>
      else m\<lparr>m_refresh_failure := m_refresh_failure m + 1\<rparr>)"

definition record_web_search :: "proxy_metrics \<Rightarrow> proxy_metrics" where
  "record_web_search m = m\<lparr>m_web_search_tool_calls := m_web_search_tool_calls m + 1\<rparr>"

definition record_web_search_error :: "proxy_metrics \<Rightarrow> proxy_metrics" where
  "record_web_search_error m = m\<lparr>m_web_search_errors := m_web_search_errors m + 1\<rparr>"

definition record_server_tool_round :: "proxy_metrics \<Rightarrow> proxy_metrics" where
  "record_server_tool_round m = m\<lparr>m_server_tool_rounds := m_server_tool_rounds m + 1\<rparr>"

definition record_mixed_tool_round :: "proxy_metrics \<Rightarrow> proxy_metrics" where
  "record_mixed_tool_round m = m\<lparr>m_mixed_tool_rounds := m_mixed_tool_rounds m + 1\<rparr>"

definition record_pause_turn :: "proxy_metrics \<Rightarrow> proxy_metrics" where
  "record_pause_turn m = m\<lparr>m_pause_turn_events := m_pause_turn_events m + 1\<rparr>"

definition record_count_tokens :: "proxy_metrics \<Rightarrow> proxy_metrics" where
  "record_count_tokens m = m\<lparr>m_count_tokens_requests := m_count_tokens_requests m + 1\<rparr>"

definition record_model_discovery :: "proxy_metrics \<Rightarrow> proxy_metrics" where
  "record_model_discovery m = m\<lparr>m_model_discovery_requests := m_model_discovery_requests m + 1\<rparr>"

definition record_failover :: "nat \<Rightarrow> proxy_metrics \<Rightarrow> proxy_metrics" where
  "record_failover n m = m\<lparr>m_failovers := m_failovers m + of_nat n\<rparr>"

definition record_bytes_in :: "u64 \<Rightarrow> proxy_metrics \<Rightarrow> proxy_metrics" where
  "record_bytes_in n m = m\<lparr>m_bytes_in := m_bytes_in m + n\<rparr>"

definition record_bytes_out :: "u64 \<Rightarrow> proxy_metrics \<Rightarrow> proxy_metrics" where
  "record_bytes_out n m = m\<lparr>m_bytes_out := m_bytes_out m + n\<rparr>"

definition stall_slot :: "stall_kind \<Rightarrow> nat" where
  "stall_slot k = (case k of FirstEvent \<Rightarrow> 0 | FirstSemantic \<Rightarrow> 1 | StreamIdle \<Rightarrow> 2 | SemanticIdle \<Rightarrow> 3)"

definition record_stream_stall :: "stall_kind \<Rightarrow> proxy_metrics \<Rightarrow> proxy_metrics" where
  "record_stream_stall k m =
     m\<lparr>m_stream_stalls := (m_stream_stalls m)[stall_slot k := m_stream_stalls m ! stall_slot k + 1]\<rparr>"

definition record_tokens :: "u64 option \<Rightarrow> u64 option \<Rightarrow> u64 option \<Rightarrow> proxy_metrics \<Rightarrow> proxy_metrics" where
  "record_tokens input output cached m =
     m\<lparr>m_input_tokens_total := m_input_tokens_total m + unwrap_or 0 input,
       m_output_tokens_total := m_output_tokens_total m + unwrap_or 0 output,
       m_cached_tokens_total := m_cached_tokens_total m + unwrap_or 0 cached\<rparr>"

definition observe_some :: "nat option \<Rightarrow> histogram \<Rightarrow> histogram" where
  "observe_some ms h = (case ms of None \<Rightarrow> h | Some t \<Rightarrow> observe_ms t h)"

text \<open>The latencies of a summary are those of the statistics it was made from.\<close>

definition record_latencies :: "nat \<Rightarrow> stream_stats \<Rightarrow> proxy_metrics \<Rightarrow> proxy_metrics" where
  "record_latencies duration_ms st m =
     m\<lparr>m_request_duration := observe_ms duration_ms (m_request_duration m),
       m_ttft := observe_some (ss_ttft st) (m_ttft m),
       m_first_reasoning := observe_some (ss_first_reasoning st) (m_first_reasoning m),
       m_first_text := observe_some (ss_first_text st) (m_first_text m),
       m_first_tool := observe_some (ss_first_tool st) (m_first_tool m)\<rparr>"

text \<open>What the generation call records.\<close>

fun record_metric :: "metric \<Rightarrow> proxy_metrics \<Rightarrow> proxy_metrics" where
  "record_metric TransportError m = record_transport_error m"
| "record_metric Upstream200Error m = record_upstream_200_error m"
| "record_metric Upstream401 m = record_upstream_401 m"
| "record_metric (TokenRefresh ok) m = record_refresh ok m"
| "record_metric Upstream429 m = record_upstream_429 m"
| "record_metric Upstream403 m = record_upstream_403 m"
| "record_metric Upstream5xx m = record_upstream_5xx m"

text \<open>The guard of a request in flight: what its creation and its drop do.\<close>

definition guard_new :: "bool \<Rightarrow> proxy_metrics \<Rightarrow> proxy_metrics" where
  "guard_new stream m =
     m\<lparr>m_requests_in_flight := m_requests_in_flight m + 1,
       m_streams_in_flight := m_streams_in_flight m + (if stream then 1 else 0)\<rparr>"

definition guard_drop :: "bool \<Rightarrow> proxy_metrics \<Rightarrow> proxy_metrics" where
  "guard_drop stream m =
     m\<lparr>m_requests_in_flight := m_requests_in_flight m - 1,
       m_streams_in_flight := m_streams_in_flight m - (if stream then 1 else 0)\<rparr>"

section \<open>The snapshot of the admin status\<close>

definition json_i64 :: "u64 \<Rightarrow> json" where
  "json_i64 w = JNum (if 0 \<le> sint w then PosInt w else NegInt (sint w))"

definition metrics_snapshot :: "proxy_metrics \<Rightarrow> json" where
  "metrics_snapshot m =
     JObj [(''requests_total'', JNum (PosInt (m_requests_total m))),
           (''requests_stream'', JNum (PosInt (m_requests_stream m))),
           (''requests_ok'', JNum (PosInt (m_requests_ok m))),
           (''requests_error'', JNum (PosInt (m_requests_error m))),
           (''requests_in_flight'', json_i64 (m_requests_in_flight m)),
           (''streams_in_flight'', json_i64 (m_streams_in_flight m)),
           (''upstream_401'', JNum (PosInt (m_upstream_401 m))),
           (''upstream_403'', JNum (PosInt (m_upstream_403 m))),
           (''upstream_429'', JNum (PosInt (m_upstream_429 m))),
           (''upstream_5xx'', JNum (PosInt (m_upstream_5xx m))),
           (''transport_errors'', JNum (PosInt (m_transport_errors m))),
           (''token_refreshes'', JNum (PosInt (m_refresh_success m))),
           (''refresh_failures'', JNum (PosInt (m_refresh_failure m))),
           (''credential_failovers'', JNum (PosInt (m_failovers m))),
           (''input_tokens_total'', JNum (PosInt (m_input_tokens_total m))),
           (''output_tokens_total'', JNum (PosInt (m_output_tokens_total m))),
           (''cached_tokens_total'', JNum (PosInt (m_cached_tokens_total m))),
           (''bytes_in'', JNum (PosInt (m_bytes_in m))),
           (''bytes_out'', JNum (PosInt (m_bytes_out m)))]"

section \<open>The text document\<close>

definition QUOTE :: char where
  "QUOTE = CHR 0x22"

definition BACKSLASH :: char where
  "BACKSLASH = CHR 0x5C"

definition STALL_KINDS :: "string list" where
  "STALL_KINDS = [''first_event'', ''first_semantic'', ''stream_idle'', ''semantic_idle'']"

definition help_type :: "string \<Rightarrow> string \<Rightarrow> string \<Rightarrow> string" where
  "help_type name help kind =
     ''# HELP '' @ name @ '' '' @ help @ [LF] @ ''# TYPE '' @ name @ '' '' @ kind @ [LF]"

definition plain_line :: "string \<Rightarrow> string \<Rightarrow> string" where
  "plain_line name v = name @ '' '' @ v @ [LF]"

definition counter :: "string \<Rightarrow> string \<Rightarrow> u64 \<Rightarrow> string" where
  "counter name help v = help_type name help ''counter'' @ plain_line name (show_nat (unat v))"

definition gauge :: "string \<Rightarrow> string \<Rightarrow> u64 \<Rightarrow> string" where
  "gauge name help v = help_type name help ''gauge'' @ plain_line name (show_int (sint v))"

text \<open>A sample with one label.\<close>

definition sample_line :: "string \<Rightarrow> string \<Rightarrow> string \<Rightarrow> string \<Rightarrow> string" where
  "sample_line name key label v =
     name @ ''{'' @ key @ ''='' @ [QUOTE] @ label @ [QUOTE] @ ''} '' @ v @ [LF]"

definition bucket_bounds :: "string list" where
  "bucket_bounds =
     [''0.005'', ''0.01'', ''0.025'', ''0.05'', ''0.1'', ''0.25'', ''0.5'', ''1'', ''2.5'', ''5'', ''10'']"

definition histogram_text :: "(u64 \<Rightarrow> string) \<Rightarrow> string \<Rightarrow> string \<Rightarrow> histogram \<Rightarrow> string" where
  "histogram_text fmt name help h =
     help_type name help ''histogram''
     @ concat (map2 (\<lambda>bound n. sample_line (name @ ''_bucket'') ''le'' bound (show_nat (unat n)))
                bucket_bounds (bucket_counts h))
     @ sample_line (name @ ''_bucket'') ''le'' ''+Inf'' (show_nat (unat (h_count h)))
     @ plain_line (name @ ''_sum'') (fmt (h_sum_micros h))
     @ plain_line (name @ ''_count'') (show_nat (unat (h_count h)))"

definition escape_label :: "string \<Rightarrow> string" where
  "escape_label v =
     concat (map (\<lambda>b. if b = BACKSLASH then [BACKSLASH, BACKSLASH] else if b = QUOTE then [BACKSLASH, QUOTE]
                       else if b = LF then [BACKSLASH, CHR ''n''] else [b]) v)"

record scrape_gauges =
  sg_credentials_healthy :: u64
  sg_credentials_cooling :: u64
  sg_reasoning_shadow_entries :: u64

definition pool_gauges :: "instant \<Rightarrow> pool \<Rightarrow> u64 \<times> u64" where
  "pool_gauges now p =
     (let entries = snapshot now [] p;
          healthy = length (filter (\<lambda>e. unwrap_or False (Option.bind (get ''healthy'' e) as_bool)) entries)
      in (of_nat healthy, of_nat (length entries - healthy)))"

definition render_process :: "string \<Rightarrow> nat \<Rightarrow> string" where
  "render_process version uptime_secs =
     help_type ''lobsterai_proxy_info''
           ''Static build information (always 1).'' ''gauge''
       @ sample_line ''lobsterai_proxy_info'' ''version'' (escape_label version) ''1''
       @ help_type ''lobsterai_proxy_uptime_seconds''
           ''Seconds since this process started.'' ''gauge''
       @ plain_line ''lobsterai_proxy_uptime_seconds'' (show_nat uptime_secs)"

definition render_requests :: "proxy_metrics \<Rightarrow> string" where
  "render_requests m =
     counter ''lobsterai_proxy_requests_total''
           ''Accepted POST /v1/messages requests.''
           (m_requests_total m)
       @ counter ''lobsterai_proxy_requests_stream_total''
           ''Accepted requests that requested client-side streaming.''
           (m_requests_stream m)
       @ counter ''lobsterai_proxy_requests_ok_total''
           ''Requests answered successfully (upstream HTTP 200 accepted).''
           (m_requests_ok m)
       @ counter ''lobsterai_proxy_requests_error_total''
           ''Requests that failed locally or upstream.''
           (m_requests_error m)
       @ gauge ''lobsterai_proxy_requests_in_flight''
           ''Requests currently being served (accepted, response not yet complete).''
           (m_requests_in_flight m)
       @ gauge ''lobsterai_proxy_streams_in_flight''
           ''Requests currently being served on the streaming path.''
           (m_streams_in_flight m)"

definition render_upstream :: "proxy_metrics \<Rightarrow> string" where
  "render_upstream m =
     counter ''lobsterai_proxy_upstream_401_total''
           ''Upstream HTTP 401 responses observed.''
           (m_upstream_401 m)
       @ counter ''lobsterai_proxy_upstream_403_total''
           ''Upstream HTTP 403 responses observed.''
           (m_upstream_403 m)
       @ counter ''lobsterai_proxy_upstream_429_total''
           ''Upstream HTTP 429 responses observed.''
           (m_upstream_429 m)
       @ counter ''lobsterai_proxy_upstream_5xx_total''
           ''Upstream HTTP 5xx responses observed.''
           (m_upstream_5xx m)
       @ counter ''lobsterai_proxy_transport_errors_total''
           ''Upstream connection/transport failures before any response.''
           (m_transport_errors m)
       @ counter ''lobsterai_proxy_upstream_200_error_total''
           ''HTTP 200 responses whose stream opened with an event:error frame.''
           (m_upstream_200_error m)"

definition render_tool_rounds :: "proxy_metrics \<Rightarrow> string" where
  "render_tool_rounds m =
     counter ''lobsterai_proxy_web_search_tool_calls_total''
           ''Server-side web searches executed for web_search server-tool rounds.''
           (m_web_search_tool_calls m)
       @ counter ''lobsterai_proxy_web_search_errors_total''
           ''Server-side web searches that failed (reported to the model as errors).''
           (m_web_search_errors m)
       @ counter ''lobsterai_proxy_server_tool_rounds_total''
           ''Upstream rounds fully executed server-side (continued upstream).''
           (m_server_tool_rounds m)
       @ counter ''lobsterai_proxy_mixed_tool_rounds_total''
           ''Upstream rounds mixing server and client tools (server part executed).''
           (m_mixed_tool_rounds m)
       @ counter ''lobsterai_proxy_pause_turn_events_total''
           ''Responses ended with stop_reason pause_turn for client resumption.''
           (m_pause_turn_events m)
       @ counter ''lobsterai_proxy_count_tokens_requests_total''
           ''Token-count requests served.''
           (m_count_tokens_requests m)
       @ counter ''lobsterai_proxy_model_discovery_requests_total''
           ''Model discovery (/v1/models) requests served.''
           (m_model_discovery_requests m)"

definition render_credentials :: "proxy_metrics \<Rightarrow> scrape_gauges \<Rightarrow> string" where
  "render_credentials m g =
     help_type ''lobsterai_proxy_refresh_total''
           ''Access-token refresh attempts by result.'' ''counter''
       @ sample_line ''lobsterai_proxy_refresh_total'' ''result'' ''success'' (show_nat (unat (m_refresh_success m)))
       @ sample_line ''lobsterai_proxy_refresh_total'' ''result'' ''failure'' (show_nat (unat (m_refresh_failure m)))
       @ counter ''lobsterai_proxy_failover_total''
           ''Credential failovers performed after a confirmed upstream 429.''
           (m_failovers m)
       @ gauge ''lobsterai_proxy_credentials_healthy''
           ''Credentials currently usable (not cooling, file present).''
           (sg_credentials_healthy g)
       @ gauge ''lobsterai_proxy_credentials_cooling''
           ''Credentials currently in cooldown.''
           (sg_credentials_cooling g)"

definition render_stalls :: "proxy_metrics \<Rightarrow> string" where
  "render_stalls m =
     help_type ''lobsterai_proxy_stream_stall_total''
           ''Upstream streams abandoned by the stall watchdog, by kind.'' ''counter''
       @ concat (map2 (\<lambda>kind n. sample_line ''lobsterai_proxy_stream_stall_total'' ''kind'' kind (show_nat (unat n)))
           STALL_KINDS (m_stream_stalls m))"

definition render_usage :: "proxy_metrics \<Rightarrow> scrape_gauges \<Rightarrow> string" where
  "render_usage m g =
     counter ''lobsterai_proxy_input_tokens_total''
           ''Input tokens reported by upstream usage frames.''
           (m_input_tokens_total m)
       @ counter ''lobsterai_proxy_output_tokens_total''
           ''Output tokens reported by upstream usage frames.''
           (m_output_tokens_total m)
       @ counter ''lobsterai_proxy_cached_tokens_total''
           ''Prompt-cache read tokens reported by upstream usage frames.''
           (m_cached_tokens_total m)
       @ counter ''lobsterai_proxy_request_bytes_total''
           ''Request body bytes accepted.''
           (m_bytes_in m)
       @ counter ''lobsterai_proxy_response_bytes_total''
           ''Generated reasoning/text/tool bytes sent downstream.''
           (m_bytes_out m)
       @ gauge ''lobsterai_proxy_reasoning_shadow_entries''
           ''Shadowed reasoning entries currently held in memory.''
           (sg_reasoning_shadow_entries g)"

definition render_latencies :: "(u64 \<Rightarrow> string) \<Rightarrow> proxy_metrics \<Rightarrow> string" where
  "render_latencies fmt m =
     histogram_text fmt ''lobsterai_proxy_request_duration_seconds''
           ''End-to-end request duration in seconds.''
           (m_request_duration m)
       @ histogram_text fmt ''lobsterai_proxy_ttft_seconds''
           ''Time to first semantic output (reasoning/text/tool) in seconds.''
           (m_ttft m)
       @ histogram_text fmt ''lobsterai_proxy_first_reasoning_seconds''
           ''Time to first reasoning delta in seconds (observed streams only).''
           (m_first_reasoning m)
       @ histogram_text fmt ''lobsterai_proxy_first_text_seconds''
           ''Time to first visible text delta in seconds (observed streams only).''
           (m_first_text m)
       @ histogram_text fmt ''lobsterai_proxy_first_tool_seconds''
           ''Time to first tool-call delta in seconds (observed streams only).''
           (m_first_tool m)"

definition render_metrics ::
    "(u64 \<Rightarrow> string) \<Rightarrow> proxy_metrics \<Rightarrow> scrape_gauges \<Rightarrow> string \<Rightarrow> nat \<Rightarrow> string" where
  "render_metrics fmt m g version uptime_secs =
     render_process version uptime_secs @ render_requests m @ render_upstream m @ render_tool_rounds m
       @ render_credentials m g @ render_stalls m @ render_usage m g @ render_latencies fmt m"

lemmas render_defs = render_metrics_def render_process_def render_requests_def render_upstream_def
  render_tool_rounds_def render_credentials_def render_stalls_def render_usage_def render_latencies_def

end
