(* ===== verification/Metrics_Props.thy ===== *)
theory Metrics_Props
  imports Metrics
begin

text \<open>
  Properties of the metrics: a histogram counts its observations, the text document is well formed,
  and the in-flight gauges count the guards that are alive.
\<close>

section \<open>Histograms\<close>

lemma length_running_sums [simp]: "length (running_sums r bs) = length bs"
  by (induction bs arbitrary: r) simp_all

lemma running_sums_nth: "j < length bs \<Longrightarrow> running_sums r bs ! j = r + sum_list (take (Suc j) bs)"
  by (induction bs arbitrary: r j) (auto simp: nth_Cons split: nat.split)

lemma sum_take_bump:
  assumes "j < length bs" "i < length (bs :: u64 list)"
  shows "sum_list (take (Suc j) (bs[i := bs ! i + 1])) = sum_list (take (Suc j) bs) + (if i \<le> j then 1 else 0)"
  using assms
proof (induction bs arbitrary: i j)
  case Nil
  then show ?case by simp
next
  case (Cons b bs)
  show ?case
  proof (cases i)
    case 0
    then show ?thesis by simp
  next
    case i: (Suc i')
    show ?thesis
    proof (cases j)
      case 0
      with i show ?thesis by simp
    next
      case (Suc j')
      with i Cons.prems Cons.IH [of j' i'] show ?thesis by simp
    qed
  qed
qed

lemma bucket_index_bound: "bucket_index ms bounds \<le> length bounds"
  by (induction bounds) simp_all

lemma bucket_index_le:
  assumes "sorted bounds" "j < length bounds"
  shows "bucket_index ms bounds \<le> j \<longleftrightarrow> ms \<le> bounds ! j"
  using assms
proof (induction bounds arbitrary: j)
  case Nil
  then show ?case by simp
next
  case (Cons b bounds)
  show ?case
  proof (cases j)
    case 0
    with Cons.prems show ?thesis by simp
  next
    case (Suc j')
    with Cons.prems have "b \<le> bounds ! j'" by simp
    then have "ms \<le> b \<Longrightarrow> ms \<le> bounds ! j'" by linarith
    with Suc Cons show ?thesis by auto
  qed
qed

abbreviation buckets_sound :: "histogram \<Rightarrow> bool" where
  "buckets_sound h \<equiv> length (h_buckets h) = length HISTOGRAM_BUCKETS_MS"

lemma observe_buckets:
  assumes "buckets_sound h"
  shows "buckets_sound (observe_ms ms h)"
    and "j < length HISTOGRAM_BUCKETS_MS \<Longrightarrow>
      bucket_counts (observe_ms ms h) ! j
        = bucket_counts h ! j + (if ms \<le> HISTOGRAM_BUCKETS_MS ! j then 1 else 0)"
proof -
  let ?B = HISTOGRAM_BUCKETS_MS
  let ?i = "bucket_index ms ?B"
  show "buckets_sound (observe_ms ms h)" using assms by (simp add: observe_ms_def Let_def)
  assume j: "j < length ?B"
  have sorted: "sorted ?B" by (simp add: HISTOGRAM_BUCKETS_MS_def)
  show "bucket_counts (observe_ms ms h) ! j
        = bucket_counts h ! j + (if ms \<le> ?B ! j then 1 else 0)"
  proof (cases "?i < length ?B")
    case True
    with assms j show ?thesis
      by (simp add: bucket_counts_def observe_ms_def Let_def running_sums_nth sum_take_bump
          bucket_index_le [OF sorted])
  next
    case False
    with bucket_index_le [OF sorted j, of ms] j have "\<not> ms \<le> ?B ! j" by linarith
    with False assms show ?thesis by (simp add: bucket_counts_def observe_ms_def Let_def)
  qed
qed

lemma new_histogram_counts:
  "buckets_sound new_histogram"
  "bucket_counts new_histogram = replicate (length HISTOGRAM_BUCKETS_MS) 0"
  by (simp_all add: new_histogram_def bucket_counts_def HISTOGRAM_BUCKETS_MS_def numeral_eq_Suc)

lemma observed_buckets:
  assumes "buckets_sound h"
  shows "buckets_sound (fold observe_ms obs h)"
    and "j < length HISTOGRAM_BUCKETS_MS \<Longrightarrow>
      bucket_counts (fold observe_ms obs h) ! j
        = bucket_counts h ! j + of_nat (length (filter (\<lambda>ms. ms \<le> HISTOGRAM_BUCKETS_MS ! j) obs))"
  using assms
  by (induction obs arbitrary: h) (simp_all add: observe_buckets)

lemma observed_totals:
  "h_count (fold observe_ms obs h) = h_count h + of_nat (length obs)
   \<and> h_sum_micros (fold observe_ms obs h)
       = h_sum_micros h + sum_list (map (\<lambda>ms. of_nat (min (ms * 1000) (2 ^ 64 - 1))) obs)"
  by (induction obs arbitrary: h) (simp_all add: observe_ms_def Let_def)

section \<open>The text document\<close>

definition digits :: "string \<Rightarrow> bool" where
  "digits s \<longleftrightarrow> s \<noteq> [] \<and> set s \<subseteq> set ''0123456789''"

text \<open>An optional sign, digits, and optionally a point with more digits.\<close>

definition is_number :: "string \<Rightarrow> bool" where
  "is_number s \<longleftrightarrow>
     (\<exists>sign whole fraction. s = sign @ whole @ fraction \<and> sign \<in> {[], ''-''} \<and> digits whole
        \<and> (fraction = [] \<or> (\<exists>f. fraction = CHR ''.'' # f \<and> digits f)))"

definition metric_name :: "string \<Rightarrow> bool" where
  "metric_name s \<longleftrightarrow> s \<noteq> [] \<and> hd s \<notin> set ''0123456789'' \<and> set s \<subseteq> set ''abcdefghijklmnopqrstuvwxyz0123456789_''"

definition label_value :: "string \<Rightarrow> bool" where
  "label_value s \<longleftrightarrow> set s \<inter> {QUOTE, BACKSLASH, LF} = {}"

text \<open>The grammar of the exposition format: comment lines and samples with at most one label.\<close>

inductive exposition :: "string \<Rightarrow> bool" where
  nothing: "exposition []"
| comment: "LF \<notin> set line \<Longrightarrow> exposition rest \<Longrightarrow> exposition (CHR ''#'' # line @ [LF] @ rest)"
| plain: "metric_name name \<Longrightarrow> is_number v \<Longrightarrow> exposition rest \<Longrightarrow> exposition (name @ '' '' @ v @ [LF] @ rest)"
| labelled: "metric_name name \<Longrightarrow> metric_name key \<Longrightarrow> label_value label \<Longrightarrow> is_number v \<Longrightarrow> exposition rest
    \<Longrightarrow> exposition (name @ ''{'' @ key @ ''='' @ [QUOTE] @ label @ [QUOTE] @ ''} '' @ v @ [LF] @ rest)"

lemma exposition_append [intro]: "exposition a \<Longrightarrow> exposition b \<Longrightarrow> exposition (a @ b)"
proof (induction a rule: exposition.induct)
  case nothing
  then show ?case by simp
next
  case (comment line rest)
  from exposition.comment [OF comment(1) comment(3) [OF comment(4)]] show ?case by simp
next
  case (plain name v rest)
  from exposition.plain [OF plain(1,2) plain(4) [OF plain(5)]] show ?case by simp
next
  case (labelled name key label v rest)
  from exposition.labelled [OF labelled(1-4) labelled(6) [OF labelled(7)]] show ?case by simp
qed

lemma exposition_concat: "\<forall>s \<in> set parts. exposition s \<Longrightarrow> exposition (concat parts)"
  by (induction parts) (auto intro: exposition.nothing)

lemma hex_digit_decimal: "n < 10 \<Longrightarrow> hex_digit n \<in> set ''0123456789''"
  by (auto simp: hex_digit_def less_Suc_eq numeral_eq_Suc)

lemma digits_show_nat [simp]: "digits (show_nat n)"
proof -
  have "digits (digits_fuel k n)" if "n < k" for k
    using that
  proof (induction k arbitrary: n)
    case 0
    then show ?case by simp
  next
    case (Suc k)
    show ?case
    proof (cases "n < 10")
      case True
      with hex_digit_decimal [OF True] show ?thesis by (simp add: digits_def)
    next
      case False
      with Suc.prems have "n div 10 < k" by (simp add: div_less_iff_less_mult)
      with Suc.IH [of "n div 10"] hex_digit_decimal [of "n mod 10"] False show ?thesis
        by (simp add: digits_def)
    qed
  qed
  then show ?thesis unfolding show_nat_def by blast
qed

lemma digits_number: "digits s \<Longrightarrow> is_number s"
  unfolding is_number_def by (intro exI [of _ "[]"] exI [of _ s]) simp

lemma number_show_nat [simp]: "is_number (show_nat n)"
  by (rule digits_number) simp

lemma number_show_int [simp]: "is_number (show_int i)"
proof (cases "i < 0")
  case True
  then have "show_int i = ''-'' @ show_nat (nat (- i)) @ []" by (simp add: show_int_def)
  then show ?thesis unfolding is_number_def by (metis digits_show_nat insertCI)
qed (simp add: show_int_def)

lemma exposition_comments:
  assumes "LF \<notin> set name" "LF \<notin> set help" "LF \<notin> set kind"
  shows "exposition (help_type name help kind)"
proof -
  have "exposition (CHR ''#'' # ('' HELP '' @ name @ '' '' @ help) @ [LF]
      @ (CHR ''#'' # ('' TYPE '' @ name @ '' '' @ kind) @ [LF] @ []))"
    using assms by (intro exposition.intros) auto
  then show ?thesis by (simp add: help_type_def)
qed

lemma name_no_LF: "metric_name name \<Longrightarrow> LF \<notin> set name"
  by (auto simp: metric_name_def)

lemma exposition_plain: "metric_name name \<Longrightarrow> is_number v \<Longrightarrow> exposition (plain_line name v)"
  using exposition.plain [OF _ _ exposition.nothing] by (simp add: plain_line_def)

lemma exposition_sample:
  "metric_name name \<Longrightarrow> metric_name key \<Longrightarrow> label_value label \<Longrightarrow> is_number v
     \<Longrightarrow> exposition (sample_line name key label v)"
  using exposition.labelled [OF _ _ _ _ exposition.nothing] by (simp add: sample_line_def)

lemma exposition_counter: "metric_name name \<Longrightarrow> LF \<notin> set help \<Longrightarrow> exposition (counter name help v)"
  using exposition_comments [of name "help" "''counter''"] exposition_plain [of name "show_nat (unat v)"]
  by (auto simp: counter_def name_no_LF)

lemma exposition_gauge: "metric_name name \<Longrightarrow> LF \<notin> set help \<Longrightarrow> exposition (gauge name help v)"
  using exposition_comments [of name "help" "''gauge''"] exposition_plain [of name "show_int (sint v)"]
  by (auto simp: gauge_def name_no_LF)

lemma metric_name_suffix:
  "metric_name name \<Longrightarrow> set tail_part \<subseteq> set ''abcdefghijklmnopqrstuvwxyz0123456789_'' \<Longrightarrow> metric_name (name @ tail_part)"
  by (auto simp: metric_name_def)

lemma exposition_histogram:
  assumes "metric_name name" "LF \<notin> set help" "\<forall>w. is_number (fmt w)"
  shows "exposition (histogram_text fmt name help h)"
proof -
  have bucket: "metric_name (name @ ''_bucket'')" "metric_name (name @ ''_sum'')" "metric_name (name @ ''_count'')"
    using assms(1) by (auto intro!: metric_name_suffix)
  have le: "metric_name ''le''" by (simp add: metric_name_def)
  have labels: "list_all label_value bucket_bounds" "label_value ''+Inf''"
    by (simp_all add: bucket_bounds_def label_value_def QUOTE_def BACKSLASH_def)
  have "exposition (concat (map2 (\<lambda>bound n. sample_line (name @ ''_bucket'') ''le'' bound (show_nat (unat n)))
      bucket_bounds (bucket_counts h)))"
    using labels(1) by (auto intro!: exposition_concat exposition_sample bucket le
        simp: list_all_iff dest!: set_zip_leftD)
  then show ?thesis
    unfolding histogram_text_def using assms name_no_LF [OF assms(1)]
    by (intro exposition_append exposition_comments exposition_sample exposition_plain bucket le labels) simp_all
qed

lemma exposition_stalls:
  "metric_name name \<Longrightarrow> exposition (concat (map2 (\<lambda>kind n. sample_line name ''kind'' kind (show_nat (unat n)))
     STALL_KINDS ns))"
proof -
  have "metric_name ''kind''" "list_all label_value STALL_KINDS"
    by (simp_all add: metric_name_def STALL_KINDS_def label_value_def QUOTE_def BACKSLASH_def)
  then show "metric_name name \<Longrightarrow> ?thesis"
    by (auto intro!: exposition_concat exposition_sample simp: list_all_iff dest!: set_zip_leftD)
qed

lemma escape_plain:
  assumes "label_value v"
  shows "escape_label v = v"
proof -
  have "escape_label v = concat (map (\<lambda>b. [b]) v)"
    unfolding escape_label_def by (rule arg_cong [of _ _ concat], rule map_cong) (use assms in \<open>auto simp: label_value_def\<close>)
  then show ?thesis by simp
qed

section \<open>Guards\<close>

text \<open>A history of requests that are accepted and of guards that are dropped.\<close>

datatype guard_event = Accepted bool | Dropped bool

fun guard_step :: "guard_event \<Rightarrow> proxy_metrics \<Rightarrow> proxy_metrics" where
  "guard_step (Accepted stream) = guard_new stream"
| "guard_step (Dropped stream) = guard_drop stream"

lemma guards_alive:
  "m_requests_in_flight (fold guard_step es m)
     = m_requests_in_flight m + of_nat (length (filter (\<lambda>e. \<exists>s. e = Accepted s) es))
         - of_nat (length (filter (\<lambda>e. \<exists>s. e = Dropped s) es))
   \<and> m_streams_in_flight (fold guard_step es m)
     = m_streams_in_flight m + of_nat (count_list es (Accepted True)) - of_nat (count_list es (Dropped True))"
proof (induction es arbitrary: m)
  case Nil
  then show ?case by simp
next
  case (Cons e es)
  then show ?case by (cases e) (auto simp: guard_new_def guard_drop_def)
qed

section \<open>Properties\<close>

text \<open>C33: A histogram counts its observations: after any observations each bucket of the document holds
  the number of those up to its bound, the buckets being cumulative, and count and sum are those of all
  observations, those above the last bound included.\<close>

theorem histogram_counts_observations:
  "bucket_counts (fold observe_ms obs new_histogram)
     = map (\<lambda>bound. of_nat (length (filter (\<lambda>ms. ms \<le> bound) obs))) HISTOGRAM_BUCKETS_MS
   \<and> h_count (fold observe_ms obs new_histogram) = of_nat (length obs)
   \<and> h_sum_micros (fold observe_ms obs new_histogram)
       = sum_list (map (\<lambda>ms. of_nat (min (ms * 1000) (2 ^ 64 - 1))) obs)"
proof -
  note counts = observed_buckets [OF new_histogram_counts(1)]
  have len: "length (bucket_counts (fold observe_ms obs new_histogram)) = length HISTOGRAM_BUCKETS_MS"
    by (simp add: bucket_counts_def counts(1))
  have "bucket_counts (fold observe_ms obs new_histogram)
     = map (\<lambda>bound. of_nat (length (filter (\<lambda>ms. ms \<le> bound) obs))) HISTOGRAM_BUCKETS_MS"
    by (rule nth_equalityI) (simp_all add: len counts(2) new_histogram_counts(2))
  then show ?thesis using observed_totals [of obs new_histogram] by (simp add: new_histogram_def)
qed

text \<open>C32: The document of \<open>GET /metrics\<close> is well formed whatever the values of the metrics: it is a sequence
  of comment lines and of samples with a legal name, at most one legal label and a numeric value, each
  on a line of its own.\<close>

theorem scrape_is_well_formed:
  assumes "\<forall>w. is_number (fmt w)" "set version \<subseteq> set ''0123456789.''"
  shows "exposition (render_metrics fmt m g version uptime_secs)"
proof -
  have version: "label_value version" "escape_label version = version"
    using assms(2) escape_plain [of version] by (auto simp: label_value_def QUOTE_def BACKSLASH_def)
  have one: "is_number ''1''" by (rule digits_number) (simp add: digits_def)
  show ?thesis
    unfolding render_defs version(2)
    by (intro exposition_append exposition_counter exposition_gauge exposition_histogram exposition_comments
        exposition_sample exposition_plain exposition_stalls assms(1) version(1) number_show_nat one)
      (simp_all add: metric_name_def label_value_def QUOTE_def BACKSLASH_def)
qed

theorem scrape_is_well_formed_witness:
  "exposition (render_metrics (\<lambda>w. ''0.000000'') new_metrics
     \<lparr>sg_credentials_healthy = 1, sg_credentials_cooling = 0, sg_reasoning_shadow_entries = 0\<rparr> ''0.1.0'' 7)"
proof (rule scrape_is_well_formed)
  have "digits ''0'' \<and> digits ''000000''" by (simp add: digits_def)
  then have "is_number ([] @ ''0'' @ CHR ''.'' # ''000000'')" unfolding is_number_def by blast
  then show "\<forall>w :: u64. is_number ''0.000000''" by simp
qed simp

end
