(* ===== verification/Server.thy ===== *)
theory Server
  imports Anthropic_Request Responses_Request Session Metrics
begin

text \<open>
  The HTTP front (\<open>src/server/orchestrator.rs\<close>): authentication, body reading, the two generation routes
  from request to answer, model discovery, token counting and the status routes.

  A handler is a function of the fixed environment, of what the call meets (its clock, the rounds of the
  generation loop, the arrival of the stream's bytes) and of the server's state; \<open>None\<close> means that the
  rounds ran out. A request runs by itself here, except for what other tasks do meanwhile: the rounds of the generation
  loop let them change the pool and the files, and \<open>cl_others\<close> is what they do to the reasoning shadow
  between the only two moments at which a request touches it, the restore and the end of its stream.
\<close>

section \<open>State\<close>

record server_env =
  sv_x :: externals
  sv_hash :: "string \<Rightarrow> u64"
  sv_api_key :: "string option"
  sv_model :: string
  sv_secret :: string
  sv_timeouts :: stream_timeouts
  sv_shadow_limits :: shadow_limits
  sv_body_limit :: nat
  sv_error_text :: "protocol_error \<Rightarrow> string"
  sv_json_error :: "string \<Rightarrow> string"
  sv_limit_error :: string

text \<open>The summary of one request.\<close>

record request_summary =
  sm_request_id :: string
  sm_session :: "string option"
  sm_model :: string
  sm_credential :: "string option"
  sm_stream :: bool
  sm_http_status :: nat
  sm_duration_ms :: nat
  sm_request_bytes :: nat
  sm_failovers :: nat
  sm_refresh_retry :: bool
  sm_client :: "string option"
  sm_error :: "string option"
  sm_stats :: stream_stats

record server =
  ws_pool :: pool
  ws_files :: fs
  ws_shadow :: shadow
  ws_metrics :: proxy_metrics
  ws_sent :: "(credential \<times> json \<times> chat_reply) list"
  ws_log :: "request_summary list"

text \<open>
  What one call meets. \<open>cl_schedule\<close> turns the bytes of the upstream stream into the branches the pump
  sees, with their instants, the pings, the wake-ups of the watchdog and a client that goes away.
\<close>

record call =
  cl_start :: instant
  cl_done :: instant
  cl_pump_start :: instant
  cl_request_id :: string
  cl_random :: string
  cl_ids :: "nat \<Rightarrow> string"
  cl_created :: u64
  cl_rounds :: "round list"
  cl_schedule :: "byte_stream \<Rightarrow> pump_input list"
  cl_others :: "shadow \<Rightarrow> shadow"

datatype answer =
  Respond http_response
| RespondText nat string
| Stream "out_frame list"
| StreamResponses "resp_out list"

definition ok_json :: "json \<Rightarrow> answer" where
  "ok_json v = Respond \<lparr>rs_status = 200, rs_retry_after = None, rs_body = v\<rparr>"

definition elapsed_ms :: "call \<Rightarrow> nat" where
  "elapsed_ms call = as_millis (cl_done call - cl_start call)"

definition count :: "(proxy_metrics \<Rightarrow> proxy_metrics) \<Rightarrow> server \<Rightarrow> server" where
  "count f w = w\<lparr>ws_metrics := f (ws_metrics w)\<rparr>"

definition log_summary :: "request_summary \<Rightarrow> server \<Rightarrow> server" where
  "log_summary s w = w\<lparr>ws_log := ws_log w @ [s]\<rparr>"

section \<open>Authentication\<close>

definition constant_time_eq :: "string \<Rightarrow> string \<Rightarrow> bool" where
  "constant_time_eq a b \<longleftrightarrow>
     length a = length b
     \<and> fold (\<lambda>(x, y) acc. or acc (xor (of_char x) (of_char y))) (zip a b) (0 :: 8 word) = 0"

text \<open>The key a client presents: \<open>x-api-key\<close>, or else the bearer token.\<close>

definition presented_key :: "header_list \<Rightarrow> string option" where
  "presented_key headers =
     or_else (non_empty (map_option trim (header_str headers ''x-api-key'')))
       (non_empty (map_option trim
         (Option.bind (header_str headers ''authorization'') (strip_prefix ''Bearer ''))))"

definition check_auth :: "server_env \<Rightarrow> header_list \<Rightarrow> api_error option" where
  "check_auth env headers =
     (case sv_api_key env of
        None \<Rightarrow> None
      | Some expected \<Rightarrow>
          (case presented_key headers of
             Some key \<Rightarrow>
               if constant_time_eq key expected then None
               else Some (err_authentication ''invalid or missing API key'')
           | None \<Rightarrow> Some (err_authentication ''invalid or missing API key'')))"

section \<open>Reading the body\<close>

datatype body_read = ReadFailed string | ReadBytes string

definition read_json_body :: "server_env \<Rightarrow> body_read \<Rightarrow> api_error + json" where
  "read_json_body env body =
     (let unreadable = (\<lambda>e. Inl (err_invalid_request (''failed to read request body: '' @ e)))
      in case body of
           ReadFailed e \<Rightarrow> unreadable e
         | ReadBytes b \<Rightarrow>
             if length b > sv_body_limit env then unreadable (sv_limit_error env)
             else
               (case from_text (x_codec (sv_x env)) b of
                  Some v \<Rightarrow> Inr v
                | None \<Rightarrow> Inl (err_invalid_request (''invalid JSON body: '' @ sv_json_error env b))))"

definition wants_stream :: "json \<Rightarrow> bool" where
  "wants_stream request = unwrap_or False (Option.bind (get ''stream'' request) as_bool)"

section \<open>From the converted request to the upstream\<close>

definition request_bytes :: "server_env \<Rightarrow> json \<Rightarrow> nat" where
  "request_bytes env v = length (to_text (x_codec (sv_x env)) v)"

text \<open>What every accepted request does to the metrics before it is converted.\<close>

definition accept_request :: "server_env \<Rightarrow> json \<Rightarrow> server \<Rightarrow> server" where
  "accept_request env request w =
     count (guard_new (wants_stream request))
       (count (record_request (wants_stream request))
         (count (record_bytes_in (of_nat (request_bytes env request))) w))"

text \<open>Restore the session's reasoning, strip the historical one, canonicalise the tool arguments.\<close>

definition apply_policy ::
    "server_env \<Rightarrow> instant \<Rightarrow> string option \<Rightarrow> members \<Rightarrow> server \<Rightarrow> members \<times> server" where
  "apply_policy env now session_fp body w =
     (case (case session_fp of
              None \<Rightarrow> (ws_shadow w, body)
            | Some fp \<Rightarrow> restore_into (sv_hash env) now (sv_shadow_limits env) fp body (ws_shadow w)) of
        (sh, restored) \<Rightarrow>
          (let c = x_codec (sv_x env)
           in (fst (canonicalize_tool_arguments c (fst (strip_historical_reasoning c restored))),
               w\<lparr>ws_shadow := sh\<rparr>)))"

definition run_generation ::
    "server_env \<Rightarrow> call \<Rightarrow> string option \<Rightarrow> json \<Rightarrow> server \<Rightarrow> (generate_outcome \<times> server) option" where
  "run_generation env call session_fp body w =
     map_option (\<lambda>(out, s).
         (out, w\<lparr>ws_pool := gs_pool s, ws_files := gs_files s, ws_sent := ws_sent w @ gs_sent s,
                 ws_shadow := cl_others call (ws_shadow w), ws_metrics := fold record_metric (gs_metrics s) (ws_metrics w)\<rparr>))
       (generate (sv_x env) (sv_model env) (cl_start call) session_fp body (cl_rounds call)
          (ws_pool w) (ws_files w))"

definition parse_client_app :: "string \<Rightarrow> string option" where
  "parse_client_app user_agent =
     (case split_whitespace user_agent of [] \<Rightarrow> None | app # _ \<Rightarrow> if app = [] then None else Some app)"

definition failure_summary ::
    "server_env \<Rightarrow> call \<Rightarrow> string option \<Rightarrow> nat \<Rightarrow> api_error \<Rightarrow> request_summary" where
  "failure_summary env call session_fp n e =
     \<lparr>sm_request_id = cl_request_id call, sm_session = session_fp, sm_model = sv_model env,
      sm_credential = None, sm_stream = False, sm_http_status = err_status e,
      sm_duration_ms = elapsed_ms call, sm_request_bytes = n, sm_failovers = 0, sm_refresh_retry = False,
      sm_client = None, sm_error = Some (err_message e), sm_stats = no_stats\<rparr>"

text \<open>What a failed generation does before its error is rendered.\<close>

definition refuse_generation ::
    "server_env \<Rightarrow> call \<Rightarrow> string option \<Rightarrow> bool \<Rightarrow> nat \<Rightarrow> api_failure \<Rightarrow> server \<Rightarrow> api_error \<times> server" where
  "refuse_generation env call session_fp stream n f w =
     (let e = (from_failure f)\<lparr>err_request_id := Some (cl_request_id call)\<rparr>
      in (e, count (guard_drop stream)
               (log_summary (failure_summary env call session_fp n e)
                 (count (\<lambda>m. m\<lparr>m_request_duration := observe_ms (elapsed_ms call) (m_request_duration m)\<rparr>)
                   (count record_error w)))))"

definition served_model :: "server_env \<Rightarrow> started \<Rightarrow> string" where
  "served_model env g = (if st_model g = [] then sv_model env else st_model g)"

definition start_summary ::
    "server_env \<Rightarrow> call \<Rightarrow> header_list \<Rightarrow> string option \<Rightarrow> bool \<Rightarrow> nat \<Rightarrow> started \<Rightarrow> request_summary" where
  "start_summary env call headers session_fp stream n g =
     \<lparr>sm_request_id = cl_request_id call, sm_session = session_fp, sm_model = served_model env g,
      sm_credential = Some (cred_safe_name (st_credential g)), sm_stream = stream, sm_http_status = 200,
      sm_duration_ms = 0, sm_request_bytes = n, sm_failovers = st_failovers g,
      sm_refresh_retry = st_refresh_retry g,
      sm_client = Option.bind (header_str headers ''user-agent'') parse_client_app,
      sm_error = None, sm_stats = no_stats\<rparr>"

section \<open>Completion\<close>

text \<open>The task that closes a streamed request: the summary, and ok or error by the recorded error.\<close>

definition close_stream ::
    "request_summary \<Rightarrow> stream_stats \<Rightarrow> string option \<Rightarrow> server \<Rightarrow> server" where
  "close_stream sm st error w =
     (let sm' = sm\<lparr>sm_stats := st, sm_duration_ms := ss_duration st, sm_error := error,
                   sm_http_status := (if error \<noteq> None then 502 else 200)\<rparr>
      in log_summary sm'
           (count (record_latencies (ss_duration st) st)
             (count (record_tokens (ss_input_tokens st) (ss_output_tokens st) (ss_cached_tokens st))
               (count (record_bytes_out
                         (of_nat (ss_text_bytes st + ss_reasoning_bytes st + ss_tool_bytes st)))
                 (count (if error \<noteq> None then record_error else record_ok) w)))))"

text \<open>The end of an aggregated request.\<close>

definition close_aggregate ::
    "call \<Rightarrow> request_summary \<Rightarrow> stream_stats \<Rightarrow> api_error + json \<Rightarrow> server \<Rightarrow> (api_error + json) \<times> server" where
  "close_aggregate call sm st result w =
     (let failed = (case result of Inl _ \<Rightarrow> True | Inr _ \<Rightarrow> False);
          sm' = sm\<lparr>sm_stats := st, sm_duration_ms := elapsed_ms call,
                   sm_http_status := (if failed then 502 else 200)\<rparr>;
          w1 = count (guard_drop (sm_stream sm))
                 (log_summary sm'
                   (count (record_latencies (elapsed_ms call) st)
                     (count (record_tokens (ss_input_tokens st) (ss_output_tokens st) (ss_cached_tokens st)) w)))
      in case result of
           Inr v \<Rightarrow> (Inr v, count record_ok w1)
         | Inl e \<Rightarrow> (Inl (e\<lparr>err_request_id := Some (cl_request_id call)\<rparr>), count record_error w1))"

definition count_stalls :: "stall_kind list \<Rightarrow> server \<Rightarrow> server" where
  "count_stalls ks = count (fold record_stream_stall ks)"

section \<open>The Anthropic route\<close>

definition pump_env_of :: "server_env \<Rightarrow> string option \<Rightarrow> pump_env" where
  "pump_env_of env session_fp =
     \<lparr>pe_codec = x_codec (sv_x env), pe_hash = sv_hash env, pe_shadow_limits = sv_shadow_limits env,
      pe_session = session_fp\<rparr>"

definition upstream_bytes :: "started \<Rightarrow> byte_stream" where
  "upstream_bytes g = replay (st_prefix g) (st_stream g)"

definition messages_world :: "server_env \<Rightarrow> call \<Rightarrow> bool \<Rightarrow> server \<Rightarrow> pump_world" where
  "messages_world env call expose w =
     start_world (new_pump (cl_random call) expose (sv_timeouts env) (cl_start call) (cl_pump_start call))
       (ws_shadow w)"

text \<open>The client that asked for a stream gets every frame; the guard drops when the pump ends.\<close>

definition stream_messages ::
    "server_env \<Rightarrow> call \<Rightarrow> bool \<Rightarrow> string option \<Rightarrow> request_summary \<Rightarrow> started \<Rightarrow> server \<Rightarrow> answer \<times> server" where
  "stream_messages env call expose session_fp sm g w =
     (case pump_run (pump_env_of env session_fp) (cl_schedule call (upstream_bytes g))
             (messages_world env call expose w) of
        (pw, r) \<Rightarrow>
          (let w1 = count_stalls (pw_stalls pw) (w\<lparr>ws_shadow := pw_shadow pw\<rparr>)
           in (Stream (pw_out pw),
               case r of
                 None \<Rightarrow> w1
               | Some (Disconnected, _) \<Rightarrow> count (guard_drop True) w1
               | Some (how, _) \<Rightarrow>
                   count (guard_drop True)
                     (close_stream sm (sp_stats (pw_pump pw)) (ending_error how) w1))))"

text \<open>The aggregation has no branches for pings and for the client.\<close>

definition aggregate_inputs :: "pump_input list \<Rightarrow> pump_input list" where
  "aggregate_inputs = filter (\<lambda>i. i \<noteq> ClientGone \<and> i \<noteq> PingTick)"

definition aggregate_messages ::
    "server_env \<Rightarrow> call \<Rightarrow> bool \<Rightarrow> string option \<Rightarrow> request_summary \<Rightarrow> started \<Rightarrow> server
      \<Rightarrow> (answer \<times> server) option" where
  "aggregate_messages env call expose session_fp sm g w =
     (case pump_run (pump_env_of env session_fp) (aggregate_inputs (cl_schedule call (upstream_bytes g)))
             (messages_world env call expose w) of
        (pw, r) \<Rightarrow>
          Option.bind (Option.bind r (\<lambda>(how, v). aggregate_result how v)) (\<lambda>result.
            (case close_aggregate call sm (sp_stats (pw_pump pw)) result
                    (count_stalls (pw_stalls pw) (w\<lparr>ws_shadow := pw_shadow pw\<rparr>)) of
               (Inr v, w1) \<Rightarrow> Some (ok_json v, w1)
             | (Inl e, w1) \<Rightarrow> Some (Respond (into_response e), w1))))"

text \<open>From the converted request to the answer.\<close>

definition complete_messages ::
    "server_env \<Rightarrow> call \<Rightarrow> header_list \<Rightarrow> string option \<Rightarrow> bool \<Rightarrow> converted \<Rightarrow> server
      \<Rightarrow> (answer \<times> server) option" where
  "complete_messages env call headers session_fp stream conv w =
     (case apply_policy env (cl_start call) session_fp (chat_body conv) w of
        (chat, w1) \<Rightarrow>
          (let n = request_bytes env (JObj chat)
           in case run_generation env call session_fp (JObj chat) w1 of
                None \<Rightarrow> None
              | Some (Failed f, w2) \<Rightarrow>
                  (case refuse_generation env call session_fp stream n f w2 of
                     (e, w3) \<Rightarrow> Some (Respond (into_response e), w3))
              | Some (Started g, w2) \<Rightarrow>
                  (let w3 = count (record_failover (st_failovers g)) w2;
                       sm = start_summary env call headers session_fp stream n g;
                       expose = thinking_requested conv
                   in if stream then Some (stream_messages env call expose session_fp sm g w3)
                      else aggregate_messages env call expose session_fp sm g w3)))"

definition reject_request :: "server_env \<Rightarrow> call \<Rightarrow> bool \<Rightarrow> protocol_error \<Rightarrow> server \<Rightarrow> api_error \<times> server" where
  "reject_request env call stream e w =
     ((err_invalid_request (sv_error_text env e))\<lparr>err_request_id := Some (cl_request_id call)\<rparr>,
      count (guard_drop stream) (count record_error w))"

definition anthropic_session :: "server_env \<Rightarrow> header_list \<Rightarrow> json \<Rightarrow> string option" where
  "anthropic_session env headers request =
     map_option rs_fingerprint
       (resolve_anthropic_session (x_hmac (sv_x env)) (sv_secret env) headers request)"

definition handle_messages ::
    "server_env \<Rightarrow> call \<Rightarrow> header_list \<Rightarrow> body_read \<Rightarrow> server \<Rightarrow> (answer \<times> server) option" where
  "handle_messages env call headers body w =
     (case check_auth env headers of
        Some e \<Rightarrow> Some (Respond (into_response e), w)
      | None \<Rightarrow>
          (case read_json_body env body of
             Inl e \<Rightarrow> Some (Respond (into_response e), count record_error w)
           | Inr request \<Rightarrow>
               (let w1 = accept_request env request w;
                    stream = wants_stream request
                in case fst (anth_convert_request (x_codec (sv_x env)) request (sv_model env)) of
                     Inl e \<Rightarrow>
                       (case reject_request env call stream e w1 of
                          (err, w2) \<Rightarrow> Some (Respond (into_response err), w2))
                   | Inr conv \<Rightarrow>
                       complete_messages env call headers (anthropic_session env headers request) stream conv w1)))"

section \<open>The Responses route\<close>

definition responses_world :: "server_env \<Rightarrow> call \<Rightarrow> string \<Rightarrow> bool \<Rightarrow> server \<Rightarrow> resp_world" where
  "responses_world env call m expose w =
     resp_start
       (new_resp_pump (cl_ids call) m expose (cl_created call) (sv_timeouts env) (cl_start call) (cl_pump_start call))
       (ws_shadow w)"

definition stream_responses ::
    "server_env \<Rightarrow> call \<Rightarrow> bool \<Rightarrow> string option \<Rightarrow> request_summary \<Rightarrow> started \<Rightarrow> server \<Rightarrow> answer \<times> server" where
  "stream_responses env call expose session_fp sm g w =
     (case run_steps (resp_stream_step (pump_env_of env session_fp) (cl_ids call))
             (cl_schedule call (upstream_bytes g)) (responses_world env call (sm_model sm) expose w) of
        (rw, r) \<Rightarrow>
          (let w1 = count_stalls (rw_stalls rw) (w\<lparr>ws_shadow := rw_shadow rw\<rparr>)
           in (StreamResponses (rw_out rw),
               case r of
                 None \<Rightarrow> w1
               | Some RespGone \<Rightarrow> count (guard_drop True) w1
               | Some (RespEnded error) \<Rightarrow>
                   count (guard_drop True) (close_stream sm (rp_stats (rw_pump rw)) error w1))))"

definition aggregate_to_response ::
    "server_env \<Rightarrow> call \<Rightarrow> bool \<Rightarrow> string option \<Rightarrow> request_summary \<Rightarrow> started \<Rightarrow> server
      \<Rightarrow> (answer \<times> server) option" where
  "aggregate_to_response env call expose session_fp sm g w =
     (case run_steps (resp_aggregate_step (pump_env_of env session_fp) (cl_ids call))
             (aggregate_inputs (cl_schedule call (upstream_bytes g)))
             (responses_world env call (sm_model sm) expose w) of
        (rw, r) \<Rightarrow>
          Option.bind r (\<lambda>result.
            (case close_aggregate call sm (rp_stats (rw_pump rw)) result
                    (count_stalls (rw_stalls rw) (w\<lparr>ws_shadow := rw_shadow rw\<rparr>)) of
               (Inr v, w1) \<Rightarrow> Some (ok_json v, w1)
             | (Inl e, w1) \<Rightarrow> Some (Respond (openai_error_response e), w1))))"

definition complete_responses ::
    "server_env \<Rightarrow> call \<Rightarrow> header_list \<Rightarrow> string option \<Rightarrow> bool \<Rightarrow> resp_converted \<Rightarrow> server
      \<Rightarrow> (answer \<times> server) option" where
  "complete_responses env call headers session_fp stream conv w =
     (case apply_policy env (cl_start call) session_fp (resp_chat_body conv) w of
        (chat, w1) \<Rightarrow>
          (let n = request_bytes env (JObj chat)
           in case run_generation env call session_fp (JObj chat) w1 of
                None \<Rightarrow> None
              | Some (Failed f, w2) \<Rightarrow>
                  (case refuse_generation env call session_fp stream n f w2 of
                     (e, w3) \<Rightarrow> Some (Respond (openai_error_response e), w3))
              | Some (Started g, w2) \<Rightarrow>
                  (let w3 = count (record_failover (st_failovers g)) w2;
                       sm = start_summary env call headers session_fp stream n g;
                       expose = resp_thinking_requested conv
                   in if stream then Some (stream_responses env call expose session_fp sm g w3)
                      else aggregate_to_response env call expose session_fp sm g w3)))"

definition responses_session :: "server_env \<Rightarrow> header_list \<Rightarrow> json \<Rightarrow> string option" where
  "responses_session env headers request =
     map_option (fingerprint_domain (x_hmac (sv_x env)) (sv_secret env) RESPONSES_DOMAIN)
       (extract_responses_session request headers)"

definition handle_responses ::
    "server_env \<Rightarrow> call \<Rightarrow> header_list \<Rightarrow> body_read \<Rightarrow> server \<Rightarrow> (answer \<times> server) option" where
  "handle_responses env call headers body w =
     (case check_auth env headers of
        Some e \<Rightarrow> Some (Respond (into_response e), w)
      | None \<Rightarrow>
          (case read_json_body env body of
             Inl e \<Rightarrow> Some (Respond (into_response e), count record_error w)
           | Inr request \<Rightarrow>
               (let w1 = accept_request env request w;
                    stream = wants_stream request
                in case resp_convert_request (x_codec (sv_x env)) request (sv_model env) of
                     Inl e \<Rightarrow>
                       (case reject_request env call stream e w1 of
                          (err, w2) \<Rightarrow> Some (Respond (openai_error_response err), w2))
                   | Inr conv \<Rightarrow>
                       complete_responses env call headers (responses_session env headers request) stream conv w1)))"

section \<open>The other routes\<close>

record model_definition =
  md_id :: string
  md_display_name :: string
  md_max_input_tokens :: u64
  md_max_output_tokens :: u64
  md_supports_tools :: bool

definition model_definitions :: "model_definition list" where
  "model_definitions =
     [\<lparr>md_id = ''deepseek-flash'', md_display_name = ''DeepSeek v4.1 Flash (LobsterAI)'',
       md_max_input_tokens = 131072, md_max_output_tokens = 131072, md_supports_tools = True\<rparr>]"

definition model_list_entry :: "model_definition \<Rightarrow> string \<Rightarrow> json" where
  "model_list_entry d stamp =
     JObj [(''type'', JStr ''model''), (''id'', JStr (md_id d)), (''display_name'', JStr (md_display_name d)),
           (''created_at'', JStr stamp)]"

definition resolve_model :: "string option \<Rightarrow> string \<Rightarrow> string" where
  "resolve_model requested default_upstream = default_upstream"

definition models_body :: "json list \<Rightarrow> json" where
  "models_body listed =
     (let id_of = (\<lambda>e. unwrap_or [] (Option.bind e (get_str ''id'')))
      in JObj [(''data'', JArr listed),
               (''first_id'', JStr (id_of (if listed = [] then None else Some (hd listed)))),
               (''has_more'', JBool False),
               (''last_id'', JStr (id_of (if listed = [] then None else Some (last listed))))])"

definition handle_models :: "server_env \<Rightarrow> header_list \<Rightarrow> server \<Rightarrow> answer \<times> server" where
  "handle_models env headers w =
     (case check_auth env headers of
        Some e \<Rightarrow> (Respond (into_response e), w)
      | None \<Rightarrow>
          (ok_json (models_body (map (\<lambda>d. model_list_entry d ''2026-01-01T00:00:00Z'') model_definitions)),
           count record_model_discovery w))"

definition handle_count_tokens :: "server_env \<Rightarrow> header_list \<Rightarrow> body_read \<Rightarrow> server \<Rightarrow> answer \<times> server" where
  "handle_count_tokens env headers body w =
     (case check_auth env headers of
        Some e \<Rightarrow> (Respond (into_response e), w)
      | None \<Rightarrow>
          (let w1 = count record_count_tokens w
           in case read_json_body env body of
                Inl e \<Rightarrow> (Respond (into_response e), w1)
              | Inr request \<Rightarrow>
                  (let stripped = fst (strip_anthropic_thinking (strip_billing_in_anthropic_system request))
                   in (ok_json (JObj [(''input_tokens'',
                          JNum (PosInt (of_nat (estimate_anthropic_tokens (x_codec (sv_x env)) stripped))))]), w1))))"

definition handle_readyz :: "server \<Rightarrow> answer" where
  "handle_readyz w =
     (if entries (ws_pool w) = [] then RespondText 503 ''no credentials loaded'' else RespondText 200 ''ready'')"

definition handle_healthz :: answer where
  "handle_healthz = RespondText 200 ''ok''"

definition handle_admin_status ::
    "server_env \<Rightarrow> string \<Rightarrow> instant \<Rightarrow> nat \<Rightarrow> header_list \<Rightarrow> server \<Rightarrow> answer" where
  "handle_admin_status env version now uptime_secs headers w =
     (case check_auth env headers of
        Some e \<Rightarrow> Respond (into_response e)
      | None \<Rightarrow>
          ok_json (JObj [(''version'', JStr version), (''uptime_secs'', JNum (PosInt (of_nat uptime_secs))),
             (''model'', JStr (sv_model env)), (''metrics'', metrics_snapshot (ws_metrics w)),
             (''accounts'', JArr (snapshot now (sv_model env) (ws_pool w)))]))"

definition handle_metrics ::
    "(u64 \<Rightarrow> string) \<Rightarrow> string \<Rightarrow> instant \<Rightarrow> nat \<Rightarrow> server \<Rightarrow> answer" where
  "handle_metrics fmt version now uptime_secs w =
     (case pool_gauges now (ws_pool w) of
        (healthy, cooling) \<Rightarrow>
          RespondText 200
            (render_metrics fmt (ws_metrics w)
               \<lparr>sg_credentials_healthy = healthy, sg_credentials_cooling = cooling,
                sg_reasoning_shadow_entries = active_entries (metrics (ws_shadow w))\<rparr>
               version uptime_secs))"

end
