(* ===== verification/Server_Route.thy ===== *)
theory Server_Route
  imports Server
begin

text \<open>
  The interface the two generation routes share: authenticate, read, convert, apply the policy,
  generate, answer. A route brings its conversion, its session, its error envelope and its two ways to
  answer; what happens to a request is then one of five cases, whichever route it took.
\<close>

section \<open>The interface\<close>

definition policed :: "server_env \<Rightarrow> call \<Rightarrow> string option \<Rightarrow> members \<Rightarrow> json \<Rightarrow> server \<Rightarrow> members \<Rightarrow> server \<Rightarrow> bool" where
  "policed env call fp body request w chat w1 \<longleftrightarrow>
     apply_policy env (cl_start call) fp body (accept_request env request w) = (chat, w1)"

locale generation_route =
  fixes handle :: "server_env \<Rightarrow> call \<Rightarrow> header_list \<Rightarrow> body_read \<Rightarrow> server \<Rightarrow> (answer \<times> server) option"
    and convert :: "server_env \<Rightarrow> json \<Rightarrow> protocol_error + 'c"
    and session :: "server_env \<Rightarrow> header_list \<Rightarrow> json \<Rightarrow> string option"
    and body_of :: "'c \<Rightarrow> members"
    and exposes :: "'c \<Rightarrow> bool"
    and envelope :: "api_error \<Rightarrow> http_response"
    and streamed :: "server_env \<Rightarrow> call \<Rightarrow> bool \<Rightarrow> string option \<Rightarrow> request_summary \<Rightarrow> started \<Rightarrow> server \<Rightarrow> answer \<times> server"
    and aggregated :: "server_env \<Rightarrow> call \<Rightarrow> bool \<Rightarrow> string option \<Rightarrow> request_summary \<Rightarrow> started \<Rightarrow> server
           \<Rightarrow> (answer \<times> server) option"
  assumes turned_away:
      "check_auth env headers = Some e \<Longrightarrow> handle env call headers body w = Some (Respond (into_response e), w)"
      "check_auth env headers = None \<Longrightarrow> read_json_body env body = Inl e \<Longrightarrow>
         handle env call headers body w = Some (Respond (into_response e), count record_error w)"
    and rejects:
      "check_auth env headers = None \<Longrightarrow> read_json_body env body = Inr request \<Longrightarrow> convert env request = Inl pe \<Longrightarrow>
         handle env call headers body w =
           (case reject_request env call (wants_stream request) pe (accept_request env request w) of
              (err, w2) \<Rightarrow> Some (Respond (envelope err), w2))"
    and completes:
      "check_auth env headers = None \<Longrightarrow> read_json_body env body = Inr request \<Longrightarrow> convert env request = Inr conv \<Longrightarrow>
         policed env call (session env headers request) (body_of conv) request w chat w1 \<Longrightarrow>
         handle env call headers body w =
           (case run_generation env call (session env headers request) (JObj chat) w1 of
              None \<Rightarrow> None
            | Some (Failed f, w2) \<Rightarrow>
                (case refuse_generation env call (session env headers request) (wants_stream request)
                        (request_bytes env (JObj chat)) f w2 of
                   (err, w3) \<Rightarrow> Some (Respond (envelope err), w3))
            | Some (Started g, w2) \<Rightarrow>
                (let w3 = count (record_failover (st_failovers g)) w2;
                     sm = start_summary env call headers (session env headers request) (wants_stream request)
                            (request_bytes env (JObj chat)) g
                 in if wants_stream request
                    then Some (streamed env call (exposes conv) (session env headers request) sm g w3)
                    else aggregated env call (exposes conv) (session env headers request) sm g w3))"
begin

text \<open>How a request that got a generation is answered.\<close>

definition answers ::
    "server_env \<Rightarrow> call \<Rightarrow> header_list \<Rightarrow> json \<Rightarrow> 'c \<Rightarrow> members \<Rightarrow> started \<Rightarrow> server \<Rightarrow> answer \<Rightarrow> server \<Rightarrow> bool" where
  "answers env call headers request conv chat g w2 ans w' \<longleftrightarrow>
     (let fp = session env headers request;
          w3 = count (record_failover (st_failovers g)) w2;
          sm = start_summary env call headers fp (wants_stream request) (request_bytes env (JObj chat)) g
      in if wants_stream request then streamed env call (exposes conv) fp sm g w3 = (ans, w')
         else aggregated env call (exposes conv) fp sm g w3 = Some (ans, w'))"

lemma answers_streamed:
  assumes "answers env call headers request conv chat g w2 ans w'" "wants_stream request"
  obtains sm where "streamed env call (exposes conv) (session env headers request) sm g
      (count (record_failover (st_failovers g)) w2) = (ans, w')" "sm_model sm = served_model env g"
  using assms by (auto simp: answers_def Let_def start_summary_def)

lemma answers_aggregated:
  assumes "answers env call headers request conv chat g w2 ans w'" "\<not> wants_stream request"
  obtains sm where "aggregated env call (exposes conv) (session env headers request) sm g
      (count (record_failover (st_failovers g)) w2) = Some (ans, w')" "\<not> sm_stream sm"
    "sm_model sm = served_model env g"
  using assms by (auto simp: answers_def Let_def start_summary_def)

lemma handle_cases:
  assumes "handle env call headers body w = Some (ans, w')"
  obtains (away) e where "ans = Respond (into_response e)" "w' = w \<or> w' = count record_error w"
      "check_auth env headers \<noteq> None \<or> isl (read_json_body env body)"
  | (rejected) request pe err where "check_auth env headers = None" "read_json_body env body = Inr request"
      "convert env request = Inl pe" "ans = Respond (envelope err)"
      "reject_request env call (wants_stream request) pe (accept_request env request w) = (err, w')"
  | (refused) request conv chat w1 f w2 err where "check_auth env headers = None"
      "read_json_body env body = Inr request" "convert env request = Inr conv"
      "policed env call (session env headers request) (body_of conv) request w chat w1"
      "run_generation env call (session env headers request) (JObj chat) w1 = Some (Failed f, w2)"
      "refuse_generation env call (session env headers request) (wants_stream request)
         (request_bytes env (JObj chat)) f w2 = (err, w')" "ans = Respond (envelope err)"
  | (answered) request conv chat w1 g w2 where "check_auth env headers = None"
      "read_json_body env body = Inr request" "convert env request = Inr conv"
      "policed env call (session env headers request) (body_of conv) request w chat w1"
      "run_generation env call (session env headers request) (JObj chat) w1 = Some (Started g, w2)"
      "answers env call headers request conv chat g w2 ans w'"
proof (cases "check_auth env headers")
  case (Some e)
  with assms turned_away(1) show thesis by (intro away [of e]) auto
next
  case auth: None
  show thesis
  proof (cases "read_json_body env body")
    case (Inl e)
    with assms turned_away(2) [OF auth] show thesis by (intro away [of e]) auto
  next
    case read: (Inr request)
    show thesis
    proof (cases "convert env request")
      case (Inl pe)
      from assms rejects [OF auth read this] show thesis
        by (auto intro: rejected [OF auth read Inl] split: prod.splits)
    next
      case conv: (Inr conv)
      obtain chat w1 where pol: "policed env call (session env headers request) (body_of conv) request w chat w1"
        unfolding policed_def by fastforce
      note run = assms [unfolded completes [OF auth read conv pol]]
      then obtain out w2 where gen: "run_generation env call (session env headers request) (JObj chat) w1 = Some (out, w2)"
        by (auto split: option.splits)
      show thesis
      proof (cases out)
        case (Failed f)
        with run gen show thesis
          by (auto intro: refused [OF auth read conv pol] split: prod.splits)
      next
        case (Started g)
        with run gen have "answers env call headers request conv chat g w2 ans w'"
          by (auto simp: answers_def Let_def split: if_splits)
        with answered [OF auth read conv pol] gen Started show thesis by simp
      qed
    qed
  qed
qed

end

section \<open>The two routes\<close>

definition converts_messages :: "server_env \<Rightarrow> json \<Rightarrow> protocol_error + converted" where
  "converts_messages env request = fst (anth_convert_request (x_codec (sv_x env)) request (sv_model env))"

definition converts_responses :: "server_env \<Rightarrow> json \<Rightarrow> protocol_error + resp_converted" where
  "converts_responses env request = resp_convert_request (x_codec (sv_x env)) request (sv_model env)"

lemmas messages_route_defs = handle_messages_def complete_messages_def converts_messages_def policed_def Let_def
lemmas responses_route_defs = handle_responses_def complete_responses_def converts_responses_def policed_def Let_def

interpretation messages: generation_route handle_messages converts_messages anthropic_session chat_body
    thinking_requested into_response stream_messages aggregate_messages
  by unfold_locales (simp_all add: messages_route_defs split: option.split generate_outcome.split)

interpretation responses: generation_route handle_responses converts_responses responses_session resp_chat_body
    resp_thinking_requested openai_error_response stream_responses aggregate_to_response
  by unfold_locales (simp_all add: responses_route_defs split: option.split generate_outcome.split)

end
