(* ===== verification/Server_Auth.thy ===== *)
theory Server_Auth
  imports Server_Route Metrics_Props
begin

text \<open>
  Properties of the HTTP front that need no knowledge of the conversions: authentication, and the
  accounting of a request from its acceptance to its end.
\<close>

section \<open>The key comparison\<close>

lemma of_char_word_eq: "(of_char x :: 8 word) = of_char y \<longleftrightarrow> x = y"
proof
  assume "(of_char x :: 8 word) = of_char y"
  then have "(of_nat (of_char x) :: 8 word) = of_nat (of_char y)" by (simp only: of_nat_of_char)
  then have "(of_char x :: nat) = of_char y"
    using nat_of_char_less_256 [of x] nat_of_char_less_256 [of y]
    by (simp add: word_of_nat_eq_iff take_bit_nat_eq_self)
  then show "x = y" by simp
qed simp

lemma fold_or_zero:
  "fold (\<lambda>(x, y) acc. or acc (xor (of_char x) (of_char y))) ps (a :: 8 word) = 0
     \<longleftrightarrow> a = 0 \<and> (\<forall>(x, y) \<in> set ps. x = y)"
proof (induction ps arbitrary: a)
  case Nil
  then show ?case by simp
next
  case (Cons p ps)
  obtain x y where p: "p = (x, y)" by (cases p)
  have "or a (xor (of_char x) (of_char y)) = 0 \<longleftrightarrow> a = 0 \<and> (of_char x :: 8 word) = of_char y"
    by (auto simp: bit_eq_iff bit_simps)
  with Cons p show ?case by (simp add: of_char_word_eq)
qed

lemma constant_time_eq_iff: "constant_time_eq a b \<longleftrightarrow> a = b"
proof -
  have "(\<forall>(x, y) \<in> set (zip a b). x = y) \<longleftrightarrow> a = b" if "length a = length b"
    using that by (induction a b rule: list_induct2) auto
  then show ?thesis by (auto simp: constant_time_eq_def fold_or_zero)
qed

section \<open>Authentication\<close>

lemma check_auth_iff:
  "check_auth env headers = None \<longleftrightarrow> (\<forall>key. sv_api_key env = Some key \<longrightarrow> presented_key headers = Some key)"
  by (auto simp: check_auth_def constant_time_eq_iff split: option.splits)

lemma check_auth_error: "check_auth env headers = Some e \<Longrightarrow> rs_status (into_response e) = 401"
  by (auto simp: check_auth_def into_response_def status_code_def error_constructors split: option.splits if_splits)

section \<open>Accounting\<close>

text \<open>Requests accepted, requests settled, and the two in-flight gauges.\<close>

definition accounts :: "server \<Rightarrow> u64 \<times> u64 \<times> u64 \<times> u64" where
  "accounts w =
     (let m = ws_metrics w
      in (m_requests_total m, m_requests_ok m + m_requests_error m, m_requests_in_flight m,
          m_streams_in_flight m))"

definition settled :: "server \<Rightarrow> server \<Rightarrow> bool" where
  "settled w w' \<longleftrightarrow>
     (case accounts w of (accepted, done_count, requests, streams) \<Rightarrow>
        accounts w' = (accepted + 1, done_count + 1, requests, streams))"

text \<open>Between acceptance and settlement.\<close>

definition in_flight :: "bool \<Rightarrow> server \<Rightarrow> server \<Rightarrow> bool" where
  "in_flight stream w w' \<longleftrightarrow>
     (case accounts w of (accepted, done_count, requests, streams) \<Rightarrow>
        accounts w' = (accepted + 1, done_count, requests + 1, streams + (if stream then 1 else 0)))"

lemmas account_defs = accounts_def count_def Let_def record_request_def record_ok_def record_error_def
  record_bytes_in_def record_bytes_out_def record_tokens_def record_latencies_def record_failover_def
  guard_new_def guard_drop_def log_summary_def

lemma metric_accounts [simp]:
  "m_requests_total (record_metric e m) = m_requests_total m"
  "m_requests_ok (record_metric e m) = m_requests_ok m"
  "m_requests_error (record_metric e m) = m_requests_error m"
  "m_requests_in_flight (record_metric e m) = m_requests_in_flight m"
  "m_streams_in_flight (record_metric e m) = m_streams_in_flight m"
  by (cases e; simp add: record_transport_error_def record_upstream_200_error_def record_upstream_401_def
      record_refresh_def record_upstream_429_def record_upstream_403_def record_upstream_5xx_def)+

lemma fold_same: "(\<And>e m. f (g e m) = f m) \<Longrightarrow> f (fold g es m) = f m"
  by (induction es arbitrary: m) simp_all

lemma metrics_accounts:
  "m_requests_total (fold record_metric es m) = m_requests_total m"
  "m_requests_ok (fold record_metric es m) = m_requests_ok m"
  "m_requests_error (fold record_metric es m) = m_requests_error m"
  "m_requests_in_flight (fold record_metric es m) = m_requests_in_flight m"
  "m_streams_in_flight (fold record_metric es m) = m_streams_in_flight m"
  by (simp_all add: fold_same [of _ record_metric])

lemma stalls_accounts [simp]: "accounts (count_stalls ks w) = accounts w"
proof -
  have "m_requests_total (fold record_stream_stall ks m) = m_requests_total m"
    "m_requests_ok (fold record_stream_stall ks m) = m_requests_ok m"
    "m_requests_error (fold record_stream_stall ks m) = m_requests_error m"
    "m_requests_in_flight (fold record_stream_stall ks m) = m_requests_in_flight m"
    "m_streams_in_flight (fold record_stream_stall ks m) = m_streams_in_flight m" for m
    by (simp_all add: fold_same [of _ record_stream_stall] record_stream_stall_def)
  then show ?thesis by (simp add: accounts_def count_stalls_def count_def Let_def)
qed

lemma shadow_accounts [simp]: "accounts (w\<lparr>ws_shadow := sh\<rparr>) = accounts w"
  by (simp add: accounts_def Let_def)

lemma accept_in_flight: "in_flight (wants_stream request) w (accept_request env request w)"
  by (simp add: in_flight_def accept_request_def account_defs)

lemma policy_accounts: "apply_policy env now fp body w = (chat, w') \<Longrightarrow> accounts w' = accounts w"
  by (auto simp: apply_policy_def Let_def split: prod.splits)

lemma generation_accounts: "run_generation env call fp body w = Some (out, w') \<Longrightarrow> accounts w' = accounts w"
  by (auto simp: run_generation_def accounts_def Let_def metrics_accounts)

lemma failover_accounts [simp]: "accounts (count (record_failover n) w) = accounts w"
  by (simp add: account_defs)

text \<open>Every way to close a request in flight settles it.\<close>

lemma in_flight_same: "accounts w1 = accounts w2 \<Longrightarrow> in_flight stream w w1 = in_flight stream w w2"
  by (simp add: in_flight_def)

lemma reject_settles:
  "reject_request env call stream e w1 = (err, w2) \<Longrightarrow> in_flight stream w w1 \<Longrightarrow> settled w w2"
  by (auto simp: reject_request_def in_flight_def settled_def account_defs)

lemma refuse_settles:
  "refuse_generation env call fp stream n f w1 = (e, w2) \<Longrightarrow> in_flight stream w w1 \<Longrightarrow> settled w w2"
  by (auto simp: refuse_generation_def in_flight_def settled_def account_defs)

lemma stream_settles: "in_flight True w w1 \<Longrightarrow> settled w (count (guard_drop True) (close_stream sm st error w1))"
  by (auto simp: close_stream_def in_flight_def settled_def account_defs)

lemma aggregate_settles:
  "close_aggregate call sm st result w1 = (r, w2) \<Longrightarrow> in_flight (sm_stream sm) w w1 \<Longrightarrow> settled w w2"
  by (cases result) (auto simp: close_aggregate_def in_flight_def settled_def account_defs)

section \<open>Runs that end\<close>

text \<open>The client stays and the upstream stream ends, by itself or by a broken connection.\<close>

fun upstream_over :: "pump_input \<Rightarrow> bool" where
  "upstream_over (Closed now) = True"
| "upstream_over (Broke now e) = True"
| "upstream_over i = False"

definition runs_to_end :: "pump_input list \<Rightarrow> bool" where
  "runs_to_end is \<longleftrightarrow> ClientGone \<notin> set is \<and> list_ex upstream_over is"

lemma run_steps_end:
  assumes "i \<in> set is" "\<And>w. snd (step i w) \<noteq> None"
  shows "\<exists>w' r. run_steps step is w = (w', Some r)"
  using assms
proof (induction "is" arbitrary: w)
  case Nil
  then show ?case by simp
next
  case (Cons j js)
  obtain w1 r where st: "step j w = (w1, r)" by fastforce
  show ?case
  proof (cases r)
    case None
    with st Cons.prems(2) [of w] have "i \<in> set js" using Cons.prems(1) by auto
    from Cons.IH [OF this Cons.prems(2)] st None show ?thesis by simp
  qed (simp add: st)
qed

lemma run_steps_by: "run_steps step is w = (w', Some r) \<Longrightarrow> \<exists>i \<in> set is. \<exists>w0. step i w0 = (w', Some r)"
proof (induction "is" arbitrary: w)
  case Nil
  then show ?case by simp
next
  case (Cons i "is")
  then show ?case by (auto split: prod.splits option.splits)
qed

lemma end_pump_Some: "snd (end_pump env now error how w) = Some r \<Longrightarrow> fst r = how"
  by (auto simp: end_pump_def split: prod.splits)

lemma pump_over: "upstream_over i \<Longrightarrow> snd (pump_step env i w) \<noteq> None"
  by (cases i) (auto simp: pump_step_def end_pump_def Let_def split: prod.splits)

lemma pump_gone: "pump_step env i w = (w', Some (Disconnected, v)) \<Longrightarrow> i = ClientGone"
  by (auto simp: pump_step_def end_pump_def Let_def split: pump_input.splits prod.splits option.splits if_splits)

lemma pump_runs_to_end:
  assumes "runs_to_end is"
  obtains w' how v where "pump_run env is w = (w', Some (how, v))" "how \<noteq> Disconnected"
proof -
  from assms obtain i where i: "i \<in> set is" "upstream_over i" "ClientGone \<notin> set is"
    by (auto simp: runs_to_end_def list_ex_iff)
  from run_steps_end [of i "is" "pump_step env", OF i(1) pump_over [OF i(2)]] obtain w' r where
    run: "pump_run env is w = (w', Some r)" unfolding pump_run_def by blast
  then have "fst r \<noteq> Disconnected"
    using run_steps_by [OF run [unfolded pump_run_def]] pump_gone i(3) by (cases r) fastforce
  with run that show thesis by (cases r) auto
qed

lemma resp_over: "upstream_over i \<Longrightarrow> snd (resp_stream_step env rnd i w) \<noteq> None"
  by (cases i) (auto simp: resp_stream_step_def end_resp_def split: prod.splits)

lemma resp_gone: "resp_stream_step env rnd i w = (w', Some RespGone) \<Longrightarrow> i = ClientGone"
  by (auto simp: resp_stream_step_def end_resp_def split: pump_input.splits prod.splits option.splits if_splits)

lemma resp_runs_to_end:
  assumes "runs_to_end is"
  obtains w' error where "run_steps (resp_stream_step env rnd) is w = (w', Some (RespEnded error))"
proof -
  from assms obtain i where i: "i \<in> set is" "upstream_over i" "ClientGone \<notin> set is"
    by (auto simp: runs_to_end_def list_ex_iff)
  from run_steps_end [of i "is" "resp_stream_step env rnd", OF i(1) resp_over [OF i(2)]] obtain w' r where
    run: "run_steps (resp_stream_step env rnd) is w = (w', Some r)" by blast
  then have "r \<noteq> RespGone" using run_steps_by [OF run] resp_gone i(3) by fastforce
  with run that show thesis by (cases r) auto
qed

section \<open>Requests are settled\<close>

lemma in_flight_stalls: "in_flight stream w (count_stalls ks (w1\<lparr>ws_shadow := sh\<rparr>)) = in_flight stream w w1"
  by (rule in_flight_same) simp

lemma stream_messages_settles:
  assumes "runs_to_end (cl_schedule call (upstream_bytes g))" "in_flight True w w1"
  shows "settled w (snd (stream_messages env call expose fp sm g w1))"
proof -
  obtain pw how v where run: "pump_run (pump_env_of env fp) (cl_schedule call (upstream_bytes g))
      (messages_world env call expose w1) = (pw, Some (how, v))" "how \<noteq> Disconnected"
    using pump_runs_to_end [OF assms(1)] by blast
  let ?w = "count_stalls (pw_stalls pw) (w1\<lparr>ws_shadow := pw_shadow pw\<rparr>)"
  have "snd (stream_messages env call expose fp sm g w1)
      = count (guard_drop True) (close_stream sm (sp_stats (pw_pump pw)) (ending_error how) ?w)"
    using run(2) by (simp add: stream_messages_def run(1) Let_def split: ending.split)
  moreover have "in_flight True w ?w" using assms(2) by (simp only: in_flight_stalls)
  ultimately show ?thesis using stream_settles by simp
qed

lemma stream_responses_settles:
  assumes "runs_to_end (cl_schedule call (upstream_bytes g))" "in_flight True w w1"
  shows "settled w (snd (stream_responses env call expose fp sm g w1))"
proof -
  obtain rw error where run: "run_steps (resp_stream_step (pump_env_of env fp) (cl_ids call))
      (cl_schedule call (upstream_bytes g)) (responses_world env call (sm_model sm) expose w1)
      = (rw, Some (RespEnded error))"
    using resp_runs_to_end [OF assms(1)] by blast
  let ?w = "count_stalls (rw_stalls rw) (w1\<lparr>ws_shadow := rw_shadow rw\<rparr>)"
  have "snd (stream_responses env call expose fp sm g w1)
      = count (guard_drop True) (close_stream sm (rp_stats (rw_pump rw)) error ?w)"
    by (simp add: stream_responses_def run Let_def)
  moreover have "in_flight True w ?w" using assms(2) by (simp only: in_flight_stalls)
  ultimately show ?thesis using stream_settles by simp
qed

text \<open>Every aggregation that answers has closed its request.\<close>

lemma aggregate_messages_closes:
  assumes "aggregate_messages env call expose fp sm g w = Some (ans, w')"
  obtains pw r st result where "pump_run (pump_env_of env fp) (aggregate_inputs (cl_schedule call (upstream_bytes g)))
      (messages_world env call expose w) = (pw, r)"
    "w' = snd (close_aggregate call sm st result (count_stalls (pw_stalls pw) (w\<lparr>ws_shadow := pw_shadow pw\<rparr>)))"
proof -
  obtain pw r where run: "pump_run (pump_env_of env fp) (aggregate_inputs (cl_schedule call (upstream_bytes g)))
      (messages_world env call expose w) = (pw, r)" by fastforce
  let ?close = "\<lambda>result. close_aggregate call sm (sp_stats (pw_pump pw)) result
       (count_stalls (pw_stalls pw) (w\<lparr>ws_shadow := pw_shadow pw\<rparr>))"
  from assms run obtain result where
    c: "(case ?close result of (Inr v, w1) \<Rightarrow> Some (ok_json v, w1)
         | (Inl e, w1) \<Rightarrow> Some (Respond (into_response e), w1)) = Some (ans, w')"
    by (auto simp: aggregate_messages_def bind_eq_Some_conv)
  then have "w' = snd (?close result)" by (cases "?close result") (auto split: sum.splits)
  with run show thesis by (rule that)
qed

lemma aggregate_to_response_closes:
  assumes "aggregate_to_response env call expose fp sm g w = Some (ans, w')"
  obtains rw r st result where "run_steps (resp_aggregate_step (pump_env_of env fp) (cl_ids call))
      (aggregate_inputs (cl_schedule call (upstream_bytes g)))
      (responses_world env call (sm_model sm) expose w) = (rw, r)"
    "w' = snd (close_aggregate call sm st result (count_stalls (rw_stalls rw) (w\<lparr>ws_shadow := rw_shadow rw\<rparr>)))"
proof -
  obtain rw r where run: "run_steps (resp_aggregate_step (pump_env_of env fp) (cl_ids call))
      (aggregate_inputs (cl_schedule call (upstream_bytes g)))
      (responses_world env call (sm_model sm) expose w) = (rw, r)" by fastforce
  let ?close = "\<lambda>result. close_aggregate call sm (rp_stats (rw_pump rw)) result
       (count_stalls (rw_stalls rw) (w\<lparr>ws_shadow := rw_shadow rw\<rparr>))"
  from assms run obtain result where
    c: "(case ?close result of (Inr v, w1) \<Rightarrow> Some (ok_json v, w1)
         | (Inl e, w1) \<Rightarrow> Some (Respond (openai_error_response e), w1)) = Some (ans, w')"
    by (auto simp: aggregate_to_response_def bind_eq_Some_conv)
  then have "w' = snd (?close result)" by (cases "?close result") (auto split: sum.splits)
  with run show thesis by (rule that)
qed

lemma aggregate_messages_settles:
  assumes "aggregate_messages env call expose fp sm g w1 = Some (ans, w2)" "in_flight (sm_stream sm) w w1"
  shows "settled w w2"
  using assms(2)
  by (rule_tac aggregate_messages_closes [OF assms(1)])
    (simp add: aggregate_settles [OF prod.collapse [symmetric]] in_flight_stalls)

lemma aggregate_to_response_settles:
  assumes "aggregate_to_response env call expose fp sm g w1 = Some (ans, w2)" "in_flight (sm_stream sm) w w1"
  shows "settled w w2"
  using assms(2)
  by (rule_tac aggregate_to_response_closes [OF assms(1)])
    (simp add: aggregate_settles [OF prod.collapse [symmetric]] in_flight_stalls)

text \<open>The law both routes obey: however they answer, they settle the request in flight.\<close>

locale accounted_route = generation_route +
  assumes streamed_settles:
      "runs_to_end (cl_schedule call (upstream_bytes g)) \<Longrightarrow> in_flight True w w1 \<Longrightarrow>
         settled w (snd (streamed env call expose fp sm g w1))"
    and aggregated_settles:
      "aggregated env call expose fp sm g w1 = Some (ans, w2) \<Longrightarrow> in_flight (sm_stream sm) w w1 \<Longrightarrow> settled w w2"
begin

lemma started_in_flight:
  assumes "policed env call fp body request w chat w1" "run_generation env call fp (JObj chat) w1 = Some (out, w2)"
  shows "in_flight (wants_stream request) w w2"
  using accept_in_flight [of request w env] policy_accounts [OF assms(1) [unfolded policed_def]]
    generation_accounts [OF assms(2)] in_flight_same by metis

lemma handle_settles:
  assumes "handle env call headers body w = Some (ans, w')"
    and "check_auth env headers = None" "read_json_body env body = Inr request"
    and "wants_stream request \<longrightarrow> (\<forall>s. runs_to_end (cl_schedule call s))"
  shows "settled w w'"
proof (rule handle_cases [OF assms(1)])
  fix request' pe err
  assume "read_json_body env body = Inr request'"
    "reject_request env call (wants_stream request') pe (accept_request env request' w) = (err, w')"
  with reject_settles accept_in_flight show "settled w w'" by blast
next
  fix request' conv chat w1 f w2 err
  assume "policed env call (session env headers request') (body_of conv) request' w chat w1"
    "run_generation env call (session env headers request') (JObj chat) w1 = Some (Failed f, w2)"
    "refuse_generation env call (session env headers request') (wants_stream request')
       (request_bytes env (JObj chat)) f w2 = (err, w')"
  with refuse_settles started_in_flight show "settled w w'" by blast
next
  fix request' conv chat w1 g w2
  assume read: "read_json_body env body = Inr request'"
    and pol: "policed env call (session env headers request') (body_of conv) request' w chat w1"
    and gen: "run_generation env call (session env headers request') (JObj chat) w1 = Some (Started g, w2)"
    and ans: "answers env call headers request' conv chat g w2 ans w'"
  have fl: "in_flight (wants_stream request') w (count (record_failover (st_failovers g)) w2)"
    using started_in_flight [OF pol gen] in_flight_same [OF failover_accounts] by metis
  show "settled w w'"
  proof (cases "wants_stream request'")
    case True
    with assms(3,4) read have ends: "runs_to_end (cl_schedule call (upstream_bytes g))" by auto
    obtain sm where eq: "streamed env call (exposes conv) (session env headers request') sm g
        (count (record_failover (st_failovers g)) w2) = (ans, w')" using answers_streamed [OF ans True] .
    have "settled w (snd (ans, w'))"
      unfolding eq [symmetric] using streamed_settles [OF ends] fl True by simp
    then show ?thesis by simp
  next
    case False
    obtain sm where "aggregated env call (exposes conv) (session env headers request') sm g
        (count (record_failover (st_failovers g)) w2) = Some (ans, w')" "\<not> sm_stream sm"
      using answers_aggregated [OF ans False] .
    with fl False aggregated_settles show ?thesis by simp
  qed
qed (use assms(2,3) in simp_all)

end

interpretation messages: accounted_route handle_messages converts_messages anthropic_session chat_body
    thinking_requested into_response stream_messages aggregate_messages
  by unfold_locales (rule stream_messages_settles aggregate_messages_settles; assumption)+

interpretation responses: accounted_route handle_responses converts_responses responses_session resp_chat_body
    resp_thinking_requested openai_error_response stream_responses aggregate_to_response
  by unfold_locales (rule stream_responses_settles aggregate_to_response_settles; assumption)+

section \<open>A concrete server\<close>

text \<open>Used only by the witnesses: no accounts, and a codec that reads one request.\<close>

definition front_request :: json where
  "front_request =
     JObj [(''max_tokens'', JNum (PosInt 5)),
           (''messages'', JArr [JObj [(''role'', JStr ''user''), (''content'', JStr ''hi'')]])]"

definition front_env :: "string option \<Rightarrow> server_env" where
  "front_env key =
     \<lparr>sv_x = sample_externals\<lparr>x_codec := sample_codec\<lparr>from_text := (\<lambda>s. if s = ''R'' then Some front_request else None)\<rparr>\<rparr>,
      sv_hash = (\<lambda>_. 0), sv_api_key = key, sv_model = ''m'', sv_secret = [],
      sv_timeouts = \<lparr>first_event = 0, first_semantic = 0, stream_idle = 0, semantic_idle = 0\<rparr>,
      sv_shadow_limits = default_limits, sv_body_limit = 10, sv_error_text = pe_template,
      sv_json_error = (\<lambda>_. []), sv_limit_error = []\<rparr>"

definition front_limits :: limits where
  "front_limits =
     \<lparr>cred_cooldown_secs = 1, model_cooldown_secs = 1, hard_credit_cooldown_secs = 1, sticky_max = 4,
      sticky_ttl_secs = 60\<rparr>"

definition front_server :: server where
  "front_server =
     \<lparr>ws_pool = new_pool [] front_limits, ws_files = Map.empty, ws_shadow = new_shadow, ws_metrics = new_metrics, ws_sent = [],
      ws_log = []\<rparr>"

definition front_round :: round where
  "front_round =
     \<lparr>rd_now = 0, rd_done = 0, rd_secs = 0, rd_others = (\<lambda>x. x), rd_answer = (\<lambda>_ _. SendFailed []),
      rd_refresh = \<lparr>rc_now = 0, rc_millis = 0, rc_endpoint = (\<lambda>_. NoReply []), rc_tmp = [], rc_write = WriteOk,
                    rc_io_error = []\<rparr>\<rparr>"

definition front_call :: call where
  "front_call =
     \<lparr>cl_start = 0, cl_done = 5, cl_pump_start = 0, cl_request_id = ''req_1'', cl_random = ''1'',
      cl_ids = (\<lambda>_. ''0''), cl_created = 0, cl_rounds = [front_round], cl_schedule = (\<lambda>_. [Closed 1]), cl_others = (\<lambda>s. s)\<rparr>"

lemma front_billing: "strip_billing_in_anthropic_system front_request = front_request"
  by (simp add: strip_billing_in_anthropic_system_def front_request_def)
lemma front_messages: "anth_convert_messages c [JObj [(''role'', JStr ''user''), (''content'', JStr ''hi'')]] = Inr [user_message (JStr ''hi'')]"
  by (simp add: anth_convert_messages_def convert_messages_step_def anth_convert_user_message_def settle_tool_result_def is_tool_message_def user_message_def Let_def get_str_def mstr_def)
lemma front_converts: "\<not> isl (fst (anth_convert_request c front_request m))"
proof -
  have "convert_object c [(''max_tokens'', JNum (PosInt 5)),
           (''messages'', JArr [JObj [(''role'', JStr ''user''), (''content'', JStr ''hi'')]])] m \<noteq> Inl e" for e
    by (simp add: convert_object_def required_max_tokens_def stop_sequences_member_def
      required_messages_def front_messages anth_tools_member_def tool_choice_member_def Let_def ok_or_def filter_opt_def)
  then show ?thesis
    unfolding anth_convert_request_def Let_def front_billing by (auto simp: front_request_def isl_def)
qed

lemma empty_pool_fails:
  assumes "entries p = []"
  shows "\<exists>f s. generate x m t0 None body [front_round] p files = Some (Failed f, s)"
  using assms
  by (simp add: generate_def Let_def generate_round_def choose_account_def interfere_def front_round_def
      start_state_def pick_def sticky_pick_def ranked_pick_def no_account_def failed_def split: option.split)

lemma front_answers:
  "\<exists>ans w'. handle_messages (front_env None) front_call [] (ReadBytes ''R'') front_server = Some (ans, w')"
proof -
  let ?env = "front_env None"
  let ?w = "accept_request ?env front_request front_server"
  obtain conv where
    conv: "fst (anth_convert_request (x_codec (sv_x ?env)) front_request (sv_model ?env)) = Inr conv"
    using front_converts [of "x_codec (sv_x ?env)" "sv_model ?env"]
    by (cases "fst (anth_convert_request (x_codec (sv_x ?env)) front_request (sv_model ?env))") auto
  obtain chat w1 where pol: "apply_policy ?env 0 None (chat_body conv) ?w = (chat, w1)" by fastforce
  then have "ws_pool w1 = new_pool [] front_limits"
    by (auto simp: apply_policy_def Let_def accept_request_def count_def front_server_def)
  then obtain f s where "run_generation ?env front_call None (JObj chat) w1 = Some (Failed f, s)"
    using empty_pool_fails [of "ws_pool w1"]
    by (simp add: run_generation_def front_call_def new_pool_def) blast
  with pol have "\<exists>ans w'. complete_messages ?env front_call [] None False conv ?w = Some (ans, w')"
    by (simp add: complete_messages_def front_call_def Let_def split: prod.split)
  moreover have "anthropic_session ?env [] front_request = None"
    by (simp add: anthropic_session_def resolve_anthropic_session_def metadata_session_def header_session_def
        header_str_def filter_opt_def front_request_def or_else_def)
  ultimately show ?thesis
    using conv by (simp add: handle_messages_def check_auth_def read_json_body_def front_env_def Let_def
        wants_stream_def front_request_def)
qed

section \<open>Properties\<close>

text \<open>A client gets past authentication exactly when no key is configured or it presents the configured
  one; any other client gets status 401 on every protected route, and its request changes nothing: no
  account is picked, nothing is sent upstream, no metric and no session is touched.\<close>

theorem unauthorized_client_changes_nothing:
  assumes "sv_api_key env = Some key" "presented_key headers \<noteq> Some key"
  shows "\<exists>r. rs_status r = 401
    \<and> handle_messages env call headers body w = Some (Respond r, w)
    \<and> handle_responses env call headers body w = Some (Respond r, w)
    \<and> handle_models env headers w = (Respond r, w)
    \<and> handle_count_tokens env headers body w = (Respond r, w)
    \<and> handle_admin_status env version now uptime headers w = Respond r"
proof -
  from assms check_auth_iff obtain e where "check_auth env headers = Some e" by fastforce
  with check_auth_error show ?thesis
    by (auto simp: handle_messages_def handle_responses_def handle_models_def handle_count_tokens_def
        handle_admin_status_def)
qed

theorem unauthorized_client_changes_nothing_witness:
  "\<exists>r. rs_status r = 401
     \<and> handle_messages (front_env (Some ''k'')) front_call [(''x-api-key'', ''wrong'')] (ReadBytes ''R'') front_server
         = Some (Respond r, front_server)"
proof -
  have key: "sv_api_key (front_env (Some ''k'')) = Some ''k''" by (simp add: front_env_def)
  have "presented_key [(''x-api-key'', ''wrong'')] \<noteq> Some ''k''" by code_simp
  from unauthorized_client_changes_nothing [OF key this, of front_call "ReadBytes ''R''" front_server]
  show ?thesis by blast
qed

text \<open>C12: Every accepted request is settled exactly once: unless the client leaves a stream or the upstream
  never ends it, a request of either generation route counts once as accepted and once as ok or error,
  and both in-flight gauges are back where they were, whatever happened in between.\<close>

theorem request_is_settled_once:
  assumes "handle_messages env call headers body w = Some (ans, w')
      \<or> handle_responses env call headers body w = Some (ans, w')"
    and "check_auth env headers = None" "read_json_body env body = Inr request"
    and "wants_stream request \<longrightarrow> (\<forall>s. runs_to_end (cl_schedule call s))"
  shows "settled w w'"
  using assms messages.handle_settles responses.handle_settles by blast

theorem request_is_settled_once_witness:
  "\<exists>ans w'. handle_messages (front_env None) front_call [] (ReadBytes ''R'') front_server = Some (ans, w')
     \<and> settled front_server w'"
proof -
  obtain ans w' where
    run: "handle_messages (front_env None) front_call [] (ReadBytes ''R'') front_server = Some (ans, w')"
    using front_answers by blast
  have "check_auth (front_env None) [] = None" by (simp add: check_auth_def front_env_def)
  moreover have "read_json_body (front_env None) (ReadBytes ''R'') = Inr front_request"
    by (simp add: read_json_body_def front_env_def)
  moreover have "\<not> wants_stream front_request" by (simp add: wants_stream_def front_request_def)
  ultimately have "settled front_server w'" using request_is_settled_once [OF disjI1 [OF run]] by blast
  with run show ?thesis by blast
qed

end
