(* ===== verification/Config.thy ===== *)
theory Config
  imports Credential
begin

text \<open>
  The configuration (\<open>src/config.rs\<close>, and the overrides of \<open>src/main.rs\<close>): built-in defaults, the TOML
  file over them, environment variables over both, and the validation before the server binds.

  \<open>u16\<close>, \<open>u64\<close> and \<open>usize\<close> fields are words. The TOML decoder is a parameter, from a file's text to
  the optional fields; so are the files, the environment (only variables that are set and are UTF-8)
  and the directory of the executable.
\<close>

section \<open>Configuration\<close>

record server_config =
  sc_host :: string
  sc_port :: "16 word"
  sc_api_key :: "string option"

record upstream_config =
  uc_base_url :: string
  uc_login_portal :: string
  uc_proxy :: "string option"
  uc_connect_timeout_secs :: u64

record auth_config =
  ac_dir :: string
  ac_seed_dirs :: "string list"

record timeout_config =
  tc_first_event_secs :: u64
  tc_first_semantic_secs :: u64
  tc_stream_idle_secs :: u64
  tc_semantic_idle_secs :: u64

record limit_config =
  lc_shadow_max_sessions :: u64
  lc_shadow_ttl_secs :: u64
  lc_sticky_ttl_secs :: u64
  lc_sticky_max :: u64
  lc_cred_cooldown_secs :: u64
  lc_hard_credit_cooldown_secs :: u64
  lc_model_cooldown_secs :: u64
  lc_model_cooldown_max_secs :: u64
  lc_refresh_margin_secs :: u64
  lc_keepalive_secs :: u64
  lc_max_body_bytes :: u64
  lc_shutdown_timeout_secs :: u64

record checkin_config =
  kc_enabled :: bool
  kc_interval_secs :: u64

record config =
  cf_server :: server_config
  cf_model :: string
  cf_upstream :: upstream_config
  cf_auth :: auth_config
  cf_timeouts :: timeout_config
  cf_limits :: limit_config
  cf_checkin :: checkin_config
  cf_log_level :: string
  cf_secret :: "string option"

datatype config_error = ReadError string | ParseError string | InvalidConfig string

section \<open>Defaults\<close>

definition default_timeouts :: timeout_config where
  "default_timeouts =
     \<lparr>tc_first_event_secs = 90, tc_first_semantic_secs = 240, tc_stream_idle_secs = 120,
      tc_semantic_idle_secs = 300\<rparr>"

definition default_limit_config :: limit_config where
  "default_limit_config =
     \<lparr>lc_shadow_max_sessions = 256, lc_shadow_ttl_secs = 600, lc_sticky_ttl_secs = 1800,
      lc_sticky_max = 512, lc_cred_cooldown_secs = 300, lc_hard_credit_cooldown_secs = 12 * 3600,
      lc_model_cooldown_secs = 600, lc_model_cooldown_max_secs = 86400, lc_refresh_margin_secs = 600,
      lc_keepalive_secs = 86400, lc_max_body_bytes = 100 * 1024 * 1024, lc_shutdown_timeout_secs = 30\<rparr>"

definition default_checkin :: checkin_config where
  "default_checkin = \<lparr>kc_enabled = True, kc_interval_secs = 3600\<rparr>"

definition DEFAULT_MODEL :: string where
  "DEFAULT_MODEL = ''deepseek-flash''"

text \<open>\<open>exe_dir\<close> is the directory of the executable, when known; \<open>creatable\<close> tells whether a directory
  exists or can be created.\<close>

definition default_auth_dir :: "string option \<Rightarrow> (string \<Rightarrow> bool) \<Rightarrow> string" where
  "default_auth_dir exe_dir creatable =
     (case exe_dir of
        Some dir \<Rightarrow> if creatable (dir @ ''/auth'') then dir @ ''/auth'' else ''auth''
      | None \<Rightarrow> ''auth'')"

definition default_config :: "string \<Rightarrow> config" where
  "default_config auth_dir =
     \<lparr>cf_server = \<lparr>sc_host = ''127.0.0.1'', sc_port = 8090, sc_api_key = None\<rparr>,
      cf_model = DEFAULT_MODEL,
      cf_upstream = \<lparr>uc_base_url = ''https://lobsterai-server.youdao.com'',
                     uc_login_portal = ''https://lobsterai.youdao.com'', uc_proxy = None,
                     uc_connect_timeout_secs = 15\<rparr>,
      cf_auth = \<lparr>ac_dir = auth_dir, ac_seed_dirs = []\<rparr>,
      cf_timeouts = default_timeouts, cf_limits = default_limit_config, cf_checkin = default_checkin,
      cf_log_level = ''info'', cf_secret = None\<rparr>"

section \<open>The file\<close>

record file_server =
  fs_host :: "string option"
  fs_port :: "16 word option"
  fs_api_key :: "string option"

record file_upstream =
  fu_base_url :: "string option"
  fu_login_portal :: "string option"
  fu_proxy :: "string option"
  fu_connect_timeout_secs :: "u64 option"

record file_auth =
  fa_dir :: "string option"
  fa_seed_dirs :: "string list option"

record file_timeouts =
  ft_first_event_secs :: "u64 option"
  ft_first_semantic_secs :: "u64 option"
  ft_stream_idle_secs :: "u64 option"
  ft_semantic_idle_secs :: "u64 option"

record file_limits =
  fl_shadow_max_sessions :: "u64 option"
  fl_shadow_ttl_secs :: "u64 option"
  fl_sticky_ttl_secs :: "u64 option"
  fl_sticky_max :: "u64 option"
  fl_cred_cooldown_secs :: "u64 option"
  fl_hard_credit_cooldown_secs :: "u64 option"
  fl_model_cooldown_secs :: "u64 option"
  fl_model_cooldown_max_secs :: "u64 option"
  fl_refresh_margin_secs :: "u64 option"
  fl_keepalive_secs :: "u64 option"
  fl_max_body_bytes :: "u64 option"
  fl_shutdown_timeout_secs :: "u64 option"

record file_checkin =
  fk_enabled :: "bool option"
  fk_interval_secs :: "u64 option"

record file_config =
  fc_server :: file_server
  fc_model :: "string option"
  fc_upstream :: file_upstream
  fc_auth :: file_auth
  fc_timeouts :: file_timeouts
  fc_limits :: file_limits
  fc_checkin :: file_checkin
  fc_log_level :: "string option"
  fc_secret :: "string option"

text \<open>\<open>str::trim_end_matches('/')\<close>.\<close>

definition trim_end_slash :: "string \<Rightarrow> string" where
  "trim_end_slash s = rev (dropWhile (\<lambda>b. b = CHR 0x2F) (rev s))"

definition apply_file_server :: "file_server \<Rightarrow> server_config \<Rightarrow> server_config" where
  "apply_file_server f s =
     \<lparr>sc_host = unwrap_or (sc_host s) (fs_host f), sc_port = unwrap_or (sc_port s) (fs_port f),
      sc_api_key = or_else (filter_opt (\<lambda>k. k \<noteq> []) (fs_api_key f)) (sc_api_key s)\<rparr>"

definition apply_file_upstream :: "file_upstream \<Rightarrow> upstream_config \<Rightarrow> upstream_config" where
  "apply_file_upstream f u =
     \<lparr>uc_base_url = unwrap_or (uc_base_url u) (map_option trim_end_slash (fu_base_url f)),
      uc_login_portal = unwrap_or (uc_login_portal u) (map_option trim_end_slash (fu_login_portal f)),
      uc_proxy = (case fu_proxy f of None \<Rightarrow> uc_proxy u | Some p \<Rightarrow> if p = [] then None else Some p),
      uc_connect_timeout_secs = unwrap_or (uc_connect_timeout_secs u) (fu_connect_timeout_secs f)\<rparr>"

definition apply_file_auth :: "file_auth \<Rightarrow> auth_config \<Rightarrow> auth_config" where
  "apply_file_auth f a =
     \<lparr>ac_dir = unwrap_or (ac_dir a) (fa_dir f),
      ac_seed_dirs = unwrap_or (ac_seed_dirs a) (fa_seed_dirs f)\<rparr>"

definition apply_file_timeouts :: "file_timeouts \<Rightarrow> timeout_config \<Rightarrow> timeout_config" where
  "apply_file_timeouts f t =
     \<lparr>tc_first_event_secs = unwrap_or (tc_first_event_secs t) (ft_first_event_secs f),
      tc_first_semantic_secs = unwrap_or (tc_first_semantic_secs t) (ft_first_semantic_secs f),
      tc_stream_idle_secs = unwrap_or (tc_stream_idle_secs t) (ft_stream_idle_secs f),
      tc_semantic_idle_secs = unwrap_or (tc_semantic_idle_secs t) (ft_semantic_idle_secs f)\<rparr>"

definition apply_file_limits :: "file_limits \<Rightarrow> limit_config \<Rightarrow> limit_config" where
  "apply_file_limits f l =
     \<lparr>lc_shadow_max_sessions = unwrap_or (lc_shadow_max_sessions l) (fl_shadow_max_sessions f),
      lc_shadow_ttl_secs = unwrap_or (lc_shadow_ttl_secs l) (fl_shadow_ttl_secs f),
      lc_sticky_ttl_secs = unwrap_or (lc_sticky_ttl_secs l) (fl_sticky_ttl_secs f),
      lc_sticky_max = unwrap_or (lc_sticky_max l) (fl_sticky_max f),
      lc_cred_cooldown_secs = unwrap_or (lc_cred_cooldown_secs l) (fl_cred_cooldown_secs f),
      lc_hard_credit_cooldown_secs =
        unwrap_or (lc_hard_credit_cooldown_secs l) (fl_hard_credit_cooldown_secs f),
      lc_model_cooldown_secs = unwrap_or (lc_model_cooldown_secs l) (fl_model_cooldown_secs f),
      lc_model_cooldown_max_secs =
        unwrap_or (lc_model_cooldown_max_secs l) (fl_model_cooldown_max_secs f),
      lc_refresh_margin_secs = unwrap_or (lc_refresh_margin_secs l) (fl_refresh_margin_secs f),
      lc_keepalive_secs = unwrap_or (lc_keepalive_secs l) (fl_keepalive_secs f),
      lc_max_body_bytes = unwrap_or (lc_max_body_bytes l) (fl_max_body_bytes f),
      lc_shutdown_timeout_secs = unwrap_or (lc_shutdown_timeout_secs l) (fl_shutdown_timeout_secs f)\<rparr>"

definition apply_file_checkin :: "file_checkin \<Rightarrow> checkin_config \<Rightarrow> checkin_config" where
  "apply_file_checkin f k =
     \<lparr>kc_enabled = unwrap_or (kc_enabled k) (fk_enabled f),
      kc_interval_secs = unwrap_or (kc_interval_secs k) (fk_interval_secs f)\<rparr>"

definition apply_file :: "file_config \<Rightarrow> config \<Rightarrow> config" where
  "apply_file f c =
     \<lparr>cf_server = apply_file_server (fc_server f) (cf_server c),
      cf_model = unwrap_or (cf_model c) (fc_model f),
      cf_upstream = apply_file_upstream (fc_upstream f) (cf_upstream c),
      cf_auth = apply_file_auth (fc_auth f) (cf_auth c),
      cf_timeouts = apply_file_timeouts (fc_timeouts f) (cf_timeouts c),
      cf_limits = apply_file_limits (fc_limits f) (cf_limits c),
      cf_checkin = apply_file_checkin (fc_checkin f) (cf_checkin c),
      cf_log_level = unwrap_or (cf_log_level c) (fc_log_level f),
      cf_secret = or_else (fc_secret f) (cf_secret c)\<rparr>"

section \<open>The environment\<close>

text \<open>A variable that is set and not empty.\<close>

definition env_var :: "(string \<Rightarrow> string option) \<Rightarrow> string \<Rightarrow> string option" where
  "env_var vars name = filter_opt (\<lambda>v. v \<noteq> []) (vars name)"

definition apply_env :: "(string \<Rightarrow> string option) \<Rightarrow> config \<Rightarrow> config" where
  "apply_env vars c =
     c\<lparr>cf_auth := (cf_auth c)\<lparr>ac_dir := unwrap_or (ac_dir (cf_auth c)) (env_var vars ''LOBSTERAI_AUTH_DIR'')\<rparr>,
       cf_server := (cf_server c)\<lparr>sc_api_key :=
          or_else (env_var vars ''LOBSTERAI_PROXY_API_KEY'') (sc_api_key (cf_server c))\<rparr>,
       cf_upstream := (cf_upstream c)
         \<lparr>uc_base_url := unwrap_or (uc_base_url (cf_upstream c))
            (map_option trim_end_slash (env_var vars ''LOBSTERAI_UPSTREAM_BASE'')),
          uc_login_portal := unwrap_or (uc_login_portal (cf_upstream c))
            (map_option trim_end_slash (env_var vars ''LOBSTERAI_LOGIN_PORTAL'')),
          uc_proxy := or_else (env_var vars ''LOBSTERAI_PROXY_URL'') (uc_proxy (cf_upstream c))\<rparr>\<rparr>"

section \<open>Validation and loading\<close>

definition is_loopback :: "string \<Rightarrow> bool" where
  "is_loopback host \<longleftrightarrow> host = ''127.0.0.1'' \<or> host = ''::1'' \<or> host = ''localhost''"

definition validate :: "config \<Rightarrow> config_error + unit" where
  "validate c =
     (if \<not> is_loopback (sc_host (cf_server c)) \<and> sc_api_key (cf_server c) = None
      then Inl (InvalidConfig (''api_key must be set when binding a non-loopback address ''
                 @ ''(otherwise the LobsterAI accounts are exposed to the network)''))
      else if uc_base_url (cf_upstream c) = []
      then Inl (InvalidConfig ''upstream.base_url must not be empty'')
      else Inr ())"

record config_world =
  cw_read :: "string \<Rightarrow> string option"
  cw_exists :: "string \<Rightarrow> bool"
  cw_toml :: "string \<Rightarrow> file_config option"
  cw_vars :: "string \<Rightarrow> string option"
  cw_exe_dir :: "string option"
  cw_creatable :: "string \<Rightarrow> bool"

definition config_path :: "config_world \<Rightarrow> string option \<Rightarrow> string option" where
  "config_path cw explicit =
     (case explicit of
        Some p \<Rightarrow> Some p
      | None \<Rightarrow> if cw_exists cw ''config.toml'' then Some ''config.toml'' else None)"

definition load_config :: "config_world \<Rightarrow> string option \<Rightarrow> config_error + config" where
  "load_config cw explicit =
     (let start = default_config (default_auth_dir (cw_exe_dir cw) (cw_creatable cw))
      in rbind (case config_path cw explicit of
                  None \<Rightarrow> Inr start
                | Some p \<Rightarrow>
                    rbind (ok_or (ReadError p) (cw_read cw p)) (\<lambda>text.
                    rbind (ok_or (ParseError p) (cw_toml cw text)) (\<lambda>f.
                    Inr (apply_file f start))))
           (\<lambda>c. let c' = apply_env (cw_vars cw) c in rbind (validate c') (\<lambda>_. Inr c')))"

text \<open>The \<open>serve\<close> command: host and port of the command line, then the validation once more.\<close>

definition override_server :: "string option \<Rightarrow> 16 word option \<Rightarrow> config \<Rightarrow> config_error + config" where
  "override_server host port c =
     (let s = cf_server c;
          c' = c\<lparr>cf_server := s\<lparr>sc_host := unwrap_or (sc_host s) host,
                                 sc_port := unwrap_or (sc_port s) port\<rparr>\<rparr>
      in rbind (validate c') (\<lambda>_. Inr c'))"

definition serve_config ::
    "config_world \<Rightarrow> string option \<Rightarrow> string option \<Rightarrow> 16 word option \<Rightarrow> config_error + config" where
  "serve_config cw explicit host port = rbind (load_config cw explicit) (override_server host port)"

section \<open>The server secret\<close>

text \<open>
  \<open>u8::from_str_radix(s, 16)\<close>: one leading plus sign is accepted; and slicing a string at byte offsets,
  which panics (\<open>None\<close>) when an offset is not at a character boundary.
\<close>

definition hex_digit_value :: "char \<Rightarrow> nat" where
  "hex_digit_value ch =
     (let n = of_char ch in if n \<le> 57 then n - 48 else if n \<le> 70 then n - 55 else n - 87)"

definition u8_from_hex :: "string \<Rightarrow> char option" where
  "u8_from_hex s =
     (let digits = unwrap_or s (strip_prefix ''+'' s);
          n = fold (\<lambda>ch acc. 16 * acc + hex_digit_value ch) digits 0
      in if digits \<noteq> [] \<and> list_all is_hex_digit digits \<and> n < 256 then Some (char_of n) else None)"

definition is_char_boundary :: "string \<Rightarrow> nat \<Rightarrow> bool" where
  "is_char_boundary s i \<longleftrightarrow> i = 0 \<or> i = length s \<or> i < length s \<and> \<not> is_continuation (s ! i)"

definition str_slice :: "string \<Rightarrow> nat \<Rightarrow> nat \<Rightarrow> string option" where
  "str_slice s i j =
     (if i \<le> j \<and> j \<le> length s \<and> is_char_boundary s i \<and> is_char_boundary s j
      then Some (take (j - i) (drop i s)) else None)"

datatype hex_result = HexPanic | HexErr | HexOk string

fun decode_pairs :: "string \<Rightarrow> nat list \<Rightarrow> hex_result" where
  "decode_pairs s [] = HexOk []"
| "decode_pairs s (i # is) =
     (case str_slice s i (i + 2) of
        None \<Rightarrow> HexPanic
      | Some pair \<Rightarrow>
          (case u8_from_hex pair of
             None \<Rightarrow> HexErr
           | Some b \<Rightarrow>
               (case decode_pairs s is of HexOk bs \<Rightarrow> HexOk (b # bs) | r \<Rightarrow> r)))"

definition decode_hex :: "string \<Rightarrow> hex_result" where
  "decode_hex s =
     (if length s mod 2 \<noteq> 0 then HexErr
      else decode_pairs s (map (\<lambda>k. 2 * k) [0..<length s div 2]))"

text \<open>\<open>None\<close> is a panic; \<open>random\<close> are 32 random bytes.\<close>

definition config_secret :: "string \<Rightarrow> config \<Rightarrow> string option" where
  "config_secret random c =
     (case cf_secret c of
        None \<Rightarrow> Some random
      | Some s \<Rightarrow>
          (case decode_hex (trim s) of
             HexPanic \<Rightarrow> None
           | HexOk bs \<Rightarrow> Some (if length bs \<ge> 16 then bs else trim s)
           | HexErr \<Rightarrow> Some (trim s)))"

end
