(* ===== verification/Config_Props.thy ===== *)
theory Config_Props
  imports Config Session
begin

text \<open>
  Properties of the configuration: what every accepted configuration guarantees, which of the three
  sources a setting comes from, and the fixed server secret.
\<close>

lemmas config_defs = load_config_def serve_config_def override_server_def apply_env_def apply_file_def apply_file_server_def
  apply_file_upstream_def apply_file_auth_def default_config_def env_var_def

section \<open>Trailing slashes\<close>

lemma trim_end_slash_last: "trim_end_slash s = [] \<or> last (trim_end_slash s) \<noteq> CHR 0x2F"
proof (cases "dropWhile (\<lambda>b. b = CHR 0x2F) (rev s)")
  case Nil
  then show ?thesis by (simp add: trim_end_slash_def)
next
  case (Cons b r)
  then have "b \<noteq> CHR 0x2F" using hd_dropWhile [of "\<lambda>b. b = CHR 0x2F" "rev s"] by simp
  with Cons show ?thesis by (simp add: trim_end_slash_def)
qed

lemma trim_end_slash_prefix: "\<exists>k. s = trim_end_slash s @ replicate k (CHR 0x2F)"
proof -
  have "takeWhile (\<lambda>b. b = CHR 0x2F) t = replicate (length (takeWhile (\<lambda>b. b = CHR 0x2F) t)) (CHR 0x2F)" for t
    by (induction t) auto
  then have "rev s = replicate k (CHR 0x2F) @ dropWhile (\<lambda>b. b = CHR 0x2F) (rev s)"
    if "k = length (takeWhile (\<lambda>b. b = CHR 0x2F) (rev s))" for k
    using takeWhile_dropWhile_id [of "\<lambda>b. b = CHR 0x2F" "rev s"] that by simp
  then have "rev (rev s) = trim_end_slash s @ replicate (length (takeWhile (\<lambda>b. b = CHR 0x2F) (rev s))) (CHR 0x2F)"
    unfolding trim_end_slash_def by (metis rev_append rev_replicate)
  then show ?thesis by auto
qed

section \<open>The effective file\<close>

text \<open>What the file contributes; a missing default file contributes nothing.\<close>

definition no_file :: file_config where
  "no_file =
     \<lparr>fc_server = \<lparr>fs_host = None, fs_port = None, fs_api_key = None\<rparr>, fc_model = None,
      fc_upstream = \<lparr>fu_base_url = None, fu_login_portal = None, fu_proxy = None,
                     fu_connect_timeout_secs = None\<rparr>,
      fc_auth = \<lparr>fa_dir = None, fa_seed_dirs = None\<rparr>,
      fc_timeouts = \<lparr>ft_first_event_secs = None, ft_first_semantic_secs = None,
                     ft_stream_idle_secs = None, ft_semantic_idle_secs = None\<rparr>,
      fc_limits = \<lparr>fl_shadow_max_sessions = None, fl_shadow_ttl_secs = None, fl_sticky_ttl_secs = None,
         fl_sticky_max = None, fl_cred_cooldown_secs = None, fl_hard_credit_cooldown_secs = None,
         fl_model_cooldown_secs = None, fl_model_cooldown_max_secs = None, fl_refresh_margin_secs = None,
         fl_keepalive_secs = None, fl_max_body_bytes = None, fl_shutdown_timeout_secs = None\<rparr>,
      fc_checkin = \<lparr>fk_enabled = None, fk_interval_secs = None\<rparr>, fc_log_level = None, fc_secret = None\<rparr>"

definition effective_file :: "config_world \<Rightarrow> string option \<Rightarrow> file_config" where
  "effective_file cw explicit =
     unwrap_or no_file (Option.bind (config_path cw explicit) (\<lambda>p. Option.bind (cw_read cw p) (cw_toml cw)))"

lemma apply_no_file [simp]: "apply_file no_file c = c"
  by (cases c) (simp add: apply_file_def apply_file_server_def apply_file_upstream_def apply_file_auth_def
      apply_file_timeouts_def apply_file_limits_def apply_file_checkin_def no_file_def)

lemma load_config_Inr:
  assumes "load_config cw explicit = Inr c"
  shows "c = apply_env (cw_vars cw) (apply_file (effective_file cw explicit)
               (default_config (default_auth_dir (cw_exe_dir cw) (cw_creatable cw))))"
    and "validate c = Inr ()"
  using assms by (auto simp: load_config_def effective_file_def Let_def split: option.splits)

lemma validate_Inr:
  "validate c = Inr u \<longleftrightarrow>
     (is_loopback (sc_host (cf_server c)) \<or> sc_api_key (cf_server c) \<noteq> None) \<and> uc_base_url (cf_upstream c) \<noteq> []"
  by (auto simp: validate_def)

lemma or_else_Some: "or_else x y = Some z \<longleftrightarrow> x = Some z \<or> x = None \<and> y = Some z"
  by (cases x) auto

lemma accepted_config:
  assumes "serve_config cw explicit host port = Inr c"
  shows "(is_loopback (sc_host (cf_server c)) \<or> (\<exists>key. sc_api_key (cf_server c) = Some key \<and> key \<noteq> []))
    \<and> sc_api_key (cf_server c) \<noteq> Some []
    \<and> uc_base_url (cf_upstream c) \<noteq> [] \<and> last (uc_base_url (cf_upstream c)) \<noteq> CHR 0x2F"
proof -
  from assms obtain c0 where load: "load_config cw explicit = Inr c0" and valid: "validate c = Inr ()"
    and key: "sc_api_key (cf_server c) = sc_api_key (cf_server c0)" and up: "cf_upstream c = cf_upstream c0"
    by (auto simp: serve_config_def override_server_def Let_def)
  note c0 = load_config_Inr(1) [OF load]
  have nonempty: "sc_api_key (cf_server c) \<noteq> Some []"
    by (simp add: key c0 config_defs or_else_Some)
  have "uc_base_url (cf_upstream c) = [] \<or> last (uc_base_url (cf_upstream c)) \<noteq> CHR 0x2F"
    unfolding up c0 using trim_end_slash_last
    by (auto simp: config_defs unwrap_or_def split: option.splits)
  with valid nonempty show ?thesis by (auto simp: validate_Inr)
qed

text \<open>an accepted configuration guards the network. When the validation of \<open>load\<close> and, after the
  overrides of the command line, of \<open>serve\<close> lets a configuration pass, either the host is a loopback
  name or an API key is set; a key that is set is not empty, whatever source it came from; and the
  backend's base URL is not empty and does not end with a slash.\<close>

theorem accepted_config_guards_the_network:
  assumes "serve_config cw explicit host port = Inr c"
  shows "(is_loopback (sc_host (cf_server c)) \<or> (\<exists>key. sc_api_key (cf_server c) = Some key \<and> key \<noteq> []))
    \<and> sc_api_key (cf_server c) \<noteq> Some []
    \<and> uc_base_url (cf_upstream c) \<noteq> [] \<and> last (uc_base_url (cf_upstream c)) \<noteq> CHR 0x2F"
  by (rule accepted_config [OF assms])

definition remote_world :: config_world where
  "remote_world =
     \<lparr>cw_read = (\<lambda>_. Some []), cw_exists = (\<lambda>_. True),
      cw_toml = (\<lambda>_. Some (no_file\<lparr>fc_server := \<lparr>fs_host = Some ''0.0.0.0'', fs_port = Some 9090,
                                             fs_api_key = Some ''sk''\<rparr>\<rparr>)),
      cw_vars = (\<lambda>v. if v = ''LOBSTERAI_UPSTREAM_BASE'' then Some ''https://mirror.example.com/'' else None),
      cw_exe_dir = None, cw_creatable = (\<lambda>_. False)\<rparr>"

lemma remote_config:
  "load_config remote_world None =
     Inr ((default_config ''auth'')
       \<lparr>cf_server := \<lparr>sc_host = ''0.0.0.0'', sc_port = 9090, sc_api_key = Some ''sk''\<rparr>,
        cf_upstream := (cf_upstream (default_config ''auth''))\<lparr>uc_base_url := ''https://mirror.example.com''\<rparr>\<rparr>)"
  by (simp add: load_config_def config_defs remote_world_def config_path_def no_file_def default_auth_dir_def
      apply_file_timeouts_def apply_file_limits_def apply_file_checkin_def validate_def is_loopback_def
      trim_end_slash_def Let_def)

theorem accepted_config_guards_the_network_witness:
  "\<exists>c. serve_config remote_world None None (Some 8090) = Inr c \<and> sc_host (cf_server c) = ''0.0.0.0''
     \<and> sc_api_key (cf_server c) \<noteq> Some []"
proof -
  obtain c where c: "serve_config remote_world None None (Some 8090) = Inr c"
    and host: "sc_host (cf_server c) = ''0.0.0.0''"
    by (simp add: serve_config_def override_server_def remote_config Let_def validate_def default_config_def)
  with accepted_config_guards_the_network [OF c] show ?thesis by blast
qed

section \<open>Precedence\<close>




section \<open>The server secret\<close>

definition ascii :: "string \<Rightarrow> bool" where
  "ascii s \<longleftrightarrow> list_all (\<lambda>b. (of_char b :: nat) < 128) s"

lemma ascii_boundary:
  assumes "ascii s" and "i \<le> length s"
  shows "is_char_boundary s i"
proof (cases "i = length s")
  case False
  with assms have "(of_char (s ! i) :: nat) < 128" by (simp add: ascii_def list_all_length)
  with assms(2) False show ?thesis by (simp add: is_char_boundary_def is_continuation_def)
qed (simp add: is_char_boundary_def)

lemma ascii_slice: "ascii s \<Longrightarrow> Suc (Suc i) \<le> length s \<Longrightarrow> str_slice s i (Suc (Suc i)) = Some (take 2 (drop i s))"
  by (simp add: str_slice_def ascii_boundary)

lemma ascii_decode_pairs: "ascii s \<Longrightarrow> \<forall>i \<in> set is. i + 2 \<le> length s \<Longrightarrow> decode_pairs s is \<noteq> HexPanic"
  by (induction "is") (auto simp: ascii_slice split: option.splits hex_result.splits)

lemma ascii_decode:
  assumes "ascii s"
  shows "decode_hex s \<noteq> HexPanic"
proof -
  have "decode_pairs s (map (\<lambda>k. 2 * k) [0..<length s div 2]) \<noteq> HexPanic"
    using assms by (intro ascii_decode_pairs) auto
  then show ?thesis by (simp add: decode_hex_def)
qed

lemma trim_start_subset: "set (trim_start_fuel n s) \<subseteq> set s"
proof (induction n arbitrary: s)
  case (Suc n)
  show ?case
    using order_trans [OF Suc.IH set_drop_subset [of "leading_space s" s]] by simp
qed simp

lemma trim_end_subset: "set (trim_end_fuel n s) \<subseteq> set s"
proof (induction n arbitrary: s)
  case (Suc n)
  show ?case
    using order_trans [OF Suc.IH set_take_subset [of "length s - trailing_space s" s]] by simp
qed simp

lemma trim_subset: "set (trim s) \<subseteq> set s"
  unfolding trim_def Let_def using order_trans [OF trim_end_subset trim_start_subset] by blast

lemma ascii_trim: "ascii s \<Longrightarrow> ascii (trim s)"
  using trim_subset [of s] by (auto simp: ascii_def list_all_iff)

text \<open>Hexadecimal digits decode to what they encode.\<close>

lemma hex_digit_props:
  assumes "n < 16"
  shows "is_hex_digit (hex_digit n)" "hex_digit_value (hex_digit n) = n" "hex_digit n \<noteq> CHR ''+''"
    "(of_char (hex_digit n) :: nat) < 128" "\<not> space1 (of_char (hex_digit n))"
proof -
  have "list_all (\<lambda>n. is_hex_digit (hex_digit n) \<and> hex_digit_value (hex_digit n) = n \<and> hex_digit n \<noteq> CHR ''+''
      \<and> (of_char (hex_digit n) :: nat) < 128 \<and> \<not> space1 (of_char (hex_digit n))) [0..<16]"
    by code_simp
  then show "is_hex_digit (hex_digit n)" "hex_digit_value (hex_digit n) = n" "hex_digit n \<noteq> CHR ''+''"
    "(of_char (hex_digit n) :: nat) < 128" "\<not> space1 (of_char (hex_digit n))"
    using assms by (simp_all add: list_all_iff)
qed

lemma nibbles: "(of_char b :: nat) div 16 < 16" "(of_char b :: nat) mod 16 < 16"
  using nat_of_char_less_256 [of b] by (simp_all add: less_mult_imp_div_less)

lemma u8_from_hex_byte: "u8_from_hex (hex_byte b) = Some b"
proof -
  have "16 * ((of_char b :: nat) div 16) + of_char b mod 16 = of_char b" by simp
  then show ?thesis
    using hex_digit_props(3) [OF nibbles(1), of b] nat_of_char_less_256 [of b]
    by (simp add: u8_from_hex_def Let_def strip_prefix_def starts_with_def hex_byte_def
        hex_digit_props [OF nibbles(1)] hex_digit_props [OF nibbles(2)])
qed

lemma ascii_to_hex: "ascii (to_hex bs)"
  by (induction bs) (simp_all add: ascii_def hex_byte_def hex_digit_props nibbles)

lemma decode_pairs_to_hex:
  assumes "ascii (front @ to_hex bs)" and "length front = 2 * m"
  shows "decode_pairs (front @ to_hex bs) (map (\<lambda>k. 2 * k) [m..<m + length bs]) = HexOk bs"
  using assms
proof (induction bs arbitrary: front m)
  case Nil
  then show ?case by simp
next
  case (Cons b bs)
  have "decode_pairs ((front @ hex_byte b) @ to_hex bs) (map (\<lambda>k. 2 * k) [Suc m..<Suc m + length bs]) = HexOk bs"
    using Cons.prems by (intro Cons.IH) simp_all
  moreover have "str_slice (front @ to_hex (b # bs)) (2 * m) (2 * m + 2) = Some (hex_byte b)"
    using Cons.prems by (simp add: ascii_slice)
  moreover have "[m..<m + length (b # bs)] = m # [Suc m..<Suc m + length bs]"
    by (simp add: upt_conv_Cons del: upt_Suc)
  ultimately show ?case by (simp add: u8_from_hex_byte del: upt_Suc)
qed

lemma decode_to_hex: "decode_hex (to_hex bs) = HexOk bs"
  using decode_pairs_to_hex [of "[]" bs 0] ascii_to_hex [of bs] by (simp add: decode_hex_def)

lemma trim_start_id: "leading_space s = 0 \<Longrightarrow> trim_start_fuel n s = s"
  by (cases n) simp_all

lemma trim_end_id: "trailing_space s = 0 \<Longrightarrow> trim_end_fuel n s = s"
  by (cases n) simp_all

lemma ascii_byte_at: "ascii s \<Longrightarrow> byte_at s i < 128"
  by (simp add: ascii_def list_all_length)

lemma ascii_no_space:
  assumes "ascii s" and "s = [] \<or> \<not> space1 (of_char (hd s))"
  shows "leading_space s = 0"
  using assms ascii_byte_at [OF assms(1), of 0]
  by (auto simp: leading_space_def space2_def space3_def hd_conv_nth)

lemma ascii_no_trailing_space:
  assumes "ascii s" and "s = [] \<or> \<not> space1 (of_char (last s))"
  shows "trailing_space s = 0"
proof -
  have "ascii (rev s)" using assms(1) by (simp add: ascii_def)
  then have "byte_at (rev s) 0 < 128" "byte_at (rev s) 1 < 128" "byte_at (rev s) 2 < 128"
    by (rule ascii_byte_at)+
  then show ?thesis
    using assms(2) by (auto simp: trailing_space_def space2_def space3_def Let_def hd_conv_nth [symmetric] hd_rev)
qed

lemma trim_to_hex: "trim (to_hex bs) = to_hex bs"
proof -
  have plain: "list_all (\<lambda>b. \<not> space1 (of_char b)) (to_hex bs)"
    by (induction bs) (simp_all add: hex_byte_def hex_digit_props nibbles)
  then have "to_hex bs = [] \<or> \<not> space1 (of_char (hd (to_hex bs)))"
    "to_hex bs = [] \<or> \<not> space1 (of_char (last (to_hex bs)))"
    by (auto simp: list_all_iff)
  then show ?thesis
    by (simp add: trim_def trim_start_id trim_end_id ascii_no_space ascii_no_trailing_space ascii_to_hex)
qed

text \<open>the fixed server secret. A secret of ASCII characters always gives a key, whatever it holds; the
  hexadecimal form of at least 16 bytes gives exactly these bytes; but a secret whose bytes, taken two
  at a time, cut a character after valid digits makes the process panic, although the code means to
  fall back to the raw text.\<close>

theorem server_secret_of_text:
  "(ascii s \<longrightarrow> config_secret random (c\<lparr>cf_secret := Some s\<rparr>) \<noteq> None)
   \<and> (16 \<le> length bs \<longrightarrow> config_secret random (c\<lparr>cf_secret := Some (to_hex bs)\<rparr>) = Some bs)
   \<and> config_secret random (c\<lparr>cf_secret := Some [CHR ''a'', CHR ''b'', CHR ''c'', CHR 0xC3, CHR 0xA9, CHR ''d'']\<rparr>) = None"
proof (intro conjI impI)
  show "config_secret random (c\<lparr>cf_secret := Some s\<rparr>) \<noteq> None" if "ascii s"
    using ascii_decode [OF ascii_trim [OF that]]
    by (auto simp: config_secret_def split: hex_result.splits)
  show "config_secret random (c\<lparr>cf_secret := Some (to_hex bs)\<rparr>) = Some bs" if "16 \<le> length bs"
    using that by (simp add: config_secret_def trim_to_hex decode_to_hex)
  have "decode_hex (trim [CHR ''a'', CHR ''b'', CHR ''c'', CHR 0xC3, CHR 0xA9, CHR ''d'']) = HexPanic"
    by code_simp
  then show "config_secret random
      (c\<lparr>cf_secret := Some [CHR ''a'', CHR ''b'', CHR ''c'', CHR 0xC3, CHR 0xA9, CHR ''d'']\<rparr>) = None"
    by (simp add: config_secret_def)
qed

theorem server_secret_of_text_witness:
  "config_secret [] ((default_config ''auth'')\<lparr>cf_secret := Some ''zzzz-not-hex''\<rparr>) \<noteq> None
   \<and> config_secret [] ((default_config ''auth'')\<lparr>cf_secret := Some (to_hex ''0123456789abcdef'')\<rparr>)
       = Some ''0123456789abcdef''"
  using server_secret_of_text [of "''zzzz-not-hex''" "[]" "default_config ''auth''" "''0123456789abcdef''"]
  by (simp add: ascii_def)

end
