(* ===== verification/Headers.thy ===== *)
theory Headers
  imports Refresh
begin

text \<open>
  The headers of the requests to the backend (\<open>src/lobsterai/headers.rs\<close>). A \<open>HeaderMap\<close> is the list
  of its names, in lower case, with their values; \<open>insert\<close> replaces the value of a name that is there.
  What the HTTP library accepts as a header value and how it reads a header name are parameters.
\<close>

type_synonym header_map = "(string \<times> string) list"

record http_lib =
  hl_value_ok :: "string \<Rightarrow> bool"
  hl_name :: "string \<Rightarrow> string option"

definition USER_AGENT :: string where
  "USER_AGENT = ''LobsterAI/2026.9.4''"

definition CLIENT_CAPABILITIES :: string where
  "CLIENT_CAPABILITIES = ''kimi-k3-agentic-v1''"

definition static_headers :: header_map where
  "static_headers = AList.update ''user-agent'' USER_AGENT (AList.update ''content-type'' ''application/json'' [])"

text \<open>The bearer value; a token that cannot stand in a header gives an empty one.\<close>

definition bearer_value :: "http_lib \<Rightarrow> credential \<Rightarrow> string" where
  "bearer_value lib k =
     (let v = ''Bearer '' @ access_token (cred_data k)
      in if hl_value_ok lib v then v else ''Bearer '')"

definition insert_header :: "http_lib \<Rightarrow> string \<Rightarrow> string \<Rightarrow> header_map \<Rightarrow> header_map" where
  "insert_header lib key v m =
     (if v = [] then m
      else (case hl_name lib key of
              Some n \<Rightarrow> if hl_value_ok lib v then AList.update n v m else m
            | None \<Rightarrow> m))"

definition chat_headers :: "http_lib \<Rightarrow> credential \<Rightarrow> header_map" where
  "chat_headers lib k =
     insert_header lib ''X-LobsterAI-Client-Version'' CLIENT_VERSION
       (insert_header lib ''X-LobsterAI-Client-Capabilities'' CLIENT_CAPABILITIES
         (AList.update ''authorization'' (bearer_value lib k) static_headers))"

definition auth_headers :: header_map where
  "auth_headers = static_headers"

definition signed_headers :: "http_lib \<Rightarrow> credential \<Rightarrow> header_map" where
  "signed_headers lib k =
     AList.update ''user-agent'' USER_AGENT (AList.update ''authorization'' (bearer_value lib k) static_headers)"

text \<open>Only the access token of the credential decides what the backend is told.\<close>

lemma headers_depend_on_token:
  "access_token (cred_data k) = access_token (cred_data k') \<Longrightarrow>
     chat_headers lib k = chat_headers lib k' \<and> signed_headers lib k = signed_headers lib k'"
  by (simp add: chat_headers_def signed_headers_def bearer_value_def)

lemma static_headers_get:
  "map_of static_headers n =
     (if n = ''user-agent'' then Some USER_AGENT
      else if n = ''content-type'' then Some ''application/json'' else None)"
  by (simp add: static_headers_def)

lemma signed_headers_get:
  "map_of (signed_headers lib k) n =
     (if n = ''authorization'' then Some (bearer_value lib k) else map_of static_headers n)"
  by (simp add: signed_headers_def update_conv' static_headers_get)

lemma auth_headers_carry_no_token: "map_of auth_headers ''authorization'' = None"
  by (simp add: auth_headers_def static_headers_get)

end
