(* ===== verification/Checkin.thy ===== *)
theory Checkin
  imports Headers
begin

text \<open>
  The daily check-in, the credit query and the invitation progress (\<open>src/lobsterai/checkin.rs\<close>).

  The backend is a function from the requests made so far, the current one last, to its answer: the same
  URL may answer differently before and after a check-in. Every operation returns the history of requests
  it has extended. Amounts of credits are \<open>f64\<close> values kept as their bits.
\<close>

section \<open>Requests\<close>

datatype api_method = GET | POST

record api_request =
  rq_method :: api_method
  rq_url :: string
  rq_headers :: header_map
  rq_body :: "json option"

text \<open>A failed \<open>send\<close>, a body that could not be read, or a status and a body.\<close>

datatype api_reply = SendFailed string | BodyFailed string | Answered nat string

type_synonym history = "api_request list"
type_synonym backend = "history \<Rightarrow> api_reply"

record checkin_env =
  ke_codec :: codec
  ke_http :: http_lib
  ke_backend :: backend
  ke_base_url :: string
  ke_json_error :: "string \<Rightarrow> string"
  ke_uuid :: "nat \<Rightarrow> string"
  ke_show_f64 :: "u64 \<Rightarrow> string"

text \<open>The \<open>{code, msg, data}\<close> envelope.\<close>

definition parse_envelope :: "checkin_env \<Rightarrow> string \<Rightarrow> string + (int \<times> string \<times> json)" where
  "parse_envelope env body =
     (case from_text (ke_codec env) body of
        None \<Rightarrow> Inl (''invalid JSON envelope: '' @ ke_json_error env body)
      | Some payload \<Rightarrow>
          Inr (unwrap_or (-1) (get_i64 ''code'' payload),
               unwrap_or [] (Option.bind (or_else (get ''message'' payload) (get ''msg'' payload)) as_str),
               unwrap_or JNull (get ''data'' payload)))"

text \<open>What a reply means; the data of a \<open>GET\<close> must be an object.\<close>

definition read_reply :: "checkin_env \<Rightarrow> api_method \<Rightarrow> api_reply \<Rightarrow> string + json" where
  "read_reply env meth reply =
     (case reply of
        SendFailed e \<Rightarrow> Inl (''request failed: '' @ e)
      | BodyFailed e \<Rightarrow> Inl e
      | Answered status body \<Rightarrow>
          if status = 401 then Inl ''unauthorized (token expired)''
          else if \<not> (200 \<le> status \<and> status < 300) then Inl (''HTTP '' @ show_nat status)
          else
            rbind (parse_envelope env body) (\<lambda>(code, msg, data).
              if code \<noteq> 0 then Inl (''code='' @ show_int code @ '' msg='' @ msg)
              else if meth = GET \<and> \<not> is_object data then Inl ''data is empty (token may have expired)''
              else Inr data))"

definition api_call ::
    "checkin_env \<Rightarrow> api_method \<Rightarrow> string \<Rightarrow> json option \<Rightarrow> credential \<Rightarrow> history \<Rightarrow> (string + json) \<times> history" where
  "api_call env meth url body k h =
     (let h' = h @ [\<lparr>rq_method = meth, rq_url = url, rq_headers = signed_headers (ke_http env) k, rq_body = body\<rparr>]
      in (read_reply env meth (ke_backend env h'), h'))"

definition get_json :: "checkin_env \<Rightarrow> string \<Rightarrow> credential \<Rightarrow> history \<Rightarrow> (string + json) \<times> history" where
  "get_json env url = api_call env GET url None"

definition post_json :: "checkin_env \<Rightarrow> string \<Rightarrow> json \<Rightarrow> credential \<Rightarrow> history \<Rightarrow> (string + json) \<times> history" where
  "post_json env url body = api_call env POST url (Some body)"

section \<open>The check-in\<close>

record checkin_result =
  kr_ok :: bool
  kr_already :: bool
  kr_credits :: "u64 option"
  kr_message :: string

definition checkin_failed :: "string \<Rightarrow> checkin_result" where
  "checkin_failed message = \<lparr>kr_ok = False, kr_already = False, kr_credits = None, kr_message = message\<rparr>"

definition SLOT_QUERY :: string where
  "SLOT_QUERY = ''placement=desktop_sidebar&clientVersion=__VER__&containerApiVersion=2&platform=win32''"

definition slot_url :: "checkin_env \<Rightarrow> string" where
  "slot_url env =
     ke_base_url env @ ''/api/client-activities/slot?'' @ replace_all ''__VER__'' CLIENT_VERSION SLOT_QUERY"

text \<open>The activity of the slot: its code and revision, or why there is none.\<close>

definition read_slot :: "json \<Rightarrow> string + (string \<times> int)" where
  "read_slot slot =
     (if get_str ''slotState'' slot \<noteq> Some ''available''
      then Inl ''no available activity (slotState != available)''
      else
        (case Option.bind (get ''activity'' slot) as_object of
           None \<Rightarrow> Inl ''no activity in slot''
         | Some activity \<Rightarrow>
             (let code = unwrap_or [] (Option.bind (mget activity ''activityCode'') as_str);
                  revision = unwrap_or 0 (Option.bind (mget activity ''configRevision'') as_i64)
              in if code = [] then Inl ''activity code missing'' else Inr (code, revision))))"

definition context_url :: "checkin_env \<Rightarrow> string \<Rightarrow> int \<Rightarrow> string" where
  "context_url env code revision =
     ke_base_url env @ ''/api/client-activities/'' @ code @ ''/context?configRevision='' @ show_int revision"

definition action_url :: "checkin_env \<Rightarrow> string \<Rightarrow> string" where
  "action_url env code = ke_base_url env @ ''/api/client-activities/'' @ code @ ''/actions/check_in''"

definition claimed_today :: "json \<Rightarrow> bool" where
  "claimed_today ctx = unwrap_or False (Option.bind (pointer2 ''state'' ''claimedToday'' ctx) as_bool)"

definition has_checkin :: "json \<Rightarrow> bool" where
  "has_checkin ctx =
     (case get_arr ''actions'' ctx of
        None \<Rightarrow> False
      | Some actions \<Rightarrow> list_ex (\<lambda>a. as_str a = Some ''check_in'') actions)"

definition checkin_body :: "int \<Rightarrow> string \<Rightarrow> json" where
  "checkin_body revision key =
     JObj [(''configRevision'', JNum (if revision < 0 then NegInt revision else PosInt (of_int revision))),
           (''idempotencyKey'', JStr key), (''payload'', JObj [])]"

fun first_credits :: "codec \<Rightarrow> json \<Rightarrow> string list \<Rightarrow> u64 option" where
  "first_credits c v [] = None"
| "first_credits c v (k # ks) =
     or_else (filter_opt f64_positive (Option.bind (get k v) (as_f64 c))) (first_credits c v ks)"

definition checkin_done :: "checkin_env \<Rightarrow> json \<Rightarrow> checkin_result" where
  "checkin_done env result =
     \<lparr>kr_ok = True, kr_already = False,
      kr_credits = first_credits (ke_codec env) (unwrap_or result (get ''result'' result))
        [''creditsGranted'', ''rewardCredits'', ''credits''],
      kr_message = ''check-in ok''\<rparr>"

text \<open>The third step, and the second one with what follows it.\<close>

definition claim ::
    "checkin_env \<Rightarrow> string \<Rightarrow> int \<Rightarrow> credential \<Rightarrow> history \<Rightarrow> checkin_result \<times> history" where
  "claim env code revision k h =
     (case post_json env (action_url env code) (checkin_body revision (ke_uuid env (length h))) k h of
        (Inl e, h') \<Rightarrow> (checkin_failed e, h')
      | (Inr result, h') \<Rightarrow> (checkin_done env result, h'))"

definition consult ::
    "checkin_env \<Rightarrow> string \<Rightarrow> int \<Rightarrow> credential \<Rightarrow> history \<Rightarrow> checkin_result \<times> history" where
  "consult env code revision k h =
     (case get_json env (context_url env code revision) k h of
        (Inl e, h') \<Rightarrow> (checkin_failed e, h')
      | (Inr ctx, h') \<Rightarrow>
          if claimed_today ctx \<or> \<not> has_checkin ctx
          then ((checkin_failed (if claimed_today ctx then ''already claimed today''
                                 else ''check_in action not available''))
                  \<lparr>kr_already := claimed_today ctx\<rparr>, h')
          else claim env code revision k h')"

definition daily_checkin :: "checkin_env \<Rightarrow> credential \<Rightarrow> history \<Rightarrow> checkin_result \<times> history" where
  "daily_checkin env k h =
     (case get_json env (slot_url env) k h of
        (Inl e, h') \<Rightarrow> (checkin_failed e, h')
      | (Inr slot, h') \<Rightarrow>
          (case read_slot slot of
             Inl e \<Rightarrow> (checkin_failed e, h')
           | Inr (code, revision) \<Rightarrow> consult env code revision k h'))"

section \<open>Credits\<close>

record credit_item =
  ci_kind :: string
  ci_label :: string
  ci_remaining :: u64
  ci_expires_at :: "string option"

record credit_breakdown =
  cb_total :: u64
  cb_items :: "credit_item list"

definition credit_item_of :: "codec \<Rightarrow> json \<Rightarrow> credit_item option" where
  "credit_item_of c b =
     map_option (\<lambda>left.
         \<lparr>ci_kind = unwrap_or [] (get_str ''type'' b), ci_label = unwrap_or [] (get_str ''label'' b),
          ci_remaining = left, ci_expires_at = get_str ''expiresAt'' b\<rparr>)
       (Option.bind (get ''creditsRemaining'' b) (as_f64 c))"

definition sanitized_upstream :: "string \<Rightarrow> api_error" where
  "sanitized_upstream e = err_upstream 502 (sanitize_text e [])"

definition fetch_credit_breakdown ::
    "checkin_env \<Rightarrow> credential \<Rightarrow> history \<Rightarrow> (api_error + credit_breakdown) \<times> history" where
  "fetch_credit_breakdown env k h =
     (case get_json env (ke_base_url env @ ''/api/user/profile-summary'') k h of
        (Inl e, h') \<Rightarrow> (Inl (sanitized_upstream e), h')
      | (Inr summary, h') \<Rightarrow>
          (rbind (ok_or (err_upstream 502 ''profile-summary carried no credits'')
                    (filter_opt f64_non_negative
                      (Option.bind (get ''totalCreditsRemaining'' summary) (as_f64 (ke_codec env)))))
             (\<lambda>n. Inr \<lparr>cb_total = n,
                       cb_items = (case get_arr ''creditItems'' summary of
                                     None \<Rightarrow> []
                                   | Some buckets \<Rightarrow> List.map_filter (credit_item_of (ke_codec env)) buckets)\<rparr>),
           h'))"

section \<open>Invitations\<close>

record invite_progress =
  ip_code :: "string option"
  ip_invited :: u64
  ip_stage1_threshold :: u64
  ip_stage1_completed :: bool
  ip_stage1_reward :: u64
  ip_stage2_threshold :: u64
  ip_stage2_completed :: bool
  ip_stage2_reward :: u64
  ip_per_invite :: u64
  ip_total_reward :: u64

definition show_bool :: "bool \<Rightarrow> string" where
  "show_bool b = (if b then ''true'' else ''false'')"

definition invite_summary :: "checkin_env \<Rightarrow> invite_progress \<Rightarrow> string" where
  "invite_summary env p =
     ''invite code: '' @ unwrap_or ''(not generated yet)'' (ip_code p)
     @ '' | invited: '' @ show_nat (unat (ip_invited p))
     @ '' | rewards: '' @ ke_show_f64 env (ip_total_reward p) @ ''+''
     @ (if ip_stage1_completed p \<and> ip_stage2_completed p then ''1900'' else ''0'')
     @ '' pts earned (stage1 '' @ show_bool (ip_stage1_completed p) @ [CHR 0x40]
     @ show_nat (unat (ip_stage1_threshold p)) @ '', stage2 '' @ show_bool (ip_stage2_completed p) @ [CHR 0x40]
     @ show_nat (unat (ip_stage2_threshold p)) @ '', '' @ ke_show_f64 env (ip_per_invite p) @ '' per invite)''"

definition parse_invite :: "codec \<Rightarrow> json \<Rightarrow> invite_progress" where
  "parse_invite c data =
     (let num = (\<lambda>key. unwrap_or 0 (Option.bind (get key data) (as_f64 c)));
          flag = (\<lambda>key. unwrap_or False (Option.bind (get key data) as_bool))
      in \<lparr>ip_code = non_empty (get_str ''invitationCode'' data),
          ip_invited = unwrap_or 0 (get_u64 ''invitedCount'' data),
          ip_stage1_threshold = unwrap_or 3 (get_u64 ''stage1Threshold'' data),
          ip_stage1_completed = flag ''stage1Completed'', ip_stage1_reward = num ''stage1RewardCredits'',
          ip_stage2_threshold = unwrap_or 10 (get_u64 ''stage2Threshold'' data),
          ip_stage2_completed = flag ''stage2Completed'', ip_stage2_reward = num ''stage2RewardCredits'',
          ip_per_invite = num ''perInviteRewardCredits'', ip_total_reward = num ''totalRewardCredits''\<rparr>)"

definition fetch_invite_progress ::
    "checkin_env \<Rightarrow> bool \<Rightarrow> credential \<Rightarrow> history \<Rightarrow> (api_error + invite_progress) \<times> history" where
  "fetch_invite_progress env generate_code k h =
     (let url = ke_base_url env @ ''/api/invitation/progress''
      in case get_json env url k h of
           (Inl e, h1) \<Rightarrow> (Inl (sanitized_upstream e), h1)
         | (Inr data, h1) \<Rightarrow>
             (let p = parse_invite (ke_codec env) data
              in if ip_code p = None \<and> generate_code
                 then
                   (case post_json env (ke_base_url env @ ''/api/invitation/code'') (JObj []) k h1 of
                      (Inl e, h2) \<Rightarrow> (Inl (sanitized_upstream e), h2)
                    | (Inr _, h2) \<Rightarrow>
                        (case get_json env url k h2 of
                           (Inl e, h3) \<Rightarrow> (Inl (sanitized_upstream e), h3)
                         | (Inr data', h3) \<Rightarrow> (Inr (parse_invite (ke_codec env) data'), h3)))
                 else (Inr p, h1)))"

section \<open>One pass over the accounts\<close>

record checkin_world =
  kw_pool :: pool
  kw_files :: fs
  kw_history :: history
  kw_reports :: "(string \<times> checkin_result) list"

definition report :: "credential \<Rightarrow> checkin_result \<Rightarrow> checkin_world \<Rightarrow> checkin_world" where
  "report k r w = w\<lparr>kw_reports := kw_reports w @ [(cred_safe_name k, r)]\<rparr>"

text \<open>Credits and invitation of an account; errors of both queries are dropped.\<close>

definition refresh_credits :: "checkin_env \<Rightarrow> credential \<Rightarrow> checkin_world \<Rightarrow> checkin_world" where
  "refresh_credits env k w =
     (case fetch_credit_breakdown env k (kw_history w) of
        (r, h) \<Rightarrow>
          (let p = (case r of
                 Inl _ \<Rightarrow> kw_pool w
               | Inr b \<Rightarrow> (kw_pool w)\<lparr>state :=
                   set_credits (cred_uid k) (f64_as_i64 (cb_total b)) (state (kw_pool w))\<rparr>)
           in w\<lparr>kw_pool := p, kw_history := snd (fetch_invite_progress env True k h)\<rparr>))"

definition UNAUTHORIZED :: string where
  "UNAUTHORIZED = ''unauthorized''"

definition checkin_one ::
    "checkin_env \<Rightarrow> externals \<Rightarrow> (credential \<Rightarrow> refresh_call) \<Rightarrow> credential \<Rightarrow> checkin_world \<Rightarrow> checkin_world" where
  "checkin_one env x call k w =
     (case daily_checkin env k (kw_history w) of
        (r, h) \<Rightarrow>
          if starts_with UNAUTHORIZED (kr_message r)
          then
            (case force_refresh x (call k) k (kw_files w) of
               ((k', files'), None) \<Rightarrow>
                 (case daily_checkin env k' h of
                    (r', h') \<Rightarrow>
                      report k' r' (w\<lparr>kw_pool := replace_entry k' (kw_pool w), kw_files := files',
                                      kw_history := h'\<rparr>))
             | ((k', files'), Some _) \<Rightarrow>
                 refresh_credits env k' (w\<lparr>kw_pool := replace_entry k' (kw_pool w), kw_files := files',
                                           kw_history := h\<rparr>))
          else refresh_credits env k (report k r (w\<lparr>kw_history := h\<rparr>)))"

definition named_accounts :: "instant \<Rightarrow> pool \<Rightarrow> credential list" where
  "named_accounts now p =
     List.map_filter (\<lambda>v. Option.bind (get_str ''name'' v) (\<lambda>n. credential_by_safe_name n p))
       (snapshot now [] p)"

text \<open>The handles are shared: an account is used with the tokens the pool holds by then.\<close>

definition live_handle :: "pool \<Rightarrow> credential \<Rightarrow> credential" where
  "live_handle p k = unwrap_or k (List.find (\<lambda>e. cred_path e = cred_path k) (entries p))"

definition checkin_all ::
    "checkin_env \<Rightarrow> externals \<Rightarrow> (credential \<Rightarrow> refresh_call) \<Rightarrow> instant \<Rightarrow> checkin_world \<Rightarrow> checkin_world" where
  "checkin_all env x call now w =
     fold (\<lambda>k w. checkin_one env x call (live_handle (kw_pool w) k) w) (named_accounts now (kw_pool w)) (w\<lparr>kw_reports := []\<rparr>)"

end
