(* ===== verification/Checkin_Props.thy ===== *)
theory Checkin_Props
  imports Checkin
begin

text \<open>
  Properties of the check-in: what one attempt may send, when it counts as done, and what a pass over the
  accounts reports and sends.
\<close>

lemmas call_defs = get_json_def post_json_def api_call_def Let_def

section \<open>One attempt\<close>

text \<open>The requests an attempt may send, in this order.\<close>

definition request_to :: "checkin_env \<Rightarrow> api_method \<Rightarrow> string \<Rightarrow> json option \<Rightarrow> credential \<Rightarrow> api_request" where
  "request_to env meth url body k =
     \<lparr>rq_method = meth, rq_url = url, rq_headers = signed_headers (ke_http env) k, rq_body = body\<rparr>"

definition slot_request :: "checkin_env \<Rightarrow> credential \<Rightarrow> api_request" where
  "slot_request env = request_to env GET (slot_url env) None"

definition context_request :: "checkin_env \<Rightarrow> string \<Rightarrow> int \<Rightarrow> credential \<Rightarrow> api_request" where
  "context_request env code revision = request_to env GET (context_url env code revision) None"

definition claim_request :: "checkin_env \<Rightarrow> string \<Rightarrow> int \<Rightarrow> string \<Rightarrow> credential \<Rightarrow> api_request" where
  "claim_request env code revision key =
     request_to env POST (action_url env code) (Some (checkin_body revision key))"

definition reply_to :: "checkin_env \<Rightarrow> api_method \<Rightarrow> history \<Rightarrow> string + json" where
  "reply_to env meth h = read_reply env meth (ke_backend env h)"

text \<open>
  The attempts as a relation: what happened, seen from the replies. The last component tells whether the
  claim was sent.
\<close>

inductive attempt :: "checkin_env \<Rightarrow> credential \<Rightarrow> history \<Rightarrow> history \<Rightarrow> checkin_result \<Rightarrow> bool \<Rightarrow> bool"
  for env k h where
  no_slot: "reply_to env GET (h @ [slot_request env k]) = Inl e \<Longrightarrow>
     attempt env k h [slot_request env k] (checkin_failed e) False"
| no_activity: "reply_to env GET (h @ [slot_request env k]) = Inr slot \<Longrightarrow> read_slot slot = Inl e \<Longrightarrow>
     attempt env k h [slot_request env k] (checkin_failed e) False"
| no_context: "reply_to env GET (h @ [slot_request env k]) = Inr slot \<Longrightarrow> read_slot slot = Inr (code, revision) \<Longrightarrow>
     reply_to env GET (h @ [slot_request env k, context_request env code revision k]) = Inl e \<Longrightarrow>
     attempt env k h [slot_request env k, context_request env code revision k] (checkin_failed e) False"
| not_offered: "reply_to env GET (h @ [slot_request env k]) = Inr slot \<Longrightarrow> read_slot slot = Inr (code, revision) \<Longrightarrow>
     reply_to env GET (h @ [slot_request env k, context_request env code revision k]) = Inr ctx \<Longrightarrow>
     claimed_today ctx \<or> \<not> has_checkin ctx \<Longrightarrow> \<not> kr_ok r \<Longrightarrow> kr_already r = claimed_today ctx \<Longrightarrow>
     attempt env k h [slot_request env k, context_request env code revision k] r False"
| claimed: "reply_to env GET (h @ [slot_request env k]) = Inr slot \<Longrightarrow> read_slot slot = Inr (code, revision) \<Longrightarrow>
     reply_to env GET (h @ [slot_request env k, context_request env code revision k]) = Inr ctx \<Longrightarrow>
     \<not> claimed_today ctx \<Longrightarrow> has_checkin ctx \<Longrightarrow> code \<noteq> [] \<Longrightarrow>
     new = [slot_request env k, context_request env code revision k,
            claim_request env code revision (ke_uuid env (length h + 2)) k] \<Longrightarrow>
     r = (case reply_to env POST (h @ new) of Inl e \<Rightarrow> checkin_failed e | Inr v \<Rightarrow> checkin_done env v) \<Longrightarrow>
     attempt env k h new r True"

inductive_cases attemptE: "attempt env k h new r sent"

lemma read_slot_code: "read_slot slot = Inr (code, revision) \<Longrightarrow> code \<noteq> []"
  by (auto simp: read_slot_def Let_def split: if_splits option.splits)

lemmas request_defs = slot_request_def context_request_def claim_request_def request_to_def reply_to_def

lemma claim_attempt:
  assumes "claim env code revision k h = (r, h')"
  shows "h' = h @ [claim_request env code revision (ke_uuid env (length h)) k]
    \<and> r = (case reply_to env POST h' of Inl e \<Rightarrow> checkin_failed e | Inr v \<Rightarrow> checkin_done env v)"
  using assms by (auto simp: claim_def call_defs request_defs split: prod.splits sum.splits)

lemma get_json_eq:
  "get_json env url k h =
     (reply_to env GET (h @ [request_to env GET url None k]), h @ [request_to env GET url None k])"
  by (simp add: call_defs request_defs)

text \<open>The implementation refines the relation.\<close>

lemma daily_checkin_attempt:
  assumes "daily_checkin env k h = (r, h')"
  shows "\<exists>new sent. h' = h @ new \<and> attempt env k h new r sent"
proof (cases "reply_to env GET (h @ [slot_request env k])")
  case (Inl e)
  with assms show ?thesis
    by (auto simp: daily_checkin_def get_json_eq slot_request_def intro: attempt.no_slot [unfolded slot_request_def])
next
  case slot: (Inr slot)
  let ?h1 = "h @ [slot_request env k]"
  show ?thesis
  proof (cases "read_slot slot")
    case (Inl e)
    with assms slot attempt.no_activity [OF slot Inl] show ?thesis
      by (auto simp: daily_checkin_def get_json_eq slot_request_def)
  next
    case (Inr p)
    then obtain code revision where read: "read_slot slot = Inr (code, revision)" by (cases p) auto
    let ?h2 = "h @ [slot_request env k, context_request env code revision k]"
    have consult: "consult env code revision k ?h1 = (r, h')"
      using assms slot read by (simp add: daily_checkin_def get_json_eq slot_request_def)
    show ?thesis
    proof (cases "reply_to env GET ?h2")
      case (Inl e)
      with consult attempt.no_context [OF slot read Inl] show ?thesis
        by (auto simp: consult_def get_json_eq context_request_def)
    next
      case ctx: (Inr ctx)
      show ?thesis
      proof (cases "claimed_today ctx \<or> \<not> has_checkin ctx")
        case True
        with consult ctx have "h' = ?h2" "\<not> kr_ok r" "kr_already r = claimed_today ctx"
          by (auto simp: consult_def get_json_eq context_request_def checkin_failed_def)
        with attempt.not_offered [OF slot read ctx True] show ?thesis by blast
      next
        case False
        with consult ctx have "claim env code revision k ?h2 = (r, h')"
          by (simp add: consult_def get_json_eq context_request_def)
        from claim_attempt [OF this] show ?thesis
          using attempt.claimed [OF slot read ctx _ _ read_slot_code [OF read] refl refl] False by auto
      qed
    qed
  qed
qed

definition is_claim :: "api_request \<Rightarrow> bool" where
  "is_claim q \<longleftrightarrow> rq_method q = POST"

lemmas is_claim_simps =
  is_claim_def slot_request_def context_request_def claim_request_def request_to_def

text \<open>C35: a claim is sent at most once, and only when it is on offer. An attempt sends at most three
  requests, all with the account's own headers; a claim is the last of them, and it is only sent when the
  reply to the request before it said that the day is not claimed yet and that the action is available;
  and the attempt counts as done exactly when a claim was sent and accepted.\<close>

theorem claim_is_sent_only_when_offered:
  assumes "daily_checkin env k h = (r, h')"
  shows "\<exists>new. h' = h @ new \<and> length new \<le> 3
    \<and> list_all (\<lambda>q. rq_headers q = signed_headers (ke_http env) k) new
    \<and> list_all (\<lambda>q. \<not> is_claim q) (butlast new)
    \<and> (is_claim (last new) \<longrightarrow>
         (\<exists>ctx. reply_to env GET (h @ butlast new) = Inr ctx \<and> \<not> claimed_today ctx \<and> has_checkin ctx))
    \<and> (kr_ok r \<longleftrightarrow> is_claim (last new) \<and> (\<exists>v. reply_to env POST h' = Inr v))"
proof -
  from daily_checkin_attempt [OF assms] obtain new sent
    where h': "h' = h @ new" and "attempt env k h new r sent" by blast
  from this(2) show ?thesis
  proof cases
    case (claimed slot code revision ctx)
    then show ?thesis
      by (intro exI [of _ new])
        (auto simp: h' is_claim_simps checkin_failed_def checkin_done_def split: sum.splits)
  qed (intro exI [of _ new], simp add: h' is_claim_simps checkin_failed_def)+
qed

definition sample_backend :: backend where
  "sample_backend h =
     Answered 200 (if length h = 1 then ''slot'' else if length h = 2 then ''context'' else ''claimed'')"

definition envelope :: "json \<Rightarrow> json" where
  "envelope v = JObj [(''code'', JNum (PosInt 0)), (''data'', v)]"

definition sample_checkin_env :: checkin_env where
  "sample_checkin_env =
     \<lparr>ke_codec = sample_codec\<lparr>from_text := (\<lambda>s. Some (envelope
        (if s = ''slot'' then
           JObj [(''slotState'', JStr ''available''),
                 (''activity'', JObj [(''activityCode'', JStr ''act''), (''configRevision'', JNum (PosInt 7))])]
         else if s = ''context'' then
           JObj [(''state'', JObj [(''claimedToday'', JBool False)]), (''actions'', JArr [JStr ''check_in''])]
         else JObj [])))\<rparr>,
      ke_http = \<lparr>hl_value_ok = (\<lambda>_. True), hl_name = Some\<rparr>, ke_backend = sample_backend,
      ke_base_url = ''https://b'', ke_json_error = id, ke_uuid = (\<lambda>_. ''key''), ke_show_f64 = (\<lambda>_. [])\<rparr>"

definition checkin_account :: credential where
  "checkin_account =
     \<lparr>cred_id = ''lobsterai-u.json'', cred_safe_name = ''acct-1'', cred_path = ''auth/lobsterai-u.json'',
      cred_data = \<lparr>raw = JObj [], uid = ''u'', user_id = [], nickname = [], uuid = [], first_keyfrom = [],
                   latest_keyfrom = [], access_token = ''tok'', refresh_token = [], expires_at_secs = 1,
                   last_refresh_secs = 0\<rparr>\<rparr>"

lemma sample_checkin:
  "fst (daily_checkin sample_checkin_env checkin_account []) = checkin_done sample_checkin_env (JObj [])"
  by (simp add: daily_checkin_def consult_def claim_def call_defs sample_checkin_env_def sample_backend_def
      read_reply_def parse_envelope_def envelope_def read_slot_def claimed_today_def has_checkin_def
      pointer2_def is_object_def get_str_def get_arr_def get_i64_def)

theorem claim_is_sent_only_when_offered_witness:
  "\<exists>new. snd (daily_checkin sample_checkin_env checkin_account []) = new \<and> is_claim (last new)"
proof -
  obtain r h' where run: "daily_checkin sample_checkin_env checkin_account [] = (r, h')" by fastforce
  moreover have "kr_ok r" using run sample_checkin by (simp add: checkin_done_def)
  ultimately show ?thesis using claim_is_sent_only_when_offered [OF run] by auto
qed

section \<open>A pass\<close>

lemma api_call_length: "api_call env meth url body k h = (r, h') \<Longrightarrow> length h' = Suc (length h)"
  by (auto simp: api_call_def Let_def)

lemma daily_checkin_length: "length (snd (daily_checkin env k h)) \<le> length h + 3"
proof -
  obtain r h' where "daily_checkin env k h = (r, h')" by fastforce
  from daily_checkin_attempt [OF this] this show ?thesis by (auto elim!: attemptE)
qed

lemma fetch_credit_length: "fetch_credit_breakdown env k h = (r, h') \<Longrightarrow> length h' = Suc (length h)"
  by (auto simp: fetch_credit_breakdown_def get_json_def dest!: api_call_length split: prod.splits sum.splits)

lemma fetch_invite_length: "length (snd (fetch_invite_progress env b k h)) \<le> length h + 3"
  by (auto simp: fetch_invite_progress_def call_defs split: sum.splits)

lemma refresh_credits_effect:
  "length (kw_history (refresh_credits env k w)) \<le> length (kw_history w) + 4"
  "kw_reports (refresh_credits env k w) = kw_reports w"
proof -
  obtain r h where run: "fetch_credit_breakdown env k (kw_history w) = (r, h)" by fastforce
  from fetch_credit_length [OF this] fetch_invite_length [of env True k h]
  show "length (kw_history (refresh_credits env k w)) \<le> length (kw_history w) + 4"
    by (simp add: refresh_credits_def run Let_def)
  show "kw_reports (refresh_credits env k w) = kw_reports w"
    by (simp add: refresh_credits_def run Let_def)
qed

text \<open>An account whose token is refused and cannot be refreshed.\<close>

definition locked_out :: "checkin_env \<Rightarrow> externals \<Rightarrow> (credential \<Rightarrow> refresh_call) \<Rightarrow> credential \<Rightarrow> checkin_world \<Rightarrow> bool" where
  "locked_out env x call k w \<longleftrightarrow>
     starts_with UNAUTHORIZED (kr_message (fst (daily_checkin env k (kw_history w))))
     \<and> snd (force_refresh x (call k) k (kw_files w)) \<noteq> None"

text \<open>what one account contributes to a pass. It sends at most seven requests, and it adds exactly one
  report, except when its token is refused and the refresh fails: then nothing is reported at all,
  although the account is the one that needs attention.\<close>

theorem account_is_reported_unless_locked_out:
  "length (kw_history (checkin_one env x call k w)) \<le> length (kw_history w) + 7
   \<and> (locked_out env x call k w \<longrightarrow> kw_reports (checkin_one env x call k w) = kw_reports w)
   \<and> (\<not> locked_out env x call k w \<longrightarrow>
        (\<exists>name r. kw_reports (checkin_one env x call k w) = kw_reports w @ [(name, r)]))"
proof -
  obtain r h where run: "daily_checkin env k (kw_history w) = (r, h)" by fastforce
  have len: "length h \<le> length (kw_history w) + 3" using daily_checkin_length [of env k "kw_history w"] run by simp
  obtain k' files' e where refresh: "force_refresh x (call k) k (kw_files w) = ((k', files'), e)"
    by (metis prod.exhaust)
  obtain r' h' where again: "daily_checkin env k' h = (r', h')" by fastforce
  have len': "length h' \<le> length h + 3" using daily_checkin_length [of env k' h] again by simp
  show ?thesis
  proof (cases "starts_with UNAUTHORIZED (kr_message r)")
    case False
    then show ?thesis
      using len refresh_credits_effect [of env k "report k r (w\<lparr>kw_history := h\<rparr>)"]
      by (simp add: checkin_one_def run locked_out_def report_def)
  next
    case True
    show ?thesis
    proof (cases e)
      case None
      with True len len' show ?thesis
        by (simp add: checkin_one_def run refresh again locked_out_def report_def)
    next
      case (Some err)
      with True len show ?thesis
        using refresh_credits_effect [of env k' "w\<lparr>kw_pool := replace_entry k' (kw_pool w), kw_files := files', kw_history := h\<rparr>"]
        by (simp add: checkin_one_def run refresh locked_out_def)
    qed
  qed
qed

theorem account_is_reported_unless_locked_out_witness:
  "length (kw_history (checkin_one sample_checkin_env sample_externals
       (\<lambda>_. \<lparr>rc_now = 0, rc_millis = 0, rc_endpoint = (\<lambda>_. NoReply []), rc_tmp = [], rc_write = WriteOk, rc_io_error = []\<rparr>)
       checkin_account
       \<lparr>kw_pool = new_pool [] \<lparr>cred_cooldown_secs = 0, model_cooldown_secs = 0, hard_credit_cooldown_secs = 0,
                             sticky_max = 0, sticky_ttl_secs = 0\<rparr>,
        kw_files = (\<lambda>_. None), kw_history = [], kw_reports = []\<rparr>)) \<le> 7"
  using account_is_reported_unless_locked_out
    [of sample_checkin_env sample_externals _ checkin_account "\<lparr>kw_pool = _, kw_files = _, kw_history = [], kw_reports = []\<rparr>"]
  by simp

text \<open>The credits an account reports decide its rank in the pool.\<close>

lemma f64_samples:
  "f64_as_i64 0x40F86A0000000000 = 100000" "f64_as_i64 0xC004000000000000 = -2"
  "f64_as_i64 0x3FE0000000000000 = 0" "f64_as_i64 0x7FF8000000000000 = 0"
  "f64_as_i64 0x43F0000000000000 = 2 ^ 63 - 1"
  by (simp_all add: f64_as_i64_def f64_trunc_def F64_INF_def Let_def)

lemma refresh_credits_rank:
  assumes "fetch_credit_breakdown env k (kw_history w) = (Inr b, h)"
  shows "credits_of (cred_uid k) (state (kw_pool (refresh_credits env k w))) = Some (f64_as_i64 (cb_total b))"
  by (simp add: refresh_credits_def assms Let_def credits_of_def set_credits_def update_conv')

lemma credit_total_non_negative:
  "fetch_credit_breakdown env k h = (Inr b, h') \<Longrightarrow> f64_non_negative (cb_total b)"
  by (auto simp: fetch_credit_breakdown_def split: prod.splits sum.splits)

end
