(* ===== verification/Housekeep.thy ===== *)
theory Housekeep
  imports Checkin Pool_Props
begin

text \<open>
  Background housekeeping (\<open>src/lobsterai/housekeep.rs\<close>, \<open>Pool::load_dir\<close> of \<open>src/lobsterai/pool.rs\<close>): the
  rescan of the directory with the refresh of due tokens, and the check-in on its own schedule.

  The task is a fold over the branches its \<open>select!\<close> takes; each pass meets its own clock, directory
  listing and answers, and \<open>tk_others\<close> is what other tasks did since the pass before.
\<close>

record housekeep_env =
  he_checkin :: checkin_env
  he_x :: externals
  he_dir :: path
  he_margin :: int
  he_keepalive :: nat
  he_enabled :: bool

record housekeep_world =
  hw_pool :: pool
  hw_files :: fs
  hw_history :: history
  hw_refreshes :: "bool list"
  hw_checkins :: nat

record tick =
  tk_now :: instant
  tk_now_secs :: int
  tk_names :: "(string \<times> string) list"
  tk_call :: "credential \<Rightarrow> refresh_call"
  tk_others :: "pool \<times> fs \<Rightarrow> pool \<times> fs"

datatype housekeep_input = RefreshTick tick | CheckinTick tick | ShutdownRequested

definition rescan :: "externals \<Rightarrow> (string \<times> string) list \<Rightarrow> path \<Rightarrow> fs \<Rightarrow> pool \<Rightarrow> pool" where
  "rescan x names dir files p =
     load_files (x_codec x) (x_norm_ts x) (x_hmac x) files (list_credential_files names dir) (prune files p)"

text \<open>\<open>load_dir\<close>: the stale temporary files go first; \<open>old\<close> are those files of the listing.\<close>

definition load_dir :: "externals \<Rightarrow> (string \<times> string) list \<Rightarrow> path list \<Rightarrow> path \<Rightarrow> fs \<Rightarrow> pool \<Rightarrow> pool \<times> fs" where
  "load_dir x names old dir files p =
     (let files' = (\<lambda>q. if q \<in> set old then None else files q)
      in (load_files (x_codec x) (x_norm_ts x) (x_hmac x) files' (list_credential_files names dir) p, files'))"

definition refresh_pass :: "housekeep_env \<Rightarrow> tick \<Rightarrow> housekeep_world \<Rightarrow> housekeep_world" where
  "refresh_pass env t w =
     (case tk_others t (hw_pool w, hw_files w) of
        (p, files) \<Rightarrow>
          (let r = refresh_due (he_x env) (he_margin env) (he_keepalive env) (tk_now_secs t) (tk_now t) (tk_call t)
                     \<lparr>w_pool = rescan (he_x env) (tk_names t) (he_dir env) files p, w_files = files,
                      w_refreshes = hw_refreshes w\<rparr>
           in w\<lparr>hw_pool := w_pool r, hw_files := w_files r, hw_refreshes := w_refreshes r\<rparr>))"

definition checkin_pass :: "housekeep_env \<Rightarrow> tick \<Rightarrow> housekeep_world \<Rightarrow> housekeep_world" where
  "checkin_pass env t w =
     (case tk_others t (hw_pool w, hw_files w) of
        (p, files) \<Rightarrow>
          if he_enabled env
          then
            (let r = checkin_all (he_checkin env) (he_x env) (tk_call t) (tk_now t)
                       \<lparr>kw_pool = p, kw_files = files, kw_history = hw_history w, kw_reports = []\<rparr>
             in w\<lparr>hw_pool := kw_pool r, hw_files := kw_files r, hw_history := kw_history r,
                  hw_checkins := Suc (hw_checkins w)\<rparr>)
          else w\<lparr>hw_pool := p, hw_files := files\<rparr>)"

fun housekeep_loop :: "housekeep_env \<Rightarrow> housekeep_input list \<Rightarrow> housekeep_world \<Rightarrow> housekeep_world" where
  "housekeep_loop env [] w = w"
| "housekeep_loop env (RefreshTick t # ts) w = housekeep_loop env ts (refresh_pass env t w)"
| "housekeep_loop env (CheckinTick t # ts) w = housekeep_loop env ts (checkin_pass env t w)"
| "housekeep_loop env (ShutdownRequested # ts) w = w"

text \<open>The first pass comes after the initial delay, unless the shutdown comes first.\<close>

definition housekeep :: "housekeep_env \<Rightarrow> tick option \<Rightarrow> housekeep_input list \<Rightarrow> housekeep_world \<Rightarrow> housekeep_world" where
  "housekeep env first_pass ts w =
     (case first_pass of
        None \<Rightarrow> w
      | Some t \<Rightarrow> housekeep_loop env ts (if he_enabled env then checkin_pass env t w else w))"

section \<open>The rescan\<close>




section \<open>Check-ins and cooldowns\<close>

lemma report_pool [simp]: "kw_pool (report k r w) = kw_pool w"
  by (simp add: report_def)

lemma replace_entry_state [simp]: "state (replace_entry k p) = state p"
  by (simp add: replace_entry_def)

lemma refresh_credits_cooldowns:
  "fail_until (state (kw_pool (refresh_credits env k w))) = fail_until (state (kw_pool w))"
  "model_fail (state (kw_pool (refresh_credits env k w))) = model_fail (state (kw_pool w))"
  by (simp_all add: refresh_credits_def Let_def set_credits_def split: prod.split sum.split)

lemma checkin_one_cooldowns:
  "fail_until (state (kw_pool (checkin_one env x call k w))) = fail_until (state (kw_pool w))
   \<and> model_fail (state (kw_pool (checkin_one env x call k w))) = model_fail (state (kw_pool w))"
proof -
  obtain r h where run: "daily_checkin env k (kw_history w) = (r, h)" by fastforce
  obtain k' files' e where refresh: "force_refresh x (call k) k (kw_files w) = ((k', files'), e)"
    by (metis prod.exhaust)
  obtain r' h' where "daily_checkin env k' h = (r', h')" by fastforce
  with run refresh show ?thesis
    by (cases e) (simp_all add: checkin_one_def refresh_credits_cooldowns)
qed

text \<open>a check-in lifts no cooldown. A pass over all accounts may learn new credits, but an account that
  was cooled down for lack of credits, or for any other reason, is exactly as usable after the pass as
  before; only time ends a cooldown.\<close>

theorem checkin_lifts_no_cooldown:
  "usable later m (state (kw_pool (checkin_all env x call now w))) i
     = usable later m (state (kw_pool w)) i"
proof -
  have "fail_until (state (kw_pool (fold (\<lambda>k w. checkin_one env x call (live_handle (kw_pool w) k) w) ks v)))
          = fail_until (state (kw_pool v))
      \<and> model_fail (state (kw_pool (fold (\<lambda>k w. checkin_one env x call (live_handle (kw_pool w) k) w) ks v)))
          = model_fail (state (kw_pool v))" for ks v
    by (induction ks arbitrary: v) (simp_all add: checkin_one_cooldowns)
  then show ?thesis by (simp add: checkin_all_def usable_def globally_healthy_def model_healthy_def)
qed

end
