(* ===== verification/Shutdown.thy ===== *)
theory Shutdown
  imports Prelude
begin

text \<open>
  Graceful shutdown (\<open>src/shutdown.rs\<close>): the signal counter, the wait for the first signal, and the
  bounded drain. An asynchronous function is the machine of its polls: a poll sees the world of that
  moment (\<open>observation\<close>) and runs the code up to the next point where it has to wait. Where a \<open>select!\<close>
  that is not \<open>biased\<close> finds several branches ready, \<open>ob_coin\<close> picks.

  The gauge is the atomic \<open>requests_in_flight\<close>, an \<open>i64\<close> kept as its bits. \<open>dr_last_instant\<close> is the last
  instant the clock can represent.
\<close>

section \<open>The signal channel\<close>

text \<open>The listener counts signals and returns after the second one: the count, and whether it goes on.\<close>

definition SIGNAL_MAX :: nat where
  "SIGNAL_MAX = 2 ^ 32 - 1"

definition on_os_signal :: "nat \<Rightarrow> nat \<times> bool" where
  "on_os_signal seen = (let n = min SIGNAL_MAX (Suc seen) in (n, n = 1))"

fun listen :: "nat \<Rightarrow> nat \<Rightarrow> nat" where
  "listen 0 seen = seen"
| "listen (Suc k) seen =
     (case on_os_signal seen of (n, goes_on) \<Rightarrow> if goes_on then listen k n else n)"

record observation =
  ob_now :: instant
  ob_signals :: nat
  ob_sender_alive :: bool
  ob_closed :: bool
  ob_gauge :: u64
  ob_coin :: bool

text \<open>\<open>shutdown_requested\<close> and \<open>wait_for_force\<close>: ready also when the sender is gone.\<close>

definition shutdown_requested :: "observation \<Rightarrow> bool" where
  "shutdown_requested ob \<longleftrightarrow> ob_signals ob > 0 \<or> \<not> ob_sender_alive ob"

definition force_requested :: "nat \<Rightarrow> observation \<Rightarrow> bool" where
  "force_requested armed ob \<longleftrightarrow> ob_signals ob > armed \<or> \<not> ob_sender_alive ob"

section \<open>The drain\<close>

datatype drain_outcome = ConnectionsClosed | DrainTimedOut | Forced

datatype drain_phase =
  Starting                       \<comment> \<open>before the first poll\<close>
| Serving                        \<comment> \<open>the first \<open>select!\<close>\<close>
| Draining instant               \<comment> \<open>connections still open, with the deadline\<close>
| Polling instant instant        \<comment> \<open>connections closed; the deadline and the end of the sleep\<close>
| Drained drain_outcome

record drain_env =
  dr_timeout :: duration
  dr_last_instant :: instant

definition IN_FLIGHT_POLL :: duration where
  "IN_FLIGHT_POLL = 25 * 1000000"

definition drain_deadline :: "drain_env \<Rightarrow> instant \<Rightarrow> instant" where
  "drain_deadline env started =
     (if started + dr_timeout env \<le> dr_last_instant env then started + dr_timeout env else started)"

definition idle :: "observation \<Rightarrow> bool" where
  "idle ob \<longleftrightarrow> sint (ob_gauge ob) \<le> 0"

text \<open>One round of the gauge loop, up to its sleep; the \<open>select!\<close> around the sleep is polled at once.\<close>

definition gauge_round :: "nat \<Rightarrow> observation \<Rightarrow> instant \<Rightarrow> drain_phase" where
  "gauge_round armed ob deadline =
     (let remaining = deadline - ob_now ob
      in if idle ob then Drained ConnectionsClosed
         else if remaining = 0 then Drained DrainTimedOut
         else if force_requested armed ob then Drained Forced
         else Polling deadline (ob_now ob + min remaining IN_FLIGHT_POLL))"

definition drain_select :: "nat \<Rightarrow> observation \<Rightarrow> instant \<Rightarrow> drain_phase" where
  "drain_select armed ob deadline =
     (if force_requested armed ob then Drained Forced
      else if ob_closed ob then gauge_round armed ob deadline
      else if deadline \<le> ob_now ob then Drained DrainTimedOut
      else Draining deadline)"

definition bounded_drain :: "drain_env \<Rightarrow> nat \<Rightarrow> observation \<Rightarrow> drain_phase" where
  "bounded_drain env armed ob = drain_select armed ob (drain_deadline env (ob_now ob))"

definition serve_select :: "drain_env \<Rightarrow> observation \<Rightarrow> drain_phase" where
  "serve_select env ob =
     (if ob_closed ob \<and> (\<not> shutdown_requested ob \<or> ob_coin ob) then Drained ConnectionsClosed
      else if shutdown_requested ob then bounded_drain env 1 ob
      else Serving)"

fun drain_poll :: "drain_env \<Rightarrow> observation \<Rightarrow> drain_phase \<Rightarrow> drain_phase" where
  "drain_poll env ob Starting = (if ob_signals ob = 0 then serve_select env ob else bounded_drain env 1 ob)"
| "drain_poll env ob Serving = serve_select env ob"
| "drain_poll env ob (Draining deadline) = drain_select 1 ob deadline"
| "drain_poll env ob (Polling deadline wake) =
     (if wake \<le> ob_now ob \<and> (\<not> force_requested 1 ob \<or> ob_coin ob) then gauge_round 1 ob deadline
      else if force_requested 1 ob then Drained Forced
      else Polling deadline wake)"
| "drain_poll env ob (Drained r) = Drained r"

definition drain_until_idle :: "drain_env \<Rightarrow> observation list \<Rightarrow> drain_phase" where
  "drain_until_idle env obs = fold (drain_poll env) obs Starting"

section \<open>Reachable phases\<close>

text \<open>
  The drain within the process: time does not go back and the signal count only grows. The state is the
  phase, the last observation, and the instant at which the drain was triggered.
\<close>

inductive drain_reaches :: "drain_env \<Rightarrow> drain_phase \<Rightarrow> observation \<Rightarrow> instant option \<Rightarrow> bool" for env where
  first: "drain_reaches env (drain_poll env ob Starting) ob
            (if shutdown_requested ob then Some (ob_now ob) else None)"
| poll: "drain_reaches env phase ob started \<Longrightarrow> ob_now ob \<le> ob_now ob' \<Longrightarrow> ob_signals ob \<le> ob_signals ob' \<Longrightarrow>
     (ob_sender_alive ob' \<longrightarrow> ob_sender_alive ob) \<Longrightarrow>
     started' = (if started = None \<and> shutdown_requested ob' then Some (ob_now ob') else started) \<Longrightarrow>
     drain_reaches env (drain_poll env ob' phase) ob' started'"

text \<open>The deadline of a running drain is fixed when it starts, and no sleep goes past it.\<close>

definition drain_ok :: "drain_env \<Rightarrow> drain_phase \<Rightarrow> observation \<Rightarrow> instant option \<Rightarrow> bool" where
  "drain_ok env phase ob started \<longleftrightarrow>
     (case phase of
        Starting \<Rightarrow> False
      | Serving \<Rightarrow> \<not> shutdown_requested ob \<and> started = None
      | Draining deadline \<Rightarrow> (\<exists>t. started = Some t \<and> deadline = drain_deadline env t) \<and> ob_now ob < deadline
      | Polling deadline wake \<Rightarrow>
          (\<exists>t. started = Some t \<and> deadline = drain_deadline env t)
          \<and> ob_now ob < wake \<and> wake \<le> deadline
      | Drained r \<Rightarrow> shutdown_requested ob \<or> started \<noteq> None \<or> r = ConnectionsClosed)"

lemma gauge_round_ok:
  "started = Some t \<Longrightarrow> deadline = drain_deadline env t \<Longrightarrow>
     drain_ok env (gauge_round armed ob deadline) ob started"
  by (auto simp: gauge_round_def drain_ok_def Let_def IN_FLIGHT_POLL_def)

lemma drain_select_ok:
  "started = Some t \<Longrightarrow> deadline = drain_deadline env t \<Longrightarrow>
     drain_ok env (drain_select armed ob deadline) ob started"
  using gauge_round_ok [of started t deadline env armed ob]
  by (auto simp: drain_select_def) (auto simp: drain_ok_def)

lemma bounded_drain_ok:
  "started = Some (ob_now ob) \<Longrightarrow> drain_ok env (bounded_drain env armed ob) ob started"
  by (simp add: bounded_drain_def drain_select_ok)

lemma serve_select_ok:
  "started = (if shutdown_requested ob then Some (ob_now ob) else None) \<Longrightarrow>
     drain_ok env (serve_select env ob) ob started"
  using bounded_drain_ok [of started ob env 1]
  by (auto simp: serve_select_def) (auto simp: drain_ok_def)

lemma reached_phase_ok: "drain_reaches env phase ob started \<Longrightarrow> drain_ok env phase ob started"
proof (induction rule: drain_reaches.induct)
  case (first ob)
  then show ?case
    using serve_select_ok [OF refl, of env ob] bounded_drain_ok [of _ ob env 1]
    by (auto simp: shutdown_requested_def)
next
  case (poll phase ob started ob' started')
  show ?case
  proof (cases phase)
    case Starting
    with poll.IH show ?thesis by (simp add: drain_ok_def)
  next
    case Serving
    with poll.IH have "started = None" by (simp add: drain_ok_def)
    with poll.hyps have "drain_ok env (serve_select env ob') ob' started'" by (intro serve_select_ok) simp
    with Serving show ?thesis by simp
  next
    case (Draining deadline)
    with poll.IH obtain t where "started = Some t" "deadline = drain_deadline env t"
      by (auto simp: drain_ok_def)
    with Draining poll.hyps show ?thesis by (simp add: drain_select_ok)
  next
    case (Polling deadline wake)
    with poll.IH obtain t where t: "started = Some t" "deadline = drain_deadline env t" "wake \<le> deadline"
      by (auto simp: drain_ok_def)
    then have "drain_ok env (gauge_round 1 ob' deadline) ob' started'"
      using poll.hyps by (simp add: gauge_round_ok)
    with Polling t poll.hyps show ?thesis
      by (auto simp: drain_ok_def force_requested_def)
  next
    case (Drained r)
    with poll show ?thesis
      by (auto simp: drain_ok_def shutdown_requested_def)
  qed
qed

section \<open>Properties\<close>

lemma gauge_round_late: "deadline \<le> ob_now ob \<Longrightarrow> \<exists>r. gauge_round armed ob deadline = Drained r"
  by (simp add: gauge_round_def Let_def)

lemma drain_select_late: "deadline \<le> ob_now ob \<Longrightarrow> \<exists>r. drain_select armed ob deadline = Drained r"
  using gauge_round_late by (simp add: drain_select_def)

text \<open>C38: a bounded drain is bounded. Whatever the connections, the requests in flight and the signals do,
  once the shutdown has been requested at an instant, the first poll at or after that instant plus the
  configured timeout ends the drain.\<close>

theorem drain_ends_by_its_deadline:
  assumes "drain_reaches env phase ob (Some started)" and "ob_now ob \<le> ob_now ob'"
    and "drain_deadline env started \<le> ob_now ob'"
  shows "\<exists>r. drain_poll env ob' phase = Drained r"
proof -
  have ok: "drain_ok env phase ob (Some started)" by (rule reached_phase_ok [OF assms(1)])
  show ?thesis
  proof (cases phase)
    case (Draining deadline)
    with ok assms(3) show ?thesis by (simp add: drain_ok_def drain_select_late)
  next
    case (Polling deadline wake)
    with ok assms(3) gauge_round_late show ?thesis by (auto simp: drain_ok_def)
  qed (use ok in \<open>simp_all add: drain_ok_def\<close>)
qed

definition signal_at :: "instant \<Rightarrow> observation" where
  "signal_at now = \<lparr>ob_now = now, ob_signals = 1, ob_sender_alive = True, ob_closed = False, ob_gauge = 1, ob_coin = False\<rparr>"

theorem drain_ends_by_its_deadline_witness:
  "\<exists>r. drain_poll \<lparr>dr_timeout = 30, dr_last_instant = 1000\<rparr> (signal_at 40)
         (drain_poll \<lparr>dr_timeout = 30, dr_last_instant = 1000\<rparr> (signal_at 10) Starting) = Drained r"
proof -
  let ?env = "\<lparr>dr_timeout = 30, dr_last_instant = 1000\<rparr>"
  have "drain_reaches ?env (drain_poll ?env (signal_at 10) Starting) (signal_at 10) (Some 10)"
    using drain_reaches.first [of ?env "signal_at 10"] by (simp add: shutdown_requested_def signal_at_def)
  from drain_ends_by_its_deadline [OF this, of "signal_at 40"] show ?thesis
    by (simp add: signal_at_def drain_deadline_def)
qed

text \<open>The signals decide: one signal never forces, a second one (or a lost sender) does so at once.\<close>

lemma force_requested_alive: "ob_sender_alive ob \<Longrightarrow> force_requested armed ob \<longleftrightarrow> armed < ob_signals ob"
  by (simp add: force_requested_def)

lemma poll_forces:
  assumes "drain_poll env ob phase = Drained Forced" and "phase \<noteq> Drained Forced"
  shows "force_requested 1 ob"
  using assms
  by (cases phase) (auto simp: serve_select_def bounded_drain_def drain_select_def gauge_round_def Let_def split: if_splits)

text \<open>a forced exit needs a second signal. A drain that ends as forced has seen more than one signal, or
  the sender of the signals is gone; and when that is seen while connections are still open, the drain
  ends as forced in the same poll.\<close>

theorem drain_is_forced_by_second_signal:
  "(drain_until_idle env obs = Drained Forced \<longrightarrow> (\<exists>ob \<in> set obs. 1 < ob_signals ob \<or> \<not> ob_sender_alive ob))
   \<and> (1 < ob_signals ob \<or> \<not> ob_sender_alive ob \<longrightarrow> drain_poll env ob (Draining deadline) = Drained Forced)"
proof (intro conjI impI)
  assume "drain_until_idle env obs = Drained Forced"
  moreover have "phase \<noteq> Drained Forced \<Longrightarrow> fold (drain_poll env) obs phase = Drained Forced \<Longrightarrow>
      \<exists>ob \<in> set obs. force_requested 1 ob" for phase
  proof (induction obs arbitrary: phase)
    case (Cons ob obs)
    then show ?case using poll_forces [of env ob phase] by auto
  qed simp
  ultimately show "\<exists>ob \<in> set obs. 1 < ob_signals ob \<or> \<not> ob_sender_alive ob"
    unfolding drain_until_idle_def force_requested_def by blast
next
  assume "1 < ob_signals ob \<or> \<not> ob_sender_alive ob"
  then show "drain_poll env ob (Draining deadline) = Drained Forced"
    by (simp add: drain_select_def force_requested_def)
qed

theorem drain_is_forced_by_second_signal_witness:
  "drain_poll \<lparr>dr_timeout = 30, dr_last_instant = 1000\<rparr> ((signal_at 12)\<lparr>ob_signals := 2\<rparr>) (Draining 40)
     = Drained Forced"
  using drain_is_forced_by_second_signal [of "\<lparr>dr_timeout = 30, dr_last_instant = 1000\<rparr>" "[]" "(signal_at 12)\<lparr>ob_signals := 2\<rparr>" 40]
  by simp

text \<open>a drain that reports closed connections has waited for the requests, with one exception. From a
  drain under way, the outcome that all connections are closed is only given by a poll that sees no
  request in flight; but in the first wait, a server future that resolves in the same poll in which the
  signal is seen ends the drain with that outcome whatever the number of requests in flight.\<close>

theorem closed_means_idle_except_in_first_wait:
  "(drain_poll env ob (Draining deadline) = Drained ConnectionsClosed \<or> drain_poll env ob (Polling deadline wake) = Drained ConnectionsClosed
      \<longrightarrow> idle ob)
   \<and> (ob_closed ob \<longrightarrow> ob_coin ob \<longrightarrow> drain_poll env ob Serving = Drained ConnectionsClosed)"
  by (auto simp: serve_select_def drain_select_def gauge_round_def Let_def split: if_splits)

theorem closed_means_idle_except_in_first_wait_witness:
  "drain_poll \<lparr>dr_timeout = 30, dr_last_instant = 1000\<rparr> \<lparr>ob_now = 5, ob_signals = 1, ob_sender_alive = True, ob_closed = True, ob_gauge = 3, ob_coin = True\<rparr> Serving
     = Drained ConnectionsClosed
   \<and> \<not> idle \<lparr>ob_now = 5, ob_signals = 1, ob_sender_alive = True, ob_closed = True, ob_gauge = 3, ob_coin = True\<rparr>"
  using closed_means_idle_except_in_first_wait
    [of "\<lparr>dr_timeout = 30, dr_last_instant = 1000\<rparr>" "\<lparr>ob_now = 5, ob_signals = 1, ob_sender_alive = True, ob_closed = True, ob_gauge = 3, ob_coin = True\<rparr>"]
  by (simp add: idle_def)

lemma listen_stops: "listen k 0 \<le> 2"
  by (cases k; cases "k - 1") (auto simp: on_os_signal_def Let_def SIGNAL_MAX_def)

end
