(* ===== verification/Login.thy ===== *)
theory Login
  imports Checkin Config
begin

text \<open>
  The interactive login (\<open>src/lobsterai/oauth.rs\<close>): the portal URL, the local callback server, the exchange
  of the code, and the credential file.

  A connection to the callback server is the list of the chunks its reads return (a failed read or the end
  of the stream ends the list). The clock, the random bytes and the exchange endpoint are parameters.
\<close>

section \<open>URLs\<close>

definition CALLBACK_PATH :: string where
  "CALLBACK_PATH = ''/auth/callback''"

definition is_url_safe :: "char \<Rightarrow> bool" where
  "is_url_safe b \<longleftrightarrow>
     (let n = of_char b :: nat
      in 65 \<le> n \<and> n \<le> 90 \<or> 97 \<le> n \<and> n \<le> 122 \<or> 48 \<le> n \<and> n \<le> 57
         \<or> b \<in> set ''-_.~/:'')"

definition HEX :: string where
  "HEX = ''0123456789ABCDEF''"

definition urlencode :: "string \<Rightarrow> string" where
  "urlencode s =
     concat (map (\<lambda>b. if is_url_safe b then [b]
                      else [CHR ''%'', HEX ! (of_char b div 16), HEX ! (of_char b mod 16)]) s)"

definition login_url :: "string \<Rightarrow> 16 word \<Rightarrow> string \<Rightarrow> string" where
  "login_url portal port state_key =
     portal @ ''/portal#/login?source=electron&redirect_uri=''
     @ urlencode (''http://127.0.0.1:'' @ show_nat (unat port) @ CALLBACK_PATH) @ ''&state='' @ state_key"

text \<open>A percent sign needs two more bytes; what does not decode is kept. Two bytes that are no UTF-8 are no
  hexadecimal digits either.\<close>

function decode_percent :: "string \<Rightarrow> string" where
  "decode_percent [] = []"
| "decode_percent (b # s) =
     (if b = CHR ''%'' \<and> length s \<ge> 2 then
        (case u8_from_hex (take 2 s) of
           Some d \<Rightarrow> d # decode_percent (drop 2 s)
         | None \<Rightarrow> b # decode_percent s)
      else if b = CHR ''+'' then CHR '' '' # decode_percent s
      else b # decode_percent s)"
  by pat_completeness auto
termination by (relation "measure length") auto

definition urldecode :: "string \<Rightarrow> string" where
  "urldecode s = from_utf8_lossy (decode_percent s)"

section \<open>The callback\<close>

definition HEAD_END :: string where
  "HEAD_END = [CHR 0x0D, CHR 0x0A, CHR 0x0D, CHR 0x0A]"

fun read_head :: "string \<Rightarrow> string list \<Rightarrow> string" where
  "read_head buffer [] = buffer"
| "read_head buffer (chunk # chunks) =
     (if chunk = [] then buffer
      else
        (let buffer' = buffer @ chunk
         in if contains HEAD_END buffer' \<or> length buffer' > 16384 then buffer'
            else read_head buffer' chunks))"

definition nth_part :: "nat \<Rightarrow> string list \<Rightarrow> string" where
  "nth_part n parts = (if n < length parts then parts ! n else [])"

definition split_once :: "string \<Rightarrow> string \<Rightarrow> string \<times> string" where
  "split_once sep s =
     (case split_str sep s of
        x # y # _ \<Rightarrow> (x, drop (length x + length sep) s)
      | _ \<Rightarrow> (s, []))"

text \<open>The values of \<open>code\<close> and \<open>state\<close>; the last occurrence counts.\<close>

definition take_param :: "string \<Rightarrow> string \<times> string \<Rightarrow> string \<times> string" where
  "take_param pair acc =
     (case split_once ''='' pair of
        (key, v) \<Rightarrow>
          if key = ''code'' then (urldecode v, snd acc)
          else if key = ''state'' then (fst acc, urldecode v)
          else acc)"

definition callback_params :: "string \<Rightarrow> string \<times> string" where
  "callback_params head =
     (let target = nth_part 1 (split_whitespace (from_utf8_lossy head));
          query = nth_part 1 (split_str ''?'' target)
      in fold take_param (split_str ''&'' query) ([], []))"

definition CRLF :: string where
  "CRLF = [CHR 0x0D, CHR 0x0A]"

definition html_head :: "string \<Rightarrow> string \<Rightarrow> string" where
  "html_head status extra =
     ''HTTP/1.1 '' @ status @ CRLF @ ''Content-Type: text/html; charset=utf-8'' @ CRLF @ extra @ CRLF"

definition LOGIN_PAGE :: string where
  "LOGIN_PAGE = ''<h2>login ok - you can close this window</h2>''"

text \<open>The page that is sent back, and the code or why there is none.\<close>

definition handle_callback :: "string list \<Rightarrow> string \<Rightarrow> string \<times> (string + string)" where
  "handle_callback chunks state_key =
     (case callback_params (read_head [] chunks) of
        (code, got_state) \<Rightarrow>
          if code = [] then (html_head ''400 Bad Request'' [] @ ''<h2>login callback invalid</h2>'', Inl ''missing code'')
          else if got_state \<noteq> state_key
          then (html_head ''400 Bad Request'' [] @ ''<h2>state mismatch</h2>'', Inl ''state mismatch'')
          else (html_head ''200 OK'' (''Content-Length: 47'' @ CRLF) @ LOGIN_PAGE, Inr code))"

text \<open>Connections until one yields a code; \<open>None\<close> when none did before the timeout.\<close>

fun accept_code :: "string \<Rightarrow> string list list \<Rightarrow> string option" where
  "accept_code state_key [] = None"
| "accept_code state_key (conn # conns) =
     (case snd (handle_callback conn state_key) of
        Inr code \<Rightarrow> Some code
      | Inl _ \<Rightarrow> accept_code state_key conns)"

section \<open>The exchange\<close>

datatype oauth_error =
  LoginTimeout | StateMismatch | MissingCode | ExchangeRejected string | MissingToken
| LoginNetwork string | InvalidCredential credential_error | LoginIo

definition exchange_body :: "string \<Rightarrow> string \<Rightarrow> string \<Rightarrow> int \<Rightarrow> json" where
  "exchange_body code login_uuid keyfrom millis =
     JObj [(''authCode'', JStr code), (''firstKeyfrom'', JStr keyfrom), (''latestKeyfrom'', JStr (show_int millis)),
           (''uuid'', JStr login_uuid), (''version'', JStr CLIENT_VERSION)]"

definition read_exchange :: "codec \<Rightarrow> http_reply \<Rightarrow> oauth_error + json" where
  "read_exchange c reply =
     (case reply of
        NoReply e \<Rightarrow> Inl (LoginNetwork e)
      | Reply status body \<Rightarrow>
          if \<not> (200 \<le> status \<and> status < 300)
          then Inl (ExchangeRejected (''HTTP '' @ show_nat status @ '': '' @ sanitize_text (from_utf8_lossy body) []))
          else
            (case from_text c body of
               None \<Rightarrow> Inl (ExchangeRejected ''response was not valid JSON'')
             | Some payload \<Rightarrow>
                 (let code = unwrap_or (-1) (get_i64 ''code'' payload)
                  in if code \<noteq> 0
                     then Inl (ExchangeRejected (''code='' @ show_int code @ '': ''
                                 @ envelope_message ''unknown error'' payload))
                     else Inr (unwrap_or (JObj []) (get ''data'' payload)))))"

definition login_expiry :: "externals \<Rightarrow> int \<Rightarrow> string \<Rightarrow> json \<Rightarrow> int" where
  "login_expiry x now access data =
     (case filter_opt (\<lambda>v. v > 0) (get_i64 ''expiresIn'' data) of
        Some secs \<Rightarrow> add_i64 now secs
      | None \<Rightarrow> unwrap_or 0 (jwt_expiry x access))"

definition login_uid :: "json \<Rightarrow> string" where
  "login_uid user = unwrap_or [] (non_empty (find_field user [''id'', ''userId'', ''yid'']))"

definition build_credential_file ::
    "externals \<Rightarrow> int \<Rightarrow> int \<Rightarrow> json \<Rightarrow> string \<Rightarrow> string \<Rightarrow> json" where
  "build_credential_file x now millis data login_uuid keyfrom =
     (let access = unwrap_or [] (get_str ''accessToken'' data);
          user = unwrap_or (JObj []) (get ''user'' data)
      in JObj
           [(''auth'', JObj
              [(''accessToken'', JStr access),
               (''refreshToken'', JStr (unwrap_or [] (get_str ''refreshToken'' data))),
               (''expiresAt'', json_int (login_expiry x now access data)), (''uuid'', JStr login_uuid),
               (''firstKeyfrom'', JStr keyfrom), (''latestKeyfrom'', JStr (show_int millis))]),
            (''account'', JObj
              [(''uid'', JStr (login_uid user)), (''userId'', JStr (unwrap_or [] (get_str ''userId'' user))),
               (''nickname'', JStr (unwrap_or [] (get_str ''nickname'' user)))])])"

text \<open>\<open>dir_ok\<close> tells whether the directory exists or can be created.\<close>

definition save_credential ::
    "externals \<Rightarrow> bool \<Rightarrow> write_outcome \<Rightarrow> path \<Rightarrow> string \<Rightarrow> path \<Rightarrow> json \<Rightarrow> fs \<Rightarrow> (oauth_error + string) \<times> fs" where
  "save_credential x dir_ok outcome tmp io_error dir v files =
     (case parse_credential (x_norm_ts x) v of
        Inl e \<Rightarrow> (Inl (InvalidCredential e), files)
      | Inr d \<Rightarrow>
          if \<not> dir_ok then (Inl LoginIo, files)
          else
            (let name = ''lobsterai-'' @ uid d @ ''.json''
             in case atomic_write outcome tmp (dir @ ''/'' @ name) (x_pretty x v) files of
                  (files', True) \<Rightarrow> (Inr name, files')
                | (files', False) \<Rightarrow> (Inl (LoginNetwork io_error), files')))"

section \<open>The login\<close>

record login_call =
  lg_random :: string
  lg_uuid :: string
  lg_now :: int
  lg_millis :: "nat \<Rightarrow> int"
  lg_port :: "16 word"
  lg_connections :: "string list list"
  lg_exchange :: "json \<Rightarrow> http_reply"
  lg_dir_ok :: bool
  lg_write :: write_outcome
  lg_tmp :: path
  lg_io_error :: string

definition state_key_of :: "login_call \<Rightarrow> string" where
  "state_key_of lg = to_hex (lg_random lg)"

definition run_login :: "externals \<Rightarrow> config \<Rightarrow> login_call \<Rightarrow> fs \<Rightarrow> (oauth_error + path) \<times> fs" where
  "run_login x cfg lg files =
     (let keyfrom = show_int (lg_millis lg 0)
      in case accept_code (state_key_of lg) (lg_connections lg) of
           None \<Rightarrow> (Inl LoginTimeout, files)
         | Some code \<Rightarrow>
             if code = [] then (Inl MissingCode, files)
             else
               (case read_exchange (x_codec x) (lg_exchange lg (exchange_body code (lg_uuid lg) keyfrom (lg_millis lg 1))) of
                  Inl e \<Rightarrow> (Inl e, files)
                | Inr data \<Rightarrow>
                    if get_str ''accessToken'' data = None then (Inl MissingToken, files)
                    else
                      (case save_credential x (lg_dir_ok lg) (lg_write lg) (lg_tmp lg) (lg_io_error lg)
                              (ac_dir (cf_auth cfg))
                              (build_credential_file x (lg_now lg) (lg_millis lg 2) data (lg_uuid lg) keyfrom) files of
                         (Inl e, files') \<Rightarrow> (Inl e, files')
                       | (Inr name, files') \<Rightarrow> (Inr (ac_dir (cf_auth cfg) @ ''/'' @ name), files'))))"

definition credential_error_text :: "credential_error \<Rightarrow> string" where
  "credential_error_text e =
     (case e of
        NotAnObject \<Rightarrow> ''credential is not a valid JSON object''
      | MissingAccessToken \<Rightarrow> ''credential is missing accessToken''
      | TooLarge \<Rightarrow> ''credential file too large (max 1 MiB)''
      | Io _ \<Rightarrow> ''failed to read credential file''
      | Parse _ \<Rightarrow> ''failed to parse credential: invalid UTF-8/JSON'')"

text \<open>What the login prints at its end: the invitation of the saved account.\<close>

definition fetch_invite_summary ::
    "checkin_env \<Rightarrow> externals \<Rightarrow> config \<Rightarrow> string \<Rightarrow> path \<Rightarrow> fs \<Rightarrow> history \<Rightarrow> (string + string) \<times> history" where
  "fetch_invite_summary env x cfg secret p files h =
     (case read_credential_file (x_codec x) (x_norm_ts x) files p of
        Inl e \<Rightarrow> (Inl (credential_error_text e), h)
      | Inr d \<Rightarrow>
          (case fetch_invite_progress env True (new_credential (x_hmac x) p d secret) h of
             (Inl e, h') \<Rightarrow> (Inl (err_message e), h')
           | (Inr progress, h') \<Rightarrow>
               (Inr (invite_summary env progress
                  @ (case ip_code progress of
                       None \<Rightarrow> []
                     | Some code \<Rightarrow> [CHR 0x0A] @ ''Share link: '' @ uc_login_portal (cf_upstream cfg)
                                    @ ''/portal#/login?inviteCode='' @ code)), h')))"

end
