(* ===== verification/Login_Props.thy ===== *)
theory Login_Props
  imports Login Config_Props Credential_Props
begin

text \<open>
  Properties of the login: which callback it accepts, what the saved file reads back as, and the coding of
  query values.
\<close>

section \<open>Query values\<close>

lemma HEX_digits:
  assumes "n < 16"
  shows "is_hex_digit (HEX ! n)" "hex_digit_value (HEX ! n) = n" "HEX ! n \<noteq> CHR ''+''"
proof -
  have "list_all (\<lambda>n. is_hex_digit (HEX ! n) \<and> hex_digit_value (HEX ! n) = n \<and> HEX ! n \<noteq> CHR ''+'') [0..<16]"
    by code_simp
  then show "is_hex_digit (HEX ! n)" "hex_digit_value (HEX ! n) = n" "HEX ! n \<noteq> CHR ''+''"
    using assms by (simp_all add: list_all_iff)
qed

lemma u8_from_HEX: "u8_from_hex [HEX ! (of_char b div 16), HEX ! (of_char b mod 16)] = Some b"
proof -
  have "16 * ((of_char b :: nat) div 16) + of_char b mod 16 = of_char b" by simp
  then show ?thesis
    using HEX_digits(3) [OF nibbles(1), of b] nat_of_char_less_256 [of b]
    by (simp add: u8_from_hex_def Let_def strip_prefix_def starts_with_def
        HEX_digits [OF nibbles(1)] HEX_digits [OF nibbles(2)])
qed

lemma safe_not_special: "is_url_safe b \<Longrightarrow> b \<noteq> CHR ''%'' \<and> b \<noteq> CHR ''+''"
  by (auto simp: is_url_safe_def)

lemma decode_encode: "decode_percent (urlencode s) = s"
proof (induction s)
  case (Cons b s)
  show ?case
  proof (cases "is_url_safe b")
    case True
    with Cons safe_not_special [OF True] show ?thesis by (simp add: urlencode_def)
  next
    case False
    with Cons show ?thesis by (simp add: urlencode_def u8_from_HEX)
  qed
qed (simp add: urlencode_def)

lemma from_utf8_lossy_ascii: "ascii s \<Longrightarrow> from_utf8_lossy s = s"
proof (induction s)
  case (Cons b s)
  then have "utf8_head (b # s) = (True, 1)" by (simp add: ascii_def utf8_head_def)
  with Cons show ?case by (simp add: ascii_def)
qed simp

text \<open>a query value survives the trip. Decoding what \<open>urlencode\<close> made of a string gives back the
  string, up to the replacement of bytes that are no UTF-8; so an ASCII value, like the redirect address
  of the login URL, comes back unchanged.\<close>

theorem query_value_round_trip:
  "urldecode (urlencode s) = from_utf8_lossy s \<and> (ascii s \<longrightarrow> urldecode (urlencode s) = s)"
  by (simp add: urldecode_def decode_encode from_utf8_lossy_ascii)

theorem query_value_round_trip_witness:
  "urldecode (urlencode ''http://h/a?b=1&c=2'') = ''http://h/a?b=1&c=2''"
  using conjunct2 [OF query_value_round_trip [of "''http://h/a?b=1&c=2''"]] by (simp add: ascii_def)

section \<open>The callback\<close>

lemma handle_callback_Inr:
  "snd (handle_callback conn key) = Inr code \<longleftrightarrow> callback_params (read_head [] conn) = (code, key) \<and> code \<noteq> []"
  by (auto simp: handle_callback_def split: prod.splits if_splits)

lemma accept_code_Some:
  "accept_code key conns = Some code \<Longrightarrow>
     \<exists>i < length conns. callback_params (read_head [] (conns ! i)) = (code, key)
       \<and> (\<forall>j < i. \<exists>e. snd (handle_callback (conns ! j) key) = Inl e)"
proof (induction conns)
  case (Cons conn conns)
  show ?case
  proof (cases "snd (handle_callback conn key)")
    case (Inl e)
    with Cons obtain i where "i < length conns" "callback_params (read_head [] (conns ! i)) = (code, key)"
      "\<forall>j < i. \<exists>e. snd (handle_callback (conns ! j) key) = Inl e" by auto
    with Inl show ?thesis by (intro exI [of _ "Suc i"]) (auto simp: less_Suc_eq_0_disj)
  next
    case (Inr c)
    with Cons.prems show ?thesis by (auto simp: handle_callback_Inr)
  qed
qed simp

lemma accept_code_nonempty: "accept_code key conns = Some code \<Longrightarrow> code \<noteq> []"
  by (induction conns) (auto simp: handle_callback_Inr split: sum.splits)

text \<open>The login page announces a length its body does not have.\<close>

lemma login_page_is_shorter_than_announced: "length LOGIN_PAGE = 45"
  by (simp add: LOGIN_PAGE_def)

section \<open>The saved file\<close>

lemma parse_built:
  assumes "parse_credential (x_norm_ts x) (build_credential_file x now millis data u kf) = Inr d"
  shows "access_token d = trim (unwrap_or [] (get_str ''accessToken'' data)) \<and> access_token d \<noteq> []
    \<and> refresh_token d = trim (unwrap_or [] (get_str ''refreshToken'' data))
    \<and> uid d = trim (login_uid (unwrap_or (JObj []) (get ''user'' data)))
    \<and> uuid d = trim u \<and> first_keyfrom d = trim kf
    \<and> expires_at_secs d = unwrap_or 0 (x_norm_ts x (Some (json_int (login_expiry x now (unwrap_or [] (get_str ''accessToken'' data)) data))))"
  using assms
  by (auto simp: build_credential_file_def parse_credential_def auth_of_def account_of_def str_field_def
      Let_def split: if_splits)

lemma save_credential_Inr:
  assumes "save_credential x dir_ok outcome tmp e dir v files = (Inr name, files')"
  shows "\<exists>d. parse_credential (x_norm_ts x) v = Inr d \<and> name = ''lobsterai-'' @ uid d @ ''.json''
    \<and> files' = files(tmp := None, dir @ ''/'' @ name \<mapsto> x_pretty x v)"
  using assms
  by (auto simp: save_credential_def atomic_write_def Let_def split: sum.splits if_splits prod.splits
      bool.splits write_outcome.splits)

definition login_file :: "externals \<Rightarrow> login_call \<Rightarrow> json \<Rightarrow> json" where
  "login_file x lg data =
     build_credential_file x (lg_now lg) (lg_millis lg 2) data (lg_uuid lg) (show_int (lg_millis lg 0))"

lemma run_login_Inr:
  assumes "run_login x cfg lg files = (Inr p, files')"
  obtains code data name where "accept_code (state_key_of lg) (lg_connections lg) = Some code"
    and "read_exchange (x_codec x) (lg_exchange lg
           (exchange_body code (lg_uuid lg) (show_int (lg_millis lg 0)) (lg_millis lg 1))) = Inr data"
    and "get_str ''accessToken'' data \<noteq> None"
    and "save_credential x (lg_dir_ok lg) (lg_write lg) (lg_tmp lg) (lg_io_error lg) (ac_dir (cf_auth cfg))
           (build_credential_file x (lg_now lg) (lg_millis lg 2) data (lg_uuid lg) (show_int (lg_millis lg 0))) files
         = (Inr name, files')"
    and "p = ac_dir (cf_auth cfg) @ ''/'' @ name"
  using assms by (auto simp: run_login_def Let_def split: option.splits if_splits sum.splits prod.splits)

text \<open>C39: a login only takes the answer to its own question. When a login succeeds, the code it exchanged is
  that of a callback that carried exactly the random state of this login; every connection before it
  was turned away, and the backend accepted the exchange and returned an access token.\<close>

theorem login_accepts_only_its_own_callback:
  assumes "run_login x cfg lg files = (Inr p, files')"
  shows "\<exists>code i. i < length (lg_connections lg)
    \<and> callback_params (read_head [] (lg_connections lg ! i)) = (code, to_hex (lg_random lg)) \<and> code \<noteq> []
    \<and> (\<forall>j < i. \<exists>e. snd (handle_callback (lg_connections lg ! j) (to_hex (lg_random lg))) = Inl e)
    \<and> (\<exists>data. read_exchange (x_codec x) (lg_exchange lg
           (exchange_body code (lg_uuid lg) (show_int (lg_millis lg 0)) (lg_millis lg 1))) = Inr data
         \<and> get_str ''accessToken'' data \<noteq> None)"
  using assms
proof (rule run_login_Inr)
  fix code data name
  assume "accept_code (state_key_of lg) (lg_connections lg) = Some code"
    and "read_exchange (x_codec x) (lg_exchange lg
           (exchange_body code (lg_uuid lg) (show_int (lg_millis lg 0)) (lg_millis lg 1))) = Inr data"
    and "get_str ''accessToken'' data \<noteq> None"
  with accept_code_Some [OF this(1)] accept_code_nonempty [OF this(1)] show ?thesis
    unfolding state_key_of_def by blast
qed

text \<open>a login that fails leaves the accounts alone. Whatever the reason, the only path whose content may
  differ is that of the temporary file.\<close>

theorem failed_login_changes_no_account:
  assumes "run_login x cfg lg files = (Inl e, files')" and "q \<noteq> lg_tmp lg"
  shows "files' q = files q"
  using assms
  by (auto simp: run_login_def save_credential_def atomic_write_def Let_def
      split: option.splits if_splits sum.splits prod.splits bool.splits write_outcome.splits)

text \<open>C40: the saved login reads back. After a successful login the file it names, in the configured
  directory, reads back as a credential with the tokens and the account of the exchange (trimmed as the
  parser does) and, when the decoder keeps integers, with the instant at which the tokens expire,
  provided that this file fits the size limit of the reader and that the JSON decoder reads what the
  pretty printer wrote for it.\<close>

theorem saved_login_reads_back:
  assumes "run_login x cfg lg files = (Inr p, files')"
    and "accept_code (state_key_of lg) (lg_connections lg) = Some code"
    and "read_exchange (x_codec x) (lg_exchange lg
           (exchange_body code (lg_uuid lg) (show_int (lg_millis lg 0)) (lg_millis lg 1))) = Inr data"
    and "from_text (x_codec x) (x_pretty x (login_file x lg data)) = Some (login_file x lg data)"
    and "length (x_pretty x (login_file x lg data)) \<le> 1024 * 1024"
  shows "\<exists>d. read_credential_file (x_codec x) (x_norm_ts x) files' p = Inr d
    \<and> p = ac_dir (cf_auth cfg) @ ''/lobsterai-'' @ uid d @ ''.json''
    \<and> access_token d = trim (unwrap_or [] (get_str ''accessToken'' data)) \<and> access_token d \<noteq> []
    \<and> refresh_token d = trim (unwrap_or [] (get_str ''refreshToken'' data))
    \<and> uid d = trim (login_uid (unwrap_or (JObj []) (get ''user'' data)))
    \<and> uuid d = trim (lg_uuid lg)
    \<and> (let e = login_expiry x (lg_now lg) (unwrap_or [] (get_str ''accessToken'' data)) data
       in keeps_integers (x_codec x) \<and> 0 < e \<and> e < 10 ^ 12 \<longrightarrow> expires_at_secs d = e)"
  using assms(1)
proof (rule run_login_Inr)
  fix code' data' name
  assume "accept_code (state_key_of lg) (lg_connections lg) = Some code'"
    and "read_exchange (x_codec x) (lg_exchange lg
           (exchange_body code' (lg_uuid lg) (show_int (lg_millis lg 0)) (lg_millis lg 1))) = Inr data'"
    and save: "save_credential x (lg_dir_ok lg) (lg_write lg) (lg_tmp lg) (lg_io_error lg) (ac_dir (cf_auth cfg))
           (build_credential_file x (lg_now lg) (lg_millis lg 2) data' (lg_uuid lg) (show_int (lg_millis lg 0))) files
         = (Inr name, files')"
    and p: "p = ac_dir (cf_auth cfg) @ ''/'' @ name"
  with assms(2,3) have data: "data' = data" by simp
  from save_credential_Inr [OF save] obtain d where
    d: "parse_credential (x_norm_ts x) (login_file x lg data) = Inr d"
    and name: "name = ''lobsterai-'' @ uid d @ ''.json''"
    and files': "files' = files(lg_tmp lg := None, p \<mapsto> x_pretty x (login_file x lg data))"
    by (auto simp: data p login_file_def)
  have "read_credential_file (x_codec x) (x_norm_ts x) files' p = Inr d"
    using assms(4,5) d by (simp add: read_credential_file_def files')
  moreover have "p = ac_dir (cf_auth cfg) @ ''/lobsterai-'' @ uid d @ ''.json''" by (simp add: p name)
  moreover have "keeps_integers (x_codec x) \<Longrightarrow> 0 < e \<Longrightarrow> e < 10 ^ 12 \<Longrightarrow> x_norm_ts x (Some (json_int e)) = Some e" for e
    using norm_ts_of_secs by (simp add: json_int_def)
  ultimately show ?thesis using parse_built [OF d [unfolded login_file_def]] unfolding Let_def by auto
qed

text \<open>A login that succeeds.\<close>

definition demo_login :: login_call where
  "demo_login =
     \<lparr>lg_random = [CHR 0xAB], lg_uuid = ''u-u-i-d'', lg_now = 0, lg_millis = (\<lambda>_. 0), lg_port = 51234,
      lg_connections = [[''GET /favicon.ico HTTP/1.1'' @ HEAD_END],
                        [''GET /auth/callback?code=c1&state=ab HTTP/1.1'' @ HEAD_END]],
      lg_exchange = (\<lambda>_. Reply 200 ''reply''), lg_dir_ok = True, lg_write = WriteOk, lg_tmp = ''auth/t'',
      lg_io_error = []\<rparr>"

definition login_demo_data :: json where
  "login_demo_data =
     JObj [(''accessToken'', JStr ''tok''), (''refreshToken'', JStr ''rt''), (''user'', JObj [(''id'', JStr ''u-9'')])]"

definition demo_x :: externals where
  "demo_x = sample_externals
     \<lparr>x_codec := sample_codec\<lparr>from_text := (\<lambda>s. if s = ''reply''
           then Some (JObj [(''code'', JNum (PosInt 0)), (''data'', login_demo_data)])
           else Some (login_file sample_externals demo_login login_demo_data))\<rparr>,
      x_pretty := (\<lambda>_. ''file'')\<rparr>"

lemma demo_accept: "accept_code (state_key_of demo_login) (lg_connections demo_login) = Some ''c1''"
  by code_simp

lemma demo_read:
  "read_exchange (x_codec demo_x) (lg_exchange demo_login (exchange_body code u kf millis)) = Inr login_demo_data"
  by (simp add: read_exchange_def demo_login_def demo_x_def sample_externals_def get_i64_def)

lemma jwt_expiry_none: "(\<And>s. x_base64url x s = None) \<Longrightarrow> jwt_expiry x t = None"
  by (simp add: jwt_expiry_def split: list.split)

lemma demo_file: "login_file demo_x demo_login login_demo_data = login_file sample_externals demo_login login_demo_data"
proof -
  have "x_base64url demo_x s = None" "x_base64url sample_externals s = None" for s
    by (simp_all add: demo_x_def sample_externals_def)
  note none = jwt_expiry_none [OF this(1)] jwt_expiry_none [OF this(2)]
  have "login_expiry demo_x = login_expiry sample_externals"
    by (intro ext) (simp only: login_expiry_def none)
  then show ?thesis by (simp only: login_file_def build_credential_file_def)
qed

lemma demo_parse:
  "\<exists>d. parse_credential (x_norm_ts demo_x) (login_file demo_x demo_login login_demo_data) = Inr d"
proof -
  have "trim ''tok'' \<noteq> []" by code_simp
  then show ?thesis
    by (simp add: login_file_def build_credential_file_def parse_credential_def auth_of_def str_field_def
        login_demo_data_def get_str_def Let_def or_else_def)
qed

lemma demo_run:
  "\<exists>p files'. run_login demo_x (default_config ''auth'') demo_login (\<lambda>_. None) = (Inr p, files')"
proof -
  obtain d where d: "parse_credential (x_norm_ts demo_x) (login_file demo_x demo_login login_demo_data) = Inr d"
    using demo_parse by blast
  have "lg_write demo_login = WriteOk" "lg_dir_ok demo_login" by (simp_all add: demo_login_def)
  moreover have "get_str ''accessToken'' login_demo_data \<noteq> None" by (simp add: login_demo_data_def get_str_def)
  ultimately show ?thesis
    using d by (simp add: run_login_def demo_accept demo_read save_credential_def atomic_write_def Let_def
        login_file_def [symmetric])
qed

theorem login_accepts_only_its_own_callback_witness:
  "\<exists>code i. i < length (lg_connections demo_login)
     \<and> callback_params (read_head [] (lg_connections demo_login ! i)) = (code, ''ab'') \<and> code \<noteq> []"
proof -
  obtain p files' where "run_login demo_x (default_config ''auth'') demo_login (\<lambda>_. None) = (Inr p, files')"
    using demo_run by blast
  moreover have "to_hex (lg_random demo_login) = ''ab''" by code_simp
  ultimately show ?thesis using login_accepts_only_its_own_callback by metis
qed

theorem failed_login_changes_no_account_witness:
  "snd (run_login demo_x (default_config ''auth'') (demo_login\<lparr>lg_connections := []\<rparr>) (\<lambda>_. Some ''x'')) ''auth/a.json''
     = Some ''x''"
proof -
  let ?run = "run_login demo_x (default_config ''auth'') (demo_login\<lparr>lg_connections := []\<rparr>) (\<lambda>_. Some ''x'')"
  have "?run = (Inl LoginTimeout, snd ?run)" by (simp add: run_login_def Let_def)
  from failed_login_changes_no_account [OF this, of "''auth/a.json''"] show ?thesis
    by (simp add: demo_login_def)
qed

theorem saved_login_reads_back_witness:
  "\<exists>p files' d. run_login demo_x (default_config ''auth'') demo_login (\<lambda>_. None) = (Inr p, files')
     \<and> read_credential_file (x_codec demo_x) (x_norm_ts demo_x) files' p = Inr d \<and> access_token d = trim ''tok''"
proof -
  obtain p files' where run: "run_login demo_x (default_config ''auth'') demo_login (\<lambda>_. None) = (Inr p, files')"
    using demo_run by blast
  have "from_text (x_codec demo_x) (x_pretty demo_x (login_file demo_x demo_login login_demo_data))
      = Some (login_file demo_x demo_login login_demo_data)"
    by (simp only: demo_file) (simp add: demo_x_def)
  from saved_login_reads_back [OF run demo_accept demo_read this] show ?thesis
    using run by (auto simp: demo_x_def login_demo_data_def get_str_def)
qed

end
