(* ===== verification/Bootstrap.thy ===== *)
theory Bootstrap
  imports Config Server Housekeep Shutdown
begin

text \<open>
  From the configuration to the running server (\<open>src/server/orchestrator.rs\<close>, \<open>src/main.rs\<close>): the state
  that \<open>build_state\<close> makes of a configuration, the routes, and the report of the \<open>status\<close> command.

  \<open>libraries\<close> groups what the server takes from elsewhere; \<open>None\<close> as the result of \<open>build_state\<close> is a panic
  (a secret that cannot be sliced, a proxy URL that the HTTP library does not parse).
\<close>

section \<open>The state\<close>

record libraries =
  lb_x :: externals
  lb_hash :: "string \<Rightarrow> u64"
  lb_error_text :: "protocol_error \<Rightarrow> string"
  lb_json_error :: "string \<Rightarrow> string"
  lb_limit_error :: string
  lb_proxy_parses :: "string \<Rightarrow> bool"

definition config_timeouts :: "config \<Rightarrow> stream_timeouts" where
  "config_timeouts cfg =
     (let t = cf_timeouts cfg
      in timeouts_from_secs (unat (tc_first_event_secs t)) (unat (tc_first_semantic_secs t))
           (unat (tc_stream_idle_secs t)) (unat (tc_semantic_idle_secs t)))"

definition config_shadow_limits :: "config \<Rightarrow> shadow_limits" where
  "config_shadow_limits cfg =
     default_limits\<lparr>max_sessions := unat (lc_shadow_max_sessions (cf_limits cfg)),
                    ttl := from_secs (unat (lc_shadow_ttl_secs (cf_limits cfg)))\<rparr>"

definition config_pool_limits :: "config \<Rightarrow> limits" where
  "config_pool_limits cfg =
     (let l = cf_limits cfg
      in \<lparr>limits.cred_cooldown_secs = unat (lc_cred_cooldown_secs l),
          model_cooldown_secs = unat (lc_model_cooldown_secs l),
          hard_credit_cooldown_secs = unat (lc_hard_credit_cooldown_secs l),
          sticky_max = unat (lc_sticky_max l), sticky_ttl_secs = unat (lc_sticky_ttl_secs l)\<rparr>)"

definition shutdown_timeout :: "config \<Rightarrow> duration" where
  "shutdown_timeout cfg = from_secs (unat (lc_shutdown_timeout_secs (cf_limits cfg)))"

text \<open>What \<open>serve\<close> gives the drain.\<close>

definition serve_drain :: "config \<Rightarrow> instant \<Rightarrow> drain_env" where
  "serve_drain cfg last_instant = \<lparr>dr_timeout = shutdown_timeout cfg, dr_last_instant = last_instant\<rparr>"

definition proxy_ok :: "libraries \<Rightarrow> config \<Rightarrow> bool" where
  "proxy_ok lib cfg = (case uc_proxy (cf_upstream cfg) of None \<Rightarrow> True | Some u \<Rightarrow> lb_proxy_parses lib u)"

definition build_state ::
    "libraries \<Rightarrow> string \<Rightarrow> (string \<times> string) list \<Rightarrow> path list \<Rightarrow> config \<Rightarrow> fs \<Rightarrow> (server_env \<times> server) option" where
  "build_state lib random names old cfg files =
     Option.bind (config_secret random cfg) (\<lambda>secret.
       case load_dir (lb_x lib) names old (ac_dir (cf_auth cfg)) files (new_pool secret (config_pool_limits cfg)) of
         (p, files') \<Rightarrow>
           if \<not> proxy_ok lib cfg then None
           else Some
             (\<lparr>sv_x = lb_x lib, sv_hash = lb_hash lib, sv_api_key = sc_api_key (cf_server cfg),
               sv_model = cf_model cfg, sv_secret = secret, sv_timeouts = config_timeouts cfg,
               sv_shadow_limits = config_shadow_limits cfg,
               sv_body_limit = unat (lc_max_body_bytes (cf_limits cfg)), sv_error_text = lb_error_text lib,
               sv_json_error = lb_json_error lib, sv_limit_error = lb_limit_error lib\<rparr>,
              \<lparr>ws_pool = p, ws_files = files', ws_shadow = new_shadow, ws_metrics = new_metrics,
               ws_sent = [], ws_log = []\<rparr>))"

section \<open>Routes\<close>

datatype route =
  Messages | CountTokens | Responses | Models | MetricsText | Healthz | Readyz | AdminStatus

definition route_of :: "api_method \<Rightarrow> string \<Rightarrow> route option" where
  "route_of meth path =
     map_of [((POST, ''/v1/messages''), Messages), ((POST, ''/v1/messages/count_tokens''), CountTokens),
             ((POST, ''/v1/responses''), Responses), ((GET, ''/v1/models''), Models),
             ((GET, ''/metrics''), MetricsText), ((GET, ''/healthz''), Healthz), ((GET, ''/readyz''), Readyz),
             ((GET, ''/admin/status''), AdminStatus)] (meth, path)"

record moment =
  mo_fmt :: "u64 \<Rightarrow> string"
  mo_version :: string
  mo_now :: instant
  mo_uptime :: nat

definition dispatch ::
    "server_env \<Rightarrow> call \<Rightarrow> moment \<Rightarrow> route \<Rightarrow> header_list \<Rightarrow> body_read \<Rightarrow> server \<Rightarrow> (answer \<times> server) option" where
  "dispatch env call mo rt headers body w =
     (case rt of
        Messages \<Rightarrow> handle_messages env call headers body w
      | Responses \<Rightarrow> handle_responses env call headers body w
      | CountTokens \<Rightarrow> Some (handle_count_tokens env headers body w)
      | Models \<Rightarrow> Some (handle_models env headers w)
      | MetricsText \<Rightarrow> Some (handle_metrics (mo_fmt mo) (mo_version mo) (mo_now mo) (mo_uptime mo) w, w)
      | Healthz \<Rightarrow> Some (handle_healthz, w)
      | Readyz \<Rightarrow> Some (handle_readyz w, w)
      | AdminStatus \<Rightarrow>
          Some (handle_admin_status env (mo_version mo) (mo_now mo) (mo_uptime mo) headers w, w))"

section \<open>The status command\<close>

text \<open>Two decimals of an \<open>f64\<close> and right alignment are the formatter's (\<open>fmt2\<close>, \<open>pad\<close>).\<close>

definition credit_line :: "(u64 \<Rightarrow> string) \<Rightarrow> (string \<Rightarrow> string) \<Rightarrow> credit_item \<Rightarrow> string" where
  "credit_line fmt2 pad i =
     ''        ['' @ pad (ci_kind i) @ ''] '' @ fmt2 (ci_remaining i) @ ''  '' @ ci_label i
     @ ''  (expires '' @ unwrap_or ''no expiry'' (ci_expires_at i) @ '')''"

definition account_lines ::
    "checkin_env \<Rightarrow> (u64 \<Rightarrow> string) \<Rightarrow> (string \<Rightarrow> string) \<Rightarrow> (api_error \<Rightarrow> string) \<Rightarrow> credential \<Rightarrow> history
      \<Rightarrow> string list \<times> history" where
  "account_lines env fmt2 pad show_error k h =
     (case fetch_invite_progress env True k h of
        (r, h1) \<Rightarrow>
          (case fetch_credit_breakdown env k h1 of
             (b, h2) \<Rightarrow>
               ((case r of
                   Inr progress \<Rightarrow> [''      '' @ invite_summary env progress]
                 | Inl e \<Rightarrow> [''      invitation unavailable: '' @ show_error e])
                @ (case b of
                     Inr breakdown \<Rightarrow>
                       (''      credits total '' @ fmt2 (cb_total breakdown) @ '':'')
                         # map (credit_line fmt2 pad) (cb_items breakdown)
                   | Inl e \<Rightarrow> [''      credit breakdown unavailable: '' @ show_error e]),
                h2)))"

definition status_head :: "json \<Rightarrow> string" where
  "status_head account =
     ''  - '' @ unwrap_or ''?'' (get_str ''name'' account)
     @ '' healthy='' @ show_bool (unwrap_or False (Option.bind (get ''healthy'' account) as_bool))
     @ '' credits='' @ show_int (unwrap_or (-1) (get_i64 ''credits'' account))
     @ '' token_expires_at_secs='' @ show_int (unwrap_or 0 (get_i64 ''token_expires_at_secs'' account))"

definition status_account ::
    "checkin_env \<Rightarrow> (u64 \<Rightarrow> string) \<Rightarrow> (string \<Rightarrow> string) \<Rightarrow> (api_error \<Rightarrow> string) \<Rightarrow> pool \<Rightarrow> json
      \<Rightarrow> string list \<times> history \<Rightarrow> string list \<times> history" where
  "status_account env fmt2 pad show_error p account acc =
     (let lines = fst acc @ [status_head account]
      in case Option.bind (get_str ''name'' account) (\<lambda>n. credential_by_safe_name n p) of
           None \<Rightarrow> (lines, snd acc)
         | Some k \<Rightarrow>
             (case account_lines env fmt2 pad show_error k (snd acc) of (extra, h) \<Rightarrow> (lines @ extra, h)))"

definition print_status ::
    "checkin_env \<Rightarrow> (u64 \<Rightarrow> string) \<Rightarrow> (string \<Rightarrow> string) \<Rightarrow> (api_error \<Rightarrow> string) \<Rightarrow> config \<Rightarrow> instant \<Rightarrow> server
      \<Rightarrow> history \<Rightarrow> string list \<times> history" where
  "print_status env fmt2 pad show_error cfg now w h =
     (let listed = snapshot now (cf_model cfg) (ws_pool w)
      in fold (status_account env fmt2 pad show_error (ws_pool w)) listed
           ([''model      : '' @ cf_model cfg, ''auth dir   : '' @ ac_dir (cf_auth cfg),
             ''accounts   : '' @ show_nat (length listed)], h))"

end
