(* ===== verification/Bootstrap_Props.thy ===== *)
theory Bootstrap_Props
  imports Bootstrap Config_Props Server_Auth
begin

text \<open>
  Properties of the whole front, from the configuration to the routes: who may use a server that listens
  beyond the loopback interface, and which API keys can be presented at all.
\<close>

section \<open>Trimming\<close>

lemma trim_end_no_trailing: "length s \<le> n \<Longrightarrow> trailing_space (trim_end_fuel n s) = 0"
proof (induction n arbitrary: s)
  case 0
  then show ?case by (simp add: trailing_space_def space2_def space3_def)
next
  case (Suc n)
  show ?case
  proof (cases "trailing_space s = 0")
    case False
    then have "length (take (length s - trailing_space s) s) \<le> n" using Suc.prems by auto
    with False Suc.IH show ?thesis by simp
  qed simp
qed

lemma trim_trailing: "trailing_space (trim s) = 0"
  by (simp add: trim_def Let_def trim_end_no_trailing)

lemma presented_key_trimmed: "presented_key headers = Some key \<Longrightarrow> \<exists>v. key = trim v"
  by (auto simp: presented_key_def or_else_def split: option.splits)

section \<open>The key\<close>

lemma build_state_Some:
  assumes "build_state lib random names old cfg files = Some (env, w)"
  obtains secret where "sv_api_key env = sc_api_key (cf_server cfg)" "sv_x env = lb_x lib" "sv_model env = cf_model cfg"
    "sv_shadow_limits env = config_shadow_limits cfg"
    "ws_pool w = fst (load_dir (lb_x lib) names old (ac_dir (cf_auth cfg)) files
                        (new_pool secret (config_pool_limits cfg)))"
    "ws_shadow w = new_shadow" "ws_metrics w = new_metrics" "ws_sent w = []"
proof -
  from assms obtain secret where s: "config_secret random cfg = Some secret"
    by (auto simp: build_state_def bind_eq_Some_conv)
  obtain p files' where "load_dir (lb_x lib) names old (ac_dir (cf_auth cfg)) files
      (new_pool secret (config_pool_limits cfg)) = (p, files')" by fastforce
  with s assms show thesis by (intro that [of secret]) (auto simp: build_state_def split: if_splits)
qed

text \<open>The routes that authenticate.\<close>

definition protected :: "route \<Rightarrow> bool" where
  "protected rt \<longleftrightarrow> rt \<notin> {Healthz, Readyz, MetricsText}"

lemma refused_everywhere:
  assumes "check_auth env headers = Some e" and "protected rt"
  shows "dispatch env call mo rt headers body w = Some (Respond (into_response e), w)"
  using assms
  by (cases rt) (simp_all add: protected_def dispatch_def handle_messages_def handle_responses_def handle_models_def
      handle_count_tokens_def handle_admin_status_def)

text \<open>C11: beyond the loopback interface nobody gets in without the key. Take any configuration that \<open>serve\<close>
  accepts with a host that is no loopback name, and the server built from it: then a key is configured,
  it is not empty, and a request to any route but the three public ones that does not present exactly
  this key is answered with status 401 and changes nothing.\<close>

theorem remote_clients_need_the_key:
  assumes "serve_config cw explicit host port = Inr cfg" and "\<not> is_loopback (sc_host (cf_server cfg))"
    and "build_state lib random names old cfg files = Some (env, w0)"
  shows "\<exists>key. sv_api_key env = Some key \<and> key \<noteq> []
    \<and> (\<forall>headers. presented_key headers \<noteq> Some key \<longrightarrow>
         (\<exists>r. rs_status r = 401
           \<and> (\<forall>call mo rt body w. protected rt \<longrightarrow> dispatch env call mo rt headers body w = Some (Respond r, w))))"
proof -
  obtain key where key: "sv_api_key env = Some key" "key \<noteq> []"
    using accepted_config [OF assms(1)] assms(2) build_state_Some [OF assms(3)] by metis
  have "\<exists>r. rs_status r = 401
      \<and> (\<forall>call mo rt body w. protected rt \<longrightarrow> dispatch env call mo rt headers body w = Some (Respond r, w))"
    if "presented_key headers \<noteq> Some key" for headers
  proof -
    note wrong = that
    obtain e where "check_auth env headers = Some e"
      using wrong key check_auth_iff [of env headers] by (cases "check_auth env headers") auto
    with refused_everywhere check_auth_error show ?thesis by blast
  qed
  with key show ?thesis by blast
qed

definition sample_libraries :: libraries where
  "sample_libraries =
     \<lparr>lb_x = sample_externals, lb_hash = (\<lambda>_. 0), lb_error_text = pe_template, lb_json_error = id,
      lb_limit_error = [], lb_proxy_parses = (\<lambda>_. True)\<rparr>"

theorem remote_clients_need_the_key_witness:
  "\<exists>env w0 key. sv_api_key env = Some key \<and> key \<noteq> []
     \<and> (\<exists>cfg. build_state sample_libraries [] [] [] cfg (\<lambda>_. None) = Some (env, w0)
          \<and> sc_host (cf_server cfg) = ''0.0.0.0'')"
proof -
  obtain cfg where cfg: "serve_config remote_world None None None = Inr cfg"
    and host: "sc_host (cf_server cfg) = ''0.0.0.0''" and more: "cf_secret cfg = None" "uc_proxy (cf_upstream cfg) = None"
    by (simp add: serve_config_def override_server_def remote_config Let_def validate_def default_config_def)
  obtain env w0 where built: "build_state sample_libraries [] [] [] cfg (\<lambda>_. None) = Some (env, w0)"
    by (simp add: build_state_def config_secret_def more proxy_ok_def load_dir_def Let_def)
  have "\<not> is_loopback (sc_host (cf_server cfg))" by (simp add: host is_loopback_def)
  from remote_clients_need_the_key [OF cfg this built] host built show ?thesis by blast
qed

text \<open>a key that ends in white space locks everybody out. The client's key is trimmed and the configured
  one is not, so no headers at all get past the authentication of a server with such a key.\<close>

theorem key_with_trailing_space_locks_everyone_out:
  assumes "sv_api_key env = Some key" and "trailing_space key \<noteq> 0"
  shows "\<forall>headers. \<exists>e. check_auth env headers = Some e \<and> err_status e = 401"
proof
  fix headers
  have "presented_key headers \<noteq> Some key"
    using presented_key_trimmed [of headers key] trim_trailing assms(2) by auto
  with assms(1) obtain e where e: "check_auth env headers = Some e"
    using check_auth_iff [of env headers] by (cases "check_auth env headers") auto
  then have "err_status e = 401"
    by (auto simp: check_auth_def error_constructors split: option.splits if_splits)
  with e show "\<exists>e. check_auth env headers = Some e \<and> err_status e = 401" by blast
qed

theorem key_with_trailing_space_locks_everyone_out_witness:
  "\<exists>e. check_auth (front_env (Some ''sk '')) [(''x-api-key'', ''sk '')] = Some e \<and> err_status e = 401"
proof -
  have "trailing_space ''sk '' \<noteq> 0" by code_simp
  moreover have "sv_api_key (front_env (Some ''sk '')) = Some ''sk ''" by (simp add: front_env_def)
  ultimately show ?thesis using key_with_trailing_space_locks_everyone_out by blast
qed

section \<open>The start\<close>

text \<open>A server starts with a well-formed pool, whatever lies in the directory.\<close>

lemma new_pool_inv: "pool_inv (new_pool secret lim)"
  by (simp add: pool_inv_def pool_safe_def new_pool_def empty_state_def sticky_inv_def tables_ok_def wf_table_def)

lemma built_pool_inv:
  assumes "build_state lib random names old cfg files = Some (env, w)"
  shows "pool_inv (ws_pool w)"
proof -
  have "pool_inv (fst (load_dir x names old dir files (new_pool secret lim)))" for x dir secret lim
    by (simp add: load_dir_def Let_def load_files_inv new_pool_inv)
  with build_state_Some [OF assms] show ?thesis by metis
qed

end
