(* ===== verification/Server_Props.thy ===== *)
theory Server_Props
  imports Server_Auth Anthropic_Request_Props Shadow_Props Upstream_Props
begin

text \<open>
  Properties of a whole request: what the conversion, the reasoning policy, the body filter and the
  retry loop together send to the backend.
\<close>

section \<open>Messages with the same tool traffic\<close>

text \<open>
  \<open>same_traffic m m'\<close>: the two messages have the same role, open the same calls and answer the same
  call. The policy changes a message only within this relation.
\<close>

definition same_traffic :: "json \<Rightarrow> json \<Rightarrow> bool" where
  "same_traffic m m' \<longleftrightarrow>
     (\<forall>r. role_is r m' = role_is r m) \<and> call_ids m' = call_ids m \<and> result_id m' = result_id m"

lemma same_traffic_refl [simp]: "same_traffic m m"
  by (simp add: same_traffic_def)




section \<open>Well-formed assistant messages\<close>






section \<open>The policy keeps the tool traffic\<close>











lemma minsert_other: "k \<noteq> j \<Longrightarrow> mget (minsert j v m) k = mget m k"
  by (simp add: update_conv')

lemma policy_members:
  assumes "apply_policy env now fp body w = (chat, w')"
  shows "(\<forall>k. k \<noteq> ''messages'' \<longrightarrow> mget chat k = mget body k) \<and> ws_sent w' = ws_sent w"
proof -
  have "mget (snd (restore_into hash now lim f body sh)) k = mget body k"
    "mget (fst (strip_historical_reasoning c m)) k = mget m k"
    "mget (fst (canonicalize_tool_arguments c m)) k = mget m k" if "k \<noteq> ''messages''" for hash lim f sh c k m
    using that by (auto simp: restore_into_def strip_historical_reasoning_def canonicalize_tool_arguments_def
        minsert_other Let_def split: option.split prod.split)
  with assms show ?thesis
    by (auto simp: apply_policy_def Let_def split: prod.splits option.splits) (metis snd_conv)
qed

section \<open>What leaves the proxy\<close>

lemma sent_unchanged [simp]:
  "ws_sent (count f w) = ws_sent w" "ws_sent (log_summary sm w) = ws_sent w"
  "ws_sent (close_stream sm st err w) = ws_sent w" "ws_sent (count_stalls ks w) = ws_sent w"
  "ws_sent (accept_request env request w) = ws_sent w"
  by (simp_all add: count_def log_summary_def close_stream_def count_stalls_def accept_request_def Let_def)

lemma reject_sent: "reject_request env call stream e w = (err, w') \<Longrightarrow> ws_sent w' = ws_sent w"
  by (auto simp: reject_request_def)

lemma refuse_sent: "refuse_generation env call fp stream n f w = (e, w') \<Longrightarrow> ws_sent w' = ws_sent w"
  by (auto simp: refuse_generation_def Let_def)

lemma close_aggregate_sent: "close_aggregate call sm st r w = (r', w') \<Longrightarrow> ws_sent w' = ws_sent w"
  by (auto simp: close_aggregate_def Let_def split: sum.splits)

lemma stream_sent: "ws_sent (snd (stream_messages env call expose fp sm g w)) = ws_sent w"
  by (auto simp: stream_messages_def Let_def split: prod.splits option.splits ending.splits)

lemma aggregate_sent:
  assumes "aggregate_messages env call expose fp sm g w = Some (ans, w')"
  shows "ws_sent w' = ws_sent w"
  by (rule aggregate_messages_closes [OF assms]) (simp add: close_aggregate_sent [OF prod.collapse [symmetric]])

lemma stream_responses_sent: "ws_sent (snd (stream_responses env call expose fp sm g w)) = ws_sent w"
  by (auto simp: stream_responses_def Let_def split: prod.splits option.splits resp_ending.splits)

lemma aggregate_to_response_sent:
  assumes "aggregate_to_response env call expose fp sm g w = Some (ans, w')"
  shows "ws_sent w' = ws_sent w"
  by (rule aggregate_to_response_closes [OF assms]) (simp add: close_aggregate_sent [OF prod.collapse [symmetric]])

lemma generation_sent:
  assumes "run_generation env call fp body w = Some (out, w')"
  shows "\<exists>new. ws_sent w' = ws_sent w @ new
    \<and> (\<forall>(k, b, reply) \<in> set new. b = filter_body body (model_of (sv_model env) body))"
proof -
  from assms obtain s where gen: "generate (sv_x env) (sv_model env) (cl_start call) fp body (cl_rounds call)
      (ws_pool w) (ws_files w) = Some (out, s)" and w': "ws_sent w' = ws_sent w @ gs_sent s"
    by (auto simp: run_generation_def)
  have "fruitless (x_codec (sv_x env)) b (gs_sent (start_state p files))"
    "count_401 (gs_sent (start_state p files)) = (if gs_retried (start_state p files) = None then 0 else 1)" for b p files
    by (simp_all add: fruitless_def count_401_def start_state_def)
  from loop_sent [OF gen [unfolded generate_def Let_def] this] w' show ?thesis
    unfolding fruitless_def by (intro exI [of _ "gs_sent s"]) auto
qed



section \<open>What a route sends\<close>

text \<open>
  The law of both routes: the conversion names the configured model, and answering sends nothing. Then
  every request that reaches the backend is the filtered body of the converted request.
\<close>

lemma policed_frame:
  assumes "policed env call fp body request w chat w1"
  shows "ws_sent w1 = ws_sent w" "k \<noteq> ''messages'' \<Longrightarrow> mget chat k = mget body k"
  using policy_members [OF assms [unfolded policed_def]] by simp_all

locale sending_route = generation_route +
  assumes convert_model: "convert env request = Inr conv \<Longrightarrow> mget (body_of conv) ''model'' = Some (JStr (sv_model env))"
    and streamed_sent: "ws_sent (snd (streamed env call expose fp sm g w)) = ws_sent w"
    and aggregated_sent: "aggregated env call expose fp sm g w = Some (ans, w') \<Longrightarrow> ws_sent w' = ws_sent w"
begin

lemma answers_sent:
  assumes "answers env call headers request conv chat g w2 ans w'"
  shows "ws_sent w' = ws_sent w2"
proof (cases "wants_stream request")
  case True
  from answers_streamed [OF assms True] streamed_sent show ?thesis by (metis sent_unchanged(1) snd_conv)
next
  case False
  from answers_aggregated [OF assms False] aggregated_sent show ?thesis by (metis sent_unchanged(1))
qed

text \<open>\<open>sendable\<close>: a body the request can lead to.\<close>

definition sendable :: "server_env \<Rightarrow> call \<Rightarrow> header_list \<Rightarrow> body_read \<Rightarrow> server \<Rightarrow> json \<Rightarrow> bool" where
  "sendable env call headers body w b \<longleftrightarrow>
     (\<exists>request conv chat w1. read_json_body env body = Inr request \<and> convert env request = Inr conv
        \<and> policed env call (session env headers request) (body_of conv) request w chat w1
        \<and> b = filter_body (JObj chat) (sv_model env))"

lemma policed_model:
  assumes "policed env call fp (body_of conv) request w chat w1" "convert env request = Inr conv"
  shows "model_of (sv_model env) (JObj chat) = sv_model env"
  using policed_frame(2) [OF assms(1), of "''model''"] convert_model [OF assms(2)]
  by (simp add: model_of_def)

lemma generation_sends:
  assumes "run_generation env call (session env headers request) (JObj chat) w1 = Some (out, w2)"
    and "read_json_body env body = Inr request" "convert env request = Inr conv"
    and pol: "policed env call (session env headers request) (body_of conv) request w chat w1"
  shows "\<exists>new. ws_sent w2 = ws_sent w @ new \<and> (\<forall>(k, b, reply) \<in> set new. sendable env call headers body w b)"
proof -
  have "sendable env call headers body w (filter_body (JObj chat) (sv_model env))"
    using assms by (auto simp: sendable_def)
  with generation_sent [OF assms(1)] show ?thesis
    by (fastforce simp: policed_model [OF pol assms(3)] policed_frame(1) [OF pol])
qed

lemma handle_sends:
  assumes "handle env call headers body w = Some (ans, w')"
  shows "\<exists>new. ws_sent w' = ws_sent w @ new \<and> (\<forall>(k, b, reply) \<in> set new. sendable env call headers body w b)"
proof (rule handle_cases [OF assms])
  assume "w' = w \<or> w' = count record_error w"
  then show ?thesis by auto
next
  fix request pe err
  assume "reject_request env call (wants_stream request) pe (accept_request env request w) = (err, w')"
  from reject_sent [OF this] show ?thesis by simp
next
  fix request conv chat w1 f w2 err
  assume "read_json_body env body = Inr request" "convert env request = Inr conv"
    "policed env call (session env headers request) (body_of conv) request w chat w1"
    "run_generation env call (session env headers request) (JObj chat) w1 = Some (Failed f, w2)"
    and "refuse_generation env call (session env headers request) (wants_stream request)
       (request_bytes env (JObj chat)) f w2 = (err, w')"
  with generation_sends refuse_sent show ?thesis by metis
next
  fix request conv chat w1 g w2
  assume "read_json_body env body = Inr request" "convert env request = Inr conv"
    "policed env call (session env headers request) (body_of conv) request w chat w1"
    "run_generation env call (session env headers request) (JObj chat) w1 = Some (Started g, w2)"
    and "answers env call headers request conv chat g w2 ans w'"
  with generation_sends answers_sent show ?thesis by metis
qed

end

lemma messages_model:
  assumes "converts_messages env request = Inr conv"
  shows "mget (chat_body conv) ''model'' = Some (JStr (sv_model env))"
proof -
  from assms obtain obj where "convert_object (x_codec (sv_x env)) obj (sv_model env) = Inr conv"
    by (auto simp: converts_messages_def anth_convert_request_def Let_def split: option.splits)
  then show ?thesis
    by (auto simp: convert_object_def Let_def float_member_def opt_member_get map_add_def
        anth_tools_member_def stop_sequences_member_def split: option.splits if_splits)
qed

lemma responses_model:
  assumes "converts_responses env request = Inr conv"
  shows "mget (resp_chat_body conv) ''model'' = Some (JStr (sv_model env))"
  using assms by (auto simp: converts_responses_def resp_convert_request_def Let_def split: prod.splits)

interpretation messages: sending_route handle_messages converts_messages anthropic_session chat_body
    thinking_requested into_response stream_messages aggregate_messages
  by unfold_locales (simp_all add: messages_model stream_sent aggregate_sent)

interpretation responses: sending_route handle_responses converts_responses responses_session resp_chat_body
    resp_thinking_requested openai_error_response stream_responses aggregate_to_response
  by unfold_locales (simp_all add: responses_model stream_responses_sent aggregate_to_response_sent)

section \<open>Properties\<close>



text \<open>Used only by the witness: two accounts, and a backend that cannot be reached.\<close>

definition stocked_server :: server where
  "stocked_server = front_server\<lparr>ws_pool := sample_pool, ws_files := (\<lambda>_. Some [])\<rparr>"

lemma stocked_pool_sends:
  "\<exists>f s. generate x m t0 None body [front_round] sample_pool (\<lambda>_. Some []) = Some (Failed f, s)
     \<and> length (gs_sent s) = 1"
proof -
  let ?m = "model_of m body"
  obtain r p' where p: "pick 0 (\<lambda>_. Some []) None ?m sample_pool = (r, p')" by fastforce
  have "r = Some (sample_account ''b'')" using p by (auto simp: pick_eval)
  with p have "pick 0 (\<lambda>_. Some []) None ?m sample_pool = (Some (sample_account ''b''), p')" by simp
  then show ?thesis
    by (simp add: generate_def Let_def generate_round_def choose_account_def interfere_def front_round_def
        start_state_def on_reply_def failed_def feedback_def count_metric_def)
qed

lemma stocked_server_sends:
  "\<exists>ans w'. handle_messages (front_env None) front_call [] (ReadBytes ''R'') stocked_server = Some (ans, w')
     \<and> length (ws_sent w') = 1"
proof -
  let ?env = "front_env None"
  let ?w = "accept_request ?env front_request stocked_server"
  obtain conv where
    conv: "fst (anth_convert_request (x_codec (sv_x ?env)) front_request (sv_model ?env)) = Inr conv"
    using front_converts [of "x_codec (sv_x ?env)" "sv_model ?env"]
    by (cases "fst (anth_convert_request (x_codec (sv_x ?env)) front_request (sv_model ?env))") auto
  obtain chat w1 where pol: "apply_policy ?env 0 None (chat_body conv) ?w = (chat, w1)" by fastforce
  then have w1: "ws_pool w1 = sample_pool" "ws_files w1 = (\<lambda>_. Some [])" "ws_sent w1 = []"
    by (auto simp: apply_policy_def Let_def accept_request_def count_def stocked_server_def front_server_def)
  obtain f s where gen: "run_generation ?env front_call None (JObj chat) w1 = Some (Failed f, s)"
    and sent: "length (ws_sent s) = 1"
    using stocked_pool_sends [of "sv_x ?env" "sv_model ?env" 0 "JObj chat"]
    by (auto simp: run_generation_def front_call_def w1)
  have "\<exists>ans w'. complete_messages ?env front_call [] None False conv ?w = Some (ans, w') \<and> ws_sent w' = ws_sent s"
    using pol gen refuse_sent
    by (fastforce simp: complete_messages_def front_call_def Let_def split: prod.split)
  moreover have "anthropic_session ?env [] front_request = None"
    by (simp add: anthropic_session_def resolve_anthropic_session_def metadata_session_def header_session_def
        header_str_def filter_opt_def front_request_def or_else_def)
  ultimately show ?thesis
    using conv sent by (fastforce simp: handle_messages_def check_auth_def read_json_body_def front_env_def Let_def
        wants_stream_def front_request_def)
qed


text \<open>C10: What the backend sees of a client is fixed in form. Every chat request sent for a request of either
  generation route asks for a stream, names the configured model whatever model the client named, and
  has no member beyond the whitelisted ones.\<close>

theorem backend_sees_only_the_served_model:
  assumes "handle_messages env call headers body w = Some (ans, w')
      \<or> handle_responses env call headers body w = Some (ans, w')"
  shows "\<exists>new. ws_sent w' = ws_sent w @ new
    \<and> (\<forall>(k, b, reply) \<in> set new.
         get ''model'' b = Some (JStr (sv_model env)) \<and> get ''stream'' b = Some (JBool True)
         \<and> (\<forall>key. get key b \<noteq> None \<longrightarrow>
              key \<in> set PASSTHROUGH_BODY_KEYS \<union> {''stream'', ''model'', ''stream_options''}))"
proof -
  let ?fixed = "\<lambda>b. get ''model'' b = Some (JStr (sv_model env)) \<and> get ''stream'' b = Some (JBool True)
     \<and> (\<forall>key. get key b \<noteq> None \<longrightarrow> key \<in> set PASSTHROUGH_BODY_KEYS \<union> {''stream'', ''model'', ''stream_options''})"
  have "?fixed (filter_body (JObj chat) (sv_model env))" for chat by (simp add: filter_body_get)
  then have fixed: "messages.sendable env call headers body w b \<Longrightarrow> ?fixed b"
    "responses.sendable env call headers body w b \<Longrightarrow> ?fixed b" for b
    unfolding messages.sendable_def responses.sendable_def by blast+
  from assms show ?thesis
  proof
    assume "handle_messages env call headers body w = Some (ans, w')"
    from messages.handle_sends [OF this] fixed(1) show ?thesis by blast
  next
    assume "handle_responses env call headers body w = Some (ans, w')"
    from responses.handle_sends [OF this] fixed(2) show ?thesis by blast
  qed
qed

theorem backend_sees_only_the_served_model_witness:
  "\<exists>ans w' k b reply. handle_messages (front_env None) front_call [] (ReadBytes ''R'') stocked_server = Some (ans, w')
     \<and> ws_sent w' = [(k, b, reply)] \<and> get ''model'' b = Some (JStr ''m'')"
proof -
  obtain ans w' where run: "handle_messages (front_env None) front_call [] (ReadBytes ''R'') stocked_server = Some (ans, w')"
    and one: "length (ws_sent w') = 1" using stocked_server_sends by blast
  have "ws_sent stocked_server = []" "sv_model (front_env None) = ''m''"
    by (simp_all add: stocked_server_def front_server_def front_env_def)
  with backend_sees_only_the_served_model [OF disjI1 [OF run]] one obtain e where "ws_sent w' = [e]"
    and "(\<lambda>(k, b, reply). get ''model'' b = Some (JStr ''m'')) e"
    by (cases "ws_sent w'") auto
  with run show ?thesis by (cases e) auto
qed

end
