(* ===== verification/Server_Answer_Props.thy ===== *)
theory Server_Answer_Props
  imports Server_Props Pump_Props
begin

text \<open>
  The way back of a request of the Messages API: the answer the client gets is the converter's reading
  of the bytes of the one backend reply that was accepted.
\<close>

section \<open>From the backend's bytes to the pump\<close>

text \<open>The bytes of a stream up to the first broken read.\<close>

fun until_break :: "byte_stream \<Rightarrow> string" where
  "until_break [] = []"
| "until_break (Chunk b # rest) = b @ until_break rest"
| "until_break (Broken # rest) = []"


lemma replay_until_break [simp]: "until_break (replay pre stream) = pre @ until_break stream"
  by (simp add: replay_def)




section \<open>The two readings of the payloads\<close>











section \<open>From the request to the accepted reply\<close>





section \<open>A concrete exchange\<close>














section \<open>Properties\<close>





end
