(* ===== verification/System.thy ===== *)
theory System
  imports Bootstrap Login
begin

text \<open>
  The program as a whole (\<open>src/main.rs\<close>, \<open>src/cli.rs\<close>, \<open>serve\<close> of \<open>src/server/orchestrator.rs\<close>): what each
  command does with the configuration, and the running server, whose requests and housekeeping passes
  share one state.

  \<open>process\<close> is what one start of the program meets. A result \<open>None\<close> is a panic. The running server is a
  step relation: a step is a whole request or a whole pass; what the other tasks do to the pool and the
  reasoning store inside it is in the call and in the tick, and \<open>fair_call\<close> and \<open>fair_others\<close> say that
  they do nothing but the operations of the pool and the store.
\<close>

section \<open>The command line\<close>

datatype command = Serve "string option" "16 word option" | Login bool | Status | Checkin

record cli =
  go_config :: "string option"
  go_command :: command

record process =
  po_config :: config_world
  po_libraries :: libraries
  po_api :: checkin_env
  po_random :: string
  po_names :: "(string \<times> string) list"
  po_old :: "path list"
  po_login :: login_call
  po_now :: instant
  po_last_instant :: instant
  po_refresh :: "credential \<Rightarrow> refresh_call"
  po_bind_error :: "string \<Rightarrow> string option"
  po_fmt2 :: "u64 \<Rightarrow> string"
  po_pad :: "string \<Rightarrow> string"
  po_show_error :: "api_error \<Rightarrow> string"

section \<open>Starting the server\<close>

abbreviation po_x :: "process \<Rightarrow> externals" where
  "po_x po \<equiv> lb_x (po_libraries po)"

text \<open>The client of the account services, for the configured base URL.\<close>

definition api_client :: "process \<Rightarrow> config \<Rightarrow> checkin_env" where
  "api_client po cfg =
     (po_api po)\<lparr>ke_codec := x_codec (po_x po), ke_base_url := uc_base_url (cf_upstream cfg)\<rparr>"

definition serve_housekeep :: "process \<Rightarrow> config \<Rightarrow> housekeep_env" where
  "serve_housekeep po cfg =
     (let l = cf_limits cfg
      in \<lparr>he_checkin = api_client po cfg, he_x = po_x po, he_dir = ac_dir (cf_auth cfg),
          he_margin = add_i64 0 (int (unat (lc_refresh_margin_secs l))),
          he_keepalive = unat (lc_keepalive_secs l), he_enabled = kc_enabled (cf_checkin cfg)\<rparr>)"

definition serve_addr :: "config \<Rightarrow> string" where
  "serve_addr cfg = sc_host (cf_server cfg) @ '':'' @ show_nat (unat (sc_port (cf_server cfg)))"

datatype main_error =
  LoadingConfig config_error
| Override config_error
| Binding string string
| LoginFailed oauth_error

record serving =
  sg_env :: server_env
  sg_server :: server
  sg_housekeep :: housekeep_env
  sg_drain :: drain_env
  sg_addr :: string

definition process_state :: "process \<Rightarrow> config \<Rightarrow> fs \<Rightarrow> (server_env \<times> server) option" where
  "process_state po cfg files =
     build_state (po_libraries po) (po_random po) (po_names po) (po_old po) cfg files"

definition serve :: "process \<Rightarrow> config \<Rightarrow> fs \<Rightarrow> ((main_error + serving) \<times> fs) option" where
  "serve po cfg files =
     map_option (\<lambda>(env, w).
         ((case po_bind_error po (serve_addr cfg) of
             Some e \<Rightarrow> Inl (Binding (serve_addr cfg) e)
           | None \<Rightarrow>
               Inr \<lparr>sg_env = env, sg_server = w, sg_housekeep = serve_housekeep po cfg,
                    sg_drain = serve_drain cfg (po_last_instant po), sg_addr = serve_addr cfg\<rparr>),
          ws_files w))
       (process_state po cfg files)"

section \<open>The commands\<close>

datatype main_done =
  Serving serving
| LoggedIn path
| Printed "string list"
| CheckedIn checkin_world

definition command_serve ::
    "process \<Rightarrow> string option \<Rightarrow> 16 word option \<Rightarrow> config \<Rightarrow> fs \<Rightarrow> ((main_error + main_done) \<times> fs) option" where
  "command_serve po host port cfg files =
     (case override_server host port cfg of
        Inl e \<Rightarrow> Some (Inl (Override e), files)
      | Inr cfg' \<Rightarrow>
          map_option (\<lambda>(r, files'). ((case r of Inl e \<Rightarrow> Inl e | Inr sg \<Rightarrow> Inr (Serving sg)), files'))
            (serve po cfg' files))"

definition command_login :: "process \<Rightarrow> config \<Rightarrow> fs \<Rightarrow> (main_error + main_done) \<times> fs" where
  "command_login po cfg files =
     (case run_login (po_x po) cfg (po_login po) files of
        (Inl e, files') \<Rightarrow> (Inl (LoginFailed e), files')
      | (Inr p, files') \<Rightarrow> (Inr (LoggedIn p), files'))"

definition command_status :: "process \<Rightarrow> config \<Rightarrow> fs \<Rightarrow> ((main_error + main_done) \<times> fs) option" where
  "command_status po cfg files =
     map_option (\<lambda>(env, w).
         (Inr (Printed (fst (print_status (api_client po cfg) (po_fmt2 po) (po_pad po) (po_show_error po) cfg
                               (po_now po) w []))),
          ws_files w))
       (process_state po cfg files)"

definition command_checkin :: "process \<Rightarrow> config \<Rightarrow> fs \<Rightarrow> ((main_error + main_done) \<times> fs) option" where
  "command_checkin po cfg files =
     map_option (\<lambda>(env, w).
         (let r = checkin_all (api_client po cfg) (po_x po) (po_refresh po) (po_now po)
                    \<lparr>kw_pool = ws_pool w, kw_files = ws_files w, kw_history = [], kw_reports = []\<rparr>
          in (Inr (CheckedIn r), kw_files r)))
       (process_state po cfg files)"

definition run_main :: "process \<Rightarrow> cli \<Rightarrow> fs \<Rightarrow> ((main_error + main_done) \<times> fs) option" where
  "run_main po args files =
     (case load_config (po_config po) (go_config args) of
        Inl e \<Rightarrow> Some (Inl (LoadingConfig e), files)
      | Inr cfg \<Rightarrow>
          (case go_command args of
             Login no_browser \<Rightarrow> Some (command_login po cfg files)
           | Status \<Rightarrow> command_status po cfg files
           | Checkin \<Rightarrow> command_checkin po cfg files
           | Serve host port \<Rightarrow> command_serve po host port cfg files))"

section \<open>The running server\<close>

record system =
  sy_server :: server
  sy_history :: history
  sy_checkins :: nat

definition started_system :: "serving \<Rightarrow> system" where
  "started_system sg = \<lparr>sy_server = sg_server sg, sy_history = [], sy_checkins = 0\<rparr>"

text \<open>The part of the state that a housekeeping pass works on, and what it leaves behind.\<close>

definition housekeep_view :: "system \<Rightarrow> housekeep_world" where
  "housekeep_view y =
     \<lparr>hw_pool = ws_pool (sy_server y), hw_files = ws_files (sy_server y), hw_history = sy_history y,
      hw_refreshes = [], hw_checkins = sy_checkins y\<rparr>"

definition after_pass :: "housekeep_world \<Rightarrow> system \<Rightarrow> system" where
  "after_pass h y =
     (let w = sy_server y
      in \<lparr>sy_server = w\<lparr>ws_pool := hw_pool h, ws_files := hw_files h,
                        ws_metrics := fold (\<lambda>ok. record_metric (TokenRefresh ok)) (hw_refreshes h) (ws_metrics w)\<rparr>,
          sy_history = hw_history h, sy_checkins = hw_checkins h\<rparr>)"

text \<open>What a task may do to the pool: the locked operations, and the tokens of an account replaced.\<close>

inductive pool_task :: "externals \<Rightarrow> pool \<Rightarrow> pool \<Rightarrow> bool" for x :: externals where
  task_step: "pool_step (x_codec x) (x_norm_ts x) (x_hmac x) p p' \<Longrightarrow> pool_task x p p'"
| task_tokens: "pool_task x p (replace_entry k p)"

definition fair_others :: "externals \<Rightarrow> (pool \<times> fs \<Rightarrow> pool \<times> fs) \<Rightarrow> bool" where
  "fair_others x f \<longleftrightarrow> (\<forall>p files. (pool_task x)\<^sup>*\<^sup>* p (fst (f (p, files))))"

text \<open>A stream comes to an end: the upstream closes or breaks, or the client goes.\<close>

fun ends_pump :: "pump_input \<Rightarrow> bool" where
  "ends_pump ClientGone = True"
| "ends_pump (Closed now) = True"
| "ends_pump (Broke now e) = True"
| "ends_pump i = False"

text \<open>What a task may do to the reasoning store.\<close>

inductive shadow_task :: "(string \<Rightarrow> u64) \<Rightarrow> shadow_limits \<Rightarrow> shadow \<Rightarrow> shadow \<Rightarrow> bool" for hash lim where
  task_store: "shadow_task hash lim s (store hash now lim fp ids thoughts s)"
| task_restore: "shadow_task hash lim s (snd (restore hash now lim fp ids s))"
| task_clear: "shadow_task hash lim s (clear_session fp s)"

definition fair_call :: "server_env \<Rightarrow> call \<Rightarrow> bool" where
  "fair_call env call \<longleftrightarrow>
     (\<forall>r \<in> set (cl_rounds call). fair_others (sv_x env) (rd_others r))
     \<and> (\<forall>s. (shadow_task (sv_hash env) (sv_shadow_limits env))\<^sup>*\<^sup>* s (cl_others call s))
     \<and> (\<forall>s. list_ex ends_pump (cl_schedule call s))"

inductive system_step :: "serving \<Rightarrow> system \<Rightarrow> system \<Rightarrow> bool" for sg :: serving where
  sys_request: "fair_call (sg_env sg) call \<Longrightarrow>
     dispatch (sg_env sg) call mo rt headers body (sy_server y) = Some (ans, w) \<Longrightarrow>
     system_step sg y (y\<lparr>sy_server := w\<rparr>)"
| sys_refresh: "fair_others (he_x (sg_housekeep sg)) (tk_others t) \<Longrightarrow>
     system_step sg y (after_pass (refresh_pass (sg_housekeep sg) t (housekeep_view y)) y)"
| sys_checkin: "fair_others (he_x (sg_housekeep sg)) (tk_others t) \<Longrightarrow>
     system_step sg y (after_pass (checkin_pass (sg_housekeep sg) t (housekeep_view y)) y)"

inductive system_reaches :: "serving \<Rightarrow> system \<Rightarrow> bool" for sg :: serving where
  sys_start: "system_reaches sg (started_system sg)"
| sys_next: "system_reaches sg y \<Longrightarrow> system_step sg y y' \<Longrightarrow> system_reaches sg y'"

end
