(* ===== verification/System_Pool.thy ===== *)
theory System_Pool
  imports System Upstream_Props
begin

text \<open>
  What the parts of the running server do to the pool. Every task, a request or a pass of the housekeeping,
  changes it only by the steps of \<open>pool_task\<close>, provided that the others do the same between its rounds;
  these steps keep \<open>pool_safe\<close> and the limits.
\<close>

abbreviation tasks :: "externals \<Rightarrow> pool \<Rightarrow> pool \<Rightarrow> bool" where
  "tasks x \<equiv> (pool_task x)\<^sup>*\<^sup>*"

section \<open>What the steps keep\<close>

lemma replace_entry_safe: "pool_safe p \<Longrightarrow> pool_safe (replace_entry k p)"
proof -
  have "map cred_path (entries (replace_entry k p)) = map cred_path (entries p)"
    by (simp add: replace_entry_def)
  then show "pool_safe p \<Longrightarrow> pool_safe (replace_entry k p)"
    by (simp add: pool_safe_def) (simp add: replace_entry_def)
qed

lemma pool_step_limits: "pool_step c ts_of hmac p p' \<Longrightarrow> limits_of p' = limits_of p"
  by (erule pool_step.cases) (auto simp: load_files_def prune_def Let_def dest: pick_frame split: prod.split)

lemma task_keeps:
  assumes "pool_task x p p'"
  shows "pool_safe p \<Longrightarrow> pool_safe p'" and "limits_of p' = limits_of p"
  using assms by (cases; auto simp: replace_entry_safe dest: pool_step_safe)
    (use assms in \<open>cases; auto simp: replace_entry_def dest: pool_step_limits\<close>)

lemma tasks_keep:
  assumes "tasks x p p'"
  shows "pool_safe p \<Longrightarrow> pool_safe p'" and "limits_of p' = limits_of p"
  using assms by (induction rule: rtranclp_induct) (auto simp: task_keeps)

section \<open>Single operations\<close>

named_theorems pool_tasks

lemma task_pick [pool_tasks]: "pick now files fp m p = (r, p') \<Longrightarrow> tasks x p p'"
  by (rule r_into_rtranclp) (blast intro: task_step step_pick)

lemma task_load [pool_tasks]: "tasks x p (load_files (x_codec x) (x_norm_ts x) (x_hmac x) files ps p)"
  by (rule r_into_rtranclp) (blast intro: task_step step_load)

lemma task_prune [pool_tasks]: "tasks x p (prune files p)"
  by (rule r_into_rtranclp) (blast intro: task_step step_prune)

lemma task_replace [pool_tasks]: "tasks x p (replace_entry k p)"
  by (rule r_into_rtranclp) (rule task_tokens)

lemma task_feedback [pool_tasks]:
  "tasks x p (p\<lparr>state := set_credits i n (state p)\<rparr>)"
  "tasks x p (p\<lparr>state := note_status now (limits_of p) i st m (state p)\<rparr>)"
  "tasks x p (p\<lparr>state := note_hard_credit now (limits_of p) i (state p)\<rparr>)"
  "tasks x p (p\<lparr>state := note_error_threshold now (limits_of p) i (state p)\<rparr>)"
  by (rule r_into_rtranclp, blast intro: task_step step_credits step_status step_hard step_error)+

lemma task_out_of_credits [pool_tasks]:
  "tasks x p (p\<lparr>state := note_hard_credit now (limits_of p) i (set_credits i 0 (state p))\<rparr>)"
proof -
  have "tasks x p (p\<lparr>state := set_credits i 0 (state p)\<rparr>)" by (rule task_feedback)
  also have "tasks x \<dots> ((p\<lparr>state := set_credits i 0 (state p)\<rparr>)\<lparr>state := note_hard_credit now
      (limits_of (p\<lparr>state := set_credits i 0 (state p)\<rparr>)) i (state (p\<lparr>state := set_credits i 0 (state p)\<rparr>))\<rparr>)"
    by (rule task_feedback)
  finally show ?thesis by simp
qed

section \<open>The generation call\<close>

definition verdict_pool :: "verdict \<Rightarrow> pool" where
  "verdict_pool v = (case v of Inl (out, s) \<Rightarrow> gs_pool s | Inr s \<Rightarrow> gs_pool s)"

lemma verdict_pool_simps [simp]:
  "verdict_pool (Inl (out, s)) = gs_pool s" "verdict_pool (Inr s) = gs_pool s"
  by (simp_all add: verdict_pool_def)

lemma gs_pool_feedback: "gs_pool (feedback f s) = (gs_pool s)\<lparr>state := f (state (gs_pool s))\<rparr>"
  by (simp add: feedback_def)

lemma failover_pool [simp]: "verdict_pool (failover r m s) = gs_pool s"
  by (simp add: failover_def Let_def)

lemma on_reply_tasks: "tasks x (gs_pool s) (verdict_pool (on_reply x t0 m r k reply s))"
proof (cases reply)
  case (SendFailed e)
  then show ?thesis by (simp add: on_reply_def gs_pool_feedback pool_tasks)
next
  case (Answer status stream)
  have "tasks x (gs_pool s) (verdict_pool (on_stream x t0 m r k stream s))"
    by (simp add: on_stream_def Let_def gs_pool_feedback pool_tasks split: peek.split)
  moreover have "tasks x (gs_pool s) (verdict_pool (on_unauthorized x m r k (count_metric Upstream401 s)))"
    by (simp add: on_unauthorized_def gs_pool_feedback pool_tasks split: prod.split option.split)
  then have "tasks x (gs_pool s) (verdict_pool (on_status x m r k status (body_bytes stream) s))"
    by (simp add: on_status_def Let_def gs_pool_feedback pool_tasks)
  ultimately show ?thesis using Answer by (simp add: on_reply_def)
qed

lemma choose_tasks: "choose_account r fp m s = (k, s1) \<Longrightarrow> tasks x (gs_pool s) (gs_pool s1)"
  by (auto simp: choose_account_def Let_def intro: pool_tasks split: prod.splits option.splits)

lemma interfere_tasks: "fair_others x (rd_others r) \<Longrightarrow> tasks x (gs_pool s) (gs_pool (interfere r s))"
  unfolding fair_others_def interfere_def by (simp split: prod.split) (metis fst_conv)

lemma round_tasks:
  assumes "fair_others x (rd_others r)"
  shows "tasks x (gs_pool s) (verdict_pool (generate_round x t0 m fp body r s))"
proof -
  note start = interfere_tasks [OF assms, of s]
  show ?thesis
  proof (rule generate_round_cases [OF refl [of "generate_round x t0 m fp body r s"]])
    fix s1
    assume "choose_account r fp m (interfere r s) = (None, s1)"
      "generate_round x t0 m fp body r s = Inl (no_account r m s1, s1)"
    with start choose_tasks show ?thesis by (auto intro: rtranclp_trans)
  next
    fix k and s1 :: gen_state
    let ?s1 = "s1\<lparr>gs_sent := gs_sent s @ [(k, body, rd_answer r k body)]\<rparr>"
    assume c: "choose_account r fp m (interfere r s) = (Some k, s1)"
      and eq: "on_reply x t0 m r k (rd_answer r k body) ?s1 = generate_round x t0 m fp body r s"
    have "tasks x (gs_pool ?s1) (verdict_pool (generate_round x t0 m fp body r s))"
      unfolding eq [symmetric] by (rule on_reply_tasks)
    then have "tasks x (gs_pool s1) (verdict_pool (generate_round x t0 m fp body r s))" by simp
    with start choose_tasks [OF c, of x] show ?thesis by (meson rtranclp_trans)
  qed
qed

lemma generate_tasks:
  assumes "generate x dflt t0 fp body rounds p files = Some (out, s)"
    and "\<forall>r \<in> set rounds. fair_others x (rd_others r)"
  shows "tasks x p (gs_pool s)"
proof -
  have "tasks x (gs_pool s0) (gs_pool s)"
    if "generate_loop x t0 m fp body rounds s0 = Some (out, s)" "\<forall>r \<in> set rounds. fair_others x (rd_others r)"
    for m body s0
    using that
  proof (induction rounds arbitrary: s0)
    case Nil
    then show ?case by simp
  next
    case (Cons r rs)
    have step: "tasks x (gs_pool s0) (verdict_pool (generate_round x t0 m fp body r s0))"
      using Cons.prems(2) by (intro round_tasks) simp
    show ?case
    proof (cases "generate_round x t0 m fp body r s0")
      case (Inl a)
      with step Cons.prems(1) show ?thesis by simp
    next
      case (Inr s1)
      with Cons.IH [of s1] Cons.prems step show ?thesis by (auto intro: rtranclp_trans)
    qed
  qed
  from this [OF assms(1) [unfolded generate_def Let_def] assms(2)] show ?thesis by (simp add: start_state_def)
qed

section \<open>The passes of the housekeeping\<close>

lemma fold_tasks:
  assumes "\<And>a w. tasks x (pool_of w) (pool_of (f a w))"
  shows "tasks x (pool_of w) (pool_of (fold f as w))"
proof (induction as arbitrary: w)
  case (Cons a as)
  from assms [of w a] Cons.IH [of "f a w"] show ?case by (simp add: rtranclp_trans)
qed simp

lemma refresh_one_tasks: "tasks x (w_pool w) (w_pool (refresh_one x margin keepalive now_s now krc w))"
  by (simp add: refresh_one_def pool_tasks split: prod.split sum.split)

lemma refresh_due_tasks: "tasks x (w_pool w) (w_pool (refresh_due x margin keepalive now_s now call w))"
  unfolding refresh_due_def by (rule fold_tasks) (rule refresh_one_tasks)

lemma rescan_tasks: "tasks x p (rescan x names dir files p)"
  unfolding rescan_def by (rule rtranclp_trans [OF task_prune task_load])

lemma others_tasks: "fair_others x f \<Longrightarrow> f (p, files) = (p', files') \<Longrightarrow> tasks x p p'"
  unfolding fair_others_def by (metis fst_conv)

lemma refresh_pass_tasks:
  assumes "fair_others (he_x env) (tk_others t)"
  shows "tasks (he_x env) (hw_pool w) (hw_pool (refresh_pass env t w))"
proof -
  obtain p files where o: "tk_others t (hw_pool w, hw_files w) = (p, files)" by fastforce
  let ?w = "\<lparr>w_pool = rescan (he_x env) (tk_names t) (he_dir env) files p, w_files = files,
             w_refreshes = hw_refreshes w\<rparr>"
  have "tasks (he_x env) (hw_pool w) p" by (rule others_tasks [OF assms o])
  also have "tasks (he_x env) p (w_pool ?w)" by (simp add: rescan_tasks)
  also have "tasks (he_x env) (w_pool ?w) (w_pool (refresh_due (he_x env) (he_margin env) (he_keepalive env)
      (tk_now_secs t) (tk_now t) (tk_call t) ?w))" by (rule refresh_due_tasks)
  finally show ?thesis by (simp add: refresh_pass_def o Let_def)
qed

lemma refresh_credits_tasks: "tasks x (kw_pool w) (kw_pool (refresh_credits env k w))"
  by (simp add: refresh_credits_def Let_def pool_tasks split: prod.split sum.split)

lemma checkin_one_tasks: "tasks x (kw_pool w) (kw_pool (checkin_one env x call k w))"
proof -
  have after: "tasks x p (kw_pool (refresh_credits env k w'))" if "tasks x p (kw_pool w')" for p k w'
    using that refresh_credits_tasks by (rule rtranclp_trans)
  show ?thesis
    by (auto simp: checkin_one_def report_def pool_tasks intro!: after split: prod.split option.split)
qed

lemma checkin_all_tasks: "tasks x (kw_pool w) (kw_pool (checkin_all env x call now w))"
proof -
  have "tasks x (kw_pool (w\<lparr>kw_reports := []\<rparr>)) (kw_pool (checkin_all env x call now w))"
    unfolding checkin_all_def by (rule fold_tasks) (rule checkin_one_tasks)
  then show ?thesis by simp
qed

lemma checkin_pass_tasks:
  assumes "fair_others (he_x env) (tk_others t)"
  shows "tasks (he_x env) (hw_pool w) (hw_pool (checkin_pass env t w))"
proof -
  obtain p files where o: "tk_others t (hw_pool w, hw_files w) = (p, files)" by fastforce
  let ?w = "\<lparr>kw_pool = p, kw_files = files, kw_history = hw_history w, kw_reports = []\<rparr>"
  have "tasks (he_x env) (hw_pool w) p" by (rule others_tasks [OF assms o])
  moreover have "tasks (he_x env) p (kw_pool (checkin_all (he_checkin env) (he_x env) (tk_call t) (tk_now t) ?w))"
    using checkin_all_tasks [of "he_x env" ?w] by simp
  ultimately show ?thesis by (auto simp: checkin_pass_def o Let_def)
qed

end
