(* ===== verification/System_Parts.thy ===== *)
theory System_Parts
  imports System_Pool Server_Props
begin

text \<open>
  What the parts of a request keep of the running server: the pool changes by the steps of \<open>pool_task\<close>, the
  reasoning store by its own operations, which keep it within its number of sessions (\<open>shadow_fit\<close>), and the in-flight gauges are back
  where they were when the request is over. \<open>resident_route\<close> is the interface through which both
  generation routes get these laws.
\<close>

section \<open>The reasoning store\<close>

abbreviation store_tasks :: "(string \<Rightarrow> u64) \<Rightarrow> shadow_limits \<Rightarrow> shadow \<Rightarrow> shadow \<Rightarrow> bool" where
  "store_tasks hash lim \<equiv> (shadow_task hash lim)\<^sup>*\<^sup>*"

abbreviation pump_tasks :: "pump_env \<Rightarrow> shadow \<Rightarrow> shadow \<Rightarrow> bool" where
  "pump_tasks env \<equiv> store_tasks (pe_hash env) (pe_shadow_limits env)"

lemma task_of_store: "store_tasks hash lim s (store hash now lim fp ids thoughts s)"
  by (rule r_into_rtranclp) (rule task_store)

lemma task_of_clear: "store_tasks hash lim s (clear_session fp s)"
  by (rule r_into_rtranclp) (rule task_clear)

lemma task_of_restore: "restore hash now lim fp ids s = (r, s') \<Longrightarrow> store_tasks hash lim s s'"
  using task_restore [of hash lim s now fp ids] by auto

lemma restore_message_tasks: "store_tasks hash lim s (fst (restore_message hash now lim fp s m))"
  by (auto simp: restore_message_def task_of_restore split: option.split prod.split)

lemma restore_messages_tasks: "store_tasks hash lim s (fst (restore_messages hash now lim fp s ms))"
proof (induction ms arbitrary: s)
  case (Cons m ms)
  from rtranclp_trans [OF restore_message_tasks Cons.IH] show ?case by (simp add: case_prod_unfold)
qed simp

lemma restore_into_tasks: "store_tasks hash lim s (fst (restore_into hash now lim fp body s))"
  by (simp add: restore_into_def Let_def restore_messages_tasks case_prod_unfold split: option.split)

lemma keep_reasoning_tasks: "pump_tasks env sh (keep_reasoning env now reason ids thoughts sh)"
  by (simp add: keep_reasoning_def task_of_store task_of_clear split: option.split)

text \<open>The pumps touch the store only when they end.\<close>

lemma run_steps_tasks:
  assumes "\<And>i w. R\<^sup>*\<^sup>* (f w) (f (fst (step i w)))"
  shows "R\<^sup>*\<^sup>* (f w) (f (fst (run_steps step is w)))"
proof (induction "is" arbitrary: w)
  case (Cons i "is")
  from assms [of w i] Cons.IH [of "fst (step i w)"] show ?case
    by (auto intro: rtranclp_trans split: prod.split option.split)
qed simp

lemma end_pump_tasks: "pump_tasks env (pw_shadow w) (pw_shadow (fst (end_pump env now error how w)))"
  by (simp add: end_pump_def pump_finish_def Let_def keep_reasoning_tasks split: prod.split)

lemma pump_step_tasks: "pump_tasks env (pw_shadow w) (pw_shadow (fst (pump_step env i w)))"
proof -
  have ends: "pump_tasks env (pw_shadow w) (pw_shadow (fst (end_pump env now error how w')))"
    if "pw_shadow w' = pw_shadow w" for now error how w'
    using end_pump_tasks [of env w'] that by simp
  show ?thesis by (cases i) (simp_all add: pump_step_def Let_def ends split: prod.split option.split)
qed

lemma end_resp_tasks:
  "pump_tasks env (rw_shadow w) (rw_shadow (fst (end_resp env now error w)))"
  "pump_tasks env (rw_shadow w) (rw_shadow (fst (aggregate_ok env now w)))"
  "pump_tasks env (rw_shadow w) (rw_shadow (fst (aggregate_failed now status msg w)))"
  by (simp_all add: end_resp_def aggregate_ok_def aggregate_failed_def resp_pump_finish_def Let_def
      keep_reasoning_tasks split: prod.split)

lemma resp_bytes_shadow: "resp_bytes env h now b w = (w1, d) \<Longrightarrow> rw_shadow w1 = rw_shadow w"
  by (auto simp: resp_bytes_def split: prod.splits)

lemma resp_step_tasks:
  "pump_tasks env (rw_shadow w) (rw_shadow (fst (resp_stream_step env rnd i w)))"
  "pump_tasks env (rw_shadow w) (rw_shadow (fst (resp_aggregate_step env rnd i w)))"
proof -
  have ends: "pump_tasks env (rw_shadow w) (rw_shadow (fst (end_resp env now error w')))"
    "pump_tasks env (rw_shadow w) (rw_shadow (fst (aggregate_ok env now w')))"
    "pump_tasks env (rw_shadow w) (rw_shadow (fst (aggregate_failed now status msg w')))"
    if "rw_shadow w' = rw_shadow w" for now error status msg w'
    using end_resp_tasks [of env w'] that by simp_all
  show "pump_tasks env (rw_shadow w) (rw_shadow (fst (resp_stream_step env rnd i w)))"
  proof (cases i)
    case (Arrived now b)
    obtain w1 d where a: "resp_bytes env (resp_handle rnd) now b w = (w1, d)" by fastforce
    from ends [OF resp_bytes_shadow [OF a]] resp_bytes_shadow [OF a] show ?thesis
      by (simp add: resp_stream_step_def Arrived a)
  qed (simp_all add: resp_stream_step_def ends split: option.split)
  show "pump_tasks env (rw_shadow w) (rw_shadow (fst (resp_aggregate_step env rnd i w)))"
  proof (cases i)
    case (Arrived now b)
    obtain w1 d where a: "resp_bytes env (agg_handle rnd) now b w = (w1, d)" by fastforce
    from ends [OF resp_bytes_shadow [OF a]] resp_bytes_shadow [OF a] show ?thesis
      by (simp add: resp_aggregate_step_def Arrived a)
  qed (simp_all add: resp_aggregate_step_def ends split: option.split)
qed

section \<open>What the operations of the store keep\<close>

text \<open>The part of the store's invariant that needs no assumption on the size of what is stored.\<close>

definition shadow_fit :: "shadow_limits \<Rightarrow> shadow \<Rightarrow> bool" where
  "shadow_fit lim s \<longleftrightarrow> synced (sessions s) (lru s) \<and> length (sessions s) \<le> max_sessions lim"

lemma synced_remove_session:
  "synced (sessions s) (lru s) \<Longrightarrow> synced (sessions (remove_session n s)) (lru (remove_session n s))"
  "synced (sessions s) (lru s) \<Longrightarrow> lru (remove_session n s) = filter (\<lambda>x. x \<noteq> n) (lru s)"
proof -
  assume sync: "synced (sessions s) (lru s)"
  have absent: "map_of (sessions s) n = None \<Longrightarrow> filter (\<lambda>x. x \<noteq> n) (lru s) = lru s"
    using sync by (auto simp: synced_def filter_id_conv map_of_eq_None_iff)
  show "synced (sessions (remove_session n s)) (lru (remove_session n s))"
    using sync absent by (simp add: remove_session_def synced_remove split: option.split)
  show "lru (remove_session n s) = filter (\<lambda>x. x \<noteq> n) (lru s)"
    using absent by (simp add: remove_session_def split: option.split)
qed

interpretation session_queue: evicting_table lru remove_session "\<lambda>s. synced (sessions s) (lru s)"
  by unfold_locales (fact synced_remove_session)+

lemma enforce_fit:
  assumes "synced (sessions s) (lru s)"
  shows "shadow_fit lim (enforce_limits now lim s)"
proof -
  let ?s1 = "fold remove_session (expired_sessions now lim s) s"
  let ?s2 = "evict_loop lru (\<lambda>s _. total_bytes s > max_total_bytes lim) remove_session (length (lru ?s1)) ?s1"
  let ?s3 = "evict_loop lru (\<lambda>s _. length (sessions s) > max_sessions lim) remove_session (length (lru ?s2)) ?s2"
  have "synced (sessions (fold remove_session ns t)) (lru (fold remove_session ns t))"
    if "synced (sessions t) (lru t)" for ns t
    using that by (induction ns arbitrary: t) (use synced_remove_session(1) in \<open>simp, fastforce\<close>)
  note inv2 = session_queue.evict_inv [OF this [OF assms]]
  note inv3 = session_queue.evict_inv [OF inv2]
  have "length (sessions ?s3) \<le> max_sessions lim"
  proof (cases "lru ?s3")
    case Nil
    with synced_length [OF inv3] show ?thesis by simp
  next
    case (Cons k q)
    from session_queue.evict_done [OF inv2 order_refl Cons] show ?thesis by simp
  qed
  with inv3 show ?thesis by (simp add: shadow_fit_def enforce_limits_def Let_def)
qed

lemma synced_add_reasoning:
  assumes "synced (sessions s) (lru s)"
  shows "synced (sessions (add_reasoning hash now fp ids thoughts s)) (lru (add_reasoning hash now fp ids thoughts s))"
proof (cases "map_of (sessions s) fp")
  case None
  with synced_push [OF assms, of fp] show ?thesis by (simp add: add_reasoning_def Let_def map_of_eq_None_iff)
next
  case (Some st)
  then have "fp \<in> fst ` set (sessions s)" by (metis map_of_eq_None_iff option.distinct(1))
  with Some synced_overwrite [OF assms] show ?thesis by (simp add: add_reasoning_def Let_def)
qed

lemma shadow_fit_metrics [simp]: "shadow_fit lim (s\<lparr>metrics := g\<rparr>) = shadow_fit lim s"
  by (simp add: shadow_fit_def)

lemma store_fit: "shadow_fit lim s \<Longrightarrow> shadow_fit lim (store hash now lim fp ids thoughts s)"
  using enforce_fit [OF synced_add_reasoning, of s] by (auto simp: store_def Let_def) (auto simp: shadow_fit_def)

lemma clear_fit:
  assumes "shadow_fit lim s"
  shows "shadow_fit lim (clear_session fp s)"
proof -
  have "length (AList.delete fp (sessions s)) \<le> length (sessions s)" by (rule length_delete_le)
  with assms show ?thesis
    by (auto simp: shadow_fit_def clear_session_def synced_remove split: option.split)
qed

lemma restore_fit:
  assumes "shadow_fit lim s"
  shows "shadow_fit lim (snd (restore hash now lim' fp ids s))"
proof (cases rule: restore_cases [of hash now lim' fp ids s])
  case (1 g)
  with assms show ?thesis by simp
next
  case (2 st k g)
  then have "fp \<in> fst ` set (sessions s)" by (metis map_of_eq_None_iff option.distinct(1))
  with 2 assms synced_overwrite [of "sessions s" "lru s" fp] show ?thesis
    by (simp add: shadow_fit_def length_update_present)
qed

lemma store_tasks_fit:
  assumes "store_tasks hash lim s s'" and "shadow_fit lim s"
  shows "shadow_fit lim s'"
  using assms
proof (induction rule: rtranclp_induct)
  case (step s1 s2)
  then show ?case by (auto elim!: shadow_task.cases intro: store_fit restore_fit clear_fit)
qed simp

section \<open>The parts of a request\<close>

definition gauges :: "server \<Rightarrow> u64 \<times> u64" where
  "gauges w = (m_requests_in_flight (ws_metrics w), m_streams_in_flight (ws_metrics w))"

text \<open>What every part of a request does to the pool and to the store.\<close>

definition keeps :: "server_env \<Rightarrow> server \<Rightarrow> server \<Rightarrow> bool" where
  "keeps env w w' \<longleftrightarrow> tasks (sv_x env) (ws_pool w) (ws_pool w')
     \<and> store_tasks (sv_hash env) (sv_shadow_limits env) (ws_shadow w) (ws_shadow w')"

lemma keeps_trans: "keeps env w1 w2 \<Longrightarrow> keeps env w2 w3 \<Longrightarrow> keeps env w1 w3"
  by (auto simp: keeps_def intro: rtranclp_trans)

lemma keeps_same: "ws_pool w' = ws_pool w \<Longrightarrow> ws_shadow w' = ws_shadow w \<Longrightarrow> keeps env w w'"
  by (simp add: keeps_def)

lemma stores_unchanged [simp]:
  "ws_pool (count f w) = ws_pool w" "ws_shadow (count f w) = ws_shadow w"
  "ws_pool (log_summary sm w) = ws_pool w" "ws_shadow (log_summary sm w) = ws_shadow w"
  "ws_pool (close_stream sm st err w) = ws_pool w" "ws_shadow (close_stream sm st err w) = ws_shadow w"
  "ws_pool (count_stalls ks w) = ws_pool w" "ws_shadow (count_stalls ks w) = ws_shadow w"
  "ws_pool (accept_request env request w) = ws_pool w" "ws_shadow (accept_request env request w) = ws_shadow w"
  by (simp_all add: count_def log_summary_def close_stream_def count_stalls_def accept_request_def Let_def)

lemma close_aggregate_stores [simp]:
  "ws_pool (snd (close_aggregate call sm st r w)) = ws_pool w"
  "ws_shadow (snd (close_aggregate call sm st r w)) = ws_shadow w"
  by (simp_all add: close_aggregate_def Let_def split: sum.split)

lemma reject_keeps: "reject_request env call stream e w = (err, w') \<Longrightarrow> keeps env' w w'"
  by (rule keeps_same) (auto simp: reject_request_def)

lemma refuse_keeps: "refuse_generation env call fp stream n f w = (e, w') \<Longrightarrow> keeps env' w w'"
  by (rule keeps_same) (auto simp: refuse_generation_def Let_def)

lemma policed_keeps:
  assumes "policed env call fp body request w chat w1"
  shows "keeps env w w1"
proof (cases fp)
  case None
  with assms show ?thesis by (auto simp: policed_def apply_policy_def keeps_def Let_def)
next
  case (Some f)
  with assms restore_into_tasks [of "sv_hash env" "sv_shadow_limits env" "ws_shadow w" "cl_start call" f body] show ?thesis
    by (auto simp: policed_def apply_policy_def keeps_def Let_def split: prod.splits)
qed

lemma generation_keeps:
  assumes "run_generation env call fp body w = Some (out, w')" and "fair_call env call"
  shows "keeps env w w'"
proof -
  from assms(1) obtain s where gen: "generate (sv_x env) (sv_model env) (cl_start call) fp body (cl_rounds call)
      (ws_pool w) (ws_files w) = Some (out, s)" and w': "ws_pool w' = gs_pool s" "ws_shadow w' = cl_others call (ws_shadow w)"
    by (auto simp: run_generation_def)
  have "\<forall>r \<in> set (cl_rounds call). fair_others (sv_x env) (rd_others r)"
    "store_tasks (sv_hash env) (sv_shadow_limits env) (ws_shadow w) (cl_others call (ws_shadow w))"
    using assms(2) by (simp_all add: fair_call_def)
  with generate_tasks [OF gen] w' show ?thesis by (simp add: keeps_def)
qed

lemma messages_run_tasks:
  assumes "pump_run (pump_env_of env fp) is (messages_world env call expose w) = (pw, r)"
  shows "store_tasks (sv_hash env) (sv_shadow_limits env) (ws_shadow w) (pw_shadow pw)"
  using run_steps_tasks [of _ pw_shadow "pump_step (pump_env_of env fp)", OF pump_step_tasks, of "messages_world env call expose w" "is"]
    assms by (simp add: pump_run_def messages_world_def start_world_def pump_env_of_def)

lemma responses_run_tasks:
  "run_steps (resp_stream_step (pump_env_of env fp) rnd) is (responses_world env call m expose w) = (rw, r) \<Longrightarrow>
     store_tasks (sv_hash env) (sv_shadow_limits env) (ws_shadow w) (rw_shadow rw)"
  "run_steps (resp_aggregate_step (pump_env_of env fp) rnd) is (responses_world env call m expose w) = (rw, r') \<Longrightarrow>
     store_tasks (sv_hash env) (sv_shadow_limits env) (ws_shadow w) (rw_shadow rw)"
  using run_steps_tasks [of _ rw_shadow "resp_stream_step (pump_env_of env fp) rnd", OF resp_step_tasks(1),
      of "responses_world env call m expose w" "is"]
    run_steps_tasks [of _ rw_shadow "resp_aggregate_step (pump_env_of env fp) rnd", OF resp_step_tasks(2),
      of "responses_world env call m expose w" "is"]
  by (simp_all add: responses_world_def resp_start_def pump_env_of_def)

lemma stream_messages_keeps: "keeps env w (snd (stream_messages env call expose fp sm g w))"
  by (auto simp: stream_messages_def keeps_def Let_def messages_run_tasks split: prod.split option.split ending.split)

lemma stream_responses_keeps: "keeps env w (snd (stream_responses env call expose fp sm g w))"
  by (auto simp: stream_responses_def keeps_def Let_def responses_run_tasks(1) split: prod.split option.split resp_ending.split)

lemma aggregate_messages_keeps:
  assumes "aggregate_messages env call expose fp sm g w = Some (ans, w')"
  shows "keeps env w w'"
  by (rule aggregate_messages_closes [OF assms]) (simp add: keeps_def messages_run_tasks)

lemma aggregate_to_response_keeps:
  assumes "aggregate_to_response env call expose fp sm g w = Some (ans, w')"
  shows "keeps env w w'"
  by (rule aggregate_to_response_closes [OF assms]) (simp add: keeps_def responses_run_tasks(2))

section \<open>The gauges\<close>

lemma settled_gauges: "settled w w' \<Longrightarrow> gauges w' = gauges w"
  by (auto simp: settled_def gauges_def accounts_def Let_def)

lemma dropped_gauges: "in_flight True w w1 \<Longrightarrow> gauges (count (guard_drop True) w1) = gauges w"
  by (auto simp: in_flight_def gauges_def accounts_def Let_def count_def guard_drop_def)

lemma count_gauges [simp]: "gauges (count record_error w) = gauges w"
  by (simp add: gauges_def count_def record_error_def)

lemma ends_steps:
  "ends_pump i \<Longrightarrow> snd (pump_step env i w) \<noteq> None"
  "ends_pump i \<Longrightarrow> snd (resp_stream_step env rnd i w') \<noteq> None"
  by (cases i; auto simp: pump_step_def end_pump_def resp_stream_step_def end_resp_def Let_def split: prod.splits)+

lemma stream_messages_gauges:
  assumes "list_ex ends_pump (cl_schedule call (upstream_bytes g))" "in_flight True w w1"
  shows "gauges (snd (stream_messages env call expose fp sm g w1)) = gauges w"
proof -
  from assms(1) obtain i where "i \<in> set (cl_schedule call (upstream_bytes g))" "ends_pump i" by (auto simp: list_ex_iff)
  from run_steps_end [of i _ "pump_step (pump_env_of env fp)", OF this(1) ends_steps(1) [OF this(2)]] obtain pw how v where
    run: "pump_run (pump_env_of env fp) (cl_schedule call (upstream_bytes g)) (messages_world env call expose w1)
       = (pw, Some (how, v))" unfolding pump_run_def by (metis surj_pair)
  have fl: "in_flight True w (count_stalls (pw_stalls pw) (w1\<lparr>ws_shadow := pw_shadow pw\<rparr>))"
    using assms(2) by (simp only: in_flight_stalls)
  show ?thesis
    using settled_gauges [OF stream_settles [OF fl]] dropped_gauges [OF fl]
    by (simp add: stream_messages_def run Let_def split: ending.split)
qed

lemma stream_responses_gauges:
  assumes "list_ex ends_pump (cl_schedule call (upstream_bytes g))" "in_flight True w w1"
  shows "gauges (snd (stream_responses env call expose fp sm g w1)) = gauges w"
proof -
  from assms(1) obtain i where "i \<in> set (cl_schedule call (upstream_bytes g))" "ends_pump i" by (auto simp: list_ex_iff)
  from run_steps_end [of i _ "resp_stream_step (pump_env_of env fp) (cl_ids call)", OF this(1) ends_steps(2) [OF this(2)]] obtain rw how where
    run: "run_steps (resp_stream_step (pump_env_of env fp) (cl_ids call)) (cl_schedule call (upstream_bytes g))
       (responses_world env call (sm_model sm) expose w1) = (rw, Some how)" by blast
  have fl: "in_flight True w (count_stalls (rw_stalls rw) (w1\<lparr>ws_shadow := rw_shadow rw\<rparr>))"
    using assms(2) by (simp only: in_flight_stalls)
  show ?thesis
    using settled_gauges [OF stream_settles [OF fl]] dropped_gauges [OF fl]
    by (simp add: stream_responses_def run Let_def split: resp_ending.split)
qed

section \<open>A route in a running server\<close>

locale resident_route = accounted_route +
  assumes streamed_keeps: "keeps env w (snd (streamed env call expose fp sm g w))"
    and aggregated_keeps: "aggregated env call expose fp sm g w = Some (ans, w') \<Longrightarrow> keeps env w w'"
    and streamed_gauges: "list_ex ends_pump (cl_schedule call (upstream_bytes g)) \<Longrightarrow> in_flight True w w1 \<Longrightarrow>
      gauges (snd (streamed env call expose fp sm g w1)) = gauges w"
begin

lemma answers_keep:
  assumes "answers env call headers request conv chat g w2 ans w'"
  shows "keeps env w2 w'"
proof -
  let ?w3 = "count (record_failover (st_failovers g)) w2"
  have "keeps env w2 ?w3" by (rule keeps_same) simp_all
  moreover have "keeps env ?w3 w'"
  proof (cases "wants_stream request")
    case True
    with answers_streamed [OF assms] streamed_keeps show ?thesis by (metis snd_conv)
  next
    case False
    with answers_aggregated [OF assms] aggregated_keeps show ?thesis by metis
  qed
  ultimately show ?thesis by (rule keeps_trans)
qed

lemma answers_gauges:
  assumes "answers env call headers request conv chat g w2 ans w'"
    and "in_flight (wants_stream request) w w2" and "fair_call env' call"
  shows "gauges w' = gauges w"
proof -
  have fl: "in_flight (wants_stream request) w (count (record_failover (st_failovers g)) w2)"
    using assms(2) in_flight_same [OF failover_accounts] by metis
  show ?thesis
  proof (cases "wants_stream request")
    case True
    have "list_ex ends_pump (cl_schedule call (upstream_bytes g))" using assms(3) by (simp add: fair_call_def)
    note streamed_gauges [OF this, of w "count (record_failover (st_failovers g)) w2" env]
    with True fl answers_streamed [OF assms(1) True] show ?thesis by (metis snd_conv)
  next
    case False
    obtain sm where "aggregated env call (exposes conv) (session env headers request) sm g
        (count (record_failover (st_failovers g)) w2) = Some (ans, w')" "\<not> sm_stream sm"
      using answers_aggregated [OF assms(1) False] .
    with fl False aggregated_settles settled_gauges show ?thesis by simp
  qed
qed

lemma handle_keeps:
  assumes "handle env call headers body w = Some (ans, w')" and "fair_call env call"
  shows "keeps env w w' \<and> gauges w' = gauges w"
proof (rule handle_cases [OF assms(1)])
  assume "w' = w \<or> w' = count record_error w"
  then show ?thesis by (auto simp: keeps_def)
next
  fix request pe err
  assume r: "reject_request env call (wants_stream request) pe (accept_request env request w) = (err, w')"
  have "keeps env w (accept_request env request w)" by (rule keeps_same) simp_all
  with reject_keeps [OF r] settled_gauges [OF reject_settles [OF r accept_in_flight]] show ?thesis
    by (blast intro: keeps_trans)
next
  fix request conv chat w1 f w2 err
  assume pol: "policed env call (session env headers request) (body_of conv) request w chat w1"
    and gen: "run_generation env call (session env headers request) (JObj chat) w1 = Some (Failed f, w2)"
    and r: "refuse_generation env call (session env headers request) (wants_stream request)
       (request_bytes env (JObj chat)) f w2 = (err, w')"
  from policed_keeps [OF pol] generation_keeps [OF gen assms(2)] refuse_keeps [OF r] have "keeps env w w'"
    by (blast intro: keeps_trans)
  with settled_gauges [OF refuse_settles [OF r started_in_flight [OF pol gen]]] show ?thesis by simp
next
  fix request conv chat w1 g w2
  assume pol: "policed env call (session env headers request) (body_of conv) request w chat w1"
    and gen: "run_generation env call (session env headers request) (JObj chat) w1 = Some (Started g, w2)"
    and a: "answers env call headers request conv chat g w2 ans w'"
  from policed_keeps [OF pol] generation_keeps [OF gen assms(2)] answers_keep [OF a] have "keeps env w w'"
    by (blast intro: keeps_trans)
  with answers_gauges [OF a started_in_flight [OF pol gen] assms(2)] show ?thesis by simp
qed

end

interpretation messages: resident_route handle_messages converts_messages anthropic_session chat_body
    thinking_requested into_response stream_messages aggregate_messages
  by unfold_locales (rule stream_messages_keeps aggregate_messages_keeps stream_messages_gauges; assumption?)+

interpretation responses: resident_route handle_responses converts_responses responses_session resp_chat_body
    resp_thinking_requested openai_error_response stream_responses aggregate_to_response
  by unfold_locales (rule stream_responses_keeps aggregate_to_response_keeps stream_responses_gauges; assumption?)+

end
