(* ===== verification/System_Props.thy ===== *)
theory System_Props
  imports System_Parts Bootstrap_Props Checkin_Props Login_Props
begin

text \<open>
  Properties of the program as a whole: what the commands start, and the invariants of the running server
  over every interleaving of requests and housekeeping passes.
\<close>

section \<open>One step\<close>

lemma dispatch_keeps:
  assumes "dispatch env call mo rt headers body w = Some (ans, w')" and "fair_call env call"
  shows "keeps env w w' \<and> gauges w' = gauges w"
proof -
  have counted: "keeps env w (count f w)" for f by (rule keeps_same) simp_all
  have small: "gauges (count record_count_tokens w) = gauges w" "gauges (count record_model_discovery w) = gauges w"
    by (simp_all add: gauges_def count_def record_count_tokens_def record_model_discovery_def)
  show ?thesis
  proof (cases rt)
    case Messages
    with assms messages.handle_keeps show ?thesis by (simp add: dispatch_def)
  next
    case Responses
    with assms responses.handle_keeps show ?thesis by (simp add: dispatch_def)
  qed (use assms(1) counted small in
    \<open>auto simp: dispatch_def handle_count_tokens_def handle_models_def Let_def keeps_same split: option.splits sum.splits\<close>)
qed

text \<open>A body the backend may see.\<close>

definition fixed_form :: "string \<Rightarrow> json \<Rightarrow> bool" where
  "fixed_form m b \<longleftrightarrow> get ''model'' b = Some (JStr m) \<and> get ''stream'' b = Some (JBool True)
     \<and> (\<forall>key. get key b \<noteq> None \<longrightarrow> key \<in> set PASSTHROUGH_BODY_KEYS \<union> {''stream'', ''model'', ''stream_options''})"

lemma sendable_fixed:
  "messages.sendable env call headers body w b \<Longrightarrow> fixed_form (sv_model env) b"
  "responses.sendable env call headers body w b \<Longrightarrow> fixed_form (sv_model env) b"
  by (auto simp: messages.sendable_def responses.sendable_def fixed_form_def filter_body_get split: if_splits)

lemma dispatch_sends:
  assumes "dispatch env call mo rt headers body w = Some (ans, w')"
    and "\<forall>(k, b, reply) \<in> set (ws_sent w). fixed_form (sv_model env) b"
  shows "\<forall>(k, b, reply) \<in> set (ws_sent w'). fixed_form (sv_model env) b"
proof (cases rt)
  case Messages
  with assms(1) have "handle_messages env call headers body w = Some (ans, w')" by (simp add: dispatch_def)
  from messages.handle_sends [OF this] sendable_fixed(1) assms(2) show ?thesis by fastforce
next
  case Responses
  with assms(1) have "handle_responses env call headers body w = Some (ans, w')" by (simp add: dispatch_def)
  from responses.handle_sends [OF this] sendable_fixed(2) assms(2) show ?thesis by fastforce
qed (use assms in \<open>auto simp: dispatch_def handle_count_tokens_def handle_models_def Let_def split: option.splits sum.splits\<close>)

lemma after_pass_frame:
  "ws_pool (sy_server (after_pass h y)) = hw_pool h" "ws_shadow (sy_server (after_pass h y)) = ws_shadow (sy_server y)"
  "ws_sent (sy_server (after_pass h y)) = ws_sent (sy_server y)"
  "gauges (sy_server (after_pass h y)) = gauges (sy_server y)"
proof -
  have "m_requests_in_flight (fold (\<lambda>ok. record_metric (TokenRefresh ok)) oks m) = m_requests_in_flight m"
    "m_streams_in_flight (fold (\<lambda>ok. record_metric (TokenRefresh ok)) oks m) = m_streams_in_flight m" for oks m
    by (induction oks arbitrary: m) (simp_all add: record_refresh_def)
  then show "gauges (sy_server (after_pass h y)) = gauges (sy_server y)"
    by (simp add: after_pass_def Let_def gauges_def)
qed (simp_all add: after_pass_def Let_def)

lemma step_keeps:
  assumes "system_step sg y y'" and "he_x (sg_housekeep sg) = sv_x (sg_env sg)"
  shows "keeps (sg_env sg) (sy_server y) (sy_server y') \<and> gauges (sy_server y') = gauges (sy_server y)"
  using assms(1)
proof cases
  case sys_request
  with dispatch_keeps show ?thesis by fastforce
next
  case (sys_refresh t)
  with refresh_pass_tasks [OF this(2), of "housekeep_view y"] assms(2) show ?thesis
    by (simp add: keeps_def after_pass_frame) (simp add: housekeep_view_def)
next
  case (sys_checkin t)
  with checkin_pass_tasks [OF this(2), of "housekeep_view y"] assms(2) show ?thesis
    by (simp add: keeps_def after_pass_frame) (simp add: housekeep_view_def)
qed

lemma step_sends:
  assumes "system_step sg y y'"
    and "\<forall>(k, b, reply) \<in> set (ws_sent (sy_server y)). fixed_form (sv_model (sg_env sg)) b"
  shows "\<forall>(k, b, reply) \<in> set (ws_sent (sy_server y')). fixed_form (sv_model (sg_env sg)) b"
  using assms(1)
proof cases
  case sys_request
  from dispatch_sends [OF this(3) assms(2)] sys_request(1) show ?thesis by simp
qed (use assms(2) in \<open>simp_all add: after_pass_frame\<close>)

section \<open>The start\<close>

lemma run_main_serving:
  assumes "run_main po args files = Some (Inr (Serving sg), files')"
  obtains host port cfg where "go_command args = Serve host port"
    "serve_config (po_config po) (go_config args) host port = Inr cfg"
    "process_state po cfg files = Some (sg_env sg, sg_server sg)" "sg_addr sg = serve_addr cfg"
    "sg_housekeep sg = serve_housekeep po cfg"
proof -
  from assms obtain cfg0 where load: "load_config (po_config po) (go_config args) = Inr cfg0"
    by (auto simp: run_main_def split: sum.splits)
  with assms obtain host port where go: "go_command args = Serve host port"
    by (cases "go_command args") (auto simp: run_main_def command_login_def command_status_def command_checkin_def Let_def
        split: sum.splits prod.splits)
  with assms load obtain cfg where over: "override_server host port cfg0 = Inr cfg"
    by (auto simp: run_main_def command_serve_def split: sum.splits)
  with assms load go have "map_option (\<lambda>(r, files'). ((case r of Inl e \<Rightarrow> Inl e | Inr sg \<Rightarrow> Inr (Serving sg)), files'))
      (serve po cfg files) = Some (Inr (Serving sg), files')" by (simp add: run_main_def command_serve_def)
  then have srv: "serve po cfg files = Some (Inr sg, files')"
    by (cases "serve po cfg files") (auto split: sum.splits prod.splits)
  have "serve_config (po_config po) (go_config args) host port = Inr cfg" by (simp add: serve_config_def load over)
  with that go srv show thesis by (auto simp: serve_def split: option.splits)
qed

lemma process_state_Some:
  assumes "process_state po cfg files = Some (env, w)"
  shows "sv_x env = po_x po" "sv_model env = cf_model cfg" "sv_shadow_limits env = config_shadow_limits cfg"
    "pool_inv (ws_pool w)" "limits_of (ws_pool w) = config_pool_limits cfg"
    "ws_shadow w = new_shadow" "ws_sent w = []" "gauges w = (0, 0)"
proof -
  have built: "build_state (po_libraries po) (po_random po) (po_names po) (po_old po) cfg files = Some (env, w)"
    using assms by (simp add: process_state_def)
  show "pool_inv (ws_pool w)" by (rule built_pool_inv [OF built])
  have "limits_of (fst (load_dir x names old dir files (new_pool secret lim))) = lim" for x names old dir files secret lim
    by (simp add: load_dir_def Let_def load_files_def new_pool_def split: prod.split)
  with build_state_Some [OF built] show "sv_x env = po_x po" "sv_model env = cf_model cfg"
    "sv_shadow_limits env = config_shadow_limits cfg" "limits_of (ws_pool w) = config_pool_limits cfg"
    "ws_shadow w = new_shadow" "ws_sent w = []" "gauges w = (0, 0)"
    by (metis, metis, metis, metis, metis, metis) (rule build_state_Some [OF built], simp add: gauges_def new_metrics_def)
qed

section \<open>A concrete run\<close>

text \<open>Used only by the witnesses: a server with an empty account directory, asked once by a client whose body
  cannot be read.\<close>

definition sample_process :: process where
  "sample_process =
     \<lparr>po_config = remote_world, po_libraries = sample_libraries, po_api = sample_checkin_env, po_random = [],
      po_names = [], po_old = [], po_login = demo_login, po_now = 0, po_last_instant = 1000000,
      po_refresh = (\<lambda>_. rd_refresh front_round), po_bind_error = (\<lambda>_. None), po_fmt2 = (\<lambda>_. []),
      po_pad = id, po_show_error = err_message\<rparr>"

definition sample_cli :: cli where
  "sample_cli = \<lparr>go_config = None, go_command = Serve None (Some 8090)\<rparr>"

lemma sample_serving:
  obtains sg files' where "run_main sample_process sample_cli (\<lambda>_. None) = Some (Inr (Serving sg), files')"
    "sv_api_key (sg_env sg) = Some ''sk''" "ws_metrics (sg_server sg) = new_metrics"
    "sv_x (sg_env sg) = sample_externals"
  by (simp add: run_main_def sample_process_def sample_cli_def remote_config command_serve_def override_server_def
      Let_def validate_def default_config_def serve_def process_state_def build_state_def config_secret_def
      proxy_ok_def load_dir_def sample_libraries_def)

lemma sample_request:
  assumes "sv_api_key (sg_env sg) = Some ''sk''"
  shows "system_step sg y (y\<lparr>sy_server := count record_error (sy_server y)\<rparr>)"
proof -
  have "check_auth (sg_env sg) [(''x-api-key'', ''sk'')] = None"
    using assms by (simp add: check_auth_iff presented_key_def header_str_def or_else_def non_empty_def) code_simp
  then have "dispatch (sg_env sg) front_call mo Messages [(''x-api-key'', ''sk'')] (ReadFailed []) (sy_server y)
      = Some (Respond (into_response (err_invalid_request ''failed to read request body: '')), count record_error (sy_server y))"
    for mo by (simp add: dispatch_def handle_messages_def read_json_body_def Let_def)
  moreover have "fair_call (sg_env sg) front_call"
    by (simp add: fair_call_def front_call_def front_round_def fair_others_def)
  ultimately show ?thesis by (rule sys_request [rotated])
qed

section \<open>Every run\<close>



text \<open>C4: a running server stays sound. Whatever the \<open>serve\<close> command has started and however requests and
  housekeeping passes follow each other: every file has at most one account, the sticky sessions and their
  queue agree and are bounded, no table of the pool has a key twice and no error count stands at its
  threshold; the limits are the configured ones; the store holds at most the configured number of sessions;
  no finished request is still counted as in flight; and every chat request that ever left for the backend
  names the configured model, asks for a stream and has no member beyond the whitelisted ones.\<close>

theorem running_server_stays_sound:
  assumes "run_main po args files = Some (Inr (Serving sg), files')" and "system_reaches sg y"
  shows "\<exists>host port cfg. go_command args = Serve host port
    \<and> serve_config (po_config po) (go_config args) host port = Inr cfg
    \<and> pool_safe (ws_pool (sy_server y)) \<and> limits_of (ws_pool (sy_server y)) = config_pool_limits cfg
    \<and> length (sessions (ws_shadow (sy_server y))) \<le> unat (lc_shadow_max_sessions (cf_limits cfg))
    \<and> gauges (sy_server y) = (0, 0)
    \<and> (\<forall>(k, b, reply) \<in> set (ws_sent (sy_server y)). fixed_form (cf_model cfg) b)"
proof (rule run_main_serving [OF assms(1)])
  fix host port cfg
  assume cfg: "go_command args = Serve host port" "serve_config (po_config po) (go_config args) host port = Inr cfg"
    and built: "process_state po cfg files = Some (sg_env sg, sg_server sg)"
    and "sg_housekeep sg = serve_housekeep po cfg"
  then have same: "he_x (sg_housekeep sg) = sv_x (sg_env sg)"
    by (simp add: process_state_Some(1) serve_housekeep_def Let_def)
  note start = process_state_Some [OF built]
  have "pool_safe (ws_pool (sy_server y)) \<and> limits_of (ws_pool (sy_server y)) = config_pool_limits cfg
      \<and> shadow_fit (sv_shadow_limits (sg_env sg)) (ws_shadow (sy_server y)) \<and> gauges (sy_server y) = (0, 0)
      \<and> (\<forall>(k, b, reply) \<in> set (ws_sent (sy_server y)). fixed_form (sv_model (sg_env sg)) b)"
    using assms(2)
  proof (induction rule: system_reaches.induct)
    case sys_start
    show ?case using start by (simp add: started_system_def pool_inv_def shadow_fit_def new_shadow_def)
  next
    case (sys_next y y')
    from step_keeps [OF sys_next.hyps(2) same] sys_next.IH tasks_keep store_tasks_fit step_sends [OF sys_next.hyps(2)]
    show ?case unfolding keeps_def by metis
  qed
  with cfg start(2,3) show ?thesis by (auto simp: shadow_fit_def config_shadow_limits_def)
qed

theorem running_server_stays_sound_witness:
  "\<exists>sg files' y. run_main sample_process sample_cli (\<lambda>_. None) = Some (Inr (Serving sg), files')
     \<and> system_reaches sg y \<and> m_requests_error (ws_metrics (sy_server y)) = 1
     \<and> pool_safe (ws_pool (sy_server y)) \<and> gauges (sy_server y) = (0, 0)"
proof (rule sample_serving)
  fix sg files'
  assume run: "run_main sample_process sample_cli (\<lambda>_. None) = Some (Inr (Serving sg), files')"
    and key: "sv_api_key (sg_env sg) = Some ''sk''" and m: "ws_metrics (sg_server sg) = new_metrics"
  let ?y = "(started_system sg)\<lparr>sy_server := count record_error (sy_server (started_system sg))\<rparr>"
  have reach: "system_reaches sg ?y" by (rule sys_next [OF sys_start sample_request [OF key]])
  have "m_requests_error (ws_metrics (sy_server ?y)) = 1"
    by (simp add: started_system_def count_def m record_error_def new_metrics_def)
  with running_server_stays_sound [OF run reach] run reach show ?thesis by blast
qed

end
