(* ===== verification/Spec2Isabelle.thy ===== *)
theory Spec2Isabelle
  imports Policy_Props Anthropic_Request_Props Anthropic_Stream_Props Responses_Request_Props
    Responses_Items Pool_Props Shadow_Props Watch Redaction Refresh_Props Upstream_Peek
    Upstream_Props Pump_Props Session_Props Metrics_Props Server_Auth Config_Props Checkin_Props
    Housekeep Shutdown Login_Props Bootstrap_Props Server_Answer_Props
    Credential_Props System_Props
begin

text \<open>
  A verification development for lobsterai-proxy, a local HTTP proxy that offers the Anthropic Messages
  API and the OpenAI Responses API and answers both from one chat-completions backend, with a pool of
  accounts. Paths are relative to \<open>src/src/\<close>.

  How a request runs. A route of \<open>server/orchestrator.rs\<close> authenticates the client, reads the body,
  names the session (\<open>session.rs\<close>), converts the request to a chat body (\<open>anthropic/request.rs\<close> or
  \<open>responses/request.rs\<close>), restores shadowed reasoning (\<open>reasoning_shadow.rs\<close>), applies the model's policy
  (\<open>deepseek/policy.rs\<close>) and calls \<open>generate\<close> (\<open>lobsterai/upstream.rs\<close>), which picks accounts from the
  pool (\<open>lobsterai/pool.rs\<close>), refreshes tokens (\<open>lobsterai/refresh.rs\<close>) and looks at the head of the answer.
  A pump then feeds the stream line by line into a converter (\<open>anthropic/stream.rs\<close> or
  \<open>responses/stream.rs\<close>) under a watchdog (\<open>stream_watch.rs\<close>) and writes the client's events.

  Theories, in the order of the imports:
  Prelude and Json: option, result, table and eviction lemmas; JSON values with the member order of
  \<open>serde_json\<close>, the text codec a parameter.
  Text: the string functions of the standard library that the sources use, on UTF-8 bytes.
  Policy(-Props): billing strip, canonical JSON, reasoning epochs, prefix hash, token estimate.
  Anthropic-Request(-Props), Responses-Request(-Props): the two conversions; what a legal chat history is
  (\<open>tool_run\<close>), that every history converted from the Messages API is one, and that the conversion of the
  Responses API keeps calls and outputs.
  Anthropic-Stream(-Props), Responses-Stream(-Props), Responses-Items: the two stream converters, the
  event protocols as automata (\<open>protocol_run\<close>) and the agreement of stream and non-stream answers.
  F64: the bits of \<open>f64\<close>: parts, rounding, the cast to \<open>i64\<close>.
  Credential(-Props), Pool(-Props): credential files with their timestamps in seconds or milliseconds, and
  the account pool; picks, cooldowns, sticky sessions.
  Shadow(-Props): the store of reasoning between the turns of a tool loop.
  Watch, Redaction: the watchdog; removal of secrets from error texts.
  Errors, Refresh(-Props): error envelopes; token refresh and the periodic refresh.
  Upstream, Upstream-Peek, Upstream-Loop, Upstream-Props: the generation call, lemmas on the head of a stream
  and on the retry loop, and the properties.
  Sse-Lines, Pump(-Props): the line loop shared by both pumps, with the interface \<open>line_consumer\<close>; the
  pumps and the aggregations as step functions over the branches of \<open>select!\<close>.
  Session(-Props), Metrics(-Props), Server: session identity, metrics and their text document, the routes as
  functions of the server's state.
  Server-Route, Server-Auth: the interface \<open>generation_route\<close> of the two generation routes, with one case
  analysis of a request; its extension \<open>accounted_route\<close>, authentication and the accounting of requests.
  Server-Props, Server-Answer-Props: whole requests, in the extensions \<open>sending_route\<close> and \<open>answering_route\<close>. Every history of the Messages API that reaches the
  backend obeys the tool protocol (\<open>same_traffic\<close> is what the policy may change), and the answer of the
  client is the converter's reading of the bytes of the one accepted reply.
  Config(-Props): defaults, file, environment and command line (\<open>config.rs\<close>, \<open>main.rs\<close>), validation, secret.
  Headers: the headers of backend requests (\<open>lobsterai/headers.rs\<close>).
  Checkin(-Props), Housekeep: the daily check-in, the credit and invitation queries
  (\<open>lobsterai/checkin.rs\<close>), and the background task that rescans, refreshes and checks in
  (\<open>lobsterai/housekeep.rs\<close>).
  Shutdown: signals and the bounded drain (\<open>shutdown.rs\<close>), each asynchronous function as the machine of its
  polls, with the relation \<open>drain_reaches\<close> of the reachable phases.
  Login(-Props): the browser login (\<open>lobsterai/oauth.rs\<close>).
  Bootstrap(-Props): the server state built from a configuration, the router, the status report.
  System: the commands (\<open>main.rs\<close>, \<open>cli.rs\<close>, \<open>serve\<close>) and the running server as the step relation
  \<open>system_step\<close>: a whole request or a whole housekeeping pass, inside which the others act on the pool and
  the reasoning store.
  System-Pool, System-Parts, System-Props: every task changes the pool by the steps of \<open>pool_task\<close> and the
  store by those of \<open>shadow_task\<close> if the others do (assumption and guarantee are the same relation); the extension \<open>resident_route\<close>; the invariant
  of every reachable state, from the command line on.

  Modelling. Machine integers whose arithmetic matters are words; instants and durations are naturals in
  nanoseconds; strings are lists of bytes. Errors are values: options, sums, or the records of the source.
  Everything outside \<open>src/\<close> is a parameter: the JSON codec, SHA-256, HMAC, base64, the backend's
  answers (functions from requests to replies), the clock, file writes that may fail, and what other tasks
  do to the pool between two rounds of the retry loop and to the reasoning store during a request. The retry loop runs over a script with one entry per
  round; \<open>generate_terminates\<close> says which length always suffices. The other loops of the sources are
  structural or have a termination proof.

  Not modelled: sockets, TLS and the HTTP libraries; the delivery of signals by the operating system and
  the start of a browser; the TOML decoder and the command-line parser; log output; the decimal
  reader and printer of \<open>f64\<close>. The rest that is
  left aside is listed in the components of the manifest.
\<close>

end
